(* ===== verification/Prelude.thy ===== *)
theory Prelude
  imports Main "HOL-Library.Sublist"
begin

text \<open>
  What every component shares: the collections of simplification rules the component proofs use,
  the two JavaScript idioms the code is full of (\<open>??\<close> and trimming), the error-as-value type,
  and generic facts about lists that several components need.
\<close>

section \<open>Collections\<close>

named_theorems scan_simps \<open>facts about scanning a list from its ends\<close>
named_theorems header_simps \<open>look-up facts of header lists\<close>
named_theorems chain_simps \<open>facts about hash-chain walks\<close>

section \<open>Nullish coalescing and errors as values\<close>

text \<open>\<open>x ?? d\<close>: the value, or the default when it is null or undefined.\<close>

definition nullish :: "'a option \<Rightarrow> 'a \<Rightarrow> 'a" where
  "nullish x d = (case x of None \<Rightarrow> d | Some v \<Rightarrow> v)"

lemma nullish_simps [simp]:
  "nullish None d = d"
  "nullish (Some v) d = v"
  by (simp_all add: nullish_def)

text \<open>What a throwing expression evaluates to: \<open>Inl\<close> the exception, \<open>Inr\<close> the value.\<close>

datatype js_error = RangeError | TypeError | SyntaxError | ContainerError

type_synonym 'a throws = "js_error + 'a"

definition try_bind :: "'a throws \<Rightarrow> ('a \<Rightarrow> 'b throws) \<Rightarrow> 'b throws" where
  "try_bind r f = (case r of Inl e \<Rightarrow> Inl e | Inr v \<Rightarrow> f v)"

lemma try_bind_simps [simp]:
  "try_bind (Inl e) f = Inl e"
  "try_bind (Inr v) f = f v"
  by (simp_all add: try_bind_def)

lemma try_bind_Inr_iff: "try_bind r f = Inr w \<longleftrightarrow> (\<exists>v. r = Inr v \<and> f v = Inr w)"
  by (cases r) auto

section \<open>Trimming and scanning lists\<close>

definition trim_by :: "('a \<Rightarrow> bool) \<Rightarrow> 'a list \<Rightarrow> 'a list" where
  "trim_by P xs = rev (dropWhile P (rev (dropWhile P xs)))"

lemma dropWhile_hd: "xs = [] \<or> \<not> P (hd xs) \<Longrightarrow> dropWhile P xs = xs"
  by (cases xs) auto

lemma hd_dropWhile_not: "dropWhile P xs \<noteq> [] \<Longrightarrow> \<not> P (hd (dropWhile P xs))"
  by (rule hd_dropWhile)

lemma trim_by_id [scan_simps]:
  assumes "xs \<noteq> []" "\<not> P (hd xs)" "\<not> P (last xs)"
  shows "trim_by P xs = xs"
  using assms by (simp add: trim_by_def dropWhile_hd hd_rev)

lemma trim_by_Nil [simp]: "trim_by P [] = []"
  by (simp add: trim_by_def)

lemma trim_by_eq_Nil [scan_simps]: "trim_by P xs = [] \<longleftrightarrow> list_all P xs"
  by (auto simp: trim_by_def list_all_iff dropWhile_eq_Nil_conv dest: set_dropWhileD)
     (metis dropWhile_eq_Nil_conv hd_dropWhile list.set_sel(1))

lemma trim_by_last:
  assumes "trim_by P xs \<noteq> []"
  shows "\<not> P (last (trim_by P xs))"
proof -
  have "dropWhile P (rev (dropWhile P xs)) \<noteq> []"
    using assms by (simp add: trim_by_def)
  then show ?thesis
    unfolding trim_by_def using hd_dropWhile [of P] by (simp add: last_rev)
qed

lemma prefix_dropWhile_rev: "prefix (rev (dropWhile P (rev xs))) xs"
  by (metis rev_rev_ident suffix_dropWhile suffix_to_prefix)

lemma trim_by_hd:
  assumes "trim_by P xs \<noteq> []"
  shows "\<not> P (hd (trim_by P xs))"
proof -
  obtain zs where zs: "dropWhile P xs = trim_by P xs @ zs"
    using prefix_dropWhile_rev [of P "dropWhile P xs"] by (auto simp: prefix_def trim_by_def)
  then have ne: "dropWhile P xs \<noteq> []" and eq: "hd (dropWhile P xs) = hd (trim_by P xs)"
    using assms by auto
  from hd_dropWhile [OF ne] eq show ?thesis by simp
qed

lemma trim_by_idem [scan_simps]: "trim_by P (trim_by P xs) = trim_by P xs"
  by (cases "trim_by P xs = []") (auto intro!: trim_by_id dest: trim_by_hd trim_by_last)

lemma takeWhile_append_stop [scan_simps]:
  assumes "list_all P xs" "ys = [] \<or> \<not> P (hd ys)"
  shows "takeWhile P (xs @ ys) = xs" "dropWhile P (xs @ ys) = ys"
proof -
  have *: "\<forall>x\<in>set xs. P x" using assms(1) by (simp add: list_all_iff)
  show "takeWhile P (xs @ ys) = xs"
    using * assms(2) by (cases ys) (auto simp: takeWhile_append2)
  show "dropWhile P (xs @ ys) = ys"
    using * assms(2) by (cases ys) (auto simp: dropWhile_append2)
qed

lemma list_all_takeWhile: "list_all P (takeWhile P xs)"
  by (auto simp: list_all_iff dest: set_takeWhileD)

lemma nth_default_eqI:
  assumes "length xs = length ys" "\<And>i. i < length xs \<Longrightarrow> xs ! i = ys ! i"
  shows "xs = ys"
  using assms by (rule nth_equalityI)

section \<open>Prefixes of growing lists\<close>

lemma prefix_snocI: "prefix xs ys \<Longrightarrow> prefix xs (ys @ zs)"
  by (auto simp: prefix_def)

lemma prefix_length_eq: "prefix xs ys \<Longrightarrow> length ys \<le> length xs \<Longrightarrow> xs = ys"
  by (auto simp: prefix_def)

end
