(* ===== verification/JS_Runtime.thy ===== *)
theory JS_Runtime
  imports Prelude "HOL-Library.Word"
begin

text \<open>
  What \<open>deploy/cloudflare/src/index.ts\<close> uses of the JavaScript language and of its string
  library: strings as sequences of 16-bit code units, \<open>trim\<close>, \<open>toUpperCase\<close> on the ASCII
  tokens it is called on, \<open>startsWith\<close>, and \<open>TextEncoder.encode\<close> (UTF-8, with the replacement
  of lone surrogates), with a decoder that proves the encoding loses nothing on well-formed strings.
  Header values, methods and paths are byte strings (each character one byte), so they are plain
  \<open>string\<close>s and \<open>units\<close> reads them as JavaScript strings.
\<close>

unbundle bit_operations_syntax

section \<open>Strings\<close>

type_synonym code_unit = "16 word"
type_synonym jstring = "code_unit list"
type_synonym byte = "8 word"

definition units :: "string \<Rightarrow> jstring" where
  "units s = map (\<lambda>c. of_nat (of_char c)) s"

text \<open>ECMAScript white space and line terminators: what \<open>trim\<close> strips and what \<open>\s\<close> matches.\<close>

definition js_space_code :: "nat \<Rightarrow> bool" where
  "js_space_code n \<longleftrightarrow> n \<in> {9, 10, 11, 12, 13, 32, 160, 5760, 8232, 8233, 8239, 8287, 12288, 65279} \<or>
     (8192 \<le> n \<and> n \<le> 8202)"

definition js_space :: "code_unit \<Rightarrow> bool" where
  "js_space u = js_space_code (unat u)"

definition is_space :: "char \<Rightarrow> bool" where
  "is_space c = js_space_code (of_char c)"

definition js_trim :: "jstring \<Rightarrow> jstring" where
  "js_trim = trim_by js_space"

definition trim :: "string \<Rightarrow> string" where
  "trim = trim_by is_space"

definition ascii_upper_char :: "char \<Rightarrow> char" where
  "ascii_upper_char c =
     (let n = of_char c :: nat in if 97 \<le> n \<and> n \<le> 122 then char_of (n - 32) else c)"

definition ascii_lower_char :: "char \<Rightarrow> char" where
  "ascii_lower_char c =
     (let n = of_char c :: nat in if 65 \<le> n \<and> n \<le> 90 then char_of (n + 32) else c)"

definition toUpperCase :: "string \<Rightarrow> string" where
  "toUpperCase = map ascii_upper_char"

definition lower :: "string \<Rightarrow> string" where
  "lower = map ascii_lower_char"

definition startsWith :: "string \<Rightarrow> string \<Rightarrow> bool" where
  "startsWith s p = (take (length p) s = p)"

lemma startsWith_iff_prefix: "startsWith s p \<longleftrightarrow> prefix p s"
  unfolding startsWith_def prefix_def by (metis append_eq_conv_conj append_take_drop_id)

lemma length_units [simp]: "length (units s) = length s"
  by (simp add: units_def)

lemma units_Nil_iff [simp]: "units s = [] \<longleftrightarrow> s = []"
  by (simp add: units_def)

lemma of_char_bound: "(of_char c :: nat) < 256"
  by (metis of_char_mod_256 mod_less_divisor zero_less_numeral)

lemma of_char_not_surrogate: "(of_char c :: nat) < 0xD800"
  using of_char_bound [of c] by (rule less_trans) simp

lemma unat_unit: "unat (of_nat (of_char c) :: code_unit) = of_char c"
proof -
  have "(of_char c :: nat) < 65536" using of_char_bound [of c] by (rule less_trans) simp
  then show ?thesis by (simp add: unat_of_nat)
qed

lemma units_inject: "units s = units t \<longleftrightarrow> s = t"
proof -
  have "inj (\<lambda>c. of_nat (of_char c) :: code_unit)"
    by (rule injI) (metis of_char_eq_iff unat_unit)
  then show ?thesis by (simp add: units_def inj_map_eq_map)
qed

section \<open>TextEncoder: UTF-8\<close>

definition high_surrogate :: "code_unit \<Rightarrow> bool" where
  "high_surrogate u \<longleftrightarrow> 0xD800 \<le> unat u \<and> unat u \<le> 0xDBFF"

definition low_surrogate :: "code_unit \<Rightarrow> bool" where
  "low_surrogate u \<longleftrightarrow> 0xDC00 \<le> unat u \<and> unat u \<le> 0xDFFF"

text \<open>The scalar values of a string, a lone surrogate replaced by U+FFFD (USVString conversion).\<close>

fun scalar_values :: "jstring \<Rightarrow> nat list" where
  "scalar_values [] = []"
| "scalar_values [u] = [if high_surrogate u \<or> low_surrogate u then 0xFFFD else unat u]"
| "scalar_values (u # v # us) =
     (if high_surrogate u then
        (if low_surrogate v
         then (0x10000 + (unat u - 0xD800) * 0x400 + (unat v - 0xDC00)) # scalar_values us
         else 0xFFFD # scalar_values (v # us))
      else if low_surrogate u then 0xFFFD # scalar_values (v # us)
      else unat u # scalar_values (v # us))"

definition utf8_bytes :: "nat \<Rightarrow> byte list" where
  "utf8_bytes n =
     (if n < 0x80 then [of_nat n]
      else if n < 0x800 then [of_nat (0xC0 + n div 64), of_nat (0x80 + n mod 64)]
      else if n < 0x10000 then
        [of_nat (0xE0 + n div 4096), of_nat (0x80 + n div 64 mod 64), of_nat (0x80 + n mod 64)]
      else [of_nat (0xF0 + n div 262144), of_nat (0x80 + n div 4096 mod 64),
            of_nat (0x80 + n div 64 mod 64), of_nat (0x80 + n mod 64)])"

definition text_encode :: "jstring \<Rightarrow> byte list" where
  "text_encode s = concat (map utf8_bytes (scalar_values s))"

text \<open>A string is well formed when its surrogates come in pairs (\<open>isWellFormed\<close>).\<close>

fun well_formed :: "jstring \<Rightarrow> bool" where
  "well_formed [] = True"
| "well_formed [u] = (\<not> high_surrogate u \<and> \<not> low_surrogate u)"
| "well_formed (u # v # us) =
     (if high_surrogate u then low_surrogate v \<and> well_formed us
      else \<not> low_surrogate u \<and> well_formed (v # us))"

text \<open>The decoder: one scalar value off the front of a byte string, and the whole of it.\<close>

definition decode_one :: "byte list \<Rightarrow> (nat \<times> byte list) option" where
  "decode_one bs =
     (case bs of
        [] \<Rightarrow> None
      | b # r \<Rightarrow>
          (if unat b < 0x80 then Some (unat b, r)
           else if unat b < 0xE0 then
             (case r of c # r' \<Rightarrow> Some ((unat b - 0xC0) * 64 + (unat c - 0x80), r') | _ \<Rightarrow> None)
           else if unat b < 0xF0 then
             (case r of c # d # r' \<Rightarrow>
                Some ((unat b - 0xE0) * 4096 + (unat c - 0x80) * 64 + (unat d - 0x80), r')
              | _ \<Rightarrow> None)
           else
             (case r of c # d # e # r' \<Rightarrow>
                Some ((unat b - 0xF0) * 262144 + (unat c - 0x80) * 4096 + (unat d - 0x80) * 64
                        + (unat e - 0x80), r')
              | _ \<Rightarrow> None)))"

lemma decode_one_length: "decode_one bs = Some (n, r) \<Longrightarrow> length r < length bs"
  by (auto simp: decode_one_def split: list.splits if_splits)

function utf8_decode :: "byte list \<Rightarrow> nat list option" where
  "utf8_decode bs =
     (if bs = [] then Some []
      else case decode_one bs of
             None \<Rightarrow> None
           | Some (n, r) \<Rightarrow> map_option ((#) n) (utf8_decode r))"
  by pat_completeness auto
termination
  by (relation "measure length") (auto dest: decode_one_length)

declare utf8_decode.simps [simp del]

definition utf16_units :: "nat \<Rightarrow> jstring" where
  "utf16_units n =
     (if n < 0x10000 then [of_nat n]
      else [of_nat (0xD800 + (n - 0x10000) div 0x400), of_nat (0xDC00 + (n - 0x10000) mod 0x400)])"

definition text_decode :: "byte list \<Rightarrow> jstring option" where
  "text_decode bs = map_option (\<lambda>ns. concat (map utf16_units ns)) (utf8_decode bs)"

lemma unat_byte: "n < 256 \<Longrightarrow> unat (of_nat n :: byte) = n"
  by (simp add: unat_of_nat)

lemma split3: "(n div 4096) * 4096 + (n div 64 mod 64) * 64 + n mod 64 = (n::nat)"
proof -
  have "n div 4096 = n div 64 div 64"
    using div_mult2_eq [of n 64 64] by simp
  then have "(n div 4096) * 64 + n div 64 mod 64 = n div 64"
    by (simp add: div_mult_mod_eq)
  then have "(n div 4096) * 4096 + (n div 64 mod 64) * 64 = n div 64 * 64"
    by linarith
  then show ?thesis by (simp add: div_mult_mod_eq)
qed

lemma split4:
  "(n div 262144) * 262144 + (n div 4096 mod 64) * 4096 + (n div 64 mod 64) * 64 + n mod 64 = (n::nat)"
proof -
  have "n div 262144 = n div 4096 div 64"
    using div_mult2_eq [of n 4096 64] by simp
  then have "(n div 262144) * 64 + n div 4096 mod 64 = n div 4096"
    by (simp add: div_mult_mod_eq)
  then have "(n div 262144) * 262144 + (n div 4096 mod 64) * 4096 = n div 4096 * 4096"
    by linarith
  then show ?thesis using split3 [of n] by linarith
qed

lemma decode_one_utf8: "n < 0x110000 \<Longrightarrow> decode_one (utf8_bytes n @ r) = Some (n, r)"
proof -
  assume bound: "n < 0x110000"
  have m: "k mod 64 < 64" for k :: nat by simp
  consider "n < 0x80" | "0x80 \<le> n" "n < 0x800" | "0x800 \<le> n" "n < 0x10000" | "0x10000 \<le> n"
    by linarith
  then show ?thesis
  proof cases
    case 1
    then show ?thesis by (simp add: utf8_bytes_def decode_one_def unat_byte)
  next
    case 2
    then have "n div 64 < 32" "2 \<le> n div 64" by auto
    then show ?thesis using 2 m [of n]
      by (simp add: utf8_bytes_def decode_one_def unat_byte del: of_nat_add)
  next
    case 3
    then have "n div 4096 < 16" by auto
    then show ?thesis using 3 m [of n] m [of "n div 64"]
      by (simp add: utf8_bytes_def decode_one_def unat_byte split3 del: of_nat_add)
  next
    case 4
    have "n div 262144 < 5" using bound by auto
    then show ?thesis using 4 m [of n] m [of "n div 64"] m [of "n div 4096"]
      by (simp add: utf8_bytes_def decode_one_def unat_byte split4 del: of_nat_add)
  qed
qed

lemma utf8_bytes_not_Nil [simp]: "utf8_bytes n \<noteq> []"
  by (simp add: utf8_bytes_def)

lemma utf8_decode_encode:
  "list_all (\<lambda>n. n < 0x110000) ns \<Longrightarrow> utf8_decode (concat (map utf8_bytes ns)) = Some ns"
proof (induction ns)
  case Nil
  then show ?case by (simp add: utf8_decode.simps)
next
  case (Cons n ns)
  then show ?case
    by (subst utf8_decode.simps) (simp add: decode_one_utf8)
qed

lemma surrogate_bounds:
  "high_surrogate u \<Longrightarrow> unat u < 0xDC00" "high_surrogate u \<Longrightarrow> 0xD800 \<le> unat u"
  "low_surrogate u \<Longrightarrow> unat u < 0xE000" "low_surrogate u \<Longrightarrow> 0xDC00 \<le> unat u"
  by (simp_all add: high_surrogate_def low_surrogate_def)

lemma unat_code_unit: "unat (u :: code_unit) < 0x10000"
  using unsigned_less [of u, where 'a = nat] by simp

lemma scalar_values_bound: "list_all (\<lambda>n. n < 0x110000) (scalar_values s)"
proof (induction s rule: scalar_values.induct)
  case (3 u v us)
  have "unat u < 0x10000" by (rule unat_code_unit)
  moreover have "high_surrogate u \<and> low_surrogate v \<Longrightarrow>
      0x10000 + (unat u - 0xD800) * 0x400 + (unat v - 0xDC00) < 0x110000"
    by (auto simp: high_surrogate_def low_surrogate_def)
  ultimately show ?case using 3 by auto
next
  case (2 u)
  have "unat u < 0x10000" by (rule unat_code_unit)
  then show ?case by simp
qed simp

lemma utf16_units_scalar: "\<not> high_surrogate u \<Longrightarrow> utf16_units (unat u) = [u]"
  using unat_code_unit [of u] by (simp add: utf16_units_def)

lemma utf16_units_pair:
  assumes "high_surrogate u" "low_surrogate v"
  shows "utf16_units (0x10000 + (unat u - 0xD800) * 0x400 + (unat v - 0xDC00)) = [u, v]"
proof -
  define h l where "h = unat u - 0xD800" and "l = unat v - 0xDC00"
  have h: "unat u = 0xD800 + h" and l: "unat v = 0xDC00 + l" "l < 0x400"
    using assms by (auto simp: high_surrogate_def low_surrogate_def h_def l_def)
  have "(h * 1024 + l) div 1024 = h" "(h * 1024 + l) mod 1024 = l"
    using l(2) by simp_all
  then have "utf16_units (0x10000 + h * 0x400 + l) = [of_nat (unat u), of_nat (unat v)]"
    unfolding utf16_units_def h l(1) by simp
  then show ?thesis by (simp add: h_def l_def)
qed

lemma utf16_scalar_values: "well_formed s \<Longrightarrow> concat (map utf16_units (scalar_values s)) = s"
  by (induction s rule: scalar_values.induct)
     (auto simp: utf16_units_scalar utf16_units_pair split: if_splits)

lemma text_decode_encode: "well_formed s \<Longrightarrow> text_decode (text_encode s) = Some s"
  by (simp add: text_decode_def text_encode_def utf8_decode_encode scalar_values_bound
      utf16_scalar_values)

text \<open>Byte strings are well formed: their code units are below 256.\<close>

lemma well_formed_small: "list_all (\<lambda>u. unat u < 0xD800) s \<Longrightarrow> well_formed s"
  by (induction s rule: well_formed.induct) (auto simp: high_surrogate_def low_surrogate_def)

lemma well_formed_units [simp]: "well_formed (units s)"
proof (rule well_formed_small)
  show "list_all (\<lambda>u. unat u < 0xD800) (units s)"
    by (auto simp: units_def list_all_iff unat_unit of_char_not_surrogate)
qed

section \<open>Encoders whose output identifies the string\<close>

text \<open>
  The interface a byte comparison of two strings relies on: on the strings it is called with, the
  encoder maps distinct strings to distinct byte sequences.
\<close>

locale string_encoder =
  fixes enc :: "jstring \<Rightarrow> byte list"
    and dec :: "byte list \<Rightarrow> jstring option"
    and valid :: "jstring \<Rightarrow> bool"
  assumes dec_enc: "valid s \<Longrightarrow> dec (enc s) = Some s"
begin

lemma enc_inject: "valid s \<Longrightarrow> valid t \<Longrightarrow> enc s = enc t \<longleftrightarrow> s = t"
  by (metis dec_enc option.inject)

lemma inj_on_valid: "inj_on enc (Collect valid)"
  by (auto intro!: inj_onI simp: enc_inject)

end

interpretation utf8: string_encoder text_encode text_decode well_formed
  by unfold_locales (rule text_decode_encode)

end
