(* ===== verification/Web_API.thy ===== *)
theory Web_API
  imports JS_Runtime Complex_Main
begin

text \<open>
  What \<open>deploy/cloudflare/src/index.ts\<close> uses of the Fetch API that
  \<open>worker-configuration.d.ts\<close> declares: header lists with case-insensitive names, requests,
  responses and their constructor's errors, JSON bodies, and the \<open>pathname\<close> of a request URL.
  A body that carries JSON is represented by the value its text denotes.
\<close>

section \<open>JSON values\<close>

datatype json =
    JNull
  | JBool bool
  | JNum rat
  | JStr string
  | JArr "json list"
  | JObj "(string \<times> json) list"

text \<open>Property access on an object: the value of a key, \<open>None\<close> for a missing one (undefined).\<close>

fun json_get :: "json \<Rightarrow> string \<Rightarrow> json option" where
  "json_get (JObj kvs) k = map_of kvs k"
| "json_get _ k = None"

section \<open>Headers\<close>

type_synonym headers = "(string \<times> string) list"

definition http_space :: "char \<Rightarrow> bool" where
  "http_space c \<longleftrightarrow> (of_char c :: nat) \<in> {9, 10, 13, 32}"

definition normalize_value :: "string \<Rightarrow> string" where
  "normalize_value = trim_by http_space"

fun join_values :: "string list \<Rightarrow> string" where
  "join_values [] = ''''"
| "join_values [v] = v"
| "join_values (v # w # vs) = v @ '', '' @ join_values (w # vs)"

definition values_of :: "headers \<Rightarrow> string \<Rightarrow> string list" where
  "values_of h n = map snd (filter (\<lambda>kv. lower (fst kv) = lower n) h)"

definition headers_get :: "headers \<Rightarrow> string \<Rightarrow> string option" where
  "headers_get h n = (if values_of h n = [] then None else Some (join_values (values_of h n)))"

definition headers_has :: "headers \<Rightarrow> string \<Rightarrow> bool" where
  "headers_has h n = list_ex (\<lambda>kv. lower (fst kv) = lower n) h"

fun headers_set :: "headers \<Rightarrow> string \<Rightarrow> string \<Rightarrow> headers" where
  "headers_set [] n v = [(n, normalize_value v)]"
| "headers_set ((k, w) # h) n v =
     (if lower k = lower n
      then (k, normalize_value v) # filter (\<lambda>kv. lower (fst kv) \<noteq> lower n) h
      else (k, w) # headers_set h n v)"

lemma values_of_simps [simp]:
  "values_of [] n = []"
  "values_of ((k, w) # h) n = (if lower k = lower n then w # values_of h n else values_of h n)"
  by (simp_all add: values_of_def)

lemma values_of_filter_other:
  "lower m = lower n \<Longrightarrow> values_of (filter (\<lambda>kv. lower (fst kv) \<noteq> lower n) h) m = []"
  "lower m \<noteq> lower n \<Longrightarrow> values_of (filter (\<lambda>kv. lower (fst kv) \<noteq> lower n) h) m = values_of h m"
  by (induction h) (auto simp: values_of_def)

lemma values_of_set:
  "values_of (headers_set h n v) m =
     (if lower m = lower n then [normalize_value v] else values_of h m)"
  by (induction h n v rule: headers_set.induct) (auto simp: values_of_filter_other)

lemma headers_has_iff: "headers_has h n \<longleftrightarrow> headers_get h n \<noteq> None"
  by (auto simp: headers_has_def headers_get_def values_of_def list_ex_iff filter_empty_conv)

subsection \<open>The interface a header writer relies on\<close>

text \<open>
  \<open>withCors\<close> copies a header object and calls \<open>set\<close> once per entry of a literal. What it needs of
  \<open>get\<close> and \<open>set\<close> is one law: a set is seen under every spelling of its name, and changes
  nothing else. The lemmas about the loop are proved from that law alone.
\<close>

locale header_store =
  fixes get :: "'h \<Rightarrow> string \<Rightarrow> string option"
    and set_to :: "'h \<Rightarrow> string \<Rightarrow> string \<Rightarrow> 'h"
    and same :: "string \<Rightarrow> string"
    and norm :: "string \<Rightarrow> string"
  assumes get_set: "get (set_to h n v) m = (if same m = same n then Some (norm v) else get h m)"
begin

lemma get_set_loop_other:
  "same m \<notin> same ` fst ` set kvs \<Longrightarrow> get (foldl (\<lambda>h kv. set_to h (fst kv) (snd kv)) h kvs) m = get h m"
  by (induction kvs arbitrary: h) (auto simp: get_set)

lemma get_set_loop_in:
  assumes "distinct (map (same \<circ> fst) kvs)" "(n, v) \<in> set kvs"
  shows "get (foldl (\<lambda>h kv. set_to h (fst kv) (snd kv)) h kvs) n = Some (norm v)"
  using assms
proof (induction kvs arbitrary: h)
  case Nil
  then show ?case by simp
next
  case (Cons kv kvs)
  show ?case
  proof (cases "(n, v) = kv")
    case True
    then have notin: "same n \<notin> same ` fst ` set kvs"
      using Cons.prems(1) by (auto simp: image_image image_iff)
    from True have "kv = (n, v)" by simp
    then show ?thesis by (simp add: get_set_loop_other [OF notin] get_set)
  next
    case False
    with Cons.prems(2) have there: "(n, v) \<in> set kvs" by auto
    have "distinct (map (same \<circ> fst) kvs)" using Cons.prems(1) by (simp add: comp_def)
    from Cons.IH [OF this there] show ?thesis by simp
  qed
qed

end

interpretation hdr: header_store headers_get headers_set lower normalize_value
  by unfold_locales (simp add: headers_get_def values_of_set)

section \<open>Requests and responses\<close>

datatype body = NoBody | RawBody string | JsonBody json

record request =
  req_method :: string
  req_url :: string
  req_headers :: headers
  req_body :: body

record response =
  status :: nat
  statusText :: string
  resp_headers :: headers
  resp_body :: body

record response_init =
  init_status :: nat
  init_statusText :: string
  init_headers :: headers

definition response_ok :: "response \<Rightarrow> bool" where
  "response_ok r \<longleftrightarrow> 200 \<le> status r \<and> status r \<le> 299"

definition null_body_status :: "nat \<Rightarrow> bool" where
  "null_body_status n \<longleftrightarrow> n \<in> {101, 103, 204, 205, 304}"

definition reason_phrase :: "string \<Rightarrow> bool" where
  "reason_phrase s = list_all (\<lambda>c. let n = of_char c :: nat in n = 9 \<or> (32 \<le> n \<and> n \<noteq> 127)) s"

text \<open>\<open>new Response(body, init)\<close>: the checks of the constructor, in its order.\<close>

definition new_Response :: "body \<Rightarrow> response_init \<Rightarrow> response throws" where
  "new_Response b i =
     (if init_status i < 200 \<or> 599 < init_status i then Inl RangeError
      else if \<not> reason_phrase (init_statusText i) then Inl TypeError
      else if b \<noteq> NoBody \<and> null_body_status (init_status i) then Inl TypeError
      else Inr \<lparr>status = init_status i, statusText = init_statusText i,
                resp_headers = init_headers i, resp_body = b\<rparr>)"

text \<open>A response that the constructor can have built, and that a fetch therefore can return.\<close>

definition constructible :: "response \<Rightarrow> bool" where
  "constructible r \<longleftrightarrow> 200 \<le> status r \<and> status r \<le> 599 \<and> reason_phrase (statusText r) \<and>
     (resp_body r = NoBody \<or> \<not> null_body_status (status r))"

lemma new_Response_Inr:
  "new_Response b i = Inr r \<Longrightarrow>
     constructible r \<and> status r = init_status i \<and> statusText r = init_statusText i \<and>
     resp_headers r = init_headers i \<and> resp_body r = b"
  by (auto simp: new_Response_def constructible_def split: if_splits)

lemma new_Response_rebuild:
  "constructible r \<Longrightarrow>
     new_Response (resp_body r) \<lparr>init_status = status r, init_statusText = statusText r,
       init_headers = h\<rparr> = Inr (r\<lparr>resp_headers := h\<rparr>)"
  by (auto simp: new_Response_def constructible_def)

text \<open>\<open>await res.json()\<close>: a body that is no JSON text rejects with a SyntaxError.\<close>

definition response_json :: "response \<Rightarrow> json throws" where
  "response_json r = (case resp_body r of JsonBody j \<Rightarrow> Inr j | _ \<Rightarrow> Inl SyntaxError)"

section \<open>The path of a URL\<close>

text \<open>
  \<open>new URL(request.url).pathname\<close>. A request's URL is absolute and serialized with a special
  scheme, so what follows the authority starts with the path's slash; the path ends at the query
  or the fragment.
\<close>

fun skip_scheme :: "string \<Rightarrow> string" where
  "skip_scheme [] = []"
| "skip_scheme (c # cs) = (if c = CHR '':'' then drop 2 cs else skip_scheme cs)"

definition url_pathname :: "string \<Rightarrow> string" where
  "url_pathname href =
     takeWhile (\<lambda>c. c \<noteq> CHR ''?'' \<and> c \<noteq> CHR ''#'') (dropWhile (\<lambda>c. c \<noteq> CHR ''/'') (skip_scheme href))"

lemma skip_scheme_split:
  "CHR '':'' \<notin> set sch \<Longrightarrow> skip_scheme (sch @ ''://'' @ rest) = rest"
  by (induction sch) auto

lemma url_pathname_split:
  assumes "CHR '':'' \<notin> set sch" "CHR ''/'' \<notin> set auth"
    and "hd path = CHR ''/''" "path \<noteq> []" "CHR ''?'' \<notin> set path" "CHR ''#'' \<notin> set path"
    and "rest = [] \<or> hd rest \<in> {CHR ''?'', CHR ''#''}"
  shows "url_pathname (sch @ ''://'' @ auth @ path @ rest) = path"
proof -
  have "dropWhile (\<lambda>c. c \<noteq> CHR ''/'') (auth @ path @ rest) = path @ rest"
    using assms(2-4) by (intro takeWhile_append_stop(2)) (auto simp: list_all_iff)
  moreover have "takeWhile (\<lambda>c. c \<noteq> CHR ''?'' \<and> c \<noteq> CHR ''#'') (path @ rest) = path"
    using assms(5-7) by (intro takeWhile_append_stop(1)) (auto simp: list_all_iff)
  ultimately show ?thesis
    unfolding url_pathname_def skip_scheme_split [OF assms(1)] by simp
qed

end
