(* ===== verification/TS_Types.thy ===== *)
theory TS_Types
  imports Web_API
begin

text \<open>
  The type language of TypeScript declaration files, as data: what \<open>worker-configuration.d.ts\<close> and
  \<open>archview-types.ts\<close> are written in. Names of value parameters are dropped (they have no meaning for
  typing); everything else of a declaration is kept: overloads, modifiers, type parameters with
  their constraints and defaults, heritage.
\<close>

section \<open>Types\<close>

datatype pkind = Req | Opt | Rest

datatype 't tparam = TParam string "'t option" "'t option"   \<comment> \<open>name, constraint, default\<close>

datatype 't sig = Sig "'t tparam list" "(pkind \<times> 't) list" 't

datatype 't member =
    Prop bool bool string 't        \<comment> \<open>readonly, optional, name, type\<close>
  | Getter string 't
  | Setter string 't
  | Meth bool string "'t sig"       \<comment> \<open>optional, name, signature\<close>
  | Call "'t sig"
  | New "'t sig"
  | Index bool 't 't                \<comment> \<open>readonly, key type, value type\<close>
  | Static "'t member"

datatype optmod = KeepOpt | AddOpt | DropOpt

datatype ts_type =
    TAny | TUnknown | TNever | TVoid | TUndefined | TNull | TString | TNumber | TBoolean
  | TBigint | TObject | TSymbol | TThis
  | TStrLit string | TNumLit int | TBoolLit bool | TTemplate string
  | TRef string "ts_type list"
  | TArray ts_type
  | TTuple "(pkind \<times> ts_type) list"
  | TUnion "ts_type list"
  | TInter "ts_type list"
  | TFun "ts_type sig"
  | TCtor bool "ts_type sig"
  | TObj "ts_type member list"
  | TKeyof ts_type
  | TTypeof string
  | TIndexed ts_type ts_type
  | TReadonly ts_type
  | TCond ts_type ts_type ts_type ts_type
  | TInfer string
  | TMapped string ts_type "ts_type option" optmod ts_type
  | TPred ts_type
  | TAsserts ts_type

section \<open>Declarations\<close>

datatype ts_decl =
    Interface string "ts_type tparam list" "ts_type list" "ts_type member list"
  | Class string bool "ts_type tparam list" "ts_type list" "ts_type list" "ts_type member list"
  | Alias string "ts_type tparam list" ts_type
  | Var string ts_type
  | Function string "ts_type sig"
  | Namespace string "ts_decl list"

end
