(* ===== verification/TS_Check.thy ===== *)
theory TS_Check
  imports TS_Types
begin

text \<open>
  Type checking against a table of declarations: substitution of type arguments, unfolding of names,
  members with those inherited, assignability, and the checks of a property read, a method call and a
  construction. Values of a wire format are JSON; which of them a type admits is the relation
  \<open>conforms\<close>, and strict assignability is proved sound for it. The lenient mode adds the rules of
  TypeScript that are not sound for open objects: \<open>any\<close> goes everywhere, an optional property may be
  absent from the source type, and an object literal fits an index signature by its known keys.
\<close>

type_synonym type_env = "(string \<times> ts_decl) list"

section \<open>Substitution\<close>

definition tparam_name :: "'t tparam \<Rightarrow> string" where
  "tparam_name p = (case p of TParam n c d \<Rightarrow> n)"

text \<open>
  No signature of the declarations names a type parameter that is already in scope, so substitution
  need not look for hidden names.
\<close>

primrec subst :: "ts_type \<Rightarrow> (string \<times> ts_type) list \<Rightarrow> ts_type" where
  "subst (TRef n args) s =
     (if args = [] \<and> map_of s n \<noteq> None then the (map_of s n) else TRef n (map (\<lambda>t. subst t s) args))"
| "subst (TArray t) s = TArray (subst t s)"
| "subst (TTuple ps) s = TTuple (map (map_prod id (\<lambda>t. subst t s)) ps)"
| "subst (TUnion ts) s = TUnion (map (\<lambda>t. subst t s) ts)"
| "subst (TInter ts) s = TInter (map (\<lambda>t. subst t s) ts)"
| "subst (TFun sg) s = TFun (map_sig (\<lambda>t. subst t s) sg)"
| "subst (TCtor a sg) s = TCtor a (map_sig (\<lambda>t. subst t s) sg)"
| "subst (TObj ms) s = TObj (map (map_member (\<lambda>t. subst t s)) ms)"
| "subst (TKeyof t) s = TKeyof (subst t s)"
| "subst (TIndexed t k) s = TIndexed (subst t s) (subst k s)"
| "subst (TReadonly t) s = TReadonly (subst t s)"
| "subst (TCond a b c d) s = TCond (subst a s) (subst b s) (subst c s) (subst d s)"
| "subst (TMapped n k asc om t) s =
     TMapped n (subst k s) (map_option (\<lambda>t. subst t s) asc) om (subst t s)"
| "subst (TPred t) s = TPred (subst t s)"
| "subst (TAsserts t) s = TAsserts (subst t s)"
| "subst TAny s = TAny"
| "subst TUnknown s = TUnknown"
| "subst TNever s = TNever"
| "subst TVoid s = TVoid"
| "subst TUndefined s = TUndefined"
| "subst TNull s = TNull"
| "subst TString s = TString"
| "subst TNumber s = TNumber"
| "subst TBoolean s = TBoolean"
| "subst TBigint s = TBigint"
| "subst TObject s = TObject"
| "subst TSymbol s = TSymbol"
| "subst TThis s = TThis"
| "subst (TStrLit x) s = TStrLit x"
| "subst (TNumLit i) s = TNumLit i"
| "subst (TBoolLit b) s = TBoolLit b"
| "subst (TTemplate x) s = TTemplate x"
| "subst (TTypeof x) s = TTypeof x"
| "subst (TInfer x) s = TInfer x"

definition subst_member :: "ts_type member \<Rightarrow> (string \<times> ts_type) list \<Rightarrow> ts_type member" where
  "subst_member m s = map_member (\<lambda>t. subst t s) m"

text \<open>Arguments for parameters; a missing one takes its default, which may mention earlier ones.\<close>

fun bind_from :: "(string \<times> ts_type) list \<Rightarrow> ts_type tparam list \<Rightarrow> ts_type list \<Rightarrow> (string \<times> ts_type) list" where
  "bind_from s [] args = s"
| "bind_from s (TParam n c d # ps) (a # args) = bind_from (s @ [(n, a)]) ps args"
| "bind_from s (TParam n c d # ps) [] =
     bind_from (s @ [(n, case d of Some t \<Rightarrow> subst t s | None \<Rightarrow> TUnknown)]) ps []"

definition bind :: "ts_type tparam list \<Rightarrow> ts_type list \<Rightarrow> (string \<times> ts_type) list" where
  "bind ps args = bind_from [] ps args"

section \<open>Names\<close>

fun is_type_decl :: "ts_decl \<Rightarrow> bool" where
  "is_type_decl (Interface n ps ext ms) = True"
| "is_type_decl (Class n a ps ext imp ms) = True"
| "is_type_decl (Alias n ps t) = True"
| "is_type_decl _ = False"

fun is_value_decl :: "ts_decl \<Rightarrow> bool" where
  "is_value_decl (Class n a ps ext imp ms) = True"
| "is_value_decl (Var n t) = True"
| "is_value_decl (Function n sg) = True"
| "is_value_decl _ = False"

fun lookup :: "(ts_decl \<Rightarrow> bool) \<Rightarrow> type_env \<Rightarrow> string \<Rightarrow> ts_decl option" where
  "lookup P [] n = None"
| "lookup P ((k, d) # env) n = (if k = n \<and> P d then Some d else lookup P env n)"

definition unfold_decl :: "ts_decl \<Rightarrow> ts_type list \<Rightarrow> ts_type option" where
  "unfold_decl d args =
     (case d of
        Interface n ps ext ms \<Rightarrow>
          (let s = bind ps args in
           Some (TInter (TObj (map (\<lambda>m. subst_member m s) ms) # map (\<lambda>t. subst t s) ext)))
      | Class n a ps ext imp ms \<Rightarrow>
          (let s = bind ps args in
           Some (TInter (TObj (map (\<lambda>m. subst_member m s) ms) # map (\<lambda>t. subst t s) ext)))
      | Alias n ps t \<Rightarrow> Some (subst t (bind ps args))
      | _ \<Rightarrow> None)"

text \<open>What a type name stands for; \<open>Array\<close> and \<open>Record\<close> are the library's.\<close>

fun unfold :: "type_env \<Rightarrow> ts_type \<Rightarrow> ts_type option" where
  "unfold env (TRef n args) =
     (if n = ''Array'' then (case args of [t] \<Rightarrow> Some (TArray t) | _ \<Rightarrow> None)
      else if n = ''Record'' then
        (case args of [k, t] \<Rightarrow> if k = TString then Some (TObj [Index False TString t]) else None | _ \<Rightarrow> None)
      else (case lookup is_type_decl env n of Some d \<Rightarrow> unfold_decl d args | None \<Rightarrow> None))"
| "unfold env (TReadonly t) = Some t"
| "unfold env _ = None"

text \<open>Views of a type as one of its shapes.\<close>

definition union_of :: "ts_type \<Rightarrow> ts_type list option" where
  "union_of t = (case t of TUnion ts \<Rightarrow> Some ts | _ \<Rightarrow> None)"

definition inter_of :: "ts_type \<Rightarrow> ts_type list option" where
  "inter_of t = (case t of TInter ts \<Rightarrow> Some ts | _ \<Rightarrow> None)"

definition object_of :: "ts_type \<Rightarrow> ts_type member list option" where
  "object_of t = (case t of TObj ms \<Rightarrow> Some ms | _ \<Rightarrow> None)"

definition array_of :: "ts_type \<Rightarrow> ts_type option" where
  "array_of t = (case t of TArray a \<Rightarrow> Some a | _ \<Rightarrow> None)"

definition fun_of :: "ts_type \<Rightarrow> ts_type sig option" where
  "fun_of t = (case t of TFun sg \<Rightarrow> Some sg | _ \<Rightarrow> None)"

definition ref_of :: "ts_type \<Rightarrow> (string \<times> ts_type list) option" where
  "ref_of t = (case t of TRef n args \<Rightarrow> Some (n, args) | _ \<Rightarrow> None)"

definition holds_opt :: "('a \<Rightarrow> bool) \<Rightarrow> 'a option \<Rightarrow> bool" where
  "holds_opt P v = (case v of None \<Rightarrow> False | Some x \<Rightarrow> P x)"

lemma view_simps [simp]:
  "union_of t = Some ts \<longleftrightarrow> t = TUnion ts" "inter_of t = Some ts \<longleftrightarrow> t = TInter ts"
  "object_of t = Some ms \<longleftrightarrow> t = TObj ms" "array_of t = Some a \<longleftrightarrow> t = TArray a"
  "fun_of t = Some sg \<longleftrightarrow> t = TFun sg" "ref_of t = Some (n, args) \<longleftrightarrow> t = TRef n args"
  by (auto simp: union_of_def inter_of_def object_of_def array_of_def fun_of_def ref_of_def split: ts_type.splits)

lemma holds_opt_iff: "holds_opt P v \<longleftrightarrow> (\<exists>x. v = Some x \<and> P x)"
  by (cases v) (simp_all add: holds_opt_def)

lemma holds_opt_cong [fundef_cong]: "v = w \<Longrightarrow> (\<And>x. w = Some x \<Longrightarrow> P x = Q x) \<Longrightarrow> holds_opt P v = holds_opt Q w"
  by (auto simp: holds_opt_iff)

fun members :: "type_env \<Rightarrow> nat \<Rightarrow> ts_type \<Rightarrow> ts_type member list" where
  "members env 0 t = []"
| "members env (Suc k) t =
     (if object_of t \<noteq> None then the (object_of t)
      else if inter_of t \<noteq> None then concat (map (members env k) (the (inter_of t)))
      else if unfold env t \<noteq> None then members env k (the (unfold env t))
      else [])"

section \<open>Assignability\<close>

fun json_member :: "'t member \<Rightarrow> bool" where
  "json_member (Prop ro opt n t) = True"
| "json_member (Index ro k t) = True"
| "json_member _ = False"

fun prop_name :: "'t member \<Rightarrow> string option" where
  "prop_name (Prop ro opt n t) = Some n"
| "prop_name _ = None"

text \<open>
  Does a source member list serve a target member? \<open>le\<close> is assignability of the member types,
  \<open>strict\<close> excludes the rules that are not sound for open objects.
\<close>

definition serves ::
    "bool \<Rightarrow> ('t \<Rightarrow> 't \<Rightarrow> bool) \<Rightarrow> ('t \<Rightarrow> bool) \<Rightarrow> 't member list \<Rightarrow> 't member \<Rightarrow> bool" where
  "serves strict le is_string ms m =
     (case m of
        Prop ro opt n t \<Rightarrow>
          list_ex (\<lambda>m'. case m' of Prop ro' opt' n' t' \<Rightarrow> n' = n \<and> (opt' \<longrightarrow> opt) \<and> le t' t | _ \<Rightarrow> False) ms \<or>
          (\<not> strict \<and> opt \<and> Some n \<notin> set (map prop_name ms))
      | Index ro k t \<Rightarrow>
          is_string k \<and>
          (list_ex (\<lambda>m'. case m' of Index ro' k' t' \<Rightarrow> is_string k' \<and> le t' t | _ \<Rightarrow> False) ms \<or>
           (\<not> strict \<and> list_all (\<lambda>m'. case m' of Prop ro' opt' n' t' \<Rightarrow> le t' t | _ \<Rightarrow> False) ms))
      | Meth opt n sg \<Rightarrow> \<not> strict \<and> opt \<and> Some n \<notin> set (map prop_name ms)
      | _ \<Rightarrow> False)"

definition base_fits :: "ts_type \<Rightarrow> ts_type \<Rightarrow> bool" where
  "base_fits S T =
     (case S of TStrLit s \<Rightarrow> T = TString | TNumLit n \<Rightarrow> T = TNumber | TBoolLit b \<Rightarrow> T = TBoolean | _ \<Rightarrow> False)"

text \<open>The parameter and result rule of function types: fewer parameters are enough.\<close>

definition fun_fits :: "(ts_type \<Rightarrow> ts_type \<Rightarrow> bool) \<Rightarrow> ts_type sig \<Rightarrow> ts_type sig \<Rightarrow> bool" where
  "fun_fits le sg sg' =
     (case (sg, sg') of (Sig tps ps r, Sig tps' qs r') \<Rightarrow>
        tps = [] \<and> tps' = [] \<and> length ps \<le> length qs \<and>
        list_all (\<lambda>pq. le (snd (snd pq)) (snd (fst pq))) (zip ps qs) \<and> le r r')"

definition args_fit :: "(ts_type \<Rightarrow> ts_type \<Rightarrow> bool) \<Rightarrow> string \<times> ts_type list \<Rightarrow> string \<times> ts_type list \<Rightarrow> bool" where
  "args_fit le a b \<longleftrightarrow> fst a = fst b \<and> length (snd a) = length (snd b) \<and>
     list_all (\<lambda>ab. le (fst ab) (snd ab)) (zip (snd a) (snd b))"

text \<open>A reference with the defaults of its missing arguments written out.\<close>

fun decl_tparams :: "ts_decl \<Rightarrow> ts_type tparam list" where
  "decl_tparams (Interface n ps ext ms) = ps"
| "decl_tparams (Class n a ps ext imp ms) = ps"
| "decl_tparams (Alias n ps t) = ps"
| "decl_tparams _ = []"

definition full_ref :: "type_env \<Rightarrow> string \<times> ts_type list \<Rightarrow> string \<times> ts_type list" where
  "full_ref env a =
     (case lookup is_type_decl env (fst a) of
        Some d \<Rightarrow> (fst a, map snd (bind (decl_tparams d) (snd a)))
      | None \<Rightarrow> a)"

primrec assignable :: "nat \<Rightarrow> type_env \<Rightarrow> bool \<Rightarrow> ts_type \<Rightarrow> ts_type \<Rightarrow> bool" where
  "assignable 0 env strict S T = (S = T)"
| "assignable (Suc k) env strict S T =
     (let le = assignable k env strict in
      S = T \<or> T = TAny \<or> T = TUnknown \<or> S = TNever \<or> base_fits S T \<or>
      (\<not> strict \<and>
        (S = TAny \<or>
         holds_opt (\<lambda>b. holds_opt (\<lambda>a. args_fit le (full_ref env a) (full_ref env b)) (ref_of S)) (ref_of T) \<or>
         holds_opt (\<lambda>q. holds_opt (\<lambda>p. fun_fits le p q) (fun_of S)) (fun_of T))) \<or>
      holds_opt (list_all (\<lambda>s. le s T)) (union_of S) \<or>
      holds_opt (list_ex (\<lambda>s. le s T)) (inter_of S) \<or>
      holds_opt (list_ex (le S)) (union_of T) \<or>
      holds_opt (list_all (le S)) (inter_of T) \<or>
      holds_opt (\<lambda>t. holds_opt (\<lambda>s. le s t) (array_of S)) (array_of T) \<or>
      holds_opt (\<lambda>ns. holds_opt (\<lambda>ms. list_all json_member ms \<and>
        list_all (serves strict le (\<lambda>t. t = TString) ms) ns) (object_of S)) (object_of T) \<or>
      holds_opt (le S) (unfold env T) \<or>
      holds_opt (\<lambda>S'. le S' T) (unfold env S))"

declare assignable.simps(2) [simp del]

section \<open>Which JSON values a type admits\<close>

inductive conforms :: "type_env \<Rightarrow> json \<Rightarrow> ts_type \<Rightarrow> bool" for env :: type_env where
  any: "conforms env v TAny"
| unknown: "conforms env v TUnknown"
| null: "conforms env JNull TNull"
| string: "conforms env (JStr s) TString"
| number: "conforms env (JNum q) TNumber"
| boolean: "conforms env (JBool b) TBoolean"
| string_lit: "conforms env (JStr s) (TStrLit s)"
| number_lit: "conforms env (JNum (of_int n)) (TNumLit n)"
| boolean_lit: "conforms env (JBool b) (TBoolLit b)"
| object: "(\<exists>kvs. v = JObj kvs) \<or> (\<exists>vs. v = JArr vs) \<Longrightarrow> conforms env v TObject"
| array: "\<forall>v \<in> set vs. conforms env v t \<Longrightarrow> conforms env (JArr vs) (TArray t)"
| tuple: "length vs = length ps \<Longrightarrow> \<forall>i < length ps. fst (ps ! i) = Req \<and> conforms env (vs ! i) (snd (ps ! i)) \<Longrightarrow>
    conforms env (JArr vs) (TTuple ps)"
| union: "t \<in> set ts \<Longrightarrow> conforms env v t \<Longrightarrow> conforms env v (TUnion ts)"
| inter: "\<forall>t \<in> set ts. conforms env v t \<Longrightarrow> conforms env v (TInter ts)"
| obj: "list_all json_member ms \<Longrightarrow>
    \<forall>ro opt n t. Prop ro opt n t \<in> set ms \<longrightarrow> (map_of kvs n = None \<longrightarrow> opt) \<and>
      (\<forall>w. map_of kvs n = Some w \<longrightarrow> conforms env w t) \<Longrightarrow>
    \<forall>ro k t. Index ro k t \<in> set ms \<longrightarrow> k = TString \<and> (\<forall>kv \<in> set kvs. conforms env (snd kv) t) \<Longrightarrow>
    conforms env (JObj kvs) (TObj ms)"
| name: "unfold env t = Some t' \<Longrightarrow> conforms env v t' \<Longrightarrow> conforms env v t"


section \<open>Strict assignability is sound\<close>

inductive_cases conforms_never: "conforms env v TNever"
inductive_cases conforms_union: "conforms env v (TUnion ts)"
inductive_cases conforms_inter: "conforms env v (TInter ts)"
inductive_cases conforms_array: "conforms env v (TArray t)"
inductive_cases conforms_obj: "conforms env v (TObj ms)"
inductive_cases conforms_ref: "conforms env v (TRef n args)"
inductive_cases conforms_readonly: "conforms env v (TReadonly t)"
inductive_cases conforms_lit: "conforms env v (TStrLit s)" "conforms env v (TNumLit i)" "conforms env v (TBoolLit b)"
inductive_cases conforms_base: "conforms env v TString" "conforms env v TNumber" "conforms env v TBoolean"
  "conforms env v TNull"

lemma unfold_Some: "unfold env t = Some t' \<Longrightarrow> (\<exists>n args. t = TRef n args) \<or> t = TReadonly t'"
  by (cases t) auto

lemma conforms_unfolded:
  assumes "unfold env t = Some t'" "conforms env v t"
  shows "conforms env v t'"
  using unfold_Some [OF assms(1)] assms by (auto elim: conforms_ref conforms_readonly)

lemma base_fits_sound: "base_fits S T \<Longrightarrow> conforms env v S \<Longrightarrow> conforms env v T"
  by (auto simp: base_fits_def split: ts_type.splits elim!: conforms_lit intro: conforms.intros)

lemma is_Prop_case:
  "(case m of Prop ro opt n t \<Rightarrow> Q opt n t | _ \<Rightarrow> False) \<longleftrightarrow> (\<exists>ro opt n t. m = Prop ro opt n t \<and> Q opt n t)"
  by (cases m) simp_all

lemma is_Index_case:
  "(case m of Index ro k t \<Rightarrow> Q k t | _ \<Rightarrow> False) \<longleftrightarrow> (\<exists>ro k t. m = Index ro k t \<and> Q k t)"
  by (cases m) simp_all

lemma serves_strict:
  "serves True le P ms (Prop ro opt n t) \<longleftrightarrow>
     (\<exists>ro' opt' t'. Prop ro' opt' n t' \<in> set ms \<and> (opt' \<longrightarrow> opt) \<and> le t' t)"
  "serves True le P ms (Index ro k t) \<longleftrightarrow>
     P k \<and> (\<exists>ro' k' t'. Index ro' k' t' \<in> set ms \<and> P k' \<and> le t' t)"
  by (auto simp: serves_def is_Prop_case is_Index_case list_ex_iff)

lemma serves_sound:
  assumes "list_all (serves True le (\<lambda>t. t = TString) ms) ns" "conforms env v (TObj ms)" "list_all json_member ms"
    and le: "\<And>s t w. le s t \<Longrightarrow> conforms env w s \<Longrightarrow> conforms env w t"
  shows "conforms env v (TObj ns)"
proof -
  from assms(2) obtain kvs where v: "v = JObj kvs" and
    props: "\<And>ro opt n t. Prop ro opt n t \<in> set ms \<Longrightarrow> (map_of kvs n = None \<longrightarrow> opt) \<and>
      (\<forall>w. map_of kvs n = Some w \<longrightarrow> conforms env w t)" and
    idx: "\<And>ro k t. Index ro k t \<in> set ms \<Longrightarrow> k = TString \<and> (\<forall>kv \<in> set kvs. conforms env (snd kv) t)"
    by (elim conforms_obj) auto
  have serve: "serves True le (\<lambda>t. t = TString) ms n" if "n \<in> set ns" for n
    using assms(1) that by (simp add: list_all_iff)
  have "list_all json_member ns"
    unfolding list_all_iff
  proof
    fix n assume "n \<in> set ns"
    then have "serves True le (\<lambda>t. t = TString) ms n" by (rule serve)
    then show "json_member n" by (simp add: serves_def split: member.splits)
  qed
  moreover have "(map_of kvs n = None \<longrightarrow> opt) \<and> (\<forall>w. map_of kvs n = Some w \<longrightarrow> conforms env w t)"
    if "Prop ro opt n t \<in> set ns" for ro opt n t
  proof -
    from serve [OF that] obtain ro' opt' t' where "Prop ro' opt' n t' \<in> set ms" "opt' \<longrightarrow> opt" "le t' t"
      by (auto simp: serves_strict)
    then show ?thesis using props le by blast
  qed
  moreover have "k = TString \<and> (\<forall>kv \<in> set kvs. conforms env (snd kv) t)" if "Index ro k t \<in> set ns" for ro k t
  proof -
    from serve [OF that] obtain ro' t' where "Index ro' TString t' \<in> set ms" "le t' t" "k = TString"
      by (auto simp: serves_strict)
    then show ?thesis using idx le by blast
  qed
  ultimately show ?thesis unfolding v by (intro conforms.obj) auto
qed

lemma assignable_sound:
  "assignable k env True S T \<Longrightarrow> conforms env v S \<Longrightarrow> conforms env v T"
proof (induction k arbitrary: S T v)
  case 0
  then show ?case by simp
next
  case (Suc k)
  let ?le = "assignable k env True"
  consider "S = T" | "T = TAny" | "T = TUnknown" | "S = TNever" | "base_fits S T"
    | ss where "S = TUnion ss" "list_all (\<lambda>s. ?le s T) ss"
    | ss where "S = TInter ss" "list_ex (\<lambda>s. ?le s T) ss"
    | ts where "T = TUnion ts" "list_ex (?le S) ts"
    | ts where "T = TInter ts" "list_all (?le S) ts"
    | s t where "S = TArray s" "T = TArray t" "?le s t"
    | ms ns where "S = TObj ms" "T = TObj ns" "list_all json_member ms"
        "list_all (serves True ?le (\<lambda>t. t = TString) ms) ns"
    | S' where "unfold env S = Some S'" "?le S' T"
    | T' where "unfold env T = Some T'" "?le S T'"
    using Suc.prems(1) unfolding assignable.simps(2) Let_def holds_opt_iff view_simps by blast
  then show ?case
  proof cases
    case 4
    then show ?thesis using Suc.prems(2) by (auto elim: conforms_never)
  next
    case 5
    then show ?thesis using Suc.prems(2) by (rule base_fits_sound)
  next
    case (6 ss)
    then obtain s where "s \<in> set ss" "conforms env v s"
      using Suc.prems(2) by (auto elim: conforms_union)
    then show ?thesis using 6 Suc.IH by (auto simp: list_all_iff)
  next
    case (7 ss)
    then obtain s where "s \<in> set ss" "?le s T" by (auto simp: list_ex_iff)
    moreover have "conforms env v s" using 7(1) Suc.prems(2) \<open>s \<in> set ss\<close> by (auto elim: conforms_inter)
    ultimately show ?thesis using Suc.IH by blast
  next
    case (8 ts)
    then show ?thesis using Suc.IH Suc.prems(2) by (auto simp: list_ex_iff intro: conforms.union)
  next
    case (9 ts)
    then have "\<forall>t \<in> set ts. conforms env v t" using Suc.IH Suc.prems(2) by (auto simp: list_all_iff)
    then show ?thesis unfolding 9(1) by (rule conforms.inter)
  next
    case (10 s t)
    then show ?thesis using Suc.IH Suc.prems(2) by (auto elim!: conforms_array intro!: conforms.array)
  next
    case (11 ms ns)
    then show ?thesis using Suc.IH Suc.prems(2) serves_sound [of ?le ms ns env v] by blast
  next
    case (12 S')
    then show ?thesis using Suc.IH Suc.prems(2) conforms_unfolded by blast
  next
    case (13 T')
    then show ?thesis using Suc.IH Suc.prems(2) by (blast intro: conforms.name)
  qed (use Suc.prems(2) in \<open>auto intro: conforms.intros\<close>)
qed

section \<open>Checking uses\<close>

text \<open>
  An argument list against the parameters of a signature. \<open>undefined\<close> may be passed for an optional one.
\<close>

fun args_ok :: "(ts_type \<Rightarrow> ts_type \<Rightarrow> bool) \<Rightarrow> (pkind \<times> ts_type) list \<Rightarrow> ts_type list \<Rightarrow> bool" where
  "args_ok le [] args = (args = [])"
| "args_ok le ((Req, t) # ps) args = (case args of [] \<Rightarrow> False | a # as \<Rightarrow> le a t \<and> args_ok le ps as)"
| "args_ok le ((Opt, t) # ps) args =
     (case args of [] \<Rightarrow> args_ok le ps [] | a # as \<Rightarrow> (a = TUndefined \<or> le a t) \<and> args_ok le ps as)"
| "args_ok le ((Rest, t) # ps) args = list_all (\<lambda>a. holds_opt (le a) (array_of t)) args"

definition call_result ::
    "nat \<Rightarrow> type_env \<Rightarrow> ts_type sig \<Rightarrow> ts_type list \<Rightarrow> ts_type list \<Rightarrow> ts_type option" where
  "call_result k env sg targs args =
     (case sg of Sig tps ps r \<Rightarrow>
        (let s = bind tps targs in
         if args_ok (assignable k env False) (map (map_prod id (\<lambda>t. subst t s)) ps) args
         then Some (subst r s) else None))"

text \<open>What a use of a platform API is: what it reads, calls or constructs, and the type it expects.\<close>

datatype api_use =
    Read ts_type string ts_type                                  \<comment> \<open>receiver, property, expected type\<close>
  | Invoke ts_type string "ts_type list" "ts_type list" ts_type  \<comment> \<open>receiver, method, type arguments, arguments, result\<close>
  | Construct string "ts_type list" ts_type                      \<comment> \<open>class, arguments, result\<close>
  | Satisfies ts_type ts_type                                    \<comment> \<open>the type of a value, the type it must have\<close>

fun read_type :: "string \<Rightarrow> ts_type member \<Rightarrow> ts_type list" where
  "read_type n (Prop ro opt n' t) = (if n = n' then [if opt then TUnion [t, TUndefined] else t] else [])"
| "read_type n (Getter n' t) = (if n = n' then [t] else [])"
| "read_type n _ = []"

fun method_sigs :: "string \<Rightarrow> ts_type member \<Rightarrow> ts_type sig list" where
  "method_sigs n (Meth opt n' sg) = (if n = n' \<and> \<not> opt then [sg] else [])"
| "method_sigs n (Prop ro opt n' t) = (if n = n' \<and> \<not> opt then (case fun_of t of Some sg \<Rightarrow> [sg] | None \<Rightarrow> []) else [])"
| "method_sigs n _ = []"

fun new_sigs :: "ts_type \<Rightarrow> ts_type member \<Rightarrow> ts_type sig list" where
  "new_sigs self (New (Sig tps ps r)) = [Sig tps ps (if r = TThis then self else r)]"
| "new_sigs self _ = []"

definition value_members :: "nat \<Rightarrow> type_env \<Rightarrow> string \<Rightarrow> ts_type member list" where
  "value_members k env n =
     (case lookup is_value_decl env n of
        Some (Class m a ps ext imp ms) \<Rightarrow> ms
      | Some (Var m t) \<Rightarrow> members env k t
      | _ \<Rightarrow> [])"

fun use_ok :: "nat \<Rightarrow> type_env \<Rightarrow> api_use \<Rightarrow> bool" where
  "use_ok k env (Read r n t) = list_ex (\<lambda>t'. assignable k env False t' t) (concat (map (read_type n) (members env k r)))"
| "use_ok k env (Invoke r n targs args t) =
     list_ex (\<lambda>sg. holds_opt (\<lambda>t'. assignable k env False t' t) (call_result k env sg targs args))
       (concat (map (method_sigs n) (members env k r)))"
| "use_ok k env (Construct n args t) =
     list_ex (\<lambda>sg. holds_opt (\<lambda>t'. assignable k env False t' t) (call_result k env sg [] args))
       (concat (map (new_sigs (TRef n [])) (value_members k env n)))"
| "use_ok k env (Satisfies s t) = assignable k env False s t"

end
