(* ===== verification/Worker_Platform.thy ===== *)
theory Worker_Platform
  imports TS_Check
begin

text \<open>
  The Worker against its platform. \<open>deploy/cloudflare/worker-configuration.d.ts\<close> declares what the
  runtime offers; of it, the declarations that \<open>index.ts\<close> reaches are translated here, one definition
  for each, and every place where \<open>index.ts\<close> reads, calls or constructs something of the runtime is
  listed with the types the code gives it and checked against them.
\<close>

section \<open>Declarations\<close>

definition BaseEnv_Env_decl :: ts_decl where
  "BaseEnv_Env_decl = Interface ''__BaseEnv_Env'' [] [] [
      Prop False False ''LLM_MODEL'' (TStrLit ''gemini-3.8-flash''),
      Prop False False ''C2_CONTAINER'' (TRef ''DurableObjectNamespace'' [TRef
          ''import:./src/index.C2Container'' []])]"

definition Env_decl :: ts_decl where
  "Env_decl = Interface ''Env'' [] [TRef ''__BaseEnv_Env'' []] []"

definition Console_decl :: ts_decl where
  "Console_decl = Interface ''Console'' [] [] [
      Meth False ''assert'' (Sig [] [(Opt, TBoolean), (Rest, TArray TAny)] TVoid),
      Meth False ''clear'' (Sig [] [] TVoid),
      Meth False ''count'' (Sig [] [(Opt, TString)] TVoid),
      Meth False ''countReset'' (Sig [] [(Opt, TString)] TVoid),
      Meth False ''debug'' (Sig [] [(Rest, TArray TAny)] TVoid),
      Meth False ''dir'' (Sig [] [(Opt, TAny), (Opt, TAny)] TVoid),
      Meth False ''dirxml'' (Sig [] [(Rest, TArray TAny)] TVoid),
      Meth False ''error'' (Sig [] [(Rest, TArray TAny)] TVoid),
      Meth False ''group'' (Sig [] [(Rest, TArray TAny)] TVoid),
      Meth False ''groupCollapsed'' (Sig [] [(Rest, TArray TAny)] TVoid),
      Meth False ''groupEnd'' (Sig [] [] TVoid),
      Meth False ''info'' (Sig [] [(Rest, TArray TAny)] TVoid),
      Meth False ''log'' (Sig [] [(Rest, TArray TAny)] TVoid),
      Meth False ''table'' (Sig [] [(Opt, TAny), (Opt, TArray TString)] TVoid),
      Meth False ''time'' (Sig [] [(Opt, TString)] TVoid),
      Meth False ''timeEnd'' (Sig [] [(Opt, TString)] TVoid),
      Meth False ''timeLog'' (Sig [] [(Opt, TString), (Rest, TArray TAny)] TVoid),
      Meth False ''timeStamp'' (Sig [] [(Opt, TString)] TVoid),
      Meth False ''trace'' (Sig [] [(Rest, TArray TAny)] TVoid),
      Meth False ''warn'' (Sig [] [(Rest, TArray TAny)] TVoid)]"

definition ExportedHandlerFetchHandler_decl :: ts_decl where
  "ExportedHandlerFetchHandler_decl = Alias ''ExportedHandlerFetchHandler'' [TParam ''Env'' None (Some
      TUnknown), TParam ''CfHostMetadata'' None (Some TUnknown), TParam ''Props'' None (Some TUnknown)]
      (TFun (Sig [] [(Req, TRef ''Request'' [TRef ''CfHostMetadata'' [], TRef
      ''IncomingRequestCfProperties'' [TRef ''CfHostMetadata'' []]]), (Req, TRef ''Env'' []), (Req, TRef
      ''ExecutionContext'' [TRef ''Props'' []])] (TUnion [TRef ''Response'' [], TRef ''Promise'' [TRef
      ''Response'' []]])))"

definition ExportedHandler_decl :: ts_decl where
  "ExportedHandler_decl = Interface ''ExportedHandler'' [TParam ''Env'' None (Some TUnknown), TParam
      ''QueueHandlerMessage'' None (Some TUnknown), TParam ''CfHostMetadata'' None (Some TUnknown), TParam
      ''Props'' None (Some TUnknown)] [] [
      Prop False True ''fetch'' (TRef ''ExportedHandlerFetchHandler'' [TRef ''Env'' [], TRef
          ''CfHostMetadata'' [], TRef ''Props'' []]),
      Prop False True ''connect'' (TRef ''ExportedHandlerConnectHandler'' [TRef ''Env'' [], TRef ''Props''
          []]),
      Prop False True ''tail'' (TRef ''ExportedHandlerTailHandler'' [TRef ''Env'' [], TRef ''Props'' []]),
      Prop False True ''trace'' (TRef ''ExportedHandlerTraceHandler'' [TRef ''Env'' [], TRef ''Props'' []]),
      Prop False True ''tailStream'' (TRef ''ExportedHandlerTailStreamHandler'' [TRef ''Env'' [], TRef
          ''Props'' []]),
      Prop False True ''scheduled'' (TRef ''ExportedHandlerScheduledHandler'' [TRef ''Env'' [], TRef
          ''Props'' []]),
      Prop False True ''test'' (TRef ''ExportedHandlerTestHandler'' [TRef ''Env'' [], TRef ''Props'' []]),
      Prop False True ''email'' (TRef ''EmailExportedHandler'' [TRef ''Env'' [], TRef ''Props'' []]),
      Prop False True ''queue'' (TRef ''ExportedHandlerQueueHandler'' [TRef ''Env'' [], TRef
          ''QueueHandlerMessage'' [], TRef ''Props'' []])]"

definition DurableObjectStub_decl :: ts_decl where
  "DurableObjectStub_decl = Alias ''DurableObjectStub'' [TParam ''T'' (Some (TUnion [TRef
      ''Rpc.DurableObjectBranded'' [], TUndefined])) (Some TUndefined)] (TInter [TRef ''Fetcher'' [TRef
      ''T'' [], TUnion [TStrLit ''alarm'', TStrLit ''connect'', TStrLit ''webSocketMessage'', TStrLit
      ''webSocketClose'', TStrLit ''webSocketError'']], TObj [Prop True False ''id'' (TRef
      ''DurableObjectId'' []), Prop True True ''name'' TString]])"

definition DurableObjectNamespace_decl :: ts_decl where
  "DurableObjectNamespace_decl = Class ''DurableObjectNamespace'' True [TParam ''T'' (Some (TUnion [TRef
      ''Rpc.DurableObjectBranded'' [], TUndefined])) (Some TUndefined)] [] [] [
      Meth False ''newUniqueId'' (Sig [] [(Opt, TRef ''DurableObjectNamespaceNewUniqueIdOptions'' [])]
          (TRef ''DurableObjectId'' [])),
      Meth False ''idFromName'' (Sig [] [(Req, TString)] (TRef ''DurableObjectId'' [])),
      Meth False ''idFromString'' (Sig [] [(Req, TString)] (TRef ''DurableObjectId'' [])),
      Meth False ''get'' (Sig [] [(Req, TRef ''DurableObjectId'' []), (Opt, TRef
          ''DurableObjectNamespaceGetDurableObjectOptions'' [])] (TRef ''DurableObjectStub'' [TRef ''T''
          []])),
      Meth False ''getByName'' (Sig [] [(Req, TString), (Opt, TRef
          ''DurableObjectNamespaceGetDurableObjectOptions'' [])] (TRef ''DurableObjectStub'' [TRef ''T''
          []])),
      Meth False ''jurisdiction'' (Sig [] [(Req, TRef ''DurableObjectJurisdiction'' [])] (TRef
          ''DurableObjectNamespace'' [TRef ''T'' []]))]"

definition DurableObjectState_decl :: ts_decl where
  "DurableObjectState_decl = Interface ''DurableObjectState'' [TParam ''Props'' None (Some TUnknown)] [] [
      Meth False ''waitUntil'' (Sig [] [(Req, TRef ''Promise'' [TAny])] TVoid),
      Prop True False ''exports'' (TRef ''Cloudflare.Exports'' []),
      Prop True False ''props'' (TRef ''Props'' []),
      Prop True False ''id'' (TRef ''DurableObjectId'' []),
      Prop True False ''storage'' (TRef ''DurableObjectStorage'' []),
      Prop False True ''container'' (TRef ''Container'' []),
      Prop False False ''facets'' (TRef ''DurableObjectFacets'' []),
      Meth False ''blockConcurrencyWhile'' (Sig [TParam ''T'' None None] [(Req, TFun (Sig [] [] (TRef
          ''Promise'' [TRef ''T'' []])))] (TRef ''Promise'' [TRef ''T'' []])),
      Meth False ''acceptWebSocket'' (Sig [] [(Req, TRef ''WebSocket'' []), (Opt, TArray TString)] TVoid),
      Meth False ''getWebSockets'' (Sig [] [(Opt, TString)] (TArray (TRef ''WebSocket'' []))),
      Meth False ''setWebSocketAutoResponse'' (Sig [] [(Opt, TRef ''WebSocketRequestResponsePair'' [])]
          TVoid),
      Meth False ''getWebSocketAutoResponse'' (Sig [] [] (TUnion [TRef ''WebSocketRequestResponsePair'' [],
          TNull])),
      Meth False ''getWebSocketAutoResponseTimestamp'' (Sig [] [(Req, TRef ''WebSocket'' [])] (TUnion [TRef
          ''Date'' [], TNull])),
      Meth False ''setHibernatableWebSocketEventTimeout'' (Sig [] [(Opt, TNumber)] TVoid),
      Meth False ''getHibernatableWebSocketEventTimeout'' (Sig [] [] (TUnion [TNumber, TNull])),
      Meth False ''getTags'' (Sig [] [(Req, TRef ''WebSocket'' [])] (TArray TString)),
      Meth False ''abort'' (Sig [] [(Opt, TString), (Opt, TRef ''DurableObjectAbortOptions'' [])] TVoid)]"

definition DurableObjectStorage_decl :: ts_decl where
  "DurableObjectStorage_decl = Interface ''DurableObjectStorage'' [] [] [
      Meth False ''get'' (Sig [TParam ''T'' None (Some TUnknown)] [(Req, TString), (Opt, TRef
          ''DurableObjectGetOptions'' [])] (TRef ''Promise'' [TUnion [TRef ''T'' [], TUndefined]])),
      Meth False ''get'' (Sig [TParam ''T'' None (Some TUnknown)] [(Req, TArray TString), (Opt, TRef
          ''DurableObjectGetOptions'' [])] (TRef ''Promise'' [TRef ''Map'' [TString, TRef ''T'' []]])),
      Meth False ''list'' (Sig [TParam ''T'' None (Some TUnknown)] [(Opt, TRef ''DurableObjectListOptions''
          [])] (TRef ''Promise'' [TRef ''Map'' [TString, TRef ''T'' []]])),
      Meth False ''put'' (Sig [TParam ''T'' None None] [(Req, TString), (Req, TRef ''T'' []), (Opt, TRef
          ''DurableObjectPutOptions'' [])] (TRef ''Promise'' [TVoid])),
      Meth False ''put'' (Sig [TParam ''T'' None None] [(Req, TRef ''Record'' [TString, TRef ''T'' []]),
          (Opt, TRef ''DurableObjectPutOptions'' [])] (TRef ''Promise'' [TVoid])),
      Meth False ''delete'' (Sig [] [(Req, TString), (Opt, TRef ''DurableObjectPutOptions'' [])] (TRef
          ''Promise'' [TBoolean])),
      Meth False ''delete'' (Sig [] [(Req, TArray TString), (Opt, TRef ''DurableObjectPutOptions'' [])]
          (TRef ''Promise'' [TNumber])),
      Meth False ''deleteAll'' (Sig [] [(Opt, TRef ''DurableObjectPutOptions'' [])] (TRef ''Promise''
          [TVoid])),
      Meth False ''transaction'' (Sig [TParam ''T'' None None] [(Req, TFun (Sig [] [(Req, TRef
          ''DurableObjectTransaction'' [])] (TRef ''Promise'' [TRef ''T'' []])))] (TRef ''Promise'' [TRef
          ''T'' []])),
      Meth False ''getAlarm'' (Sig [] [(Opt, TRef ''DurableObjectGetAlarmOptions'' [])] (TRef ''Promise''
          [TUnion [TNumber, TNull]])),
      Meth False ''setAlarm'' (Sig [] [(Req, TUnion [TNumber, TRef ''Date'' []]), (Opt, TRef
          ''DurableObjectSetAlarmOptions'' [])] (TRef ''Promise'' [TVoid])),
      Meth False ''deleteAlarm'' (Sig [] [(Opt, TRef ''DurableObjectSetAlarmOptions'' [])] (TRef
          ''Promise'' [TVoid])),
      Meth False ''sync'' (Sig [] [] (TRef ''Promise'' [TVoid])),
      Prop False False ''sql'' (TRef ''SqlStorage'' []),
      Prop False False ''kv'' (TRef ''SyncKvStorage'' []),
      Meth False ''transactionSync'' (Sig [TParam ''T'' None None] [(Req, TFun (Sig [] [] (TRef ''T''
          [])))] (TRef ''T'' [])),
      Meth False ''getCurrentBookmark'' (Sig [] [] (TRef ''Promise'' [TString])),
      Meth False ''getBookmarkForTime'' (Sig [] [(Req, TUnion [TNumber, TRef ''Date'' []])] (TRef
          ''Promise'' [TString])),
      Meth False ''onNextSessionRestoreBookmark'' (Sig [] [(Req, TString)] (TRef ''Promise'' [TString]))]"

definition TextEncoder_decl :: ts_decl where
  "TextEncoder_decl = Class ''TextEncoder'' False [] [] [] [
      New (Sig [] [] TThis),
      Meth False ''encode'' (Sig [] [(Opt, TString)] (TRef ''Uint8Array'' [])),
      Meth False ''encodeInto'' (Sig [] [(Req, TString), (Req, TRef ''Uint8Array'' [])] (TRef
          ''TextEncoderEncodeIntoResult'' [])),
      Getter ''encoding'' TString]"

definition HeadersInit_decl :: ts_decl where
  "HeadersInit_decl = Alias ''HeadersInit'' [] (TUnion [TRef ''Headers'' [], TRef ''Iterable'' [TRef
      ''Iterable'' [TString]], TRef ''Record'' [TString, TString]])"

definition Headers_decl :: ts_decl where
  "Headers_decl = Class ''Headers'' False [] [] [] [
      New (Sig [] [(Opt, TRef ''HeadersInit'' [])] TThis),
      Meth False ''get'' (Sig [] [(Req, TString)] (TUnion [TString, TNull])),
      Meth False ''getAll'' (Sig [] [(Req, TString)] (TArray TString)),
      Meth False ''getSetCookie'' (Sig [] [] (TArray TString)),
      Meth False ''has'' (Sig [] [(Req, TString)] TBoolean),
      Meth False ''set'' (Sig [] [(Req, TString), (Req, TString)] TVoid),
      Meth False ''append'' (Sig [] [(Req, TString), (Req, TString)] TVoid),
      Meth False ''delete'' (Sig [] [(Req, TString)] TVoid),
      Meth False ''forEach'' (Sig [TParam ''This'' None (Some TUnknown)] [(Req, TFun (Sig [] [(Req, TRef
          ''This'' []), (Req, TString), (Req, TString), (Req, TRef ''Headers'' [])] TVoid)), (Opt, TRef
          ''This'' [])] TVoid),
      Meth False ''entries'' (Sig [] [] (TRef ''IterableIterator'' [TTuple [(Req, TString), (Req,
          TString)]])),
      Meth False ''keys'' (Sig [] [] (TRef ''IterableIterator'' [TString])),
      Meth False ''values'' (Sig [] [] (TRef ''IterableIterator'' [TString])),
      Meth False ''@@Symbol.iterator'' (Sig [] [] (TRef ''IterableIterator'' [TTuple [(Req, TString), (Req,
          TString)]]))]"

definition BodyInit_decl :: ts_decl where
  "BodyInit_decl = Alias ''BodyInit'' [] (TUnion [
      TRef ''ReadableStream'' [TRef ''Uint8Array'' []],
      TString,
      TRef ''ArrayBuffer'' [],
      TRef ''ArrayBufferView'' [],
      TRef ''Blob'' [],
      TRef ''URLSearchParams'' [],
      TRef ''FormData'' [],
      TRef ''Iterable'' [TUnion [TRef ''ArrayBuffer'' [], TRef ''ArrayBufferView'' []]],
      TRef ''AsyncIterable'' [TUnion [TRef ''ArrayBuffer'' [], TRef ''ArrayBufferView'' []]]])"

definition Body_decl :: ts_decl where
  "Body_decl = Class ''Body'' True [] [] [] [
      Getter ''body'' (TUnion [TRef ''ReadableStream'' [], TNull]),
      Getter ''bodyUsed'' TBoolean,
      Meth False ''arrayBuffer'' (Sig [] [] (TRef ''Promise'' [TRef ''ArrayBuffer'' []])),
      Meth False ''bytes'' (Sig [] [] (TRef ''Promise'' [TRef ''Uint8Array'' []])),
      Meth False ''text'' (Sig [] [] (TRef ''Promise'' [TString])),
      Meth False ''json'' (Sig [TParam ''T'' None None] [] (TRef ''Promise'' [TRef ''T'' []])),
      Meth False ''formData'' (Sig [] [] (TRef ''Promise'' [TRef ''FormData'' []])),
      Meth False ''blob'' (Sig [] [] (TRef ''Promise'' [TRef ''Blob'' []]))]"

definition Response_var :: ts_decl where
  "Response_var = Var ''Response'' (TObj [
      Prop False False ''prototype'' (TRef ''Response'' []),
      New (Sig [] [(Opt, TUnion [TRef ''BodyInit'' [], TNull]), (Opt, TRef ''ResponseInit'' [])] (TRef
          ''Response'' [])),
      Meth False ''error'' (Sig [] [] (TRef ''Response'' [])),
      Meth False ''redirect'' (Sig [] [(Req, TString), (Opt, TNumber)] (TRef ''Response'' [])),
      Meth False ''json'' (Sig [] [(Req, TAny), (Opt, TUnion [TRef ''ResponseInit'' [], TRef ''Response''
          []])] (TRef ''Response'' []))])"

definition Response_decl :: ts_decl where
  "Response_decl = Interface ''Response'' [] [TRef ''Body'' []] [
      Meth False ''clone'' (Sig [] [] (TRef ''Response'' [])),
      Prop False False ''status'' TNumber,
      Prop False False ''statusText'' TString,
      Prop False False ''headers'' (TRef ''Headers'' []),
      Prop False False ''ok'' TBoolean,
      Prop False False ''redirected'' TBoolean,
      Prop False False ''url'' TString,
      Prop False False ''webSocket'' (TUnion [TRef ''WebSocket'' [], TNull]),
      Prop False False ''cf'' (TUnion [TAny, TUndefined]),
      Prop False False ''type'' (TUnion [TStrLit ''default'', TStrLit ''error''])]"

definition ResponseInit_decl :: ts_decl where
  "ResponseInit_decl = Interface ''ResponseInit'' [] [] [
      Prop False True ''status'' TNumber,
      Prop False True ''statusText'' TString,
      Prop False True ''headers'' (TRef ''HeadersInit'' []),
      Prop False True ''cf'' TAny,
      Prop False True ''webSocket'' (TUnion [TRef ''WebSocket'' [], TNull]),
      Prop False True ''encodeBody'' (TUnion [TStrLit ''automatic'', TStrLit ''manual''])]"

definition RequestInfo_decl :: ts_decl where
  "RequestInfo_decl = Alias ''RequestInfo'' [TParam ''CfHostMetadata'' None (Some TUnknown), TParam ''Cf''
      None (Some (TRef ''CfProperties'' [TRef ''CfHostMetadata'' []]))] (TUnion [TRef ''Request'' [TRef
      ''CfHostMetadata'' [], TRef ''Cf'' []], TString])"

definition Request_var :: ts_decl where
  "Request_var = Var ''Request'' (TObj [
      Prop False False ''prototype'' (TRef ''Request'' []),
      New (Sig [TParam ''CfHostMetadata'' None (Some TUnknown), TParam ''Cf'' None (Some (TRef
          ''CfProperties'' [TRef ''CfHostMetadata'' []]))] [(Req, TUnion [TRef ''RequestInfo'' [TRef
          ''CfProperties'' []], TRef ''URL'' []]), (Opt, TRef ''RequestInit'' [TRef ''Cf'' []])] (TRef
          ''Request'' [TRef ''CfHostMetadata'' [], TRef ''Cf'' []]))])"

definition Request_decl :: ts_decl where
  "Request_decl = Interface ''Request'' [TParam ''CfHostMetadata'' None (Some TUnknown), TParam ''Cf'' None
      (Some (TRef ''CfProperties'' [TRef ''CfHostMetadata'' []]))] [TRef ''Body'' []] [
      Meth False ''clone'' (Sig [] [] (TRef ''Request'' [TRef ''CfHostMetadata'' [], TRef ''Cf'' []])),
      Prop False False ''method'' TString,
      Prop False False ''url'' TString,
      Prop False False ''headers'' (TRef ''Headers'' []),
      Prop False False ''redirect'' TString,
      Prop False False ''fetcher'' (TUnion [TRef ''Fetcher'' [], TNull]),
      Prop False False ''signal'' (TRef ''AbortSignal'' []),
      Prop False True ''cf'' (TRef ''Cf'' []),
      Prop False False ''integrity'' TString,
      Prop False False ''keepalive'' TBoolean,
      Prop False True ''cache'' (TUnion [TStrLit ''no-store'', TStrLit ''no-cache''])]"

definition RequestInit_decl :: ts_decl where
  "RequestInit_decl = Interface ''RequestInit'' [TParam ''Cf'' None (Some (TRef ''CfProperties'' []))] [] [
      Prop False True ''method'' TString,
      Prop False True ''headers'' (TRef ''HeadersInit'' []),
      Prop False True ''body'' (TUnion [TRef ''BodyInit'' [], TNull]),
      Prop False True ''redirect'' TString,
      Prop False True ''fetcher'' (TUnion [TRef ''Fetcher'' [], TNull]),
      Prop False True ''cf'' (TRef ''Cf'' []),
      Prop False True ''cache'' (TUnion [TStrLit ''no-store'', TStrLit ''no-cache'']),
      Prop False True ''integrity'' TString,
      Prop False True ''signal'' (TUnion [TRef ''AbortSignal'' [], TNull]),
      Prop False True ''encodeResponseBody'' (TUnion [TStrLit ''automatic'', TStrLit ''manual''])]"

definition Fetcher_decl :: ts_decl where
  "Fetcher_decl = Alias ''Fetcher'' [TParam ''T'' (Some (TUnion [TRef ''Rpc.EntrypointBranded'' [],
      TUndefined])) (Some TUndefined), TParam ''Reserved'' (Some TString) (Some TNever)] (TInter [TCond
      (TRef ''T'' []) (TRef ''Rpc.EntrypointBranded'' []) (TRef ''Rpc.Provider'' [TRef ''T'' [], TUnion
      [TRef ''Reserved'' [], TStrLit ''fetch'', TStrLit ''connect'']]) TUnknown, TObj [Meth False ''fetch''
      (Sig [] [(Req, TUnion [TRef ''RequestInfo'' [], TRef ''URL'' []]), (Opt, TRef ''RequestInit'' [])]
      (TRef ''Promise'' [TRef ''Response'' []])), Meth False ''connect'' (Sig [] [(Req, TUnion [TRef
      ''SocketAddress'' [], TString]), (Opt, TRef ''SocketOptions'' [])] (TRef ''Socket'' []))]])"

definition ReadableStream_decl :: ts_decl where
  "ReadableStream_decl = Interface ''ReadableStream'' [TParam ''R'' None (Some TAny)] [] [
      Getter ''locked'' TBoolean,
      Meth False ''cancel'' (Sig [] [(Opt, TAny)] (TRef ''Promise'' [TVoid])),
      Meth False ''getReader'' (Sig [] [] (TRef ''ReadableStreamDefaultReader'' [TRef ''R'' []])),
      Meth False ''getReader'' (Sig [] [(Req, TRef ''ReadableStreamGetReaderOptions'' [])] (TRef
          ''ReadableStreamBYOBReader'' [])),
      Meth False ''pipeThrough'' (Sig [TParam ''T'' None None] [(Req, TRef ''ReadableWritablePair'' [TRef
          ''T'' [], TRef ''R'' []]), (Opt, TRef ''StreamPipeOptions'' [])] (TRef ''ReadableStream'' [TRef
          ''T'' []])),
      Meth False ''pipeTo'' (Sig [] [(Req, TRef ''WritableStream'' [TRef ''R'' []]), (Opt, TRef
          ''StreamPipeOptions'' [])] (TRef ''Promise'' [TVoid])),
      Meth False ''tee'' (Sig [] [] (TTuple [(Req, TRef ''ReadableStream'' [TRef ''R'' []]), (Req, TRef
          ''ReadableStream'' [TRef ''R'' []])])),
      Meth False ''values'' (Sig [] [(Opt, TRef ''ReadableStreamValuesOptions'' [])] (TRef
          ''AsyncIterableIterator'' [TRef ''R'' []])),
      Meth False ''@@Symbol.asyncIterator'' (Sig [] [(Opt, TRef ''ReadableStreamValuesOptions'' [])] (TRef
          ''AsyncIterableIterator'' [TRef ''R'' []]))]"

definition ReadableStream_var :: ts_decl where
  "ReadableStream_var = Var ''ReadableStream'' (TObj [
      Prop False False ''prototype'' (TRef ''ReadableStream'' []),
      New (Sig [] [(Req, TRef ''UnderlyingByteSource'' []), (Opt, TRef ''QueuingStrategy'' [TRef
          ''Uint8Array'' []])] (TRef ''ReadableStream'' [TRef ''Uint8Array'' []])),
      New (Sig [TParam ''R'' None (Some TAny)] [(Opt, TRef ''UnderlyingSource'' [TRef ''R'' []]), (Opt,
          TRef ''QueuingStrategy'' [TRef ''R'' []])] (TRef ''ReadableStream'' [TRef ''R'' []]))])"

definition URL_decl :: ts_decl where
  "URL_decl = Class ''URL'' False [] [] [] [
      New (Sig [] [(Req, TUnion [TString, TRef ''URL'' []]), (Opt, TUnion [TString, TRef ''URL'' []])]
          TThis),
      Getter ''origin'' TString,
      Getter ''href'' TString,
      Setter ''href'' TString,
      Getter ''protocol'' TString,
      Setter ''protocol'' TString,
      Getter ''username'' TString,
      Setter ''username'' TString,
      Getter ''password'' TString,
      Setter ''password'' TString,
      Getter ''host'' TString,
      Setter ''host'' TString,
      Getter ''hostname'' TString,
      Setter ''hostname'' TString,
      Getter ''port'' TString,
      Setter ''port'' TString,
      Getter ''pathname'' TString,
      Setter ''pathname'' TString,
      Getter ''search'' TString,
      Setter ''search'' TString,
      Getter ''hash'' TString,
      Setter ''hash'' TString,
      Getter ''searchParams'' (TRef ''URLSearchParams'' []),
      Meth False ''toJSON'' (Sig [] [] TString),
      Meth False ''toString'' (Sig [] [] TString),
      Static (Meth False ''canParse'' (Sig [] [(Req, TString), (Opt, TString)] TBoolean)),
      Static (Meth False ''parse'' (Sig [] [(Req, TString), (Opt, TString)] (TUnion [TRef ''URL'' [],
          TNull]))),
      Static (Meth False ''createObjectURL'' (Sig [] [(Req, TUnion [TRef ''File'' [], TRef ''Blob'' []])]
          TString)),
      Static (Meth False ''revokeObjectURL'' (Sig [] [(Req, TString)] TVoid))]"

definition IncomingRequestCfProperties_decl :: ts_decl where
  "IncomingRequestCfProperties_decl = Alias ''IncomingRequestCfProperties'' [TParam ''HostMetadata'' None
      (Some TUnknown)] (TInter [TRef ''IncomingRequestCfPropertiesBase'' [], TRef
      ''IncomingRequestCfPropertiesBotManagementEnterprise'' [], TRef
      ''IncomingRequestCfPropertiesCloudflareForSaaSEnterprise'' [TRef ''HostMetadata'' []], TRef
      ''IncomingRequestCfPropertiesGeographicInformation'' [], TRef
      ''IncomingRequestCfPropertiesCloudflareAccessOrApiShield'' []])"

definition CfProperties_decl :: ts_decl where
  "CfProperties_decl = Alias ''CfProperties'' [TParam ''HostMetadata'' None (Some TUnknown)] (TUnion [TRef
      ''IncomingRequestCfProperties'' [TRef ''HostMetadata'' []], TRef ''RequestInitCfProperties'' []])"

definition platform :: type_env where
  "platform =
     [(''__BaseEnv_Env'', BaseEnv_Env_decl),
      (''Env'', Env_decl),
      (''Console'', Console_decl),
      (''ExportedHandlerFetchHandler'', ExportedHandlerFetchHandler_decl),
      (''ExportedHandler'', ExportedHandler_decl),
      (''DurableObjectStub'', DurableObjectStub_decl),
      (''DurableObjectNamespace'', DurableObjectNamespace_decl),
      (''DurableObjectState'', DurableObjectState_decl),
      (''DurableObjectStorage'', DurableObjectStorage_decl),
      (''TextEncoder'', TextEncoder_decl),
      (''HeadersInit'', HeadersInit_decl),
      (''Headers'', Headers_decl),
      (''BodyInit'', BodyInit_decl),
      (''Body'', Body_decl),
      (''Response'', Response_var),
      (''Response'', Response_decl),
      (''ResponseInit'', ResponseInit_decl),
      (''RequestInfo'', RequestInfo_decl),
      (''Request'', Request_var),
      (''Request'', Request_decl),
      (''RequestInit'', RequestInit_decl),
      (''Fetcher'', Fetcher_decl),
      (''ReadableStream'', ReadableStream_decl),
      (''ReadableStream'', ReadableStream_var),
      (''URL'', URL_decl),
      (''IncomingRequestCfProperties'', IncomingRequestCfProperties_decl),
      (''CfProperties'', CfProperties_decl)]"

named_theorems use_simps \<open>what evaluates a use\<close>

lemma platform_lookup [use_simps]:
  "lookup is_type_decl platform ''__BaseEnv_Env'' = Some BaseEnv_Env_decl"
  "lookup is_type_decl platform ''Env'' = Some Env_decl"
  "lookup is_type_decl platform ''Console'' = Some Console_decl"
  "lookup is_type_decl platform ''ExportedHandlerFetchHandler'' = Some ExportedHandlerFetchHandler_decl"
  "lookup is_type_decl platform ''ExportedHandler'' = Some ExportedHandler_decl"
  "lookup is_type_decl platform ''DurableObjectStub'' = Some DurableObjectStub_decl"
  "lookup is_type_decl platform ''DurableObjectNamespace'' = Some DurableObjectNamespace_decl"
  "lookup is_type_decl platform ''DurableObjectState'' = Some DurableObjectState_decl"
  "lookup is_type_decl platform ''DurableObjectStorage'' = Some DurableObjectStorage_decl"
  "lookup is_type_decl platform ''TextEncoder'' = Some TextEncoder_decl"
  "lookup is_type_decl platform ''HeadersInit'' = Some HeadersInit_decl"
  "lookup is_type_decl platform ''Headers'' = Some Headers_decl"
  "lookup is_type_decl platform ''BodyInit'' = Some BodyInit_decl"
  "lookup is_type_decl platform ''Body'' = Some Body_decl"
  "lookup is_type_decl platform ''Response'' = Some Response_decl"
  "lookup is_type_decl platform ''ResponseInit'' = Some ResponseInit_decl"
  "lookup is_type_decl platform ''RequestInfo'' = Some RequestInfo_decl"
  "lookup is_type_decl platform ''Request'' = Some Request_decl"
  "lookup is_type_decl platform ''RequestInit'' = Some RequestInit_decl"
  "lookup is_type_decl platform ''Fetcher'' = Some Fetcher_decl"
  "lookup is_type_decl platform ''ReadableStream'' = Some ReadableStream_decl"
  "lookup is_type_decl platform ''URL'' = Some URL_decl"
  "lookup is_type_decl platform ''IncomingRequestCfProperties'' = Some IncomingRequestCfProperties_decl"
  "lookup is_type_decl platform ''CfProperties'' = Some CfProperties_decl"
  "lookup is_value_decl platform ''Request'' = Some Request_var"
  "lookup is_value_decl platform ''Response'' = Some Response_var"
  "lookup is_value_decl platform ''Headers'' = Some Headers_decl"
  "lookup is_value_decl platform ''URL'' = Some URL_decl"
  "lookup is_value_decl platform ''TextEncoder'' = Some TextEncoder_decl"
  by (simp_all add: platform_def
      BaseEnv_Env_decl_def Env_decl_def Console_decl_def ExportedHandlerFetchHandler_decl_def
      ExportedHandler_decl_def DurableObjectStub_decl_def DurableObjectNamespace_decl_def
      DurableObjectState_decl_def DurableObjectStorage_decl_def TextEncoder_decl_def HeadersInit_decl_def
      Headers_decl_def BodyInit_decl_def Body_decl_def Response_var_def Response_decl_def
      ResponseInit_decl_def RequestInfo_decl_def Request_var_def Request_decl_def RequestInit_decl_def
      Fetcher_decl_def ReadableStream_decl_def ReadableStream_var_def URL_decl_def
      IncomingRequestCfProperties_decl_def CfProperties_decl_def)

text \<open>Library types that the file does not declare.\<close>

lemma lookup_absent: "n \<notin> set (map fst env) \<Longrightarrow> lookup P env n = None"
  by (induction P env n rule: lookup.induct) auto

lemma foreign_lookup [use_simps]:
  "lookup P platform ''ArrayBuffer'' = None" "lookup P platform ''ArrayBufferView'' = None"
  "lookup P platform ''Blob'' = None" "lookup P platform ''URLSearchParams'' = None"
  "lookup P platform ''FormData'' = None" "lookup P platform ''AsyncIterable'' = None"
  "lookup P platform ''Promise'' = None" "lookup P platform ''Iterable'' = None" "lookup P platform ''Uint8Array'' = None"
  by (rule lookup_absent, simp add: platform_def)+

section \<open>The uses, function by function\<close>

abbreviation ref :: "string \<Rightarrow> ts_type" where
  "ref n \<equiv> TRef n []"

abbreviation promise :: "ts_type \<Rightarrow> ts_type" where
  "promise t \<equiv> TRef ''Promise'' [t]"

abbreviation literal :: "(string \<times> ts_type) list \<Rightarrow> ts_type" where
  "literal kts \<equiv> TObj (map (\<lambda>kt. Prop False False (fst kt) (snd kt)) kts)"

definition container_uses :: "api_use list" where
  "container_uses =
     [Invoke (ref ''Console'') ''log'' [] [TString] TVoid,
      Invoke (ref ''Console'') ''error'' [] [TString, TUnknown] TVoid,
      Invoke (ref ''DurableObjectState'') ''blockConcurrencyWhile'' [TVoid] [TFun (Sig [] [] (promise TVoid))] (promise TVoid),
      Invoke (ref ''DurableObjectState'') ''waitUntil'' [] [promise TVoid] TVoid,
      Read (ref ''DurableObjectState'') ''storage'' (ref ''DurableObjectStorage''),
      Invoke (ref ''DurableObjectStorage'') ''put'' [TArray TUnknown] [TString, TArray TUnknown] (promise TVoid),
      Invoke (ref ''DurableObjectStorage'') ''get'' [TArray TUnknown] [TString] (promise (TUnion [TArray TUnknown, TUndefined])),
      Construct ''Request'' [TString] (ref ''Request''),
      Construct ''Request''
        [TString, literal [(''method'', TString), (''headers'', literal [(''content-type'', TString)]), (''body'', TString)]]
        (ref ''Request''),
      Read (ref ''Response'') ''ok'' TBoolean,
      Read (ref ''Response'') ''status'' TNumber,
      Invoke (ref ''Response'') ''json'' [TUnknown] [] (promise TUnknown),
      Invoke (ref ''Response'') ''text'' [] [] (promise TString)]"

definition gate_uses :: "api_use list" where
  "gate_uses =
     [Read (ref ''Request'') ''method'' TString,
      Read (ref ''Request'') ''url'' TString,
      Read (ref ''Request'') ''headers'' (ref ''Headers''),
      Construct ''URL'' [TString] (ref ''URL''),
      Read (ref ''URL'') ''pathname'' TString,
      Construct ''TextEncoder'' [] (ref ''TextEncoder''),
      Invoke (ref ''TextEncoder'') ''encode'' [] [TString] (ref ''Uint8Array''),
      Invoke (ref ''Headers'') ''get'' [] [TString] (TUnion [TString, TNull]),
      Invoke (ref ''Console'') ''warn'' [] [TString] TVoid,
      Construct ''Response''
        [TString, literal [(''status'', TNumber),
           (''headers'', literal [(''content-type'', TString), (''www-authenticate'', TString)])]]
        (ref ''Response'')]"

definition cors_uses :: "api_use list" where
  "cors_uses =
     [Satisfies (literal [(''access-control-allow-origin'', TString), (''access-control-allow-methods'', TString),
        (''access-control-allow-headers'', TString), (''access-control-max-age'', TString)]) (ref ''HeadersInit''),
      Read (ref ''Response'') ''headers'' (ref ''Headers''),
      Construct ''Headers'' [ref ''Headers''] (ref ''Headers''),
      Invoke (ref ''Headers'') ''set'' [] [TString, TString] TVoid,
      Read (ref ''Response'') ''body'' (TUnion [ref ''ReadableStream'', TNull]),
      Read (ref ''Response'') ''statusText'' TString,
      Construct ''Response''
        [TUnion [ref ''ReadableStream'', TNull],
         literal [(''status'', TNumber), (''statusText'', TString), (''headers'', ref ''Headers'')]]
        (ref ''Response''),
      Construct ''Response'' [TNull, literal [(''status'', TNumber), (''headers'', ref ''HeadersInit'')]] (ref ''Response'')]"

definition handler_uses :: "api_use list" where
  "handler_uses =
     [Read (ref ''Env'') ''C2_CONTAINER'' (TRef ''DurableObjectNamespace'' [ref ''import:./src/index.C2Container'']),
      Invoke (TRef ''DurableObjectNamespace'' [ref ''import:./src/index.C2Container'']) ''getByName'' [] [TString]
        (TRef ''DurableObjectStub'' [ref ''import:./src/index.C2Container'']),
      Invoke (TRef ''DurableObjectStub'' [ref ''import:./src/index.C2Container'']) ''fetch'' [] [ref ''Request'']
        (promise (ref ''Response'')),
      Satisfies (literal [(''fetch'', TFun (Sig [] [(Req, ref ''Request''), (Req, ref ''Env'')] (promise (ref ''Response''))))])
        (TRef ''ExportedHandler'' [ref ''Env''])]"


section \<open>Evaluating a use\<close>

lemmas check_simps = use_simps assignable.simps Let_def union_of_def inter_of_def object_of_def array_of_def fun_of_def
  ref_of_def holds_opt_def base_fits_def serves_def fun_fits_def args_fit_def full_ref_def unfold_decl_def
  bind_def subst_member_def call_result_def value_members_def

abbreviation fuel :: nat where "fuel \<equiv> Suc (Suc (Suc (Suc (Suc (Suc (Suc (Suc 0)))))))"

lemma container_uses_ok: "list_all (use_ok fuel platform) container_uses"
  by (simp add: container_uses_def check_simps Console_decl_def DurableObjectState_decl_def
      DurableObjectStorage_decl_def Request_var_def Request_decl_def RequestInfo_decl_def RequestInit_decl_def
      BodyInit_decl_def HeadersInit_decl_def Headers_decl_def Response_decl_def Body_decl_def CfProperties_decl_def
      ReadableStream_decl_def cong: conj_left_cong disj_left_cong)

lemma gate_uses_ok: "list_all (use_ok fuel platform) gate_uses"
  by (simp add: gate_uses_def check_simps Console_decl_def Request_decl_def URL_decl_def TextEncoder_decl_def
      Headers_decl_def Response_var_def ResponseInit_decl_def BodyInit_decl_def HeadersInit_decl_def Response_decl_def
      Body_decl_def ReadableStream_decl_def cong: conj_left_cong disj_left_cong)

lemma cors_uses_ok: "list_all (use_ok fuel platform) cors_uses"
  by (simp add: cors_uses_def check_simps Response_decl_def Body_decl_def
      Headers_decl_def Response_var_def ResponseInit_decl_def BodyInit_decl_def HeadersInit_decl_def ReadableStream_decl_def
      cong: conj_left_cong disj_left_cong)

lemma handler_uses_ok: "list_all (use_ok fuel platform) handler_uses"
  by (simp add: handler_uses_def check_simps Env_decl_def BaseEnv_Env_decl_def DurableObjectNamespace_decl_def
      DurableObjectStub_decl_def Fetcher_decl_def RequestInfo_decl_def Request_decl_def ExportedHandler_decl_def
      ExportedHandlerFetchHandler_decl_def CfProperties_decl_def Response_decl_def Body_decl_def
      cong: conj_left_cong disj_left_cong)


definition index_uses :: "api_use list" where
  "index_uses = container_uses @ gate_uses @ cors_uses @ handler_uses"


end
