(* ===== verification/Front_Door.thy ===== *)
theory Front_Door
  imports Web_API
begin

text \<open>
  The Worker's front door of \<open>deploy/cloudflare/src/index.ts\<close>: which paths need the shared Bearer
  token, the extraction and the comparison of the presented token, the CORS decoration of every
  response, the environment handed to the container, and the \<open>fetch\<close> handler that composes them
  in front of the singleton Durable Object. Console output is not part of the model.
\<close>

section \<open>The environment of the Worker\<close>

text \<open>
  \<open>EnvWithAuth\<close> and the optional LLM bindings. The binding \<open>C2_CONTAINER\<close> is the namespace
  argument of \<open>worker_fetch\<close>: the Durable Object instances by name.
\<close>

record worker_env =
  C2_API_TOKEN :: "jstring option"
  LLM_BASE_URL :: "jstring option"
  LLM_API_KEY :: "jstring option"
  LLM_MODEL :: "jstring option"

text \<open>A property is set when its value is truthy: present and not the empty string.\<close>

definition set_if_truthy :: "string \<Rightarrow> jstring option \<Rightarrow> (string \<times> jstring) list" where
  "set_if_truthy k v = (case v of None \<Rightarrow> [] | Some s \<Rightarrow> if s = [] then [] else [(k, s)])"

definition optionalContainerEnv :: "worker_env \<Rightarrow> (string \<times> jstring) list" where
  "optionalContainerEnv env =
     set_if_truthy ''LLM_BASE_URL'' (LLM_BASE_URL env) @
     set_if_truthy ''LLM_API_KEY'' (LLM_API_KEY env) @
     set_if_truthy ''LLM_MODEL'' (LLM_MODEL env)"

text \<open>Object spread \<open>{...a, ...b}\<close>: a key of \<open>b\<close> replaces the value at its place in \<open>a\<close>.\<close>

fun spread_key :: "(string \<times> 'v) list \<Rightarrow> string \<Rightarrow> 'v \<Rightarrow> (string \<times> 'v) list" where
  "spread_key [] k v = [(k, v)]"
| "spread_key ((k', v') # o1) k v = (if k' = k then (k, v) # o1 else (k', v') # spread_key o1 k v)"

definition spread :: "(string \<times> 'v) list \<Rightarrow> (string \<times> 'v) list \<Rightarrow> (string \<times> 'v) list" where
  "spread a b = foldl (\<lambda>o1 kv. spread_key o1 (fst kv) (snd kv)) a b"

definition default_env_vars :: "(string \<times> jstring) list" where
  "default_env_vars =
     [(''C2_HOST'', units ''0.0.0.0''), (''C2_PORT'', units ''8080''),
      (''AUDIT_PATH'', units ''/tmp/nexus-audit/gate.jsonl'')]"

definition container_env_vars :: "worker_env \<Rightarrow> (string \<times> jstring) list" where
  "container_env_vars env = spread default_env_vars (optionalContainerEnv env)"

section \<open>Which requests need the token\<close>

definition pathRequiresBearer :: "string \<Rightarrow> string \<Rightarrow> bool" where
  "pathRequiresBearer pathname meth =
     (if toUpperCase meth = ''OPTIONS'' then False
      else if pathname = ''/health'' then False
      else pathname = ''/api'' \<or> startsWith pathname ''/api/'')"

section \<open>The presented token\<close>

text \<open>
  \<open>/^Bearer\s+(\S+)/i.exec(header.trim())\<close>: the two character classes are disjoint, so the
  greedy match takes the whole run of white space and then the whole run of other characters.
\<close>

definition bearer_match :: "string \<Rightarrow> string option" where
  "bearer_match s =
     (if lower (take 6 s) = ''bearer'' then
        (let rest = drop 6 s;
             ws = takeWhile is_space rest;
             tok = takeWhile (\<lambda>c. \<not> is_space c) (dropWhile is_space rest)
         in if ws = [] \<or> tok = [] then None else Some tok)
      else None)"

definition extractBearer :: "request \<Rightarrow> string" where
  "extractBearer req =
     (let header = nullish (headers_get (req_headers req) ''Authorization'') ''''
      in nullish (bearer_match (trim header)) '''')"

section \<open>Comparing tokens\<close>

text \<open>Bitwise operators work on 32-bit integers; \<open>ba[i] ?? 0\<close> is 0 past the end.\<close>

type_synonym int32 = "32 word"

definition byte_at :: "byte list \<Rightarrow> nat \<Rightarrow> int32" where
  "byte_at bs i = (if i < length bs then ucast (bs ! i) else 0)"

function tse_loop :: "byte list \<Rightarrow> byte list \<Rightarrow> nat \<Rightarrow> nat \<Rightarrow> int32 \<Rightarrow> int32" where
  "tse_loop ba bb i len diff =
     (if i < len then tse_loop ba bb (Suc i) len (diff OR (byte_at ba i XOR byte_at bb i)) else diff)"
  by pat_completeness auto
termination
  by (relation "measure (\<lambda>(ba, bb, i, len, diff). len - i)") auto

declare tse_loop.simps [simp del]

definition timingSafeEqual :: "jstring \<Rightarrow> jstring \<Rightarrow> bool" where
  "timingSafeEqual a b =
     (let ba = text_encode a; bb = text_encode b;
          len = max (length ba) (length bb);
          diff = (of_nat (length ba) :: int32) XOR of_nat (length bb)
      in tse_loop ba bb 0 len diff = 0)"

section \<open>The authorization decision\<close>

definition unauthorizedResponse :: response where
  "unauthorizedResponse =
     \<lparr>status = 401, statusText = '''',
      resp_headers = [(''content-type'', ''application/json''),
                      (''www-authenticate'', ''Bearer realm=\"sdth-c2-core\"'')],
      resp_body = JsonBody (JObj [(''detail'', JStr ''Unauthorized'')])\<rparr>"

text \<open>\<open>env.C2_API_TOKEN?.trim() ?? ""\<close>\<close>

definition expected_token :: "worker_env \<Rightarrow> jstring" where
  "expected_token env = nullish (map_option js_trim (C2_API_TOKEN env)) []"

definition authorizeRequest :: "request \<Rightarrow> worker_env \<Rightarrow> response option" where
  "authorizeRequest req env =
     (if \<not> pathRequiresBearer (url_pathname (req_url req)) (req_method req) then None
      else
        (let expected = expected_token env in
         if expected = [] then None
         else
           (let presented = extractBearer req in
            if presented = [] \<or> \<not> timingSafeEqual (units presented) expected
            then Some unauthorizedResponse
            else None)))"

section \<open>CORS\<close>

definition corsHeaders :: "request \<Rightarrow> (string \<times> string) list" where
  "corsHeaders req =
     [(''access-control-allow-origin'', nullish (headers_get (req_headers req) ''Origin'') ''*''),
      (''access-control-allow-methods'', ''GET, POST, PUT, OPTIONS''),
      (''access-control-allow-headers'', ''Authorization, Content-Type''),
      (''access-control-max-age'', ''86400'')]"

definition withCors :: "request \<Rightarrow> response \<Rightarrow> response throws" where
  "withCors req resp =
     (let hs = foldl (\<lambda>h kv. headers_set h (fst kv) (snd kv)) (resp_headers resp) (corsHeaders req)
      in new_Response (resp_body resp)
           \<lparr>init_status = status resp, init_statusText = statusText resp, init_headers = hs\<rparr>)"

text \<open>A header object made from a literal: one entry per property, its value normalized.\<close>

definition headers_of_literal :: "(string \<times> string) list \<Rightarrow> headers" where
  "headers_of_literal kvs = map (\<lambda>kv. (fst kv, normalize_value (snd kv))) kvs"

definition corsPreflight :: "request \<Rightarrow> response option" where
  "corsPreflight req =
     (if toUpperCase (req_method req) \<noteq> ''OPTIONS'' then None
      else Some \<lparr>status = 204, statusText = '''', resp_headers = headers_of_literal (corsHeaders req),
                 resp_body = NoBody\<rparr>)"

section \<open>The fetch handler\<close>

text \<open>
  \<open>do_fetch\<close> is the Durable Object's own \<open>fetch\<close>; the namespace holds one object per name, and
  the handler talks to the one named \<open>demo\<close> only.
\<close>

definition worker_fetch ::
    "('d \<Rightarrow> request \<Rightarrow> 'd \<times> response throws) \<Rightarrow> worker_env \<Rightarrow> (string \<Rightarrow> 'd) \<Rightarrow> request \<Rightarrow>
       (string \<Rightarrow> 'd) \<times> response throws" where
  "worker_fetch do_fetch env ns req =
     (case corsPreflight req of
        Some preflight \<Rightarrow> (ns, Inr preflight)
      | None \<Rightarrow>
          (case authorizeRequest req env of
             Some denied \<Rightarrow> (ns, withCors req denied)
           | None \<Rightarrow>
               (let (d, upstream) = do_fetch (ns ''demo'') req
                in (ns(''demo'' := d), try_bind upstream (withCors req)))))"

section \<open>Which requests change the audit trail\<close>

definition shouldPersistAudit :: "request \<Rightarrow> response \<Rightarrow> bool" where
  "shouldPersistAudit req resp =
     (let meth = toUpperCase (req_method req) in
      if meth = ''GET'' \<or> meth = ''HEAD'' \<or> meth = ''OPTIONS'' then False
      else
        (let path = url_pathname (req_url req) in
         if path = ''/api/admin/audit/snapshot'' \<or> path = ''/health'' then False
         else response_ok resp))"


section \<open>The comparison is equality of strings\<close>

lemma xor_eq_0_iff: "a XOR b = 0 \<longleftrightarrow> a = b" for a b :: "'a::len word"
proof
  assume "a XOR b = 0"
  then have "(a XOR b) XOR b = b" by simp
  then show "a = b" by (simp add: xor.assoc)
qed simp

lemma tse_loop_eq_0:
  "tse_loop ba bb i len diff = 0 \<longleftrightarrow>
     diff = 0 \<and> (\<forall>j. i \<le> j \<and> j < len \<longrightarrow> byte_at ba j = byte_at bb j)"
proof (induction ba bb i len diff rule: tse_loop.induct)
  case (1 ba bb i len diff)
  show ?case
  proof (cases "i < len")
    case True
    have split: "(\<forall>j. i \<le> j \<and> j < len \<longrightarrow> P j) \<longleftrightarrow> P i \<and> (\<forall>j. Suc i \<le> j \<and> j < len \<longrightarrow> P j)" for P
      using True by (metis Suc_leD Suc_leI le_eq_less_or_eq)
    have "tse_loop ba bb i len diff =
        tse_loop ba bb (Suc i) len (diff OR (byte_at ba i XOR byte_at bb i))"
      using True by (simp add: tse_loop.simps [of ba bb i len diff])
    then show ?thesis
      by (simp only: 1 [OF True] or_eq_0_iff xor_eq_0_iff conj_assoc
          split [of "\<lambda>j. byte_at ba j = byte_at bb j"])
  next
    case False
    then show ?thesis by (subst tse_loop.simps) auto
  qed
qed

lemma byte_at_inject: "(ucast (a :: byte) :: int32) = ucast b \<longleftrightarrow> a = b"
proof
  assume "(ucast a :: int32) = ucast b"
  then have "unat (ucast a :: int32) = unat (ucast b :: int32)" by simp
  then have "unat a mod 2 ^ 32 = unat b mod 2 ^ 32" by (simp add: unsigned_ucast_eq take_bit_eq_mod)
  moreover have "unat a < 256" "unat b < 256"
    using unsigned_less [of a, where 'a = nat] unsigned_less [of b, where 'a = nat] by simp_all
  ultimately show "a = b" by (simp add: word_unat_eq_iff)
qed simp

lemma timingSafeEqual_bytes:
  assumes "length (text_encode a) < 2 ^ 32" "length (text_encode b) < 2 ^ 32"
  shows "timingSafeEqual a b \<longleftrightarrow> text_encode a = text_encode b"
proof -
  let ?a = "text_encode a" and ?b = "text_encode b"
  have "timingSafeEqual a b \<longleftrightarrow> (of_nat (length ?a) :: int32) = of_nat (length ?b) \<and>
      (\<forall>j < max (length ?a) (length ?b). byte_at ?a j = byte_at ?b j)"
    by (simp add: timingSafeEqual_def tse_loop_eq_0 xor_eq_0_iff Let_def)
  also have "(of_nat (length ?a) :: int32) = of_nat (length ?b) \<longleftrightarrow> length ?a = length ?b"
  proof
    assume "(of_nat (length ?a) :: int32) = of_nat (length ?b)"
    then have "unat (of_nat (length ?a) :: int32) = unat (of_nat (length ?b) :: int32)" by simp
    then show "length ?a = length ?b" using assms by (simp add: unat_of_nat)
  qed simp
  also have "length ?a = length ?b \<and>
      (\<forall>j < max (length ?a) (length ?b). byte_at ?a j = byte_at ?b j) \<longleftrightarrow> ?a = ?b"
    by (auto simp: byte_at_def byte_at_inject list_eq_iff_nth_eq)
  finally show ?thesis .
qed

text \<open>
  Against a byte string (what a header holds) the encodings agree only when the strings do, also
  when the other string has lone surrogates: a replacement character never matches a byte string.
\<close>

lemma scalar_values_small:
  "list_all (\<lambda>n. n < 0xD800) (scalar_values t) \<Longrightarrow> map of_nat (scalar_values t) = t"
proof (induction t rule: scalar_values.induct)
  case (3 u v us)
  have "\<not> high_surrogate u" "\<not> low_surrogate u"
    using "3.prems" by (auto split: if_splits)
  with 3 show ?case by simp
qed (auto split: if_splits)

lemma scalar_values_units: "scalar_values (units p) = map of_char p"
proof -
  have "list_all (\<lambda>u. unat u < 0xD800) s \<Longrightarrow> scalar_values s = map unat s" for s
    by (induction s rule: scalar_values.induct) (auto simp: high_surrogate_def low_surrogate_def)
  moreover have "list_all (\<lambda>u. unat u < 0xD800) (units p)"
    by (auto simp: units_def list_all_iff unat_unit of_char_not_surrogate)
  ultimately show ?thesis by (simp add: units_def comp_def unat_unit)
qed

lemma text_encode_units_iff: "text_encode (units p) = text_encode t \<longleftrightarrow> units p = t"
proof
  assume "text_encode (units p) = text_encode t"
  then have "Some (scalar_values (units p)) = Some (scalar_values t)"
    unfolding text_encode_def
    by (metis scalar_values_bound utf8_decode_encode)
  then have eq: "scalar_values t = map of_char p"
    by (simp add: scalar_values_units)
  then have "list_all (\<lambda>n. n < 0xD800) (scalar_values t)"
    by (auto simp: list_all_iff of_char_not_surrogate)
  from scalar_values_small [OF this] show "units p = t"
    by (simp add: eq units_def comp_def)
qed simp

lemma length_utf8_bytes: "length (utf8_bytes n) \<le> 4" "n < 0x10000 \<Longrightarrow> length (utf8_bytes n) \<le> 3"
  by (simp_all add: utf8_bytes_def)

text \<open>Three bytes a code unit are enough: a four-byte scalar value takes two code units.\<close>

lemma length_text_encode: "length (text_encode s) \<le> 3 * length s"
proof (induction s rule: scalar_values.induct)
  case 1
  then show ?case by (simp add: text_encode_def)
next
  case (2 u)
  have "length (utf8_bytes (unat u)) \<le> 3" "length (utf8_bytes 0xFFFD) \<le> 3"
    using length_utf8_bytes(2) unat_code_unit by simp_all
  then show ?case by (simp add: text_encode_def)
next
  case (3 u v us)
  have "length (utf8_bytes (unat u)) \<le> 3" "length (utf8_bytes 0xFFFD) \<le> 3"
    using length_utf8_bytes(2) unat_code_unit by simp_all
  note small = this
  show ?case
  proof (cases "high_surrogate u \<and> low_surrogate v")
    case True
    let ?n = "0x10000 + (unat u - 0xD800) * 0x400 + (unat v - 0xDC00)"
    have "length (text_encode (u # v # us)) = length (utf8_bytes ?n) + length (text_encode us)"
      using True by (simp add: text_encode_def)
    moreover have "length (text_encode us) \<le> 3 * length us" using "3.IH"(1) True by simp
    ultimately show ?thesis using length_utf8_bytes(1) [of ?n] by simp
  next
    case False
    have "length (text_encode (u # v # us)) \<le> 3 + length (text_encode (v # us))"
      using False small by (auto simp: text_encode_def)
    moreover have "length (text_encode (v # us)) \<le> 3 * length (v # us)"
      using "3.IH"(2-4) False by blast
    ultimately show ?thesis by simp
  qed
qed

text \<open>Engines bound a string's length below \<open>2 ^ 30\<close> code units, so the 32-bit length never wraps.\<close>

lemma text_encode_bound: "length s < 2 ^ 30 \<Longrightarrow> length (text_encode s) < 2 ^ 32"
  using length_text_encode [of s] by simp

section \<open>The presented token\<close>

lemma takeWhile_dropWhile_spaces:
  assumes "list_all is_space w" "t \<noteq> []" "list_all (\<lambda>c. \<not> is_space c) t" "r = [] \<or> is_space (hd r)"
  shows "takeWhile is_space (w @ t @ r) = w"
    and "takeWhile (\<lambda>c. \<not> is_space c) (dropWhile is_space (w @ t @ r)) = t"
proof -
  have "\<not> is_space (hd (t @ r))" using assms(2,3) by (cases t) auto
  with assms(1) show "takeWhile is_space (w @ t @ r) = w"
    by (intro takeWhile_append_stop(1)) auto
  have "dropWhile is_space (w @ t @ r) = t @ r"
    using assms(1) \<open>\<not> is_space (hd (t @ r))\<close> by (intro takeWhile_append_stop(2)) auto
  moreover have "takeWhile (\<lambda>c. \<not> is_space c) (t @ r) = t"
    using assms(3,4) by (intro takeWhile_append_stop(1)) auto
  ultimately show "takeWhile (\<lambda>c. \<not> is_space c) (dropWhile is_space (w @ t @ r)) = t" by simp
qed

lemma length_lower [simp]: "length (lower s) = length s"
  by (simp add: lower_def)

lemma bearer_match_Some:
  "bearer_match s = Some t \<longleftrightarrow>
     (\<exists>p w r. s = p @ w @ t @ r \<and> lower p = ''bearer'' \<and> w \<noteq> [] \<and> list_all is_space w \<and>
        t \<noteq> [] \<and> list_all (\<lambda>c. \<not> is_space c) t \<and> (r = [] \<or> is_space (hd r)))"
  (is "_ \<longleftrightarrow> ?spec")
proof
  assume match: "bearer_match s = Some t"
  define rest where "rest = drop 6 s"
  define w where "w = takeWhile is_space rest"
  define m where "m = dropWhile is_space rest"
  have t: "t = takeWhile (\<lambda>c. \<not> is_space c) m" "w \<noteq> []" "t \<noteq> []" "lower (take 6 s) = ''bearer''"
    using match by (auto simp: bearer_match_def Let_def rest_def w_def m_def split: if_splits)
  define r where "r = dropWhile (\<lambda>c. \<not> is_space c) m"
  have "s = take 6 s @ w @ t @ r"
    by (simp add: t(1) w_def m_def r_def rest_def)
  moreover have "r = [] \<or> is_space (hd r)"
    using hd_dropWhile [of "\<lambda>c. \<not> is_space c" m] by (auto simp: r_def)
  moreover have "list_all is_space w" "list_all (\<lambda>c. \<not> is_space c) t"
    by (simp_all add: w_def t(1) list_all_takeWhile)
  ultimately show ?spec using t by blast
next
  assume ?spec
  then obtain p w r where s: "s = p @ w @ t @ r" and p: "lower p = ''bearer''" and w: "w \<noteq> []"
    and sp: "list_all is_space w" "t \<noteq> []" "list_all (\<lambda>c. \<not> is_space c) t" "r = [] \<or> is_space (hd r)"
    by blast
  have "length p = 6" using arg_cong [OF p, of length] by simp
  then have "take 6 s = p" "drop 6 s = w @ t @ r" by (simp_all add: s)
  then show "bearer_match s = Some t"
    using p w sp takeWhile_dropWhile_spaces [OF sp] by (simp add: bearer_match_def Let_def)
qed

lemma space_not_lowered: "is_space c \<Longrightarrow> ascii_lower_char c = c"
  by (auto simp: is_space_def js_space_code_def ascii_lower_char_def Let_def)

lemma bearer_scheme_not_space:
  assumes "lower p = ''bearer''"
  shows "p \<noteq> []" "\<not> is_space (hd p)"
proof -
  show ne: "p \<noteq> []" using assms by (auto simp: lower_def)
  have "ascii_lower_char (hd p) = CHR ''b''"
    using assms ne by (cases p) (auto simp: lower_def)
  moreover have "\<not> is_space (CHR ''b'')" by (simp add: is_space_def js_space_code_def)
  ultimately show "\<not> is_space (hd p)" using space_not_lowered by metis
qed

lemma trim_surround:
  assumes "list_all is_space pre" "list_all is_space post" "m \<noteq> []" "\<not> is_space (hd m)" "\<not> is_space (last m)"
  shows "trim (pre @ m @ post) = m"
proof -
  have "dropWhile is_space (pre @ m @ post) = m @ post"
    using assms(1,3,4) by (intro takeWhile_append_stop(2)) auto
  moreover have "dropWhile is_space (rev post @ rev m) = rev m"
    using assms(2,3,5) by (intro takeWhile_append_stop(2)) (auto simp: hd_rev list_all_iff)
  ultimately show ?thesis by (simp add: trim_def trim_by_def)
qed

section \<open>Facts of the CORS decoration\<close>

lemma corsHeaders_distinct: "distinct (map (lower \<circ> fst) (corsHeaders req))"
  by (simp add: corsHeaders_def lower_def ascii_lower_char_def)

abbreviation cors_names :: "string set" where
  "cors_names \<equiv> {''access-control-allow-origin'', ''access-control-allow-methods'',
                 ''access-control-allow-headers'', ''access-control-max-age''}"

lemma lower_cors_names: "n \<in> cors_names \<Longrightarrow> lower n = n"
  by (auto simp: lower_def ascii_lower_char_def)

lemma withCors_iff: "withCors req resp = Inr r \<longleftrightarrow> constructible resp \<and> r = resp\<lparr>resp_headers :=
    foldl (\<lambda>h kv. headers_set h (fst kv) (snd kv)) (resp_headers resp) (corsHeaders req)\<rparr>"
  by (auto simp: withCors_def new_Response_def constructible_def Let_def)

lemma withCors_get_cors:
  assumes "withCors req resp = Inr r" "(n, v) \<in> set (corsHeaders req)"
  shows "headers_get (resp_headers r) n = Some (normalize_value v)"
  using assms(1) hdr.get_set_loop_in [OF corsHeaders_distinct assms(2)] by (simp add: withCors_iff)

lemma withCors_get_other:
  assumes "withCors req resp = Inr r" "lower n \<notin> cors_names"
  shows "headers_get (resp_headers r) n = headers_get (resp_headers resp) n"
proof -
  have "lower n \<notin> lower ` fst ` set (corsHeaders req)"
    using assms(2) by (auto simp: corsHeaders_def lower_cors_names)
  then show ?thesis
    using assms(1) by (simp add: withCors_iff hdr.get_set_loop_other)
qed

lemma unauthorized_constructible [simp]: "constructible unauthorizedResponse"
  by (simp add: constructible_def unauthorizedResponse_def reason_phrase_def null_body_status_def)

lemma headers_get_literal:
  assumes "distinct (map (lower \<circ> fst) kvs)" "(n, v) \<in> set kvs"
  shows "headers_get (headers_of_literal kvs) n = Some (normalize_value v)"
proof -
  have "values_of (headers_of_literal kvs) n = [normalize_value v]"
    using assms
  proof (induction kvs)
    case Nil
    then show ?case by simp
  next
    case (Cons kv kvs)
    have other: "values_of (headers_of_literal kvs) n = []" if "lower n \<notin> lower ` fst ` set kvs"
      using that by (force simp: values_of_def headers_of_literal_def filter_empty_conv image_iff)
    show ?case
    proof (cases "kv = (n, v)")
      case True
      then have "lower n \<notin> lower ` fst ` set kvs"
        using Cons.prems(1) by (auto simp: image_image image_iff)
      then show ?thesis using True other by (simp add: headers_of_literal_def)
    next
      case False
      then have there: "(n, v) \<in> set kvs" using Cons.prems(2) by auto
      have d: "distinct (map (lower \<circ> fst) kvs)" using Cons.prems(1) by (simp add: comp_def)
      have "lower (fst kv) \<noteq> lower n"
        using Cons.prems(1) there by (cases kv) (force simp: image_iff)
      then show ?thesis using Cons.IH [OF d there] by (cases kv) (simp add: headers_of_literal_def)
    qed
  qed
  then show ?thesis by (simp add: headers_get_def)
qed

lemma authorizeRequest_cases: "authorizeRequest req env = None \<or> authorizeRequest req env = Some unauthorizedResponse"
  by (simp add: authorizeRequest_def Let_def)


section \<open>Properties of the front door\<close>

text \<open>Claim C33: the constant-time comparison accepts exactly equal strings: on well-formed strings of
  a length an engine can hold, \<open>timingSafeEqual(a, b)\<close> is true if and only if the strings are the
  same, although it compares lengths modulo \<open>2 ^ 32\<close> and folds UTF-8 bytes into one word.\<close>

theorem timingSafeEqual_is_equality:
  assumes "well_formed a" "well_formed b" "length a < 2 ^ 30" "length b < 2 ^ 30"
  shows "timingSafeEqual a b \<longleftrightarrow> a = b"
  using timingSafeEqual_bytes [OF text_encode_bound text_encode_bound, OF assms(3,4)]
    utf8.enc_inject [OF assms(1,2)] by simp

theorem timingSafeEqual_is_equality_witness:
  "\<not> timingSafeEqual (units ''s3cret'') (units ''s3cret!'') \<and>
   timingSafeEqual (units ''s3cret'') (units ''s3cret'')"
  using timingSafeEqual_is_equality [of "units ''s3cret''" "units ''s3cret!''"]
    timingSafeEqual_is_equality [of "units ''s3cret''" "units ''s3cret''"]
  by (simp add: units_inject)

text \<open>Claim C4: a request is refused exactly when its path is protected, a token is configured (the
  trimmed secret is not empty) and the presented Bearer token differs from it; the refusal is always
  the 401 response. In every other case the request passes.\<close>

theorem authorizeRequest_decision:
  assumes "length (extractBearer req) < 2 ^ 30" "length (expected_token env) < 2 ^ 30"
  shows "authorizeRequest req env =
    (if pathRequiresBearer (url_pathname (req_url req)) (req_method req) \<and>
        expected_token env \<noteq> [] \<and> units (extractBearer req) \<noteq> expected_token env
     then Some unauthorizedResponse else None)"
proof -
  have "timingSafeEqual (units (extractBearer req)) (expected_token env) \<longleftrightarrow>
      units (extractBearer req) = expected_token env"
    using assms timingSafeEqual_bytes [OF text_encode_bound text_encode_bound,
        of "units (extractBearer req)" "expected_token env"]
    by (simp add: text_encode_units_iff)
  moreover have "expected_token env \<noteq> [] \<Longrightarrow> extractBearer req = [] \<Longrightarrow>
      units (extractBearer req) \<noteq> expected_token env" by (metis units_Nil_iff)
  ultimately show ?thesis by (auto simp: authorizeRequest_def Let_def)
qed

definition demo_env :: worker_env where
  "demo_env = \<lparr>C2_API_TOKEN = Some (units ''k1''), LLM_BASE_URL = None, LLM_API_KEY = None,
               LLM_MODEL = None\<rparr>"

definition demo_request :: "string \<Rightarrow> string \<Rightarrow> headers \<Rightarrow> request" where
  "demo_request meth path h =
     \<lparr>req_method = meth, req_url = ''https://c2.dev'' @ path, req_headers = h, req_body = NoBody\<rparr>"

lemma demo_expected: "expected_token demo_env = units ''k1''"
  by (simp add: expected_token_def demo_env_def js_trim_def trim_by_def units_def js_space_def
      js_space_code_def)

lemma demo_path:
  "path \<noteq> [] \<Longrightarrow> hd path = CHR ''/'' \<Longrightarrow> CHR ''?'' \<notin> set path \<Longrightarrow> CHR ''#'' \<notin> set path \<Longrightarrow>
     url_pathname (req_url (demo_request meth path h)) = path"
  using url_pathname_split [of "''https''" "''c2.dev''" path "[]"] by (simp add: demo_request_def)

lemma demo_no_bearer: "extractBearer (demo_request meth path []) = ''''"
  by (simp add: extractBearer_def demo_request_def headers_get_def trim_def bearer_match_def lower_def)

theorem authorizeRequest_decision_witness:
  "authorizeRequest (demo_request ''GET'' ''/api/audit/trail'' []) demo_env = Some unauthorizedResponse"
  using authorizeRequest_decision [of "demo_request ''GET'' ''/api/audit/trail'' []" demo_env]
  by (simp add: demo_no_bearer demo_expected demo_path)
     (simp add: demo_request_def pathRequiresBearer_def toUpperCase_def ascii_upper_char_def
       startsWith_def units_inject)

text \<open>The token is read back from the header: whatever the case of the scheme, the
  amount of white space around it and what follows it, the extracted token is the run of
  non-space characters after \<open>Bearer\<close>.\<close>

theorem extractBearer_roundtrip:
  assumes "headers_get (req_headers req) ''Authorization'' = Some (pre @ p @ w @ t @ post)"
    and "list_all is_space pre" "list_all is_space post"
    and "lower p = ''bearer''" "w \<noteq> []" "list_all is_space w"
    and "t \<noteq> []" "list_all (\<lambda>c. \<not> is_space c) t"
  shows "extractBearer req = t"
proof -
  have "\<not> is_space (last t)" using assms(7,8) by (auto simp: list_all_iff)
  then have "trim (pre @ (p @ w @ t) @ post) = p @ w @ t"
    using assms bearer_scheme_not_space [OF assms(4)] by (intro trim_surround) auto
  moreover have "bearer_match (p @ w @ t) = Some t"
    unfolding bearer_match_Some using assms(4-8)
    by (intro exI [of _ p] exI [of _ w] exI [of _ "[]"]) simp
  ultimately show ?thesis using assms(1) by (simp add: extractBearer_def)
qed

theorem extractBearer_roundtrip_witness:
  "extractBearer (demo_request ''GET'' ''/api/x'' [(''authorization'', ''bEaReR  k1 '')]) = ''k1''"
proof -
  have h: "headers_get (req_headers (demo_request ''GET'' ''/api/x''
      [(''authorization'', ''bEaReR  k1 '')])) ''Authorization'' =
    Some ('''' @ ''bEaReR'' @ ''  '' @ ''k1'' @ '' '')"
    unfolding demo_request_def by code_simp
  have low: "lower ''bEaReR'' = ''bearer''" by code_simp
  show ?thesis
    by (rule extractBearer_roundtrip [OF h _ _ low])
       (simp_all add: is_space_def js_space_code_def)
qed

text \<open>Claim C20: a refused request touches nothing: the namespace of Durable Objects is returned
  unchanged, and the answer is the 401 response with its body and challenge, readable across
  origins.\<close>

theorem unauthorized_request_is_inert:
  assumes "pathRequiresBearer (url_pathname (req_url req)) (req_method req)"
    and "expected_token env \<noteq> []" "units (extractBearer req) \<noteq> expected_token env"
    and "length (extractBearer req) < 2 ^ 30" "length (expected_token env) < 2 ^ 30"
  shows "\<exists>r. worker_fetch do_fetch env ns req = (ns, Inr r) \<and> status r = 401 \<and>
    resp_body r = JsonBody (JObj [(''detail'', JStr ''Unauthorized'')]) \<and>
    headers_get (resp_headers r) ''www-authenticate'' = Some ''Bearer realm=\"sdth-c2-core\"'' \<and>
    headers_get (resp_headers r) ''access-control-allow-origin'' =
      Some (normalize_value (nullish (headers_get (req_headers req) ''Origin'') ''*''))"
proof -
  have "corsPreflight req = None"
    using assms(1) by (auto simp: corsPreflight_def pathRequiresBearer_def)
  moreover have "authorizeRequest req env = Some unauthorizedResponse"
    using assms by (simp add: authorizeRequest_decision)
  moreover obtain r where r: "withCors req unauthorizedResponse = Inr r"
    using withCors_iff unauthorized_constructible by blast
  moreover have "status r = 401 \<and> resp_body r = JsonBody (JObj [(''detail'', JStr ''Unauthorized'')])"
    using r by (simp add: withCors_iff unauthorizedResponse_def)
  moreover have "headers_get (resp_headers r) ''www-authenticate'' = Some ''Bearer realm=\"sdth-c2-core\"''"
  proof -
    have low: "lower ''www-authenticate'' = ''www-authenticate''" by code_simp
    have "headers_get (resp_headers unauthorizedResponse) ''www-authenticate'' =
        Some ''Bearer realm=\"sdth-c2-core\"''"
      unfolding unauthorizedResponse_def by code_simp
    then show ?thesis
      using withCors_get_other [OF r, of "''www-authenticate''"] by (simp add: low)
  qed
  moreover have "headers_get (resp_headers r) ''access-control-allow-origin'' =
      Some (normalize_value (nullish (headers_get (req_headers req) ''Origin'') ''*''))"
    by (rule withCors_get_cors [OF r]) (simp add: corsHeaders_def)
  ultimately show ?thesis by (simp add: worker_fetch_def)
qed

lemma demo_audit_trail_protected:
  "pathRequiresBearer (url_pathname (req_url (demo_request ''GET'' ''/api/audit/trail'' h)))
     (req_method (demo_request ''GET'' ''/api/audit/trail'' h))"
  by (simp add: demo_path)
     (simp add: demo_request_def pathRequiresBearer_def toUpperCase_def ascii_upper_char_def
       startsWith_def)

theorem unauthorized_request_is_inert_witness:
  "\<exists>r. worker_fetch (\<lambda>(d::nat) _. (Suc d, Inl ContainerError)) demo_env (\<lambda>_. 0)
          (demo_request ''GET'' ''/api/audit/trail'' []) = ((\<lambda>_. 0), Inr r) \<and> status r = 401"
  using unauthorized_request_is_inert [OF demo_audit_trail_protected, of demo_env "[]"
      "\<lambda>(d::nat) _. (Suc d, Inl ContainerError)" "\<lambda>_. 0"]
  by (auto simp: demo_no_bearer demo_expected units_inject)

text \<open>Every response the front door returns, whether a preflight, a refusal or the container's
  own, carries the four CORS headers, with the request's own origin (or \<open>*\<close>) as the one allowed.\<close>

theorem every_response_has_cors:
  assumes "worker_fetch do_fetch env ns req = (ns', Inr r)"
  shows "headers_get (resp_headers r) ''access-control-allow-origin'' =
           Some (normalize_value (nullish (headers_get (req_headers req) ''Origin'') ''*'')) \<and>
         headers_get (resp_headers r) ''access-control-allow-methods'' = Some ''GET, POST, PUT, OPTIONS'' \<and>
         headers_get (resp_headers r) ''access-control-allow-headers'' = Some ''Authorization, Content-Type'' \<and>
         headers_get (resp_headers r) ''access-control-max-age'' = Some ''86400''"
proof -
  have all: "headers_get (resp_headers r) n = Some (normalize_value v)"
    if "(n, v) \<in> set (corsHeaders req)" for n v
  proof (cases "corsPreflight req")
    case (Some p)
    then have "r = p" using assms by (simp add: worker_fetch_def)
    then show ?thesis
      using Some headers_get_literal [OF corsHeaders_distinct that]
      by (auto simp: corsPreflight_def split: if_splits)
  next
    case None
    then obtain resp where "withCors req resp = Inr r"
      using assms
      by (auto simp: worker_fetch_def try_bind_Inr_iff split: option.splits prod.splits)
    then show ?thesis using that by (rule withCors_get_cors)
  qed
  have norm: "normalize_value ''GET, POST, PUT, OPTIONS'' = ''GET, POST, PUT, OPTIONS''"
    "normalize_value ''Authorization, Content-Type'' = ''Authorization, Content-Type''"
    "normalize_value ''86400'' = ''86400''"
    by (simp_all add: normalize_value_def trim_by_def http_space_def)
  show ?thesis
    using all [of "''access-control-allow-origin''"] all [of "''access-control-allow-methods''"]
      all [of "''access-control-allow-headers''"] all [of "''access-control-max-age''"]
    by (simp add: corsHeaders_def norm)
qed

theorem every_response_has_cors_witness:
  "worker_fetch (\<lambda>(d::nat) _. (d, Inl ContainerError)) demo_env (\<lambda>_. 0)
      (demo_request ''OPTIONS'' ''/api/gate/approve'' [(''Origin'', ''https://ui.dev'')]) =
     ((\<lambda>_. 0), Inr \<lparr>status = 204, statusText = '''',
       resp_headers = headers_of_literal (corsHeaders
         (demo_request ''OPTIONS'' ''/api/gate/approve'' [(''Origin'', ''https://ui.dev'')])),
       resp_body = NoBody\<rparr>) \<and>
   headers_get (headers_of_literal (corsHeaders
       (demo_request ''OPTIONS'' ''/api/gate/approve'' [(''Origin'', ''https://ui.dev'')])))
     ''access-control-max-age'' = Some ''86400''"
proof -
  let ?req = "demo_request ''OPTIONS'' ''/api/gate/approve'' [(''Origin'', ''https://ui.dev'')]"
  have w: "worker_fetch (\<lambda>(d::nat) _. (d, Inl ContainerError)) demo_env (\<lambda>_. 0) ?req =
     ((\<lambda>_. 0), Inr \<lparr>status = 204, statusText = '''',
       resp_headers = headers_of_literal (corsHeaders ?req), resp_body = NoBody\<rparr>)"
    by (simp add: worker_fetch_def corsPreflight_def demo_request_def toUpperCase_def
        ascii_upper_char_def)
  from every_response_has_cors [OF w] w show ?thesis by simp
qed

text \<open>Decorating a response succeeds exactly for the responses the constructor admits, and
  then keeps the status, the status text, the body and every header outside the four CORS names.
  A protocol-switching response (status 101) is refused with a RangeError.\<close>

theorem withCors_preserves:
  "(case withCors req resp of
      Inr r \<Rightarrow> constructible resp \<and> status r = status resp \<and> statusText r = statusText resp \<and>
        resp_body r = resp_body resp \<and>
        (\<forall>n. headers_get (resp_headers r) n \<noteq> headers_get (resp_headers resp) n \<longrightarrow> lower n \<in> cors_names)
    | Inl e \<Rightarrow> \<not> constructible resp \<and> (status resp = 101 \<longrightarrow> e = RangeError))"
proof (cases "withCors req resp")
  case (Inr r)
  then have "constructible resp" "status r = status resp" "statusText r = statusText resp"
    "resp_body r = resp_body resp"
    by (auto simp: withCors_iff)
  then show ?thesis using Inr withCors_get_other [OF Inr] by auto
next
  case (Inl e)
  then have "\<not> constructible resp" using withCors_iff [of req resp] by fastforce
  moreover have "status resp = 101 \<Longrightarrow> e = RangeError"
    using Inl by (simp add: withCors_def new_Response_def Let_def)
  ultimately show ?thesis using Inl by simp
qed

theorem withCors_preserves_witness:
  "\<exists>r. withCors (demo_request ''GET'' ''/health'' [])
      \<lparr>status = 200, statusText = ''OK'', resp_headers = [(''x-a'', ''1'')], resp_body = NoBody\<rparr> = Inr r \<and>
    status r = 200 \<and> resp_body r = NoBody"
proof -
  let ?resp = "\<lparr>status = 200, statusText = ''OK'', resp_headers = [(''x-a'', ''1'')], resp_body = NoBody\<rparr>"
  have "constructible ?resp" by (simp add: constructible_def reason_phrase_def)
  with withCors_preserves [where req = "demo_request ''GET'' ''/health'' []" and resp = ?resp]
  show ?thesis by (auto split: sum.splits)
qed

text \<open>The front door is a stateless proxy in front of one object: whatever the request, no
  instance but the one named \<open>demo\<close> is touched, and a preflight touches none.\<close>

theorem only_the_demo_object_is_touched:
  assumes "worker_fetch do_fetch env ns req = (ns', res)"
  shows "(n \<noteq> ''demo'' \<longrightarrow> ns' n = ns n) \<and> (toUpperCase (req_method req) = ''OPTIONS'' \<longrightarrow> ns' = ns)"
  using assms
  by (auto simp: worker_fetch_def corsPreflight_def split: option.splits prod.splits if_splits)

theorem only_the_demo_object_is_touched_witness:
  "worker_fetch (\<lambda>(d::nat) _. (Suc d, Inl ContainerError)) demo_env (\<lambda>_. 0) (demo_request ''GET'' ''/health'' []) =
     ((\<lambda>_. 0)(''demo'' := 1), Inl ContainerError) \<and>
   ((\<lambda>_. 0 :: nat)(''demo'' := 1)) ''other'' = 0"
proof -
  have path: "url_pathname (req_url (demo_request ''GET'' ''/health'' [])) = ''/health''"
    by (simp add: demo_path)
  have w: "worker_fetch (\<lambda>(d::nat) _. (Suc d, Inl ContainerError)) demo_env (\<lambda>_. 0)
      (demo_request ''GET'' ''/health'' []) = ((\<lambda>_. 0)(''demo'' := 1), Inl ContainerError)"
    by (simp add: worker_fetch_def corsPreflight_def authorizeRequest_def path pathRequiresBearer_def)
       (simp add: demo_request_def toUpperCase_def ascii_upper_char_def)
  with only_the_demo_object_is_touched [OF w, of "''other''"] show ?thesis by simp
qed

text \<open>The container's environment is the three defaults followed by the optional LLM
  settings that are present and not empty: no optional setting ever replaces a default.\<close>

theorem container_env_keeps_defaults:
  "container_env_vars env = default_env_vars @ optionalContainerEnv env"
  by (auto simp: container_env_vars_def spread_def default_env_vars_def optionalContainerEnv_def
      set_if_truthy_def split: option.splits)

text \<open>The Bearer gate looks at the path alone, and only at \<open>/api\<close>: a request for any other
  path, the verification harness's state-changing \<open>/verify/command/approve\<close> among them, reaches the
  container whatever the configured token and whatever the request presents.\<close>

theorem paths_outside_api_are_ungated:
  assumes "url_pathname (req_url req) \<noteq> ''/api''" "\<not> startsWith (url_pathname (req_url req)) ''/api/''"
    and "toUpperCase (req_method req) \<noteq> ''OPTIONS''"
    and "do_fetch (ns ''demo'') req = (d, upstream)"
  shows "worker_fetch do_fetch env ns req = (ns(''demo'' := d), try_bind upstream (withCors req))"
  using assms
  by (simp add: worker_fetch_def corsPreflight_def authorizeRequest_def pathRequiresBearer_def)

theorem paths_outside_api_are_ungated_witness:
  "worker_fetch (\<lambda>(d::nat) _. (Suc d, Inl ContainerError)) demo_env (\<lambda>_. 0)
      (demo_request ''POST'' ''/verify/command/approve'' []) =
     ((\<lambda>_. 0)(''demo'' := 1), Inl ContainerError)"
proof -
  have path: "url_pathname (req_url (demo_request ''POST'' ''/verify/command/approve'' [])) =
      ''/verify/command/approve''"
    by (simp add: demo_path)
  show ?thesis
    using paths_outside_api_are_ungated [of "demo_request ''POST'' ''/verify/command/approve'' []"
        "\<lambda>(d::nat) _. (Suc d, Inl ContainerError)" "\<lambda>_. 0" 1 "Inl ContainerError" demo_env]
    by (simp add: path startsWith_def)
       (simp add: demo_request_def toUpperCase_def ascii_upper_char_def)
qed

text \<open>The gate compares the path before percent-decoding, while the container's server routes
  on the decoded one (\<open>unquote\<close>, as the ASGI interface prescribes): with any token configured, the
  request for \<open>/%61pi/gate/approve\<close> passes without a token and is routed as \<open>/api/gate/approve\<close>.\<close>

theorem percent_encoded_api_path_is_ungated:
  assumes unquote_a: "unquote ''/%61pi/gate/approve'' = ''/api/gate/approve''"
  shows "\<exists>req. pathRequiresBearer (unquote (url_pathname (req_url req))) (req_method req) \<and>
    unquote (url_pathname (req_url req)) = ''/api/gate/approve'' \<and>
    headers_get (req_headers req) ''Authorization'' = None \<and> authorizeRequest req env = None"
proof -
  let ?req = "demo_request ''POST'' ''/%61pi/gate/approve'' []"
  have path: "url_pathname (req_url ?req) = ''/%61pi/gate/approve''" by (simp add: demo_path)
  have meth: "toUpperCase (req_method ?req) = ''POST''"
    by (simp add: demo_request_def toUpperCase_def ascii_upper_char_def)
  have "pathRequiresBearer (unquote (url_pathname (req_url ?req))) (req_method ?req)"
    by (simp add: path unquote_a pathRequiresBearer_def meth startsWith_def)
  moreover have "authorizeRequest ?req env = None"
    by (simp add: authorizeRequest_def path pathRequiresBearer_def startsWith_def)
  moreover have "headers_get (req_headers ?req) ''Authorization'' = None"
    by (simp add: demo_request_def headers_get_def)
  ultimately show ?thesis using path unquote_a by (intro exI [of _ ?req]) simp
qed

fun unquote_61 :: "string \<Rightarrow> string" where
  "unquote_61 [] = []"
| "unquote_61 (c # cs) =
     (if c = CHR ''%'' \<and> take 2 cs = ''61'' then CHR ''a'' # unquote_61 (drop 2 cs) else c # unquote_61 cs)"

theorem percent_encoded_api_path_is_ungated_witness:
  "\<exists>req. unquote_61 (url_pathname (req_url req)) = ''/api/gate/approve'' \<and>
     authorizeRequest req demo_env = None"
  using percent_encoded_api_path_is_ungated [of unquote_61 demo_env] by auto

end
