(* ===== verification/Canonical_JSON.thy ===== *)
theory Canonical_JSON
  imports Web_API "HOL-Library.Char_ord" "HOL-Library.List_Lexorder"
begin

text \<open>
  \<open>canonical_json\<close> of \<open>core/schema.py\<close>: \<open>json.dumps(data, sort_keys=True, separators=(",", ":"))\<close>
  with the standard library's ASCII escapes, the text every digest of the audit trail is taken
  over. The printer is proved injective up to the order of keys, so that a digest stands for the
  value and not only for its text. How a number is printed (Python's \<open>repr\<close> of an int or a float) is
  the parameter \<open>num\<close>; strings are sequences of characters below 256.
\<close>

section \<open>String literals\<close>

definition hex_digit :: "nat \<Rightarrow> char" where
  "hex_digit k = (if k < 10 then char_of (48 + k) else char_of (87 + k))"

definition unhex :: "char \<Rightarrow> nat" where
  "unhex c = (let n = of_char c in if n < 58 then n - 48 else n - 87)"

definition escape_char :: "char \<Rightarrow> string" where
  "escape_char c =
     (let n = of_char c :: nat in
      if n = 34 then [CHR 0x5C, CHR 0x22]
      else if n = 92 then [CHR 0x5C, CHR 0x5C]
      else if n = 10 then [CHR 0x5C, CHR ''n'']
      else if n = 13 then [CHR 0x5C, CHR ''r'']
      else if n = 9 then [CHR 0x5C, CHR ''t'']
      else if n = 12 then [CHR 0x5C, CHR ''f'']
      else if n = 8 then [CHR 0x5C, CHR ''b'']
      else if 32 \<le> n \<and> n \<le> 126 then [c]
      else [CHR 0x5C, CHR ''u'', CHR ''0'', CHR ''0'', hex_digit (n div 16), hex_digit (n mod 16)])"

definition quote :: "string \<Rightarrow> string" where
  "quote s = CHR 0x22 # concat (map escape_char s) @ [CHR 0x22]"

section \<open>Values\<close>

fun print_json :: "(rat \<Rightarrow> string) \<Rightarrow> json \<Rightarrow> string"
and print_elems :: "(rat \<Rightarrow> string) \<Rightarrow> json list \<Rightarrow> string"
and print_members :: "(rat \<Rightarrow> string) \<Rightarrow> (string \<times> json) list \<Rightarrow> string" where
  "print_json num JNull = ''null''"
| "print_json num (JBool b) = (if b then ''true'' else ''false'')"
| "print_json num (JNum q) = num q"
| "print_json num (JStr s) = quote s"
| "print_json num (JArr xs) = CHR ''['' # print_elems num xs @ '']''"
| "print_json num (JObj kvs) = CHR ''{'' # print_members num kvs @ ''}''"
| "print_elems num [] = ''''"
| "print_elems num [x] = print_json num x"
| "print_elems num (x # y # xs) = print_json num x @ CHR '','' # print_elems num (y # xs)"
| "print_members num [] = ''''"
| "print_members num [(k, v)] = quote k @ CHR '':'' # print_json num v"
| "print_members num ((k, v) # kv # kvs) =
     quote k @ CHR '':'' # print_json num v @ CHR '','' # print_members num (kv # kvs)"

text \<open>\<open>sort_keys\<close>: every object's members in the order of their keys.\<close>

fun sort_keys :: "json \<Rightarrow> json" where
  "sort_keys (JArr xs) = JArr (map sort_keys xs)"
| "sort_keys (JObj kvs) = JObj (sort_key fst (map (\<lambda>kv. (fst kv, sort_keys (snd kv))) kvs))"
| "sort_keys j = j"

definition canonical_json :: "(rat \<Rightarrow> string) \<Rightarrow> json \<Rightarrow> string" where
  "canonical_json num j = print_json num (sort_keys j)"

section \<open>The printer is injective\<close>

definition unescape_one :: "string \<Rightarrow> (char \<times> string) option" where
  "unescape_one s =
     (case s of
        [] \<Rightarrow> None
      | c # r \<Rightarrow>
          if of_char c = (92::nat) then
            (case r of
               [] \<Rightarrow> None
             | d # r' \<Rightarrow>
                 if d = CHR ''n'' then Some (char_of (10::nat), r')
                 else if d = CHR ''r'' then Some (char_of (13::nat), r')
                 else if d = CHR ''t'' then Some (char_of (9::nat), r')
                 else if d = CHR ''f'' then Some (char_of (12::nat), r')
                 else if d = CHR ''b'' then Some (char_of (8::nat), r')
                 else if d = CHR ''u'' then
                   (case r' of _ # _ # a # b # r'' \<Rightarrow> Some (char_of (16 * unhex a + unhex b), r'')
                    | _ \<Rightarrow> None)
                 else Some (d, r'))
          else Some (c, r))"

lemma unhex_hex: "k < 16 \<Longrightarrow> unhex (hex_digit k) = k"
  by (auto simp: unhex_def hex_digit_def Let_def)

lemma char_of_nat_of_char: "of_char c = n \<Longrightarrow> char_of (n::nat) = c"
  by auto

lemma of_char_special:
  "of_char c = (34::nat) \<longleftrightarrow> c = CHR 0x22" "of_char c = (92::nat) \<longleftrightarrow> c = CHR 0x5C"
proof -
  have q: "(34::nat) = of_char (CHR 0x22)" "(92::nat) = of_char (CHR 0x5C)" by simp_all
  show "of_char c = (34::nat) \<longleftrightarrow> c = CHR 0x22" unfolding q(1) of_char_eq_iff ..
  show "of_char c = (92::nat) \<longleftrightarrow> c = CHR 0x5C" unfolding q(2) of_char_eq_iff ..
qed

lemma unescape_escape: "unescape_one (escape_char c @ r) = Some (c, r)"
proof -
  have "(of_char c :: nat) div 16 < 16"
    using of_char_bound [of c] by (simp add: less_mult_imp_div_less)
  then have hex: "char_of (16 * unhex (hex_digit (of_char c div 16)) + unhex (hex_digit (of_char c mod 16))) = c"
    by (simp add: unhex_hex)
  show ?thesis
    using hex
    by (auto simp: escape_char_def unescape_one_def Let_def of_char_special dest: char_of_nat_of_char)
qed

lemma escape_not_quote: "escape_char c @ r \<noteq> CHR 0x22 # r'"
  by (auto simp: escape_char_def Let_def of_char_special)

lemma escape_string_inject:
  "concat (map escape_char s) @ CHR 0x22 # x = concat (map escape_char t) @ CHR 0x22 # y \<Longrightarrow> s = t \<and> x = y"
proof (induction s arbitrary: t)
  case Nil
  have False if t: "t = d # t'" for d t'
    using Nil escape_not_quote [of d "concat (map escape_char t') @ CHR 0x22 # y" x] by (simp add: t)
  with Nil show ?case by (cases t) auto
next
  case (Cons c s)
  have "t \<noteq> []"
    using Cons.prems escape_not_quote [of c "concat (map escape_char s) @ CHR 0x22 # x" y] by auto
  then obtain d t' where t: "t = d # t'" by (cases t) auto
  have "unescape_one (escape_char c @ concat (map escape_char s) @ CHR 0x22 # x) =
      unescape_one (escape_char d @ concat (map escape_char t') @ CHR 0x22 # y)"
    using Cons.prems by (simp add: t)
  then show ?case using Cons.IH [of t'] by (simp add: unescape_escape t)
qed

lemma quote_inject: "quote s @ x = quote t @ y \<Longrightarrow> s = t \<and> x = y"
  by (rule escape_string_inject) (simp add: quote_def)


definition numeric :: "char \<Rightarrow> bool" where
  "numeric c \<longleftrightarrow> c \<in> set ''0123456789+-.e''"

text \<open>What the printer needs of number texts: distinct, not empty, and of number characters only.\<close>

definition number_text :: "(rat \<Rightarrow> string) \<Rightarrow> bool" where
  "number_text num \<longleftrightarrow> inj num \<and> (\<forall>q. num q \<noteq> [] \<and> list_all numeric (num q))"

definition stops :: "string \<Rightarrow> bool" where
  "stops x \<longleftrightarrow> x = [] \<or> hd x = CHR '','' \<or> hd x = CHR '']'' \<or> hd x = CHR ''}''"

lemma stops_simps [simp]:
  "stops []" "stops (CHR '','' # x)" "stops (CHR '']'' # x)" "stops (CHR ''}'' # x)"
  by (simp_all add: stops_def)

lemma stops_not_numeric: "stops x \<Longrightarrow> x = [] \<or> \<not> numeric (hd x)"
  by (auto simp: stops_def numeric_def)

lemma number_text_inject:
  assumes "number_text num" "num p @ x = num q @ y" "stops x" "stops y"
  shows "p = q \<and> x = y"
proof -
  have take: "takeWhile numeric (num r @ z) = num r" if "stops z" for r z
    using assms(1) stops_not_numeric [OF that]
    by (intro takeWhile_append_stop(1)) (simp_all add: number_text_def)
  have "num p = takeWhile numeric (num p @ x)" using assms(3) by (rule take [symmetric])
  also have "\<dots> = num q" unfolding assms(2) using assms(4) by (rule take)
  finally have "num p = num q" using assms(2) by simp
  then show ?thesis using assms by (auto simp: number_text_def dest: injD)
qed

lemma number_text_Cons:
  assumes "number_text num"
  obtains c cs where "num q = c # cs" "numeric c"
proof (cases "num q")
  case (Cons c cs)
  moreover have "list_all numeric (num q)" using assms by (simp add: number_text_def)
  ultimately show ?thesis using that by simp
qed (use assms in \<open>simp add: number_text_def\<close>)

text \<open>The first character of a text tells the kind of value, and never closes a container.\<close>

fun opens :: "json \<Rightarrow> char \<Rightarrow> bool" where
  "opens JNull c \<longleftrightarrow> c = CHR ''n''"
| "opens (JBool b) c \<longleftrightarrow> c = (if b then CHR ''t'' else CHR ''f'')"
| "opens (JNum q) c \<longleftrightarrow> numeric c"
| "opens (JStr s) c \<longleftrightarrow> c = CHR 0x22"
| "opens (JArr xs) c \<longleftrightarrow> c = CHR ''[''"
| "opens (JObj kvs) c \<longleftrightarrow> c = CHR ''{''"

lemma print_opens:
  assumes "number_text num"
  obtains c cs where "print_json num j = c # cs" "opens j c"
proof (cases j)
  case (JBool b)
  then show ?thesis using that by (cases b) auto
next
  case (JNum q)
  obtain c cs where "num q = c # cs" "numeric c" using assms by (rule number_text_Cons)
  then show ?thesis using that JNum by simp
qed (use that in \<open>auto simp: quote_def\<close>)

lemma opens_not_stop: "opens j c \<Longrightarrow> \<not> stops (c # x)"
  by (cases j) (auto simp: stops_def numeric_def)

lemma print_not_close:
  assumes "number_text num" "stops (c # y)"
  shows "print_json num j @ x \<noteq> c # y"
  using assms by (metis append_Cons list.inject opens_not_stop print_opens stops_def list.sel(1) list.distinct(1))

lemma print_elems_not_close:
  assumes "number_text num" "xs \<noteq> []"
  shows "print_elems num xs @ x \<noteq> CHR '']'' # y"
  using assms print_not_close [OF assms(1), of "CHR '']''" y]
  by (cases "(num, xs)" rule: print_elems.cases) auto

lemma print_members_not_close: "kvs \<noteq> [] \<Longrightarrow> print_members num kvs @ x \<noteq> CHR ''}'' # y"
  by (cases "(num, kvs)" rule: print_members.cases) (auto simp: quote_def)


lemma opens_same_kind:
  "opens a c \<Longrightarrow> opens b c \<Longrightarrow>
     (case a of JNull \<Rightarrow> b = JNull | JBool x \<Rightarrow> b = JBool x | JNum _ \<Rightarrow> (\<exists>q. b = JNum q)
      | JStr _ \<Rightarrow> (\<exists>s. b = JStr s) | JArr _ \<Rightarrow> (\<exists>xs. b = JArr xs) | JObj _ \<Rightarrow> (\<exists>kvs. b = JObj kvs))"
  by (cases a; cases b) (auto simp: numeric_def split: if_splits)

lemma print_same_open:
  assumes "number_text num" "print_json num a @ x = print_json num b @ y"
  obtains c where "opens a c" "opens b c"
proof -
  obtain c cs where a: "print_json num a = c # cs" "opens a c" using assms(1) by (rule print_opens)
  obtain d ds where b: "print_json num b = d # ds" "opens b d" using assms(1) by (rule print_opens)
  have "c = d" using assms(2) a(1) b(1) by simp
  then show ?thesis using that a(2) b(2) by simp
qed

lemma print_same_kind:
  assumes "number_text num" "print_json num a @ x = print_json num b @ y"
  shows "case a of JNull \<Rightarrow> b = JNull | JBool z \<Rightarrow> b = JBool z | JNum _ \<Rightarrow> (\<exists>q. b = JNum q)
      | JStr _ \<Rightarrow> (\<exists>s. b = JStr s) | JArr _ \<Rightarrow> (\<exists>xs. b = JArr xs) | JObj _ \<Rightarrow> (\<exists>kvs. b = JObj kvs)"
proof -
  obtain c where "opens a c" "opens b c" using assms by (rule print_same_open)
  then show ?thesis by (rule opens_same_kind)
qed

lemma print_inject_all:
  shows "number_text num \<Longrightarrow> print_json num a @ x = print_json num b @ y \<Longrightarrow> stops x \<Longrightarrow> stops y \<Longrightarrow>
           a = b \<and> x = y"
    and "number_text num \<Longrightarrow> print_elems num xs @ CHR '']'' # x = print_elems num ys @ CHR '']'' # y \<Longrightarrow>
           xs = ys \<and> x = y"
    and "number_text num \<Longrightarrow> print_members num kvs @ CHR ''}'' # x = print_members num lws @ CHR ''}'' # y \<Longrightarrow>
           kvs = lws \<and> x = y"
proof (induction num a and num xs and num kvs arbitrary: b x y and ys x y and lws x y
    rule: print_json_print_elems_print_members.induct)
  case (1 num)
  then show ?case using print_same_kind [OF "1.prems"(1,2)] by auto
next
  case (2 num z)
  then show ?case using print_same_kind [OF "2.prems"(1,2)] by (auto split: if_splits)
next
  case (3 num q)
  then obtain q' where "b = JNum q'" using print_same_kind [OF "3.prems"(1,2)] by auto
  then show ?case using 3 number_text_inject [of num q x q' y] by auto
next
  case (4 num s)
  then obtain s' where "b = JStr s'" using print_same_kind [OF "4.prems"(1,2)] by auto
  then show ?case using 4 quote_inject [of s x s' y] by auto
next
  case (5 num xs)
  then obtain ys where b: "b = JArr ys" using print_same_kind [OF "5.prems"(1,2)] by auto
  then have "print_elems num xs @ CHR '']'' # x = print_elems num ys @ CHR '']'' # y"
    using "5.prems"(2) by simp
  from "5.IH" [OF "5.prems"(1) this] b show ?case by simp
next
  case (6 num kvs)
  then obtain lws where b: "b = JObj lws" using print_same_kind [OF "6.prems"(1,2)] by auto
  then have "print_members num kvs @ CHR ''}'' # x = print_members num lws @ CHR ''}'' # y"
    using "6.prems"(2) by simp
  from "6.IH" [OF "6.prems"(1) this] b show ?case by simp
next
  case (7 num)
  then have "ys = []" using print_elems_not_close [of num ys "CHR '']'' # y" x] by (cases ys) force+
  with 7 show ?case by simp
next
  case (8 num e)
  have e: "print_json num e @ CHR '']'' # x = print_elems num ys @ CHR '']'' # y"
    using "8.prems"(2) by simp
  then have "ys \<noteq> []" using print_not_close [OF "8.prems"(1), of "CHR '']''" y e] by auto
  then obtain f zs where ys: "ys = f # zs" by (cases ys) auto
  show ?case
  proof (cases zs)
    case Nil
    then show ?thesis using "8.IH" [OF "8.prems"(1), of "CHR '']'' # x" f "CHR '']'' # y"] e ys by simp
  next
    case (Cons g zs')
    then show ?thesis
      using "8.IH" [OF "8.prems"(1), of "CHR '']'' # x" f "CHR '','' # print_elems num (g # zs') @ CHR '']'' # y"] e ys
      by simp
  qed
next
  case (9 num e e' es)
  have e: "print_json num e @ CHR '','' # print_elems num (e' # es) @ CHR '']'' # x =
      print_elems num ys @ CHR '']'' # y"
    using "9.prems"(2) by simp
  then have "ys \<noteq> []" using print_not_close [OF "9.prems"(1), of "CHR '']''" y e] by auto
  then obtain f zs where ys: "ys = f # zs" by (cases ys) auto
  show ?case
  proof (cases zs)
    case Nil
    then show ?thesis
      using "9.IH"(1) [OF "9.prems"(1), of "CHR '','' # print_elems num (e' # es) @ CHR '']'' # x" f "CHR '']'' # y"] e ys
      by simp
  next
    case (Cons g zs')
    then have "e = f \<and> print_elems num (e' # es) @ CHR '']'' # x = print_elems num (g # zs') @ CHR '']'' # y"
      using "9.IH"(1) [OF "9.prems"(1), of "CHR '','' # print_elems num (e' # es) @ CHR '']'' # x" f
          "CHR '','' # print_elems num (g # zs') @ CHR '']'' # y"] e ys
      by simp
    then show ?thesis using "9.IH"(2) [OF "9.prems"(1), of x "g # zs'" y] ys Cons by simp
  qed
next
  case (10 num)
  then have "lws = []" using print_members_not_close [of lws num "CHR ''}'' # y" x] by (cases lws) force+
  with 10 show ?case by simp
next
  case (11 num k v)
  have e: "quote k @ CHR '':'' # print_json num v @ CHR ''}'' # x = print_members num lws @ CHR ''}'' # y"
    using "11.prems"(2) by simp
  then have "lws \<noteq> []" by (auto simp: quote_def)
  then obtain l w zs where lws: "lws = (l, w) # zs" by (cases lws) auto
  show ?case
  proof (cases zs)
    case Nil
    then have kv: "k = l \<and> print_json num v @ CHR ''}'' # x = print_json num w @ CHR ''}'' # y"
      using quote_inject [of k _ l] e lws by auto
    then show ?thesis using "11.IH" [OF "11.prems"(1), of "CHR ''}'' # x" w "CHR ''}'' # y"] lws Nil by simp
  next
    case (Cons g zs')
    then have kv: "k = l \<and> print_json num v @ CHR ''}'' # x =
        print_json num w @ CHR '','' # print_members num (g # zs') @ CHR ''}'' # y"
      using quote_inject [of k _ l] e lws by (cases g) auto
    then show ?thesis
      using "11.IH" [OF "11.prems"(1), of "CHR ''}'' # x" w "CHR '','' # print_members num (g # zs') @ CHR ''}'' # y"]
      by simp
  qed
next
  case (12 num k v kv kvs)
  have e: "quote k @ CHR '':'' # print_json num v @ CHR '','' # print_members num (kv # kvs) @ CHR ''}'' # x =
      print_members num lws @ CHR ''}'' # y"
    using "12.prems"(2) by simp
  then have "lws \<noteq> []" by (auto simp: quote_def)
  then obtain l w zs where lws: "lws = (l, w) # zs" by (cases lws) auto
  show ?case
  proof (cases zs)
    case Nil
    then have kv: "k = l \<and> print_json num v @ CHR '','' # print_members num (kv # kvs) @ CHR ''}'' # x =
        print_json num w @ CHR ''}'' # y"
      using quote_inject [of k _ l] e lws by auto
    then show ?thesis
      using "12.IH"(1) [OF "12.prems"(1), of "CHR '','' # print_members num (kv # kvs) @ CHR ''}'' # x" w "CHR ''}'' # y"]
      by simp
  next
    case (Cons g zs')
    then have k: "k = l" and v: "print_json num v @ CHR '','' # print_members num (kv # kvs) @ CHR ''}'' # x =
        print_json num w @ CHR '','' # print_members num (g # zs') @ CHR ''}'' # y"
      using quote_inject [of k _ l] e lws by (cases g; auto)+
    have "v = w \<and> print_members num (kv # kvs) @ CHR ''}'' # x = print_members num (g # zs') @ CHR ''}'' # y"
      using "12.IH"(1) [OF "12.prems"(1) v] by simp
    then show ?thesis using "12.IH"(2) [OF "12.prems"(1), of x "g # zs'" y] lws Cons k by simp
  qed
qed

text \<open>The digest input determines the value up to the order of its keys.\<close>

lemma canonical_json_inject:
  assumes "number_text num"
  shows "canonical_json num a = canonical_json num b \<longleftrightarrow> sort_keys a = sort_keys b"
  using print_inject_all(1) [OF assms, of "sort_keys a" "[]" "sort_keys b" "[]"]
  by (auto simp: canonical_json_def)


text \<open>Two objects with the same canonical text agree, key by key, up to key order further down.\<close>

lemma distinct_map_fst_sort_key: "distinct (map fst (sort_key fst kvs)) \<longleftrightarrow> distinct (map fst kvs)"
  by (simp add: distinct_map)

lemma map_of_sorted:
  assumes "distinct (map fst kvs)"
  shows "map_of (sort_key fst kvs) k = map_of kvs k"
proof -
  have "distinct (map fst (sort_key fst kvs))"
    using assms by (metis distinct_map_fst_sort_key)
  then have "map_of (sort_key fst kvs) k = Some v \<longleftrightarrow> map_of kvs k = Some v" for v
    using assms by (simp add: map_of_eq_Some_iff)
  then show ?thesis by (metis not_None_eq)
qed

lemma map_of_map_snd: "map_of (map (\<lambda>kv. (fst kv, f (snd kv))) kvs) k = map_option f (map_of kvs k)"
  by (induction kvs) auto

lemma sort_keys_member:
  assumes "distinct (map fst kvs)"
  shows "json_get (sort_keys (JObj kvs)) k = map_option sort_keys (map_of kvs k)"
proof -
  have "distinct (map fst (map (\<lambda>kv. (fst kv, sort_keys (snd kv))) kvs))"
    using assms by (simp add: comp_def)
  from map_of_sorted [OF this] show ?thesis by (simp add: map_of_map_snd)
qed

lemma sort_keys_eq_member:
  assumes "sort_keys (JObj a) = sort_keys (JObj b)" "distinct (map fst a)" "distinct (map fst b)"
  shows "map_option sort_keys (map_of a k) = map_option sort_keys (map_of b k)"
  using assms by (metis sort_keys_member)


text \<open>A number text that has the three properties: sign, unary numerator, unary denominator.\<close>

definition unary_num :: "rat \<Rightarrow> string" where
  "unary_num q =
     (let (a, b) = quotient_of q in
      (if a < 0 then CHR ''-'' else CHR ''+'') # replicate (nat \<bar>a\<bar>) CHR ''1'' @
        CHR ''e'' # replicate (nat b) CHR ''1'')"

lemma replicate_stop_inject:
  "c \<noteq> d \<Longrightarrow> replicate m c @ d # x = replicate n c @ d # y \<Longrightarrow> m = n \<and> x = y"
proof (induction m arbitrary: n)
  case 0
  then show ?case by (cases n) auto
next
  case (Suc m)
  then show ?case by (cases n) auto
qed

lemma number_text_unary: "number_text unary_num"
proof -
  have "p = q" if eq: "unary_num p = unary_num q" for p q
  proof -
    obtain a b where p: "quotient_of p = (a, b)" by (cases "quotient_of p")
    obtain c d where q: "quotient_of q = (c, d)" by (cases "quotient_of q")
    have sign: "(a < 0) = (c < 0)"
      using eq by (auto simp: unary_num_def p q split: if_splits)
    have "replicate (nat \<bar>a\<bar>) CHR ''1'' @ CHR ''e'' # replicate (nat b) CHR ''1'' =
        replicate (nat \<bar>c\<bar>) CHR ''1'' @ CHR ''e'' # replicate (nat d) CHR ''1''"
      using eq sign by (simp add: unary_num_def p q)
    then have *: "nat \<bar>a\<bar> = nat \<bar>c\<bar> \<and> replicate (nat b) CHR ''1'' = replicate (nat d) CHR ''1''"
      by (rule replicate_stop_inject [rotated]) simp
    then have "nat b = nat d" by (metis length_replicate)
    moreover have "0 < b" "0 < d" using p q by (simp_all add: quotient_of_denom_pos)
    ultimately have "a = c" "b = d" using sign * by linarith+
    then show ?thesis using p q by (metis quotient_of_inject)
  qed
  then have "inj unary_num" by (rule injI)
  moreover have "unary_num q \<noteq> [] \<and> list_all numeric (unary_num q)" for q
    by (auto simp: unary_num_def numeric_def list_all_iff split_beta)
  ultimately show ?thesis by (simp add: number_text_def)
qed

end
