(* ===== verification/Audit_Chain.thy ===== *)
theory Audit_Chain
  imports Canonical_JSON "HOL-Library.AList" "HOL-Library.Multiset"
begin

text \<open>
  The append-only audit log of \<open>core/audit.py\<close> that the Worker snapshots and restores: the walk that
  finds the first broken link, the full verification that recomputes every digest, the demo's
  one-character tamper, and the logger with its file. A record is a Python dict, an association
  list with distinct keys; the jsonl file is the list of its records, or absent. The digest
  function (\<open>hashlib.sha256(...).hexdigest()\<close>) is the parameter \<open>sha\<close>, the printing of numbers
  \<open>num\<close>, the clock's reading an argument of \<open>append\<close>. The optional EDS sidecar, a native library, is
  switched off (\<open>C2_EDS=0\<close>).
\<close>

section \<open>Records\<close>

type_synonym audit_record = "(string \<times> json) list"

definition GENESIS_PREV :: string where
  "GENESIS_PREV = replicate 64 CHR ''0''"

text \<open>Python truthiness, and \<open>str(v or "")\<close>: \<open>py_str\<close> prints the values that are not strings.\<close>

fun truthy :: "json \<Rightarrow> bool" where
  "truthy JNull = False"
| "truthy (JBool b) = b"
| "truthy (JNum q) = (q \<noteq> 0)"
| "truthy (JStr s) = (s \<noteq> [])"
| "truthy (JArr xs) = (xs \<noteq> [])"
| "truthy (JObj kvs) = (kvs \<noteq> [])"

definition str_or_empty :: "(json \<Rightarrow> string) \<Rightarrow> json option \<Rightarrow> string" where
  "str_or_empty py_str v =
     (case v of
        None \<Rightarrow> ''''
      | Some j \<Rightarrow> if \<not> truthy j then '''' else (case j of JStr s \<Rightarrow> s | _ \<Rightarrow> py_str j))"

text \<open>The record's body: everything but its \<open>hash\<close>.\<close>

definition record_body :: "audit_record \<Rightarrow> audit_record" where
  "record_body rec = filter (\<lambda>kv. fst kv \<noteq> ''hash'') rec"

definition record_digest :: "(string \<Rightarrow> string) \<Rightarrow> (rat \<Rightarrow> string) \<Rightarrow> audit_record \<Rightarrow> string" where
  "record_digest sha num body = sha (canonical_json num (JObj body))"

section \<open>Walking the links\<close>

fun break_from :: "(json \<Rightarrow> string) \<Rightarrow> string \<Rightarrow> nat \<Rightarrow> audit_record list \<Rightarrow> nat option" where
  "break_from py_str prev i [] = None"
| "break_from py_str prev i (rec # recs) =
     (if map_of rec ''prev_hash'' \<noteq> Some (JStr prev) then Some i
      else break_from py_str (str_or_empty py_str (map_of rec ''hash'')) (Suc i) recs)"

definition chain_break_index :: "(json \<Rightarrow> string) \<Rightarrow> audit_record list \<Rightarrow> nat option" where
  "chain_break_index py_str recs = break_from py_str GENESIS_PREV 0 recs"

fun broken_from :: "(json \<Rightarrow> string) \<Rightarrow> string \<Rightarrow> audit_record list \<Rightarrow> nat" where
  "broken_from py_str prev [] = 0"
| "broken_from py_str prev (rec # recs) =
     (if map_of rec ''prev_hash'' \<noteq> Some (JStr prev) then 1 else 0) +
     broken_from py_str (str_or_empty py_str (map_of rec ''hash'')) recs"

definition broken_link_count :: "(json \<Rightarrow> string) \<Rightarrow> audit_record list \<Rightarrow> nat" where
  "broken_link_count py_str recs = broken_from py_str GENESIS_PREV recs"

section \<open>Verifying links and digests\<close>

text \<open>The two messages of the walk; an error names the record's index and the message.\<close>

definition BROKEN_LINK :: string where
  "BROKEN_LINK = ''broken prev_hash link''"

definition HASH_MISMATCH :: string where
  "HASH_MISMATCH = ''hash mismatch''"

record chain_verify_result =
  ok :: bool
  total :: nat
  break_index :: "nat option"
  reason :: "string option"
  errors :: "(nat \<times> string) list"

fun verify_errors ::
    "(string \<Rightarrow> string) \<Rightarrow> (rat \<Rightarrow> string) \<Rightarrow> string \<Rightarrow> nat \<Rightarrow> audit_record list \<Rightarrow> (nat \<times> string) list" where
  "verify_errors sha num prev i [] = []"
| "verify_errors sha num prev i (rec # recs) =
     (if map_of rec ''prev_hash'' \<noteq> Some (JStr prev) then [(i, BROKEN_LINK)] else []) @
     (if map_of rec ''hash'' \<noteq> Some (JStr (record_digest sha num (record_body rec)))
      then [(i, HASH_MISMATCH)] else []) @
     verify_errors sha num (case map_of rec ''hash'' of Some (JStr s) \<Rightarrow> s | _ \<Rightarrow> prev) (Suc i) recs"

definition verify_audit_chain ::
    "(string \<Rightarrow> string) \<Rightarrow> (rat \<Rightarrow> string) \<Rightarrow> audit_record list \<Rightarrow> chain_verify_result" where
  "verify_audit_chain sha num recs =
     (let errs = verify_errors sha num GENESIS_PREV 0 recs in
      \<lparr>ok = (errs = []), total = length recs,
       break_index = (case errs of [] \<Rightarrow> None | (i, _) # _ \<Rightarrow> Some i),
       reason = (case errs of [] \<Rightarrow> None | (_, m) # _ \<Rightarrow> Some m),
       errors = errs\<rparr>)"

section \<open>The logger\<close>

record audit_logger =
  log_file :: "audit_record list option"   \<comment> \<open>the jsonl file at \<open>path\<close>; \<open>None\<close>: it does not exist\<close>
  log_prev :: string                        \<comment> \<open>\<open>_prev\<close>\<close>
  log_archived :: "audit_record list list"  \<comment> \<open>the files moved aside by the quarantine\<close>

definition load_audit_records :: "audit_record list option \<Rightarrow> audit_record list" where
  "load_audit_records f = (case f of None \<Rightarrow> [] | Some recs \<Rightarrow> recs)"

definition log_records :: "audit_logger \<Rightarrow> audit_record list" where
  "log_records l = load_audit_records (log_file l)"

definition rewind_from_disk :: "(json \<Rightarrow> string) \<Rightarrow> audit_logger \<Rightarrow> audit_logger" where
  "rewind_from_disk py_str l =
     (let recs = log_records l in
      l\<lparr>log_prev :=
         (if recs = [] then GENESIS_PREV
          else case map_of (last recs) ''hash'' of
                 Some (JStr s) \<Rightarrow> s
               | Some j \<Rightarrow> py_str j
               | None \<Rightarrow> GENESIS_PREV)\<rparr>)"

definition quarantine_if_broken :: "(json \<Rightarrow> string) \<Rightarrow> audit_logger \<Rightarrow> audit_logger" where
  "quarantine_if_broken py_str l =
     (case log_file l of
        None \<Rightarrow> l
      | Some recs \<Rightarrow>
          if recs = [] \<or> chain_break_index py_str recs = None then l
          else l\<lparr>log_file := None, log_archived := log_archived l @ [recs]\<rparr>)"

text \<open>\<open>AuditLogger(path)\<close> over what the disk holds.\<close>

definition open_logger :: "(json \<Rightarrow> string) \<Rightarrow> audit_record list option \<Rightarrow> audit_logger" where
  "open_logger py_str f =
     rewind_from_disk py_str (quarantine_if_broken py_str
       \<lparr>log_file = f, log_prev = GENESIS_PREV, log_archived = []\<rparr>)"

definition replace_records ::
    "(json \<Rightarrow> string) \<Rightarrow> audit_logger \<Rightarrow> audit_record list \<Rightarrow> audit_logger" where
  "replace_records py_str l recs = rewind_from_disk py_str (l\<lparr>log_file := Some recs\<rparr>)"

definition append_record ::
    "(string \<Rightarrow> string) \<Rightarrow> (rat \<Rightarrow> string) \<Rightarrow> audit_logger \<Rightarrow> string \<Rightarrow> string \<Rightarrow> string \<Rightarrow> json \<Rightarrow>
       audit_logger \<times> audit_record" where
  "append_record sha num l now event_name severity data =
     (let body = [(''class_name'', JStr ''Security Finding''), (''activity_name'', JStr event_name),
                  (''severity'', JStr severity), (''time'', JStr now), (''metadata'', data),
                  (''prev_hash'', JStr (log_prev l))];
          digest = record_digest sha num body;
          rec = body @ [(''hash'', JStr digest)]
      in (l\<lparr>log_file := Some (log_records l @ [rec]), log_prev := digest\<rparr>, rec))"


section \<open>What a verified chain is\<close>

text \<open>
  The specification of the walk: every record names the digest of the one before it and stores the
  digest of its own body. \<open>chain_tip\<close> is the digest a next record must name.
\<close>

definition sealed :: "(string \<Rightarrow> string) \<Rightarrow> (rat \<Rightarrow> string) \<Rightarrow> string \<Rightarrow> audit_record \<Rightarrow> bool" where
  "sealed sha num prev rec \<longleftrightarrow> map_of rec ''prev_hash'' = Some (JStr prev) \<and>
     map_of rec ''hash'' = Some (JStr (record_digest sha num (record_body rec)))"

fun sealed_chain :: "(string \<Rightarrow> string) \<Rightarrow> (rat \<Rightarrow> string) \<Rightarrow> string \<Rightarrow> audit_record list \<Rightarrow> bool" where
  "sealed_chain sha num prev [] = True"
| "sealed_chain sha num prev (rec # recs) \<longleftrightarrow>
     sealed sha num prev rec \<and> sealed_chain sha num (record_digest sha num (record_body rec)) recs"

definition chain_tip :: "(string \<Rightarrow> string) \<Rightarrow> (rat \<Rightarrow> string) \<Rightarrow> string \<Rightarrow> audit_record list \<Rightarrow> string" where
  "chain_tip sha num prev recs =
     (if recs = [] then prev else record_digest sha num (record_body (last recs)))"

lemma chain_tip_simps [chain_simps]:
  "chain_tip sha num prev [] = prev"
  "chain_tip sha num prev (rec # recs) = chain_tip sha num (record_digest sha num (record_body rec)) recs"
  "chain_tip sha num prev (recs @ [rec]) = record_digest sha num (record_body rec)"
  by (simp_all add: chain_tip_def)

lemma sealed_chain_append [chain_simps]:
  "sealed_chain sha num prev (xs @ ys) \<longleftrightarrow>
     sealed_chain sha num prev xs \<and> sealed_chain sha num (chain_tip sha num prev xs) ys"
  by (induction xs arbitrary: prev) (simp_all add: chain_simps)

lemma verify_errors_Nil_iff [chain_simps]:
  "verify_errors sha num prev i recs = [] \<longleftrightarrow> sealed_chain sha num prev recs"
  by (induction sha num prev i recs rule: verify_errors.induct) (auto simp: sealed_def)

lemma verify_ok_iff [chain_simps]:
  "ok (verify_audit_chain sha num recs) \<longleftrightarrow> sealed_chain sha num GENESIS_PREV recs"
  by (simp add: verify_audit_chain_def Let_def chain_simps)

lemma verify_total [chain_simps]: "total (verify_audit_chain sha num recs) = length recs"
  by (simp add: verify_audit_chain_def Let_def)

lemma sealed_chain_nth:
  "sealed_chain sha num prev recs \<longleftrightarrow>
     (\<forall>i < length recs. sealed sha num (chain_tip sha num prev (take i recs)) (recs ! i))"
proof (induction recs arbitrary: prev)
  case (Cons rec recs)
  show ?case
    by (simp add: Cons All_less_Suc2 chain_simps)
qed simp

lemma sealed_hash_last:
  "sealed_chain sha num prev recs \<Longrightarrow> recs \<noteq> [] \<Longrightarrow>
     map_of (last recs) ''hash'' = Some (JStr (chain_tip sha num prev recs))"
  by (induction recs arbitrary: prev rule: rev_induct) (auto simp: chain_simps sealed_def)

lemma break_from_sealed:
  "sealed_chain sha num prev recs \<Longrightarrow> \<forall>rec \<in> set recs. record_digest sha num (record_body rec) \<noteq> [] \<Longrightarrow>
     break_from py_str prev i recs = None"
  by (induction recs arbitrary: prev i) (auto simp: sealed_def str_or_empty_def)

lemma broken_from_eq_0 [chain_simps]:
  "broken_from py_str prev recs = 0 \<longleftrightarrow> break_from py_str prev i recs = None"
  by (induction recs arbitrary: prev i) auto

section \<open>The logger keeps its chain verified\<close>

definition logger_ok :: "(string \<Rightarrow> string) \<Rightarrow> (rat \<Rightarrow> string) \<Rightarrow> audit_logger \<Rightarrow> bool" where
  "logger_ok sha num l \<longleftrightarrow> sealed_chain sha num GENESIS_PREV (log_records l) \<and>
     log_prev l = chain_tip sha num GENESIS_PREV (log_records l)"

lemma record_body_append_hash:
  "\<forall>kv \<in> set body. fst kv \<noteq> ''hash'' \<Longrightarrow> record_body (body @ [(''hash'', h)]) = body"
  by (simp add: record_body_def)

lemma append_record_records:
  "append_record sha num l now ev sev data = (l', rec) \<Longrightarrow> log_records l' = log_records l @ [rec]"
  by (auto simp: append_record_def Let_def log_records_def load_audit_records_def)

lemma append_record_sealed:
  assumes "append_record sha num l now ev sev data = (l', rec)"
  shows "sealed sha num (log_prev l) rec \<and> log_prev l' = record_digest sha num (record_body rec)"
  using assms
  by (auto simp: append_record_def Let_def sealed_def record_body_def map_of_append)

lemma append_record_ok:
  assumes "append_record sha num l now ev sev data = (l', rec)" "logger_ok sha num l"
  shows "logger_ok sha num l'"
  using append_record_records [OF assms(1)] append_record_sealed [OF assms(1)] assms(2)
  by (simp add: logger_ok_def chain_simps)

lemma rewind_records [simp]: "log_records (rewind_from_disk py_str l) = log_records l"
  by (simp add: rewind_from_disk_def Let_def log_records_def)

lemma rewind_ok:
  assumes "sealed_chain sha num GENESIS_PREV (log_records l)"
  shows "logger_ok sha num (rewind_from_disk py_str l)"
proof (cases "log_records l = []")
  case True
  then show ?thesis
    by (simp add: logger_ok_def rewind_from_disk_def Let_def log_records_def chain_simps)
next
  case False
  then show ?thesis using assms sealed_hash_last [OF assms False]
    by (simp add: logger_ok_def rewind_from_disk_def Let_def log_records_def)
qed

lemma replace_records_ok:
  "sealed_chain sha num GENESIS_PREV recs \<Longrightarrow> logger_ok sha num (replace_records py_str l recs)"
  unfolding replace_records_def
  by (rule rewind_ok) (simp add: log_records_def load_audit_records_def)

lemma replace_records_records [simp]: "log_records (replace_records py_str l recs) = recs"
  by (simp add: replace_records_def log_records_def load_audit_records_def
      rewind_from_disk_def Let_def)


lemma append_record_error_free [simp]:
  "log_records (fst (append_record sha num l now ev sev data)) =
     log_records l @ [snd (append_record sha num l now ev sev data)]"
  by (simp add: append_record_def Let_def log_records_def load_audit_records_def)

lemma break_from_sealed_None:
  "sealed_chain sha num prev recs \<Longrightarrow> break_from py_str prev i recs = None"
  by (induction recs arbitrary: prev i) (auto simp: sealed_def str_or_empty_def)

lemma open_logger_keeps:
  assumes "sealed_chain sha num GENESIS_PREV recs"
  shows "log_records (open_logger py_str (Some recs)) = recs"
  using break_from_sealed_None [OF assms]
  by (simp add: open_logger_def quarantine_if_broken_def chain_break_index_def log_records_def
      load_audit_records_def rewind_from_disk_def Let_def)

lemma open_logger_fresh: "log_records (open_logger py_str None) = []"
  by (simp add: open_logger_def quarantine_if_broken_def log_records_def load_audit_records_def
      rewind_from_disk_def Let_def)

lemma open_logger_ok:
  "sealed_chain sha num GENESIS_PREV (load_audit_records f) \<Longrightarrow> logger_ok sha num (open_logger py_str f)"
  using open_logger_keeps [of sha num _ py_str] open_logger_fresh [of py_str]
  unfolding open_logger_def
  by (intro rewind_ok) (cases f, auto simp: load_audit_records_def open_logger_def)

text \<open>A program run over the log: appends in order, each with its clock reading.\<close>

record log_event =
  ev_now :: string
  ev_name :: string
  ev_severity :: string
  ev_data :: json

definition append_event ::
    "(string \<Rightarrow> string) \<Rightarrow> (rat \<Rightarrow> string) \<Rightarrow> audit_logger \<Rightarrow> log_event \<Rightarrow> audit_logger" where
  "append_event sha num l e =
     fst (append_record sha num l (ev_now e) (ev_name e) (ev_severity e) (ev_data e))"

lemma append_event_ok: "logger_ok sha num l \<Longrightarrow> logger_ok sha num (append_event sha num l e)"
  unfolding append_event_def by (rule append_record_ok) (rule prod.collapse [symmetric])

lemma append_events_ok: "logger_ok sha num l \<Longrightarrow> logger_ok sha num (foldl (append_event sha num) l es)"
  by (induction es arbitrary: l) (simp_all add: append_event_ok)

lemma append_event_prefix: "prefix (log_records l) (log_records (append_event sha num l e))"
  by (simp add: append_event_def)

lemma append_events_length:
  "length (log_records (foldl (append_event sha num) l es)) = length (log_records l) + length es"
  by (induction es arbitrary: l) (simp_all add: append_event_def)

section \<open>The tamper demo\<close>

datatype py_error = IndexError | TypeErr | ValueError

definition is_digit :: "char \<Rightarrow> bool" where
  "is_digit c = (let n = of_char c :: nat in 48 \<le> n \<and> n \<le> 57 \<or> n = 178 \<or> n = 179 \<or> n = 185)"

definition flip_first :: "string \<Rightarrow> string" where
  "flip_first s = (if hd s \<noteq> CHR ''X'' then CHR ''X'' else CHR ''Y'') # tl s"

text \<open>\<open>_flip_approved(key)\<close>: the changed metadata, or nothing.\<close>

definition flip_approved :: "(string \<times> json) list \<Rightarrow> string \<Rightarrow> (string \<times> json) list option" where
  "flip_approved meta key =
     (case map_of meta key of
        Some (JStr s) \<Rightarrow>
          if s = ''APPROVED'' then Some (AList.update key (JStr ''XPPROVED'') meta)
          else if s \<noteq> [] then Some (AList.update key (JStr (flip_first s)) meta)
          else None
      | _ \<Rightarrow> None)"

fun flip_digit :: "string \<Rightarrow> string option" where
  "flip_digit [] = None"
| "flip_digit (c # cs) =
     (if is_digit c then Some ((if c \<noteq> CHR ''0'' then CHR ''0'' else CHR ''1'') # cs)
      else map_option ((#) c) (flip_digit cs))"

definition flip_time :: "string \<Rightarrow> string" where
  "flip_time ts = (case flip_digit ts of Some ts' \<Rightarrow> ts' | None \<Rightarrow> flip_first ts)"

definition inject_one_char_tamper ::
    "(json \<Rightarrow> string) \<Rightarrow> audit_record list \<Rightarrow> int \<Rightarrow> py_error + audit_record list" where
  "inject_one_char_tamper py_str recs index =
     (if index < 0 \<or> int (length recs) \<le> index then Inl IndexError
      else
        let i = nat index;
            rec = (if map_of (recs ! i) ''metadata'' = None
                   then AList.update ''metadata'' (JObj []) (recs ! i) else recs ! i)
        in
        (case map_of rec ''metadata'' of
           Some (JObj meta) \<Rightarrow>
             (case (case flip_approved meta ''status'' of
                      None \<Rightarrow> flip_approved meta ''verdict'' | Some m \<Rightarrow> Some m) of
                Some meta' \<Rightarrow> Inr (recs[i := AList.update ''metadata'' (JObj meta') rec])
              | None \<Rightarrow>
                  let ts = str_or_empty py_str (map_of rec ''time'') in
                  if ts = [] then Inl ValueError
                  else Inr (recs[i := AList.update ''time'' (JStr (flip_time ts)) rec]))
         | _ \<Rightarrow> Inl TypeErr))"

lemma flip_first_neq: "s \<noteq> [] \<Longrightarrow> flip_first s \<noteq> s"
  by (cases s) (auto simp: flip_first_def)

lemma flip_digit_neq: "flip_digit s = Some t \<Longrightarrow> t \<noteq> s"
  by (induction s arbitrary: t) (auto split: if_splits)

lemma flip_time_neq: "s \<noteq> [] \<Longrightarrow> flip_time s \<noteq> s"
  by (auto simp: flip_time_def flip_first_neq dest: flip_digit_neq split: option.splits)

lemma flip_approved_member:
  assumes "flip_approved meta key = Some meta'"
  shows "\<exists>s t. map_of meta key = Some (JStr s) \<and> map_of meta' key = Some (JStr t) \<and> s \<noteq> t"
  using assms flip_first_neq
  by (auto simp: flip_approved_def update_conv split: option.splits json.splits if_splits)
    metis

lemma flip_approved_distinct:
  "flip_approved meta key = Some meta' \<Longrightarrow> distinct (map fst meta) \<Longrightarrow> distinct (map fst meta')"
  by (auto simp: flip_approved_def distinct_update split: option.splits json.splits if_splits)


text \<open>What the tamper is meant to be: the same links and stored digests, a different body.\<close>

definition same_seal :: "audit_record \<Rightarrow> audit_record \<Rightarrow> bool" where
  "same_seal rec rec' \<longleftrightarrow> map_of rec' ''prev_hash'' = map_of rec ''prev_hash'' \<and>
     map_of rec' ''hash'' = map_of rec ''hash''"

lemma verify_errors_append:
  assumes "sealed_chain sha num prev xs"
  shows "verify_errors sha num prev i (xs @ ys) =
           verify_errors sha num (chain_tip sha num prev xs) (i + length xs) ys"
  using assms by (induction xs arbitrary: prev i) (auto simp: chain_simps sealed_def)

lemma verify_errors_tampered:
  assumes "sealed_chain sha num prev (xs @ rec # ys)" "same_seal rec rec'"
    "record_digest sha num (record_body rec') \<noteq> record_digest sha num (record_body rec)"
  shows "verify_errors sha num prev 0 (xs @ rec' # ys) = [(length xs, HASH_MISMATCH)]"
  using assms
  by (auto simp: verify_errors_append chain_simps sealed_def same_seal_def)

lemma map_of_record_body: "k \<noteq> ''hash'' \<Longrightarrow> map_of (record_body rec) k = map_of rec k"
  unfolding record_body_def by (induction rec) auto

lemma record_body_distinct: "distinct (map fst rec) \<Longrightarrow> distinct (map fst (record_body rec))"
  by (simp add: record_body_def distinct_map_filter)

text \<open>Bodies that differ at one key have different digests, unless the two texts collide.\<close>

definition collides :: "(string \<Rightarrow> string) \<Rightarrow> (rat \<Rightarrow> string) \<Rightarrow> audit_record \<Rightarrow> audit_record \<Rightarrow> bool" where
  "collides sha num a b \<longleftrightarrow> canonical_json num (JObj a) \<noteq> canonical_json num (JObj b) \<and>
     record_digest sha num a = record_digest sha num b"

lemma digest_differs:
  assumes "number_text num" "distinct (map fst a)" "distinct (map fst b)" "\<not> collides sha num a b"
    and "map_option sort_keys (map_of a k) \<noteq> map_option sort_keys (map_of b k)"
  shows "record_digest sha num a \<noteq> record_digest sha num b"
  using assms sort_keys_eq_member [of a b k] canonical_json_inject [OF assms(1)]
  by (auto simp: collides_def)

lemma sort_keys_obj_member_neq:
  assumes "distinct (map fst a)" "distinct (map fst b)"
    "map_option sort_keys (map_of a k) \<noteq> map_option sort_keys (map_of b k)"
  shows "sort_keys (JObj a) \<noteq> sort_keys (JObj b)"
  using assms sort_keys_eq_member by blast

lemma sort_keys_string: "sort_keys j = JStr s \<longleftrightarrow> j = JStr s"
  by (cases j) auto

lemma flip_approved_sort_neq:
  assumes "flip_approved meta key = Some meta'" "distinct (map fst meta)"
  shows "sort_keys (JObj meta') \<noteq> sort_keys (JObj meta)"
  using flip_approved_member [OF assms(1)] flip_approved_distinct [OF assms] assms(2)
  by (intro sort_keys_obj_member_neq [where k = key]) auto

text \<open>A record with distinct keys, its metadata too: what \<open>json.loads\<close> gives.\<close>

definition wf_record :: "audit_record \<Rightarrow> bool" where
  "wf_record rec \<longleftrightarrow> distinct (map fst rec) \<and>
     (\<forall>meta. map_of rec ''metadata'' = Some (JObj meta) \<longrightarrow> distinct (map fst meta))"

lemma time_text_changed:
  assumes "str_or_empty py_str (map_of rec ''time'') \<noteq> []"
  shows "map_option sort_keys (map_of rec ''time'') \<noteq>
     Some (JStr (flip_time (str_or_empty py_str (map_of rec ''time''))))"
  using assms flip_time_neq
  by (auto simp: str_or_empty_def sort_keys_string split: option.splits json.splits if_splits)
    (metis flip_time_neq)+

lemma inject_tamper_shape:
  assumes "inject_one_char_tamper py_str recs index = Inr recs'" "0 \<le> index"
    "wf_record (recs ! nat index)"
  shows "nat index < length recs \<and>
     (\<exists>rec' k. recs' = recs[nat index := rec'] \<and> same_seal (recs ! nat index) rec' \<and>
        distinct (map fst rec') \<and> k \<noteq> ''hash'' \<and>
        map_option sort_keys (map_of rec' k) \<noteq> map_option sort_keys (map_of (recs ! nat index) k))"
proof -
  define rec0 where "rec0 = recs ! nat index"
  define rec where "rec = (if map_of rec0 ''metadata'' = None
     then AList.update ''metadata'' (JObj []) rec0 else rec0)"
  have len: "nat index < length recs"
    using assms(1,2) by (simp add: inject_one_char_tamper_def split: if_splits)
  then have range: "\<not> (index < 0 \<or> int (length recs) \<le> index)" using assms(2) by linarith
  obtain meta where meta: "map_of rec ''metadata'' = Some (JObj meta)"
    using assms(1)
    unfolding inject_one_char_tamper_def Let_def if_not_P [OF range] rec0_def [symmetric] rec_def [symmetric]
    by (auto split: option.splits json.splits)
  have wf: "distinct (map fst rec)"
    using assms(3) by (auto simp: rec_def rec0_def wf_record_def distinct_update)
  have same: "\<And>k. k \<noteq> ''metadata'' \<Longrightarrow> map_of rec k = map_of rec0 k"
    by (simp add: rec_def update_conv')
  have dm: "distinct (map fst meta)"
  proof (cases "map_of rec0 ''metadata''")
    case None
    then show ?thesis using meta by (simp add: rec_def update_conv)
  next
    case (Some m)
    then have "map_of rec0 ''metadata'' = Some (JObj meta)" using meta by (simp add: rec_def)
    then show ?thesis using assms(3) unfolding rec0_def wf_record_def by blast
  qed
  define flipped where "flipped = (case flip_approved meta ''status'' of
      None \<Rightarrow> flip_approved meta ''verdict'' | Some m \<Rightarrow> Some m)"
  have result: "(case flipped of
        Some meta' \<Rightarrow> Inr (recs[nat index := AList.update ''metadata'' (JObj meta') rec])
      | None \<Rightarrow> if str_or_empty py_str (map_of rec ''time'') = [] then Inl ValueError
          else Inr (recs[nat index := AList.update ''time''
            (JStr (flip_time (str_or_empty py_str (map_of rec ''time'')))) rec])) = Inr recs'"
    using assms(1)
    unfolding inject_one_char_tamper_def Let_def if_not_P [OF range] rec0_def [symmetric] rec_def [symmetric]
    by (simp add: meta flipped_def split: option.splits)
  consider (flip) meta' key where "flip_approved meta key = Some meta'"
      "recs' = recs[nat index := AList.update ''metadata'' (JObj meta') rec]"
    | (time) "str_or_empty py_str (map_of rec ''time'') \<noteq> []"
      "recs' = recs[nat index := AList.update ''time''
          (JStr (flip_time (str_or_empty py_str (map_of rec ''time'')))) rec]"
  proof (cases flipped)
    case None
    then show ?thesis using result by (intro time) (auto split: if_splits)
  next
    case (Some m)
    then obtain key where "flip_approved meta key = Some m"
      by (auto simp: flipped_def split: option.splits)
    then show ?thesis using result Some by (intro flip) auto
  qed
  then show ?thesis
  proof cases
    case flip
    have "key \<in> fst ` set meta"
      using flip_approved_member [OF flip(1)] by (metis option.distinct(1) map_of_eq_None_iff)
    then have meta0: "map_of rec0 ''metadata'' = Some (JObj meta)"
      using meta by (auto simp: rec_def update_conv split: if_splits)
    show ?thesis unfolding rec0_def [symmetric]
      using len flip_approved_sort_neq [OF flip(1) dm] wf flip(2) meta0
      by (intro conjI exI [of _ "AList.update ''metadata'' (JObj meta') rec"] exI [of _ "''metadata''"])
        (auto simp: same_seal_def update_conv' same distinct_update)
  next
    case time
    show ?thesis unfolding rec0_def [symmetric]
      using len time wf time_text_changed [OF time(1), THEN not_sym]
      by (intro conjI exI [of _ "AList.update ''time''
          (JStr (flip_time (str_or_empty py_str (map_of rec ''time'')))) rec"] exI [of _ "''time''"])
        (auto simp: same_seal_def update_conv' same distinct_update)
  qed
qed


lemma stored_hash_tip:
  assumes "sealed_chain sha num GENESIS_PREV recs" "i < length recs"
  shows "map_of (recs ! i) ''hash'' = Some (JStr (chain_tip sha num GENESIS_PREV (take (Suc i) recs)))"
proof -
  have "sealed sha num (chain_tip sha num GENESIS_PREV (take i recs)) (recs ! i)"
    using assms by (simp add: sealed_chain_nth)
  then show ?thesis using assms(2) by (simp add: sealed_def take_Suc_conv_app_nth chain_simps)
qed

section \<open>What the log promises\<close>

text \<open>
  Claim C6: \<open>verify_audit_chain\<close> says ok exactly for a chain: every record stores the SHA-256 of its
  own canonical body, the first names the genesis digest, and each later one names the digest its
  predecessor stores. It counts every record it walked.
\<close>

theorem verification_is_the_chain_spec:
  "ok (verify_audit_chain sha num recs) \<longleftrightarrow>
     (\<forall>i < length recs.
        map_of (recs ! i) ''hash'' = Some (JStr (record_digest sha num (record_body (recs ! i)))) \<and>
        map_of (recs ! i) ''prev_hash'' =
          (if i = 0 then Some (JStr GENESIS_PREV) else map_of (recs ! (i - 1)) ''hash''))"
  (is "_ \<longleftrightarrow> (\<forall>i < length recs. ?P i)")
proof
  assume *: "ok (verify_audit_chain sha num recs)"
  show "\<forall>i < length recs. ?P i"
  proof (intro allI impI)
    fix i assume i: "i < length recs"
    have s: "sealed sha num (chain_tip sha num GENESIS_PREV (take i recs)) (recs ! i)"
      using * i by (simp add: chain_simps sealed_chain_nth)
    show "?P i"
    proof (cases i)
      case 0
      then show ?thesis using s by (simp add: sealed_def chain_simps)
    next
      case (Suc j)
      then show ?thesis using s stored_hash_tip [of sha num recs j] * i
        by (simp add: sealed_def chain_simps)
    qed
  qed
next
  assume P: "\<forall>i < length recs. ?P i"
  have "sealed sha num (chain_tip sha num GENESIS_PREV (take i recs)) (recs ! i)"
    if i: "i < length recs" for i
  proof (cases i)
    case 0
    then show ?thesis using P i by (auto simp: sealed_def chain_simps)
  next
    case (Suc j)
    have "map_of (recs ! j) ''hash'' = Some (JStr (record_digest sha num (record_body (recs ! j))))"
      using P i Suc by auto
    moreover have "chain_tip sha num GENESIS_PREV (take i recs) =
        record_digest sha num (record_body (recs ! j))"
      using i Suc by (simp add: take_Suc_conv_app_nth chain_simps)
    ultimately show ?thesis using P i Suc by (auto simp: sealed_def)
  qed
  then show "ok (verify_audit_chain sha num recs)" by (simp add: chain_simps sealed_chain_nth)
qed

definition demo_events :: "log_event list" where
  "demo_events =
     [\<lparr>ev_now = ''t0'', ev_name = ''reset'', ev_severity = ''Low'', ev_data = JObj []\<rparr>,
      \<lparr>ev_now = ''t1'', ev_name = ''gate_decision'', ev_severity = ''High'',
       ev_data = JObj [(''verdict'', JStr ''APPROVED'')]\<rparr>]"

definition demo_log :: audit_logger where
  "demo_log = foldl (append_event id unary_num) (open_logger (\<lambda>j. ''?'') None) demo_events"

lemma demo_log_sealed: "sealed_chain id unary_num GENESIS_PREV (log_records demo_log)"
  using append_events_ok [OF open_logger_ok [of id unary_num None "\<lambda>j. ''?''"], of demo_events]
  by (simp add: demo_log_def logger_ok_def load_audit_records_def)

lemma demo_log_length: "length (log_records demo_log) = 2"
  by (simp add: demo_log_def append_events_length open_logger_fresh) (simp add: demo_events_def)

theorem verification_is_the_chain_spec_witness:
  "map_of (log_records demo_log ! 1) ''prev_hash'' = map_of (log_records demo_log ! 0) ''hash''"
proof -
  have "ok (verify_audit_chain id unary_num (log_records demo_log))"
    by (simp add: chain_simps demo_log_sealed)
  then show ?thesis
    using verification_is_the_chain_spec [of id unary_num "log_records demo_log"] demo_log_length
    by auto
qed

text \<open>
  Claim C18: A log opened over a missing file or over a verified one accepts any run of appends: the
  earlier records stay in place, one record is added per event, and the whole log still verifies.
\<close>

theorem appended_log_verifies:
  assumes "ok (verify_audit_chain sha num (load_audit_records f))"
    and l: "l = foldl (append_event sha num) (open_logger py_str f) events"
  shows "ok (verify_audit_chain sha num (log_records l)) \<and>
    total (verify_audit_chain sha num (log_records l)) = length (load_audit_records f) + length events \<and>
    prefix (load_audit_records f) (log_records l)"
proof -
  have start: "log_records (open_logger py_str f) = load_audit_records f"
    using assms(1) open_logger_keeps [of sha num _ py_str] open_logger_fresh [of py_str]
    by (cases f) (auto simp: chain_simps load_audit_records_def)
  have "logger_ok sha num l" unfolding l
    using assms(1) by (intro append_events_ok open_logger_ok) (simp add: chain_simps)
  moreover have "prefix (log_records l0) (log_records (foldl (append_event sha num) l0 events))" for l0
    by (induction events arbitrary: l0) (auto intro: prefix_order.trans append_event_prefix)
  ultimately show ?thesis
    using start by (simp add: logger_ok_def chain_simps l append_events_length) metis
qed

theorem appended_log_verifies_witness:
  "ok (verify_audit_chain id unary_num (log_records (foldl (append_event id unary_num)
     (open_logger (\<lambda>j. ''?'') (Some (log_records demo_log)))
     [\<lparr>ev_now = ''t2'', ev_name = ''gate_decision'', ev_severity = ''High'', ev_data = JNull\<rparr>])))"
proof -
  have "ok (verify_audit_chain id unary_num (load_audit_records (Some (log_records demo_log))))"
    by (simp add: chain_simps demo_log_sealed load_audit_records_def)
  from appended_log_verifies [OF this refl] show ?thesis by blast
qed


lemma break_from_same_seal:
  "same_seal rec rec' \<Longrightarrow>
     break_from py_str prev i (xs @ rec' # ys) = break_from py_str prev i (xs @ rec # ys)"
  by (induction xs arbitrary: prev i) (simp_all add: same_seal_def)

definition demo_record :: "string \<Rightarrow> string \<Rightarrow> json \<Rightarrow> audit_record" where
  "demo_record prev now data =
     (let body = [(''time'', JStr now), (''metadata'', data), (''prev_hash'', JStr prev)]
      in body @ [(''hash'', JStr (record_digest id unary_num body))])"

definition demo_sealed :: "audit_record list" where
  "demo_sealed =
     (let r0 = demo_record GENESIS_PREV ''t0'' (JObj []);
          r1 = demo_record (record_digest id unary_num (record_body r0)) ''t1''
                 (JObj [(''status'', JStr ''APPROVED'')])
      in [r0, r1])"

lemma demo_sealed_chain: "sealed_chain id unary_num GENESIS_PREV demo_sealed"
  by (simp add: demo_sealed_def demo_record_def Let_def sealed_def record_body_def)

lemma detect_injected:
  assumes "ok (verify_audit_chain sha num recs)" "number_text num"
    and "inject_one_char_tamper py_str recs index = Inr recs'"
    and "wf_record (recs ! nat index)"
    and "\<not> collides sha num (record_body (recs' ! nat index)) (record_body (recs ! nat index))"
  shows "verify_audit_chain sha num recs' =
      \<lparr>ok = False, total = length recs, break_index = Some (nat index),
       reason = Some HASH_MISMATCH, errors = [(nat index, HASH_MISMATCH)]\<rparr> \<and>
    chain_break_index py_str recs' = None"
proof -
  let ?i = "nat index"
  have pos: "0 \<le> index" using assms(3) by (auto simp: inject_one_char_tamper_def split: if_splits)
  from inject_tamper_shape [OF assms(3) pos assms(4)] obtain rec' k where
    len: "?i < length recs" and recs': "recs' = recs[?i := rec']" and
    seal: "same_seal (recs ! ?i) rec'" and d: "distinct (map fst rec')" and k: "k \<noteq> ''hash''" and
    neq: "map_option sort_keys (map_of rec' k) \<noteq> map_option sort_keys (map_of (recs ! ?i) k)"
    by blast
  have rec': "recs' ! ?i = rec'" using recs' len by simp
  have digest: "record_digest sha num (record_body rec') \<noteq> record_digest sha num (record_body (recs ! ?i))"
    using assms(2,4,5) d neq k unfolding rec'
    by (intro digest_differs [where k = k])
      (simp_all add: record_body_distinct wf_record_def map_of_record_body)
  have split: "recs = take ?i recs @ recs ! ?i # drop (Suc ?i) recs"
    using len by (simp add: id_take_nth_drop [symmetric])
  have split': "recs' = take ?i recs @ rec' # drop (Suc ?i) recs"
    using len recs' by (simp add: upd_conv_take_nth_drop)
  have chain: "sealed_chain sha num GENESIS_PREV (take ?i recs @ recs ! ?i # drop (Suc ?i) recs)"
    using assms(1) split by (simp add: chain_simps)
  have errs: "verify_errors sha num GENESIS_PREV 0 recs' = [(?i, HASH_MISMATCH)]"
    using verify_errors_tampered [OF chain seal digest] len split' by simp
  have "break_from py_str GENESIS_PREV 0 recs' = break_from py_str GENESIS_PREV 0 recs"
    using seal unfolding split' by (subst (2) split) (rule break_from_same_seal)
  then show ?thesis
    using errs recs' break_from_sealed_None assms(1)
    by (simp add: verify_audit_chain_def Let_def chain_break_index_def chain_simps)
qed

text \<open>
  Claim C19: The one-character tamper of a verified log is always caught, unless the two record texts
  collide under the digest: verification then reports exactly one error, a hash mismatch at the
  tampered index, although every \<open>prev_hash\<close> link still holds (the link-only walk finds nothing).
\<close>

theorem tamper_is_detected:
  assumes "ok (verify_audit_chain sha num recs)" "number_text num"
    and "inject_one_char_tamper py_str recs index = Inr recs'"
    and "wf_record (recs ! nat index)"
    and "\<not> collides sha num (record_body (recs' ! nat index)) (record_body (recs ! nat index))"
  shows "verify_audit_chain sha num recs' =
      \<lparr>ok = False, total = length recs, break_index = Some (nat index),
       reason = Some HASH_MISMATCH, errors = [(nat index, HASH_MISMATCH)]\<rparr> \<and>
    chain_break_index py_str recs' = None"
  using assms by (rule detect_injected)

theorem tamper_is_detected_witness:
  "\<exists>recs'. inject_one_char_tamper (\<lambda>j. ''?'') demo_sealed 1 = Inr recs' \<and>
     break_index (verify_audit_chain id unary_num recs') = Some 1"
proof -
  obtain recs' where t: "inject_one_char_tamper (\<lambda>j. ''?'') demo_sealed 1 = Inr recs'"
    by (auto simp: inject_one_char_tamper_def demo_sealed_def demo_record_def flip_approved_def Let_def)
  have "wf_record (demo_sealed ! nat 1)"
    by (simp add: wf_record_def demo_sealed_def demo_record_def Let_def)
  moreover have "\<not> collides id unary_num a b" for a b by (simp add: collides_def record_digest_def)
  ultimately show ?thesis
    using tamper_is_detected [OF _ number_text_unary t] t
    by (force simp: chain_simps demo_sealed_chain)
qed


lemma head_hash_bodies:
  assumes "length xs = length ys" "sealed_chain sha num p xs" "sealed_chain sha num q ys"
    and "chain_tip sha num p xs = chain_tip sha num q ys"
    and "\<forall>i < length xs. \<not> collides sha num (record_body (xs ! i)) (record_body (ys ! i))"
    and "number_text num" "\<forall>rec \<in> set (xs @ ys). distinct (map fst rec)"
  shows "\<forall>i < length xs. sort_keys (JObj (record_body (xs ! i))) = sort_keys (JObj (record_body (ys ! i)))"
  using assms(1-5,7)
proof (induction xs arbitrary: ys rule: rev_induct)
  case (snoc x xs)
  then obtain y zs where ys: "ys = zs @ [y]" by (cases ys rule: rev_cases) auto
  then have len: "length xs = length zs" using snoc.prems(1) by simp
  have collide: "\<not> collides sha num (record_body x) (record_body y)"
    using snoc.prems(5) [rule_format, of "length xs"] len ys by (simp add: nth_append)
  have last: "sort_keys (JObj (record_body x)) = sort_keys (JObj (record_body y))"
    using snoc.prems(4) collide canonical_json_inject [OF assms(6)] ys
    by (auto simp: collides_def record_digest_def chain_simps)
  have "map_option sort_keys (map_of x ''prev_hash'') = map_option sort_keys (map_of y ''prev_hash'')"
    using sort_keys_eq_member [OF last, of "''prev_hash''"] snoc.prems(6) ys
    by (simp add: record_body_distinct map_of_record_body)
  then have "chain_tip sha num p xs = chain_tip sha num q zs"
    using snoc.prems(2,3) ys by (simp add: chain_simps sealed_def)
  moreover have "\<not> collides sha num (record_body (xs ! i)) (record_body (zs ! i))" if "i < length xs" for i
    using snoc.prems(5) [rule_format, of i] that len ys by (simp add: nth_append)
  ultimately have "\<forall>i < length xs. sort_keys (JObj (record_body (xs ! i))) = sort_keys (JObj (record_body (zs ! i)))"
    using snoc.prems(2,3,6) ys by (intro snoc.IH [OF len]) (auto simp: chain_simps)
  then show ?case using last len ys by (simp add: nth_append less_Suc_eq)
qed simp

text \<open>
  Claim C37: The last stored hash commits to the whole history: two verified logs of the same length
  with the same last hash hold, record by record, the same JSON content up to the order of keys,
  unless a pair of record texts at the same index collides under the digest.
\<close>

theorem head_hash_commits_to_history:
  assumes "ok (verify_audit_chain sha num xs)" "ok (verify_audit_chain sha num ys)"
    and "number_text num" "\<forall>rec \<in> set (xs @ ys). distinct (map fst rec)"
    and "length xs = length ys" "xs \<noteq> []" "map_of (last xs) ''hash'' = map_of (last ys) ''hash''"
  shows "(\<forall>i < length xs. sort_keys (JObj (record_body (xs ! i))) = sort_keys (JObj (record_body (ys ! i)))) \<or>
    (\<exists>i < length xs. collides sha num (record_body (xs ! i)) (record_body (ys ! i)))"
proof -
  have "ys \<noteq> []" using assms(5,6) by auto
  then have "chain_tip sha num GENESIS_PREV xs = chain_tip sha num GENESIS_PREV ys"
    using assms by (simp add: chain_simps) (metis json.inject(3) option.inject sealed_hash_last)
  then show ?thesis
    using head_hash_bodies [of xs ys sha num GENESIS_PREV GENESIS_PREV] assms by (auto simp: chain_simps)
qed

lemma record_digest_rev:
  assumes "distinct (map fst body)"
  shows "record_digest sha num (rev body) = record_digest sha num body"
proof -
  let ?s = "map (\<lambda>kv. (fst kv, sort_keys (snd kv))) body"
  have "inj_on fst (set ?s)" using assms by (auto simp: distinct_map inj_on_def)
  then have "sort_key fst (rev ?s) = sort_key fst ?s"
    by (intro sort_key_inj_key_eq) auto
  then show ?thesis by (simp add: record_digest_def canonical_json_def rev_map)
qed

theorem head_hash_commits_to_history_witness:
  "let r = demo_record GENESIS_PREV ''t0'' JNull
   in rev r \<noteq> r \<and> sort_keys (JObj (record_body r)) = sort_keys (JObj (record_body (rev r)))"
proof -
  define r where "r = demo_record GENESIS_PREV ''t0'' JNull"
  have body: "record_body (rev r) = rev (record_body r)" by (simp add: record_body_def rev_filter)
  have d: "distinct (map fst r)" by (simp add: r_def demo_record_def Let_def)
  then have dr: "distinct (map fst (rev r))" by (simp add: rev_map [symmetric])
  have same: "map_of (rev r) = map_of r" using map_of_inject_set [OF dr d] by simp
  have ok: "ok (verify_audit_chain id unary_num [r])"
    by (simp add: chain_simps sealed_def r_def demo_record_def Let_def record_body_def)
  moreover have "ok (verify_audit_chain id unary_num [rev r])"
    using ok record_digest_rev [OF record_body_distinct [OF d]] same
    by (simp add: chain_simps sealed_def body)
  moreover have "\<not> collides id unary_num a b" for a b by (simp add: collides_def record_digest_def)
  moreover have "rev r \<noteq> r" by (simp add: r_def demo_record_def Let_def)
  ultimately show ?thesis
    using head_hash_commits_to_history [of id unary_num "[r]" "[rev r]"] number_text_unary d dr ok same
    by (simp add: Let_def r_def [symmetric])
qed

text \<open>
  Opening a log never loses a record and never starts on a broken chain: either the file
  is kept as it is and all its links hold, or the whole file is moved aside unchanged and the log
  starts empty at the genesis digest.
\<close>

theorem opening_quarantines_broken_logs:
  "chain_break_index py_str (log_records (open_logger py_str f)) = None \<and>
   (if chain_break_index py_str (load_audit_records f) = None
    then log_records (open_logger py_str f) = load_audit_records f \<and> log_archived (open_logger py_str f) = []
    else log_records (open_logger py_str f) = [] \<and> log_prev (open_logger py_str f) = GENESIS_PREV \<and>
         log_archived (open_logger py_str f) = [load_audit_records f])"
  by (cases f) (auto simp: open_logger_def quarantine_if_broken_def log_records_def Let_def
      load_audit_records_def rewind_from_disk_def chain_break_index_def)

end
