(* ===== verification/Durable_Object.thy ===== *)
theory Durable_Object
  imports Front_Door Audit_Chain
begin

text \<open>
  The class \<open>C2Container\<close> of \<open>deploy/cloudflare/src/index.ts\<close>: the Durable Object that owns the
  container. Its state is the private flag \<open>containerHydrated\<close>, the object's storage, the container
  process and the snapshot tasks handed to \<open>waitUntil\<close>. What the base class of the package
  \<open>@cloudflare/containers\<close> and the runtime do is the parameter \<open>api\<close>: each call gives the next
  process state, the lifecycle hooks that ran on this object meanwhile, and a result or an
  exception. A snapshot task is a small machine of its own, since other events run at its awaits.
\<close>

section \<open>The platform\<close>

datatype hook = HookStart | HookError

record 'p container_api =
  startAndWaitForPorts :: "'p \<Rightarrow> 'p \<times> hook list \<times> unit throws"
  containerFetch :: "'p \<Rightarrow> request \<Rightarrow> 'p \<times> hook list \<times> response throws"
  superFetch :: "'p \<Rightarrow> request \<Rightarrow> 'p \<times> hook list \<times> response throws"
  storageAccepts :: "json \<Rightarrow> bool"   \<comment> \<open>\<open>put\<close> rejects a value over the storage's size limit\<close>

section \<open>The object's state\<close>

text \<open>Where a snapshot task stands: before it read the trail, or about to store what it read.\<close>

datatype persist_task = ReadTrail | PutRecords json

record 'p c2_container =
  envVars :: "(string \<times> jstring) list"
  containerHydrated :: bool
  storage :: "string \<rightharpoonup> json"
  process :: 'p
  waiting :: "persist_task list"

definition AUDIT_STORAGE_KEY :: string where
  "AUDIT_STORAGE_KEY = ''audit_records''"

text \<open>\<open>new C2Container(ctx, env)\<close> over the storage the object already has.\<close>

definition new_C2Container :: "worker_env \<Rightarrow> (string \<rightharpoonup> json) \<Rightarrow> 'p \<Rightarrow> 'p c2_container" where
  "new_C2Container env st p =
     \<lparr>envVars = container_env_vars env, containerHydrated = False, storage = st, process = p, waiting = []\<rparr>"

definition stored :: "'p c2_container \<Rightarrow> json option" where
  "stored s = storage s AUDIT_STORAGE_KEY"

section \<open>Lifecycle hooks\<close>

definition onStart :: "'p c2_container \<Rightarrow> 'p c2_container" where
  "onStart s = s\<lparr>containerHydrated := False\<rparr>"

definition onError :: "'p c2_container \<Rightarrow> 'p c2_container" where
  "onError s = s\<lparr>containerHydrated := False\<rparr>"

fun run_hook :: "hook \<Rightarrow> 'p c2_container \<Rightarrow> 'p c2_container" where
  "run_hook HookStart s = onStart s"
| "run_hook HookError s = onError s"

text \<open>One call of the base class: the process moves on and the hooks run on this object.\<close>

definition base_call ::
    "('p \<Rightarrow> 'p \<times> hook list \<times> 'r throws) \<Rightarrow> 'p c2_container \<Rightarrow> 'p c2_container \<times> 'r throws" where
  "base_call f s = (let (p, hs, r) = f (process s) in (fold run_hook hs (s\<lparr>process := p\<rparr>), r))"

section \<open>Values read from JSON\<close>

definition js_member :: "json \<Rightarrow> string \<Rightarrow> json option throws" where
  "js_member j k = (if j = JNull then Inl TypeError else Inr (json_get j k))"

definition json_nullish :: "json option \<Rightarrow> json \<Rightarrow> json" where
  "json_nullish v d = (case v of None \<Rightarrow> d | Some j \<Rightarrow> if j = JNull then d else j)"

fun js_falsy :: "json \<Rightarrow> bool" where
  "js_falsy JNull = True"
| "js_falsy (JBool b) = (\<not> b)"
| "js_falsy (JNum q) = (q = 0)"
| "js_falsy (JStr s) = (s = [])"
| "js_falsy (JArr xs) = False"
| "js_falsy (JObj kvs) = False"

fun js_length :: "json \<Rightarrow> json option" where
  "js_length (JStr s) = Some (JNum (of_nat (length s)))"
| "js_length (JArr xs) = Some (JNum (of_nat (length xs)))"
| "js_length (JObj kvs) = map_of kvs ''length''"
| "js_length _ = None"

section \<open>Persisting the trail\<close>

definition trail_request :: request where
  "trail_request = \<lparr>req_method = ''GET'', req_url = ''http://container/api/audit/trail'',
     req_headers = [], req_body = NoBody\<rparr>"

definition storage_put :: "'p container_api \<Rightarrow> json \<Rightarrow> 'p c2_container \<Rightarrow> 'p c2_container throws" where
  "storage_put api v s =
     (if storageAccepts api v then Inr (s\<lparr>storage := (storage s)(AUDIT_STORAGE_KEY \<mapsto> v)\<rparr>)
      else Inl ContainerError)"

text \<open>
  One await-free stretch of \<open>persistAudit\<close>: the next state, and the task that is left. Everything
  the body throws is caught and logged.
\<close>

fun persist_step ::
    "'p container_api \<Rightarrow> 'p c2_container \<Rightarrow> persist_task \<Rightarrow> 'p c2_container \<times> persist_task option" where
  "persist_step api s ReadTrail =
     (case base_call (\<lambda>p. containerFetch api p trail_request) s of
        (s', Inl err) \<Rightarrow> (s', None)
      | (s', Inr res) \<Rightarrow>
          if \<not> response_ok res then (s', None)
          else
            (case try_bind (response_json res) (\<lambda>body. js_member body ''records'') of
               Inl err \<Rightarrow> (s', None)
             | Inr records \<Rightarrow> (s', Some (PutRecords (json_nullish records (JArr []))))))"
| "persist_step api s (PutRecords v) =
     (case storage_put api v s of Inl err \<Rightarrow> (s, None) | Inr s' \<Rightarrow> (s', None))"

text \<open>\<open>await this.persistAudit()\<close> when nothing else runs meanwhile.\<close>

definition persistAudit :: "'p container_api \<Rightarrow> 'p c2_container \<Rightarrow> 'p c2_container" where
  "persistAudit api s =
     (case persist_step api s ReadTrail of
        (s', None) \<Rightarrow> s'
      | (s', Some t) \<Rightarrow> fst (persist_step api s' t))"

definition onStop :: "'p container_api \<Rightarrow> 'p c2_container \<Rightarrow> 'p c2_container" where
  "onStop api s = persistAudit api (s\<lparr>containerHydrated := False\<rparr>)"

section \<open>Restoring it\<close>

definition snapshot_request :: "json \<Rightarrow> request" where
  "snapshot_request records =
     \<lparr>req_method = ''PUT'', req_url = ''http://container/api/admin/audit/snapshot'',
      req_headers = [(''content-type'', ''application/json'')],
      req_body = JsonBody (JObj [(''records'', records)])\<rparr>"

definition restoreAudit :: "'p container_api \<Rightarrow> 'p c2_container \<Rightarrow> 'p c2_container \<times> unit throws" where
  "restoreAudit api s =
     (case stored s of
        None \<Rightarrow> (s, Inr ())
      | Some records \<Rightarrow>
          if js_falsy records \<or> js_length records = Some (JNum 0) then (s, Inr ())
          else
            (case base_call (\<lambda>p. containerFetch api p (snapshot_request records)) s of
               (s', Inl err) \<Rightarrow> (s', Inl err)
             | (s', Inr res) \<Rightarrow> (s', Inr ())))"

section \<open>Fetch\<close>

text \<open>The callback under \<open>blockConcurrencyWhile\<close>: nothing else runs on the object meanwhile.\<close>

definition hydrate :: "'p container_api \<Rightarrow> 'p c2_container \<Rightarrow> 'p c2_container \<times> unit throws" where
  "hydrate api s =
     (if containerHydrated s then (s, Inr ())
      else
        (case base_call (startAndWaitForPorts api) s of
           (s1, Inl err) \<Rightarrow> (s1, Inl err)
         | (s1, Inr _) \<Rightarrow>
             (case restoreAudit api s1 of
                (s2, Inl err) \<Rightarrow> (s2, Inl err)
              | (s2, Inr _) \<Rightarrow> (s2\<lparr>containerHydrated := True\<rparr>, Inr ()))))"

text \<open>The rest of the handler: pass the request on, and queue a snapshot when it changed the trail.\<close>

definition forward ::
    "'p container_api \<Rightarrow> 'p c2_container \<Rightarrow> request \<Rightarrow> 'p c2_container \<times> response throws" where
  "forward api s req =
     (case base_call (\<lambda>p. superFetch api p req) s of
        (s', Inl err) \<Rightarrow> (s', Inl err)
      | (s', Inr response) \<Rightarrow>
          (if shouldPersistAudit req response then s'\<lparr>waiting := waiting s' @ [ReadTrail]\<rparr> else s',
           Inr response))"

definition c2_fetch ::
    "'p container_api \<Rightarrow> 'p c2_container \<Rightarrow> request \<Rightarrow> 'p c2_container \<times> response throws" where
  "c2_fetch api s req =
     (case hydrate api s of
        (s', Inl err) \<Rightarrow> (s', Inl err)
      | (s', Inr _) \<Rightarrow> forward api s' req)"

text \<open>The runtime lets the queued task at position \<open>i\<close> take one step.\<close>

definition run_task :: "'p container_api \<Rightarrow> nat \<Rightarrow> 'p c2_container \<Rightarrow> 'p c2_container" where
  "run_task api i s =
     (case persist_step api s (waiting s ! i) of
        (s', None) \<Rightarrow> s'\<lparr>waiting := take i (waiting s') @ drop (Suc i) (waiting s')\<rparr>
      | (s', Some t) \<Rightarrow> s'\<lparr>waiting := (waiting s')[i := t]\<rparr>)"

section \<open>What a call of the base class leaves alone\<close>

lemma run_hook_keeps [simp]:
  "envVars (run_hook h s) = envVars s" "storage (run_hook h s) = storage s"
  "process (run_hook h s) = process s" "waiting (run_hook h s) = waiting s"
  "\<not> containerHydrated (run_hook h s)"
  by (cases h; simp add: onStart_def onError_def)+

lemma run_hooks_keep [simp]:
  "envVars (fold run_hook hs s) = envVars s" "storage (fold run_hook hs s) = storage s"
  "process (fold run_hook hs s) = process s" "waiting (fold run_hook hs s) = waiting s"
  by (induction hs arbitrary: s) simp_all

lemma run_hooks_hydrated: "containerHydrated (fold run_hook hs s) \<longleftrightarrow> hs = [] \<and> containerHydrated s"
  by (induction hs arbitrary: s) auto

lemma base_call_keeps:
  assumes "base_call f s = (s', r)"
  shows "envVars s' = envVars s \<and> storage s' = storage s \<and> waiting s' = waiting s \<and>
    (containerHydrated s' \<longrightarrow> containerHydrated s)"
  using assms by (auto simp: base_call_def run_hooks_hydrated split: prod.splits)

lemma stored_simps [simp]:
  "stored (s\<lparr>containerHydrated := b\<rparr>) = stored s" "stored (s\<lparr>process := p\<rparr>) = stored s"
  "stored (s\<lparr>waiting := ts\<rparr>) = stored s"
  "stored (s\<lparr>storage := (storage s)(AUDIT_STORAGE_KEY \<mapsto> v)\<rparr>) = Some v"
  by (simp_all add: stored_def)


section \<open>What the object relies on\<close>

text \<open>
  The contract between the object and the service in its container. A stopped container starts with
  an empty trail; a running one hands out its trail and takes over any snapshot that a trail read
  gave.
\<close>

locale audit_backend =
  fixes api :: "'p container_api"
    and running :: "'p \<Rightarrow> bool"
    and trail :: "'p \<Rightarrow> json list"
    and restorable :: "json list \<Rightarrow> bool"
  assumes start_running: "running p \<Longrightarrow> startAndWaitForPorts api p = (p, [], Inr ())"
    and start_stopped: "\<not> running p \<Longrightarrow> \<exists>q. startAndWaitForPorts api p = (q, [HookStart], Inr ()) \<and>
          running q \<and> trail q = []"
    and read_trail: "running p \<Longrightarrow> \<exists>res body. containerFetch api p trail_request = (p, [], Inr res) \<and>
          response_ok res \<and> response_json res = Inr body \<and> body \<noteq> JNull \<and>
          json_get body ''records'' = Some (JArr (trail p))"
    and put_snapshot: "running p \<Longrightarrow> restorable v \<Longrightarrow>
          \<exists>q res. containerFetch api p (snapshot_request (JArr v)) = (q, [], Inr res) \<and>
          response_ok res \<and> running q \<and> trail q = v"
    and trail_restorable: "running p \<Longrightarrow> restorable (trail p)"
begin

lemma read_step:
  assumes "running (process s)"
  shows "persist_step api s ReadTrail = (s, Some (PutRecords (JArr (trail (process s)))))"
proof -
  from read_trail [OF assms] obtain res body where
    r: "containerFetch api (process s) trail_request = (process s, [], Inr res)" "response_ok res"
      "response_json res = Inr body" "body \<noteq> JNull"
      "json_get body ''records'' = Some (JArr (trail (process s)))"
    by blast
  then show ?thesis by (simp add: base_call_def js_member_def json_nullish_def)
qed

lemma persist_stores_trail:
  assumes "running (process s)" "storageAccepts api (JArr (trail (process s)))"
  shows "persistAudit api s = s\<lparr>storage := (storage s)(AUDIT_STORAGE_KEY \<mapsto> JArr (trail (process s)))\<rparr>"
  unfolding persistAudit_def read_step [OF assms(1)] using assms(2) by (simp add: storage_put_def)

lemma persist_rejected:
  assumes "running (process s)" "\<not> storageAccepts api (JArr (trail (process s)))"
  shows "persistAudit api s = s"
  unfolding persistAudit_def read_step [OF assms(1)] using assms(2) by (simp add: storage_put_def)

lemma restore_puts:
  assumes "running (process s)" "stored s = Some (JArr v)" "v \<noteq> []" "restorable v"
  shows "\<exists>q. restoreAudit api s = (s\<lparr>process := q\<rparr>, Inr ()) \<and> running q \<and> trail q = v"
proof -
  from put_snapshot [OF assms(1,4)] obtain q res where
    "containerFetch api (process s) (snapshot_request (JArr v)) = (q, [], Inr res)" "response_ok res"
    "running q" "trail q = v"
    by blast
  then show ?thesis using assms(2,3)
    by (intro exI [of _ q]) (simp add: restoreAudit_def base_call_def)
qed

lemma restore_nothing:
  "stored s = None \<or> stored s = Some (JArr []) \<Longrightarrow> restoreAudit api s = (s, Inr ())"
  by (auto simp: restoreAudit_def)

lemma hydrate_stopped:
  assumes "\<not> containerHydrated s" "\<not> running (process s)" "stored s = Some (JArr v)" "restorable v"
  shows "\<exists>q. hydrate api s = (s\<lparr>process := q, containerHydrated := True\<rparr>, Inr ()) \<and> running q \<and> trail q = v"
proof -
  from start_stopped [OF assms(2)] obtain q where
    q: "startAndWaitForPorts api (process s) = (q, [HookStart], Inr ())" "running q" "trail q = []"
    by blast
  let ?s1 = "s\<lparr>process := q, containerHydrated := False\<rparr>"
  have start: "base_call (startAndWaitForPorts api) s = (?s1, Inr ())"
    by (simp add: base_call_def q onStart_def)
  show ?thesis
  proof (cases "v = []")
    case True
    then have "restoreAudit api ?s1 = (?s1, Inr ())" using assms(3) by (intro restore_nothing) simp
    then show ?thesis using q True assms(1) by (intro exI [of _ q]) (simp add: hydrate_def start)
  next
    case False
    have "stored ?s1 = Some (JArr v)" using assms(3) by simp
    from restore_puts [of ?s1, OF _ this False assms(4)] q(2) obtain q' where
      "restoreAudit api ?s1 = (?s1\<lparr>process := q'\<rparr>, Inr ())" "running q'" "trail q' = v" by auto
    then show ?thesis using assms(1)
      by (intro exI [of _ q']) (simp add: hydrate_def start)
  qed
qed

lemma hydrate_overwrites:
  assumes "\<not> containerHydrated s" "running (process s)" "stored s = Some (JArr v)" "v \<noteq> []" "restorable v"
  shows "\<exists>q. hydrate api s = (s\<lparr>process := q, containerHydrated := True\<rparr>, Inr ()) \<and> running q \<and> trail q = v"
  using restore_puts [OF assms(2-5)] assms(1,2)
  by (auto simp: hydrate_def base_call_def start_running)

text \<open>A snapshot survives a stop: store it, lose the process, and the next request finds it again.\<close>

lemma survives_restart:
  assumes "running (process s)" "storageAccepts api (JArr (trail (process s)))" "\<not> running dead"
  shows "\<exists>q. hydrate api ((persistAudit api s)\<lparr>process := dead, containerHydrated := False\<rparr>) =
      (s\<lparr>storage := (storage s)(AUDIT_STORAGE_KEY \<mapsto> JArr (trail (process s))), process := q,
         containerHydrated := True\<rparr>, Inr ()) \<and> running q \<and> trail q = trail (process s)"
proof -
  let ?t = "(persistAudit api s)\<lparr>process := dead, containerHydrated := False\<rparr>"
  have "stored ?t = Some (JArr (trail (process s)))"
    by (simp add: persist_stores_trail [OF assms(1,2)])
  from hydrate_stopped [of ?t, OF _ _ this trail_restorable [OF assms(1)]] assms(3)
  show ?thesis by (auto simp: persist_stores_trail [OF assms(1,2)])
qed

end

text \<open>
  The package's \<open>containerFetch\<close> starts a container that is not running before it passes the request
  on. A snapshot taken after the container has gone then reads the fresh trail.
\<close>

locale autostart_backend = audit_backend +
  assumes fetch_starts: "\<not> running p \<Longrightarrow> startAndWaitForPorts api p = (q, hs, Inr ()) \<Longrightarrow>
      containerFetch api p req =
        (case containerFetch api q req of (q', hs', r) \<Rightarrow> (q', hs @ hs', r))"
begin

lemma stopped_read_step:
  assumes "\<not> running (process s)"
  shows "\<exists>q. persist_step api s ReadTrail =
      (s\<lparr>process := q, containerHydrated := False\<rparr>, Some (PutRecords (JArr []))) \<and> running q \<and> trail q = []"
proof -
  from start_stopped [OF assms] obtain q where
    q: "startAndWaitForPorts api (process s) = (q, [HookStart], Inr ())" "running q" "trail q = []"
    by blast
  from read_trail [OF q(2)] obtain res body where
    r: "containerFetch api q trail_request = (q, [], Inr res)" "response_ok res"
      "response_json res = Inr body" "body \<noteq> JNull" "json_get body ''records'' = Some (JArr [])"
    using q(3) by auto
  have "containerFetch api (process s) trail_request = (q, [HookStart], Inr res)"
    using fetch_starts [OF assms q(1)] r(1) by simp
  then show ?thesis using r q
    by (intro exI [of _ q]) (simp add: base_call_def js_member_def json_nullish_def onStart_def)
qed

lemma stop_erases_snapshot:
  assumes "\<not> running (process s)" "storageAccepts api (JArr [])"
  shows "stored (onStop api s) = Some (JArr []) \<and> running (process (onStop api s))"
proof -
  have "\<not> running (process (s\<lparr>containerHydrated := False\<rparr>))" using assms(1) by simp
  from stopped_read_step [OF this] obtain q where
    "persist_step api (s\<lparr>containerHydrated := False\<rparr>) ReadTrail =
      (s\<lparr>containerHydrated := False, process := q, containerHydrated := False\<rparr>, Some (PutRecords (JArr [])))"
    "running q"
    by blast
  then show ?thesis using assms(2)
    by (simp add: onStop_def persistAudit_def storage_put_def stored_def del: persist_step.simps(1))
qed

end

end
