(* ===== verification/Audit_Server.thy ===== *)
theory Audit_Server
  imports Front_Door Audit_Chain
begin

text \<open>
  The audit routes of the C2 service, \<open>app/c2_server.py\<close>, that the Durable Object and the demo talk
  to: reading the trail and its health, replacing it by a snapshot, the tamper demo and its undo,
  and the reset. The rest of the runtime (picture, proposals, inbox) is the type parameter \<open>'r\<close>, and
  the routes on it are the handler \<open>rest_handler\<close>, which says what they append to the audit log and
  how they answer, given the sealed records the appends returned. Only the status of a framework error
  response is kept.
\<close>

section \<open>The runtime\<close>

record 'r c2_deps =
  digest :: "string \<Rightarrow> string"
  number_repr :: "rat \<Rightarrow> string"
  repr_other :: "json \<Rightarrow> string"
  demo_tamper_enabled :: bool
  audit_path :: string
  rest_handler :: "'r \<Rightarrow> request \<Rightarrow> 'r \<times> log_event list \<times> (audit_record list \<Rightarrow> response)"
  rest_cleared :: "'r \<Rightarrow> 'r"

record 'r c2_runtime =
  audit :: audit_logger
  audit_pre_tamper :: "audit_record list option"
  rest :: 'r

text \<open>A service that starts over the disk \<open>f\<close> with the rest of its state \<open>r\<close>.\<close>

definition new_C2Runtime :: "'r c2_deps \<Rightarrow> audit_record list option \<Rightarrow> 'r \<Rightarrow> 'r c2_runtime" where
  "new_C2Runtime d f r = \<lparr>audit = open_logger (repr_other d) f, audit_pre_tamper = None, rest = r\<rparr>"

section \<open>JSON in and out\<close>

definition records_json :: "audit_record list \<Rightarrow> json" where
  "records_json recs = JArr (map JObj recs)"

fun as_records :: "json list \<Rightarrow> audit_record list option" where
  "as_records [] = Some []"
| "as_records (JObj rec # js) = map_option ((#) rec) (as_records js)"
| "as_records _ = None"

text \<open>The request model \<open>AuditSnapshotRequest\<close>: \<open>records\<close> must be a list of objects.\<close>

definition snapshot_records :: "body \<Rightarrow> audit_record list option" where
  "snapshot_records b =
     (case b of
        JsonBody j \<Rightarrow> (case json_get j ''records'' of Some (JArr js) \<Rightarrow> as_records js | _ \<Rightarrow> None)
      | _ \<Rightarrow> None)"

fun decimal :: "nat \<Rightarrow> string" where
  "decimal n = (if n < 10 then [char_of (48 + n)] else decimal (n div 10) @ [char_of (48 + n mod 10)])"

declare decimal.simps [simp del]

definition opt_json :: "('a \<Rightarrow> json) \<Rightarrow> 'a option \<Rightarrow> json" where
  "opt_json f v = (case v of None \<Rightarrow> JNull | Some x \<Rightarrow> f x)"

definition json_nat :: "nat \<Rightarrow> json" where
  "json_nat n = JNum (of_nat n)"

definition ok_json :: "json \<Rightarrow> response" where
  "ok_json j = \<lparr>status = 200, statusText = ''OK'',
     resp_headers = [(''content-type'', ''application/json'')], resp_body = JsonBody j\<rparr>"

definition http_error :: "nat \<Rightarrow> response" where
  "http_error n = \<lparr>status = n, statusText = '''',
     resp_headers = [(''content-type'', ''application/json'')], resp_body = JsonBody (JObj [])\<rparr>"

definition broken_links :: "chain_verify_result \<Rightarrow> nat" where
  "broken_links r = (if ok r then 0 else if errors r \<noteq> [] then length (errors r) else 1)"

definition verify_summary :: "chain_verify_result \<Rightarrow> string" where
  "verify_summary r = ''broken links: '' @ decimal (broken_links r) @ '' of '' @ decimal (total r)"

definition chain_verify_dict :: "chain_verify_result \<Rightarrow> json" where
  "chain_verify_dict r = JObj
     [(''ok'', JBool (ok r)), (''total'', json_nat (total r)), (''broken'', json_nat (broken_links r)),
      (''break_index'', opt_json json_nat (break_index r)), (''reason'', opt_json JStr (reason r)),
      (''summary'', JStr (verify_summary r)),
      (''label'', JStr (decimal (broken_links r) @ '' of '' @ decimal (total r)))]"

section \<open>Operations on the trail\<close>

definition verify_now :: "'r c2_deps \<Rightarrow> 'r c2_runtime \<Rightarrow> chain_verify_result" where
  "verify_now d rt = verify_audit_chain (digest d) (number_repr d) (log_records (audit rt))"

definition inject_audit_tamper :: "'r c2_deps \<Rightarrow> 'r c2_runtime \<Rightarrow> 'r c2_runtime \<times> response" where
  "inject_audit_tamper d rt =
     (let records = log_records (audit rt) in
      if length records < 2 then (rt, http_error 400)
      else
        (let rt1 = rt\<lparr>audit_pre_tamper := Some records\<rparr> in
         case inject_one_char_tamper (repr_other d) records 1 of
           Inl err \<Rightarrow> (rt1, http_error 500)
         | Inr tampered \<Rightarrow>
             (let rt2 = rt1\<lparr>audit := replace_records (repr_other d) (audit rt1) tampered\<rparr>
              in (rt2, ok_json (JObj [(''status'', JStr ''tampered''), (''index'', JNum 1),
                   (''ocsf'', chain_verify_dict (verify_now d rt2)), (''eds_corrupted'', JBool False)])))))"

definition restore_audit_tamper :: "'r c2_deps \<Rightarrow> 'r c2_runtime \<Rightarrow> 'r c2_runtime \<times> response" where
  "restore_audit_tamper d rt =
     (case audit_pre_tamper rt of
        None \<Rightarrow> (rt, http_error 400)
      | Some saved \<Rightarrow>
          (let rt' = rt\<lparr>audit := replace_records (repr_other d) (audit rt) saved\<rparr>
           in (rt', ok_json (JObj [(''status'', JStr ''restored''), (''count'', json_nat (length saved)),
                (''ocsf'', chain_verify_dict (verify_now d rt'))]))))"

definition reverify_audit :: "'r c2_deps \<Rightarrow> 'r c2_runtime \<Rightarrow> response" where
  "reverify_audit d rt = ok_json (JObj [(''status'', JStr ''verified''), (''path'', JStr ''sha256''),
     (''ocsf'', chain_verify_dict (verify_now d rt)), (''eds'', JNull)])"

definition runtime_reset :: "'r c2_deps \<Rightarrow> 'r c2_runtime \<Rightarrow> 'r c2_runtime" where
  "runtime_reset d rt = rt\<lparr>audit_pre_tamper := None, rest := rest_cleared d (rest rt)\<rparr>"

definition audit_trail :: "'r c2_deps \<Rightarrow> 'r c2_runtime \<Rightarrow> response" where
  "audit_trail d rt =
     (let records = log_records (audit rt) in
      ok_json (JObj [(''count'', json_nat (length records)), (''path'', JStr (audit_path d)),
        (''records'', records_json records)]))"

definition audit_health :: "'r c2_deps \<Rightarrow> 'r c2_runtime \<Rightarrow> response" where
  "audit_health d rt =
     (let r = verify_now d rt in
      ok_json (JObj [(''verified'', JBool (ok r)), (''broken'', json_nat (broken_links r)),
        (''count'', json_nat (total r)),
        (''label'', JStr (decimal (broken_links r) @ '' of '' @ decimal (total r)))]))"

definition admin_audit_snapshot :: "'r c2_deps \<Rightarrow> 'r c2_runtime \<Rightarrow> body \<Rightarrow> 'r c2_runtime \<times> response" where
  "admin_audit_snapshot d rt b =
     (case snapshot_records b of
        None \<Rightarrow> (rt, http_error 422)
      | Some recs \<Rightarrow>
          (rt\<lparr>audit := replace_records (repr_other d) (audit rt) recs\<rparr>,
           ok_json (JObj [(''status'', JStr ''restored''), (''count'', json_nat (length recs))])))"

section \<open>Routing\<close>

definition demo_route ::
    "'r c2_deps \<Rightarrow> ('r c2_runtime \<times> response) \<Rightarrow> 'r c2_runtime \<Rightarrow> 'r c2_runtime \<times> response" where
  "demo_route d result rt = (if demo_tamper_enabled d then result else (rt, http_error 403))"

definition rest_route :: "'r c2_deps \<Rightarrow> 'r c2_runtime \<Rightarrow> request \<Rightarrow> 'r c2_runtime \<times> response" where
  "rest_route d rt req =
     (let (r, events, answer) = rest_handler d (rest rt) req;
          log = foldl (append_event (digest d) (number_repr d)) (audit rt) events;
          sealed_now = drop (length (log_records (audit rt))) (log_records log)
      in (rt\<lparr>audit := log, rest := r\<rparr>, answer sealed_now))"

text \<open>The pages of \<open>app/verify_ui.py\<close> run the same operations; what they render is left out.\<close>

definition html_page :: response where
  "html_page = \<lparr>status = 200, statusText = ''OK'', resp_headers = [(''content-type'', ''text/html'')],
     resp_body = RawBody []\<rparr>"

text \<open>An error the handler knows is shown on the page; any other one is a 500.\<close>

definition page_of :: "response \<Rightarrow> response" where
  "page_of r = (if status r = 500 then r else html_page)"

definition c2_serve :: "'r c2_deps \<Rightarrow> 'r c2_runtime \<Rightarrow> request \<Rightarrow> 'r c2_runtime \<times> response" where
  "c2_serve d rt req =
     (let route = (req_method req, url_pathname (req_url req)) in
      if route = (''GET'', ''/health'') then (rt, ok_json (JObj [(''status'', JStr ''ok'')]))
      else if route = (''GET'', ''/api/audit/trail'') then (rt, audit_trail d rt)
      else if route = (''GET'', ''/api/audit/health'') then (rt, audit_health d rt)
      else if route = (''PUT'', ''/api/admin/audit/snapshot'') then admin_audit_snapshot d rt (req_body req)
      else if route = (''POST'', ''/api/admin/audit/tamper'') then demo_route d (inject_audit_tamper d rt) rt
      else if route = (''POST'', ''/api/admin/audit/restore'') then demo_route d (restore_audit_tamper d rt) rt
      else if route = (''POST'', ''/api/admin/audit/reverify'') then demo_route d (rt, reverify_audit d rt) rt
      else if route = (''POST'', ''/api/admin/reset'') then
        (runtime_reset d rt, ok_json (JObj [(''status'', JStr ''reset'')]))
      else if route = (''POST'', ''/verify/command/reset'') then (runtime_reset d rt, html_page)
      else if route = (''POST'', ''/verify/audit/tamper'') then
        (let r = demo_route d (inject_audit_tamper d rt) rt in (fst r, page_of (snd r)))
      else if route = (''POST'', ''/verify/audit/restore'') then
        (let r = demo_route d (restore_audit_tamper d rt) rt in (fst r, page_of (snd r)))
      else if route = (''POST'', ''/verify/audit/reverify'') then (rt, html_page)
      else rest_route d rt req)"

section \<open>The snapshot goes in and comes out unchanged\<close>

lemma as_records_map [simp]: "as_records (map JObj recs) = Some recs"
  by (induction recs) simp_all

lemma as_records_Some: "as_records js = Some recs \<longleftrightarrow> js = map JObj recs"
proof (induction js arbitrary: recs rule: as_records.induct)
  case (2 rec js)
  then show ?case by (cases recs) auto
qed auto

lemma response_ok_simps [simp]: "response_ok (ok_json j)" "response_ok (http_error n) \<longleftrightarrow> 200 \<le> n \<and> n \<le> 299"
  by (simp_all add: response_ok_def ok_json_def http_error_def)

lemma response_json_ok [simp]: "response_json (ok_json j) = Inr j"
  by (simp add: response_json_def ok_json_def)

end
