(* ===== verification/Edge_System.thy ===== *)
theory Edge_System
  imports Durable_Object Audit_Server
begin

text \<open>
  The edge as a whole: the Durable Object in front of the C2 service, with the service behind the
  documented behaviour of the container package (a container that is not running is started with an
  empty disk before a request is passed on, and starting it runs \<open>onStart\<close>). Requests, snapshot
  tasks, stops and evictions interleave as the steps of a transition relation.
\<close>

section \<open>The service in its container\<close>

type_synonym 'r c2_process = "'r c2_runtime option"

definition boot :: "'r c2_deps \<Rightarrow> 'r \<Rightarrow> 'r c2_process \<Rightarrow> 'r c2_runtime \<times> hook list" where
  "boot d r0 p = (case p of Some rt \<Rightarrow> (rt, []) | None \<Rightarrow> (new_C2Runtime d None r0, [HookStart]))"

definition container_serve ::
    "'r c2_deps \<Rightarrow> 'r \<Rightarrow> 'r c2_process \<Rightarrow> request \<Rightarrow> 'r c2_process \<times> hook list \<times> response throws" where
  "container_serve d r0 p req =
     (let (rt, hs) = boot d r0 p; (rt', resp) = c2_serve d rt req in (Some rt', hs, Inr resp))"

definition edge_api :: "'r c2_deps \<Rightarrow> 'r \<Rightarrow> (json \<Rightarrow> bool) \<Rightarrow> 'r c2_process container_api" where
  "edge_api d r0 accepts =
     \<lparr>startAndWaitForPorts = (\<lambda>p. let (rt, hs) = boot d r0 p in (Some rt, hs, Inr ())),
      containerFetch = container_serve d r0, superFetch = container_serve d r0,
      storageAccepts = accepts\<rparr>"

definition process_trail :: "'r c2_process \<Rightarrow> json list" where
  "process_trail p = (case p of None \<Rightarrow> [] | Some rt \<Rightarrow> map JObj (log_records (audit rt)))"

lemma request_paths:
  "url_pathname (req_url trail_request) = ''/api/audit/trail''"
  "url_pathname (req_url (snapshot_request v)) = ''/api/admin/audit/snapshot''"
  by (simp_all add: trail_request_def snapshot_request_def url_pathname_def)

lemma serve_trail: "c2_serve d rt trail_request = (rt, audit_trail d rt)"
  by (simp add: c2_serve_def Let_def request_paths) (simp add: trail_request_def)

lemma serve_snapshot:
  "c2_serve d rt (snapshot_request v) = admin_audit_snapshot d rt (JsonBody (JObj [(''records'', v)]))"
  by (simp add: c2_serve_def Let_def request_paths) (simp add: snapshot_request_def)

lemma admin_snapshot_records:
  "admin_audit_snapshot d rt (JsonBody (JObj [(''records'', JArr (map JObj recs))])) =
     (rt\<lparr>audit := replace_records (repr_other d) (audit rt) recs\<rparr>,
      ok_json (JObj [(''status'', JStr ''restored''), (''count'', json_nat (length recs))]))"
  by (simp add: admin_audit_snapshot_def snapshot_records_def)

lemma new_runtime_trail [simp]: "log_records (audit (new_C2Runtime d None r)) = []"
  by (simp add: new_C2Runtime_def open_logger_fresh)

interpretation edge: autostart_backend "edge_api d r0 accepts" "\<lambda>p. p \<noteq> None" process_trail
    "\<lambda>v. as_records v \<noteq> None"
proof (unfold_locales, goal_cases)
  case (1 p)
  then show ?case by (auto simp: edge_api_def boot_def)
next
  case (2 p)
  then show ?case by (simp add: edge_api_def boot_def process_trail_def)
next
  case (3 p)
  then show ?case
    by (auto simp: edge_api_def container_serve_def boot_def serve_trail audit_trail_def Let_def
        records_json_def process_trail_def)
next
  case (4 p v)
  then obtain recs where "v = map JObj recs" by (auto simp: as_records_Some)
  with 4 show ?case
    by (auto simp: edge_api_def container_serve_def boot_def serve_snapshot admin_snapshot_records
        process_trail_def)
next
  case (5 p)
  then show ?case by (auto simp: process_trail_def)
next
  case (6 p q hs req)
  then show ?case
    by (auto simp: edge_api_def container_serve_def boot_def split: prod.splits)
qed


section \<open>The service keeps its log verified\<close>

abbreviation runtime_ok :: "'r c2_deps \<Rightarrow> 'r c2_runtime \<Rightarrow> bool" where
  "runtime_ok d rt \<equiv> logger_ok (digest d) (number_repr d) (audit rt)"

abbreviation verified :: "'r c2_deps \<Rightarrow> audit_record list \<Rightarrow> bool" where
  "verified d recs \<equiv> sealed_chain (digest d) (number_repr d) GENESIS_PREV recs"

text \<open>A request that does not bring in an unverified snapshot of its own.\<close>

definition benign :: "'r c2_deps \<Rightarrow> request \<Rightarrow> bool" where
  "benign d req \<longleftrightarrow>
     (case snapshot_records (req_body req) of None \<Rightarrow> True
      | Some recs \<Rightarrow> ok (verify_audit_chain (digest d) (number_repr d) recs))"

lemma snapshot_route_ok:
  "benign d req \<Longrightarrow> runtime_ok d rt \<Longrightarrow> runtime_ok d (fst (admin_audit_snapshot d rt (req_body req)))"
  by (auto simp: benign_def admin_audit_snapshot_def chain_simps replace_records_ok split: option.splits)

lemma rest_route_ok: "runtime_ok d rt \<Longrightarrow> runtime_ok d (fst (rest_route d rt req))"
  by (simp add: rest_route_def append_events_ok Let_def split: prod.splits)

lemma serve_ok:
  assumes "\<not> demo_tamper_enabled d" "benign d req" "runtime_ok d rt"
  shows "runtime_ok d (fst (c2_serve d rt req))"
  using assms snapshot_route_ok [OF assms(2,3)] rest_route_ok [OF assms(3), of req]
  by (simp add: c2_serve_def Let_def demo_route_def runtime_reset_def)

lemma new_runtime_ok: "runtime_ok d (new_C2Runtime d None r)"
  using open_logger_ok [of "digest d" "number_repr d" None "repr_other d"]
  by (simp add: new_C2Runtime_def load_audit_records_def)

section \<open>Steps of the edge\<close>

text \<open>The object, and the requests that are past hydration and not yet answered.\<close>

record 'p edge_state =
  obj :: "'p c2_container"
  flights :: "request list"

datatype edge_event = Enter request | Serve nat | Task nat | Stop | Evict

definition without :: "nat \<Rightarrow> 'a list \<Rightarrow> 'a list" where
  "without i xs = take i xs @ drop (Suc i) xs"

text \<open>
  \<open>Stop\<close>: the process is gone and \<open>onStop\<close> has begun, its snapshot task still to run. \<open>Evict\<close>: the
  object's memory is dropped with what it had queued, while storage and process live on.
\<close>

inductive edge_step ::
    "'p container_api \<Rightarrow> 'p \<Rightarrow> 'p edge_state \<Rightarrow> edge_event \<Rightarrow> 'p edge_state \<Rightarrow> bool"
  for api :: "'p container_api" and dead :: 'p where
  enter: "hydrate api (obj e) = (s, Inr u) \<Longrightarrow>
     edge_step api dead e (Enter req) (e\<lparr>obj := s, flights := flights e @ [req]\<rparr>)"
| enter_fail: "hydrate api (obj e) = (s, Inl err) \<Longrightarrow> edge_step api dead e (Enter req) (e\<lparr>obj := s\<rparr>)"
| serve: "i < length (flights e) \<Longrightarrow> forward api (obj e) (flights e ! i) = (s, r) \<Longrightarrow>
     edge_step api dead e (Serve i) (e\<lparr>obj := s, flights := without i (flights e)\<rparr>)"
| task: "i < length (waiting (obj e)) \<Longrightarrow>
     edge_step api dead e (Task i) (e\<lparr>obj := run_task api i (obj e)\<rparr>)"
| stop: "edge_step api dead e Stop
     (e\<lparr>obj := (obj e)\<lparr>process := dead, containerHydrated := False, waiting := waiting (obj e) @ [ReadTrail]\<rparr>\<rparr>)"
| evict: "edge_step api dead e Evict
     (e\<lparr>obj := (obj e)\<lparr>containerHydrated := False, waiting := []\<rparr>, flights := []\<rparr>)"

inductive edge_run ::
    "'p container_api \<Rightarrow> 'p \<Rightarrow> 'p edge_state \<Rightarrow> edge_event list \<Rightarrow> 'p edge_state \<Rightarrow> bool"
  for api :: "'p container_api" and dead :: 'p where
  idle: "edge_run api dead e [] e"
| more: "edge_step api dead e ev e' \<Longrightarrow> edge_run api dead e' evs e'' \<Longrightarrow> edge_run api dead e (ev # evs) e''"

inductive_cases edge_stepE: "edge_step api dead e ev e'"
inductive_simps edge_run_Nil: "edge_run api dead e [] e'"
inductive_simps edge_run_Cons: "edge_run api dead e (ev # evs) e'"

definition initial_edge :: "worker_env \<Rightarrow> 'r c2_process edge_state" where
  "initial_edge env = \<lparr>obj = new_C2Container env (\<lambda>_. None) None, flights = []\<rparr>"

section \<open>The stored snapshot is always a verified trail\<close>

definition verified_json :: "'r c2_deps \<Rightarrow> json \<Rightarrow> bool" where
  "verified_json d v \<longleftrightarrow> (\<exists>recs. v = records_json recs \<and> verified d recs)"

definition object_ok :: "'r c2_deps \<Rightarrow> 'r c2_process c2_container \<Rightarrow> bool" where
  "object_ok d s \<longleftrightarrow>
     (\<forall>v. stored s = Some v \<longrightarrow> verified_json d v) \<and>
     (\<forall>v. PutRecords v \<in> set (waiting s) \<longrightarrow> verified_json d v) \<and>
     (\<forall>rt. process s = Some rt \<longrightarrow> runtime_ok d rt)"

lemma runtime_trail_verified: "runtime_ok d rt \<Longrightarrow> verified d (log_records (audit rt))"
  by (simp add: logger_ok_def)

lemma boot_ok: "object_ok d s \<Longrightarrow> boot d r0 (process s) = (rt, hs) \<Longrightarrow> runtime_ok d rt"
  by (auto simp: boot_def object_ok_def new_runtime_ok split: option.splits)

lemma base_call_ok:
  assumes "object_ok d s" "base_call f s = (s', r)" "\<And>rt. process s' = Some rt \<Longrightarrow> runtime_ok d rt"
  shows "object_ok d s'"
  using assms base_call_keeps [OF assms(2)] by (simp add: object_ok_def stored_def)

lemma container_serve_ok:
  assumes "\<not> demo_tamper_enabled d" "benign d req" "object_ok d s"
    and "base_call (\<lambda>p. container_serve d r0 p req) s = (s', r)"
  shows "object_ok d s'"
proof (rule base_call_ok [OF assms(3,4)])
  fix rt assume rt: "process s' = Some rt"
  obtain rt0 hs where b: "boot d r0 (process s) = (rt0, hs)" by (cases "boot d r0 (process s)")
  have "rt = fst (c2_serve d rt0 req)"
    using assms(4) rt b by (auto simp: base_call_def container_serve_def split: prod.splits)
  then show "runtime_ok d rt" using serve_ok [OF assms(1,2) boot_ok [OF assms(3) b]] by simp
qed


lemma edge_api_simps [simp]:
  "containerFetch (edge_api d r0 acc) = container_serve d r0"
  "superFetch (edge_api d r0 acc) = container_serve d r0"
  "storageAccepts (edge_api d r0 acc) = acc"
  "startAndWaitForPorts (edge_api d r0 acc) = (\<lambda>p. let (rt, hs) = boot d r0 p in (Some rt, hs, Inr ()))"
  by (simp_all add: edge_api_def)

lemma object_ok_hydrated [simp]: "object_ok d (s\<lparr>containerHydrated := b\<rparr>) = object_ok d s"
  by (simp add: object_ok_def)

lemma benign_trail: "benign d trail_request"
  by (simp add: benign_def trail_request_def snapshot_records_def)

lemma benign_snapshot: "verified_json d v \<Longrightarrow> benign d (snapshot_request v)"
  by (auto simp: benign_def snapshot_request_def snapshot_records_def verified_json_def records_json_def
      chain_simps)

lemma start_ok:
  assumes "object_ok d s" "base_call (startAndWaitForPorts (edge_api d r0 acc)) s = (s', r)"
  shows "object_ok d s'"
proof (rule base_call_ok [OF assms])
  fix rt assume rt: "process s' = Some rt"
  obtain rt0 hs where b: "boot d r0 (process s) = (rt0, hs)" by (cases "boot d r0 (process s)")
  then have "rt = rt0" using assms(2) rt by (auto simp: base_call_def)
  then show "runtime_ok d rt" using boot_ok [OF assms(1) b] by simp
qed

lemma restore_ok:
  assumes "\<not> demo_tamper_enabled d" "object_ok d s" "restoreAudit (edge_api d r0 acc) s = (s', r)"
  shows "object_ok d s'"
proof (cases "stored s")
  case None
  then show ?thesis using assms by (simp add: restoreAudit_def)
next
  case (Some v)
  then have b: "benign d (snapshot_request v)" using assms(2) by (simp add: benign_snapshot object_ok_def)
  show ?thesis
  proof (cases "js_falsy v \<or> js_length v = Some (JNum 0)")
    case True
    then show ?thesis using assms Some by (simp add: restoreAudit_def)
  next
    case False
    obtain s1 r1 where
      call: "base_call (\<lambda>p. container_serve d r0 p (snapshot_request v)) s = (s1, r1)" by fastforce
    then have "s' = s1" using assms(3) Some False by (auto simp: restoreAudit_def split: sum.splits)
    then show ?thesis using container_serve_ok [OF assms(1) b assms(2) call] by simp
  qed
qed

lemma hydrate_ok:
  assumes "\<not> demo_tamper_enabled d" "object_ok d s" "hydrate (edge_api d r0 acc) s = (s', r)"
  shows "object_ok d s'"
proof (cases "containerHydrated s")
  case True
  then show ?thesis using assms by (simp add: hydrate_def)
next
  case False
  obtain s1 r1 where start: "base_call (startAndWaitForPorts (edge_api d r0 acc)) s = (s1, r1)" by fastforce
  obtain s2 r2 where restore: "restoreAudit (edge_api d r0 acc) s1 = (s2, r2)" by fastforce
  have "object_ok d s1" using start_ok [OF assms(2) start] .
  moreover have "object_ok d s2" using restore_ok [OF assms(1) \<open>object_ok d s1\<close> restore] .
  ultimately show ?thesis
    using assms(3) False start restore unfolding hydrate_def by (auto split: sum.splits)
qed

lemma forward_ok:
  assumes "\<not> demo_tamper_enabled d" "benign d req" "object_ok d s"
    and "forward (edge_api d r0 acc) s req = (s', r)"
  shows "object_ok d s'"
proof -
  obtain s1 r1 where call: "base_call (\<lambda>p. container_serve d r0 p req) s = (s1, r1)" by fastforce
  have "object_ok d s1" by (rule container_serve_ok [OF assms(1-3) call])
  then show ?thesis using assms(4) call
    by (auto simp: forward_def object_ok_def split: sum.splits if_splits)
qed

lemma persist_step_ok:
  assumes "\<not> demo_tamper_enabled d" "object_ok d s" "t = ReadTrail \<or> t \<in> set (waiting s)"
    and "persist_step (edge_api d r0 acc) s t = (s', t')"
  shows "object_ok d s' \<and> waiting s' = waiting s \<and> (\<forall>v. t' = Some (PutRecords v) \<longrightarrow> verified_json d v)"
proof (cases t)
  case ReadTrail
  obtain rt hs where b: "boot d r0 (process s) = (rt, hs)" by (cases "boot d r0 (process s)")
  have rt: "runtime_ok d rt" by (rule boot_ok [OF assms(2) b])
  let ?s1 = "fold run_hook hs (s\<lparr>process := Some rt\<rparr>)"
  have call: "base_call (\<lambda>p. container_serve d r0 p trail_request) s = (?s1, Inr (audit_trail d rt))"
    by (simp add: base_call_def container_serve_def b serve_trail)
  have "object_ok d ?s1"
    using assms(2) rt by (simp add: object_ok_def stored_def)
  moreover have "s' = ?s1 \<and> t' = Some (PutRecords (records_json (log_records (audit rt))))"
    using assms(4) unfolding ReadTrail
    by (simp add: call audit_trail_def Let_def js_member_def json_nullish_def records_json_def)
  ultimately show ?thesis
    using runtime_trail_verified [OF rt] by (auto simp: verified_json_def)
next
  case (PutRecords v)
  then have "verified_json d v" using assms(2,3) by (auto simp: object_ok_def)
  then show ?thesis using assms(2,4) PutRecords
    by (auto simp: storage_put_def object_ok_def split: if_splits)
qed

lemma run_task_ok:
  assumes "\<not> demo_tamper_enabled d" "object_ok d s" "i < length (waiting s)"
  shows "object_ok d (run_task (edge_api d r0 acc) i s)"
proof -
  obtain s' t' where step: "persist_step (edge_api d r0 acc) s (waiting s ! i) = (s', t')" by fastforce
  have mem: "waiting s ! i = ReadTrail \<or> waiting s ! i \<in> set (waiting s)" using assms(3) by simp
  from persist_step_ok [OF assms(1,2) mem step] have
    s': "object_ok d s'" "waiting s' = waiting s" "\<forall>v. t' = Some (PutRecords v) \<longrightarrow> verified_json d v"
    by blast+
  show ?thesis
  proof (cases t')
    case None
    then show ?thesis using s'(1) step
      by (auto simp: run_task_def object_ok_def dest: in_set_takeD in_set_dropD)
  next
    case (Some t)
    then show ?thesis using s'(1,3) step set_update_subset_insert [of "waiting s'" i t]
      by (auto simp: run_task_def object_ok_def)
  qed
qed

lemma without_subset: "set (without i xs) \<subseteq> set xs"
  by (auto simp: without_def dest: in_set_takeD in_set_dropD)

lemma edge_step_ok:
  assumes "edge_step (edge_api d r0 acc) None e ev e'" "\<not> demo_tamper_enabled d"
    and "object_ok d (obj e) \<and> (\<forall>req \<in> set (flights e). benign d req)"
    and "\<And>req. ev = Enter req \<Longrightarrow> benign d req"
  shows "object_ok d (obj e') \<and> (\<forall>req \<in> set (flights e'). benign d req)"
  using assms(1)
proof cases
  case (enter s u req)
  then show ?thesis using assms hydrate_ok [OF assms(2) _ enter(3)] by auto
next
  case (enter_fail s err req)
  then show ?thesis using assms hydrate_ok [OF assms(2) _ enter_fail(3)] by auto
next
  case (serve i s r)
  then have "benign d (flights e ! i)" using assms(3) by simp
  then show ?thesis using serve assms(3) forward_ok [OF assms(2) _ _ serve(4)] without_subset [of i "flights e"]
    by auto
next
  case (task i)
  then show ?thesis using assms(3) run_task_ok [OF assms(2)] by simp
next
  case stop
  then show ?thesis using assms(3) by (auto simp: object_ok_def)
next
  case evict
  then show ?thesis using assms(3) by (auto simp: object_ok_def)
qed

lemma edge_run_ok:
  assumes "edge_run (edge_api d r0 acc) None e evs e'" "\<not> demo_tamper_enabled d"
    and "object_ok d (obj e) \<and> (\<forall>req \<in> set (flights e). benign d req)"
    and "\<And>req. Enter req \<in> set evs \<Longrightarrow> benign d req"
  shows "object_ok d (obj e')"
  using assms
proof (induction rule: edge_run.induct)
  case (more e ev e' evs e'')
  have "object_ok d (obj e') \<and> (\<forall>req \<in> set (flights e'). benign d req)"
    using more.prems by (intro edge_step_ok [OF more.hyps(1)]) auto
  then show ?case using more by auto
qed simp


section \<open>What the edge promises\<close>

lemma initial_edge_ok: "object_ok d (obj (initial_edge env)) \<and> (\<forall>req \<in> set (flights (initial_edge env)). benign d req)"
  by (simp add: initial_edge_def new_C2Container_def object_ok_def stored_def)


text \<open>
  Claim C7: A snapshot survives the loss of the container: once the running service's trail has been
  stored, the process may disappear, and the next request to the object boots a fresh container that
  answers a trail read with the same records as before.
\<close>

theorem snapshot_survives_restart:
  assumes "process s = Some rt" "accepts (records_json (log_records (audit rt)))"
  shows "snd (c2_fetch (edge_api d r0 accepts)
     ((persistAudit (edge_api d r0 accepts) s)\<lparr>process := None, containerHydrated := False\<rparr>) trail_request) =
   Inr (audit_trail d rt)"
proof -
  let ?api = "edge_api d r0 accepts"
  let ?s = "(persistAudit ?api s)\<lparr>process := None, containerHydrated := False\<rparr>"
  have trail: "process_trail (process s) = map JObj (log_records (audit rt))"
    using assms(1) by (simp add: process_trail_def)
  have run: "process s \<noteq> None" using assms(1) by simp
  have acc: "accepts (JArr (process_trail (process s)))"
    using assms(2) by (simp add: trail records_json_def)
  from edge.survives_restart [where s = s and dead = None and d = d and ?r0.0 = r0 and accepts = accepts] run acc obtain q where
    h: "fst (hydrate ?api ?s) = s\<lparr>storage := (storage s)(AUDIT_STORAGE_KEY \<mapsto> JArr (process_trail (process s))),
          process := q, containerHydrated := True\<rparr>" "snd (hydrate ?api ?s) = Inr ()"
      "q \<noteq> None" "process_trail q = process_trail (process s)"
    by auto
  obtain rt' where q: "q = Some rt'" using h(3) by auto
  have "log_records (audit rt') = log_records (audit rt)"
    using h(4) q trail by (simp add: process_trail_def inj_map_eq_map inj_def)
  then have "audit_trail d rt' = audit_trail d rt" by (simp add: audit_trail_def)
  moreover have "hydrate ?api ?s = (fst (hydrate ?api ?s), snd (hydrate ?api ?s))" by simp
  ultimately show ?thesis
    unfolding c2_fetch_def by (subst \<open>hydrate ?api ?s = _\<close>)
      (simp add: h q forward_def base_call_def container_serve_def boot_def serve_trail)
qed

text \<open>
  A request that changed the trail becomes durable: when the object forwards it and nothing
  else is queued, the two steps of its snapshot task leave in storage exactly the trail the service
  holds after the request.
\<close>

theorem mutating_request_becomes_durable:
  assumes "process s = Some rt" "containerHydrated s" "waiting s = []"
    and "c2_serve d rt req = (rt', resp)" "shouldPersistAudit req resp"
    and "accepts (records_json (log_records (audit rt')))"
  shows "let api = edge_api d r0 accepts; s' = fst (c2_fetch api s req); s'' = run_task api 0 (run_task api 0 s')
     in snd (c2_fetch api s req) = Inr resp \<and> waiting s'' = [] \<and>
        stored s'' = Some (records_json (log_records (audit rt')))"
proof -
  let ?api = "edge_api d r0 accepts"
  let ?s' = "s\<lparr>process := Some rt', waiting := [ReadTrail]\<rparr>"
  have "c2_fetch ?api s req = (?s', Inr resp)"
    using assms by (simp add: c2_fetch_def hydrate_def forward_def base_call_def container_serve_def boot_def)
  moreover have "run_task ?api 0 ?s' = ?s'\<lparr>waiting := [PutRecords (records_json (log_records (audit rt')))]\<rparr>"
    by (simp add: run_task_def base_call_def container_serve_def boot_def serve_trail audit_trail_def Let_def
        js_member_def json_nullish_def records_json_def)
  moreover have "run_task ?api 0 (?s'\<lparr>waiting := [PutRecords v]\<rparr>) =
      ?s'\<lparr>storage := (storage s)(AUDIT_STORAGE_KEY \<mapsto> v), waiting := []\<rparr>" if "accepts v" for v
    using that by (simp add: run_task_def storage_put_def)
  ultimately show ?thesis
    using assms(6) by (simp add: Let_def stored_def)
qed

text \<open>
  A snapshot attempt is contained: whatever the container does, it touches no other key of
  the storage, no queued task and no setting, and it either leaves the storage as it was or stores
  the \<open>records\<close> of an ok answer to the trail read.
\<close>

theorem snapshot_attempt_is_contained:
  "let s' = persistAudit api s in
     (storage s')(AUDIT_STORAGE_KEY := None) = (storage s)(AUDIT_STORAGE_KEY := None) \<and>
     waiting s' = waiting s \<and> envVars s' = envVars s \<and>
     (storage s' = storage s \<or>
      (\<exists>p hs res body. containerFetch api (process s) trail_request = (p, hs, Inr res) \<and> response_ok res \<and>
         response_json res = Inr body \<and>
         stored s' = Some (json_nullish (json_get body ''records'') (JArr []))))"
proof -
  obtain p hs r where call: "containerFetch api (process s) trail_request = (p, hs, r)"
    by (cases "containerFetch api (process s) trail_request")
  show ?thesis
    by (cases r; cases "response_json (projr r)")
      (auto simp: persistAudit_def base_call_def call Let_def js_member_def storage_put_def stored_def)
qed

text \<open>
  Claim C38: A request is forwarded only after hydration succeeded: when starting the container or
  restoring the snapshot throws, the request fails with that error, nothing is queued or stored, and
  the object stays unhydrated, so that the next request tries again.
\<close>

theorem failed_hydration_blocks_the_request:
  assumes "hydrate api s = (s', Inl err)"
  shows "c2_fetch api s req = (s', Inl err) \<and> \<not> containerHydrated s' \<and> storage s' = storage s \<and>
    waiting s' = waiting s"
proof -
  obtain s1 r1 where start: "base_call (startAndWaitForPorts api) s = (s1, r1)" by fastforce
  have not: "\<not> containerHydrated s" using assms by (auto simp: hydrate_def)
  have keep1: "storage s1 = storage s \<and> waiting s1 = waiting s \<and> \<not> containerHydrated s1"
    using base_call_keeps [OF start] not by simp
  have "storage s' = storage s \<and> waiting s' = waiting s \<and> \<not> containerHydrated s'"
  proof (cases r1)
    case (Inl e)
    then show ?thesis using assms not start keep1 by (simp add: hydrate_def)
  next
    case (Inr u)
    obtain s2 r2 where restore: "restoreAudit api s1 = (s2, r2)" by fastforce
    then have "s' = s2"
      using assms not start Inr unfolding hydrate_def by (auto split: sum.splits)
    moreover have "storage s2 = storage s1 \<and> waiting s2 = waiting s1 \<and> (containerHydrated s2 \<longrightarrow> containerHydrated s1)"
      using restore base_call_keeps [of "\<lambda>p. containerFetch api p (snapshot_request _)" s1]
      by (auto simp: restoreAudit_def split: option.splits if_splits sum.splits prod.splits)
    ultimately show ?thesis using keep1 by auto
  qed
  then show ?thesis using assms by (simp add: c2_fetch_def)
qed


section \<open>Where the snapshot is lost\<close>

text \<open>
  Claim C39: A stop erases the snapshot: \<open>onStop\<close> runs when the container is gone, so its trail read
  starts a fresh container and stores that container's empty trail over the snapshot; the next
  request finds no record.
\<close>

theorem stop_erases_the_snapshot:
  assumes "process s = None" "accepts (JArr [])"
  shows "let s' = onStop (edge_api d r0 accepts) s in
     stored s' = Some (JArr []) \<and> process s' \<noteq> None \<and>
     snd (c2_fetch (edge_api d r0 accepts) (s'\<lparr>process := None\<rparr>) trail_request) =
       Inr (audit_trail d (new_C2Runtime d None r0))"
proof -
  have "stored (onStop (edge_api d r0 accepts) s) = Some (JArr []) \<and>
      process (onStop (edge_api d r0 accepts) s) \<noteq> None"
    using edge.stop_erases_snapshot [where s = s and d = d and ?r0.0 = r0 and accepts = accepts] assms by simp
  moreover have "containerHydrated (onStop (edge_api d r0 accepts) s) = False"
    using assms by (simp add: onStop_def persistAudit_def base_call_def container_serve_def boot_def serve_trail
        audit_trail_def Let_def js_member_def json_nullish_def storage_put_def onStart_def records_json_def)
  ultimately show ?thesis
    by (simp add: Let_def c2_fetch_def hydrate_def base_call_def boot_def restoreAudit_def onStart_def
        forward_def container_serve_def serve_trail)
qed

lemma trail_not_persisted [simp]: "\<not> shouldPersistAudit trail_request resp"
  by (simp add: shouldPersistAudit_def trail_request_def toUpperCase_def ascii_upper_char_def)

text \<open>
  An object whose memory was dropped while its container kept running rolls the trail back:
  its first request puts the stored snapshot over the live trail, so every record appended after that
  snapshot is gone.
\<close>

theorem eviction_rolls_the_trail_back:
  assumes "process s = Some rt" "\<not> containerHydrated s"
    and "stored s = Some (records_json recs)" "recs \<noteq> []"
  shows "\<exists>rt'. c2_fetch (edge_api d r0 accepts) s trail_request =
     (s\<lparr>process := Some rt', containerHydrated := True\<rparr>, Inr (audit_trail d rt')) \<and>
     log_records (audit rt') = recs"
proof -
  let ?rt = "rt\<lparr>audit := replace_records (repr_other d) (audit rt) recs\<rparr>"
  have "hydrate (edge_api d r0 accepts) s = (s\<lparr>process := Some ?rt, containerHydrated := True\<rparr>, Inr ())"
    using assms by (simp add: hydrate_def base_call_def boot_def restoreAudit_def container_serve_def
        serve_snapshot admin_snapshot_records records_json_def)
  then show ?thesis
    by (intro exI [of _ ?rt])
      (simp add: c2_fetch_def forward_def base_call_def container_serve_def boot_def serve_trail trail_not_persisted)
qed

text \<open>
  A restore the service refuses is forgotten: with any platform, when the snapshot PUT is
  answered by an error status the object still counts as hydrated and forwards the request, and the
  snapshot that follows a changing request replaces the good one in storage by the service's own trail.
\<close>

theorem refused_restore_loses_the_snapshot:
  assumes "\<not> containerHydrated s" "stored s = Some (JArr v)" "v \<noteq> []" "waiting s = []"
    and "startAndWaitForPorts api (process s) = (p, [], Inr ())"
    and "containerFetch api p (snapshot_request (JArr v)) = (p, [], Inr refused)" "\<not> response_ok refused"
    and "superFetch api p req = (q, [], Inr resp)" "shouldPersistAudit req resp"
    and "containerFetch api q trail_request = (q, [], Inr tr)" "response_ok tr"
    and "response_json tr = Inr (JObj [(''records'', JArr w)])" "storageAccepts api (JArr w)"
  shows "let s' = fst (c2_fetch api s req) in
     snd (c2_fetch api s req) = Inr resp \<and> containerHydrated s' \<and>
     stored (run_task api 0 (run_task api 0 s')) = Some (JArr w)"
proof -
  let ?s = "s\<lparr>process := q, containerHydrated := True, waiting := [ReadTrail]\<rparr>"
  have "c2_fetch api s req = (?s, Inr resp)"
    using assms by (simp add: c2_fetch_def hydrate_def base_call_def restoreAudit_def forward_def)
  moreover have "run_task api 0 ?s = ?s\<lparr>waiting := [PutRecords (JArr w)]\<rparr>"
    using assms by (simp add: run_task_def base_call_def js_member_def json_nullish_def)
  moreover have "stored (run_task api 0 (?s\<lparr>waiting := [PutRecords (JArr w)]\<rparr>)) = Some (JArr w)"
    using assms by (simp add: run_task_def storage_put_def stored_def)
  ultimately show ?thesis by (simp add: Let_def)
qed

section \<open>A run in which an older snapshot wins\<close>

definition demo_event :: log_event where
  "demo_event = \<lparr>ev_now = ''t'', ev_name = ''gate_decision'', ev_severity = ''High'', ev_data = JNull\<rparr>"

definition demo_deps :: "unit c2_deps" where
  "demo_deps = \<lparr>digest = id, number_repr = unary_num, repr_other = (\<lambda>j. ''?''), demo_tamper_enabled = False,
     audit_path = ''/tmp/nexus-audit/gate.jsonl'',
     rest_handler = (\<lambda>r req. (r, [demo_event], \<lambda>recs. ok_json JNull)), rest_cleared = id\<rparr>"

definition demo_post :: request where
  "demo_post = \<lparr>req_method = ''POST'', req_url = ''https://c2/api/gate/approve'', req_headers = [], req_body = NoBody\<rparr>"

abbreviation demo_api :: "unit c2_process container_api" where
  "demo_api \<equiv> edge_api demo_deps () (\<lambda>v. True)"

fun demo_runtime :: "nat \<Rightarrow> unit c2_runtime" where
  "demo_runtime 0 = new_C2Runtime demo_deps None ()"
| "demo_runtime (Suc n) = (demo_runtime n)\<lparr>audit := append_event id unary_num (audit (demo_runtime n)) demo_event\<rparr>"

definition demo_records :: "nat \<Rightarrow> audit_record list" where
  "demo_records n = log_records (audit (demo_runtime n))"

lemma demo_post_serve:
  "c2_serve demo_deps rt demo_post =
     (rt\<lparr>audit := append_event id unary_num (audit rt) demo_event\<rparr>, ok_json JNull)"
proof -
  have "url_pathname (req_url demo_post) = ''/api/gate/approve''"
    by (simp add: demo_post_def url_pathname_def)
  then show ?thesis
    by (simp add: c2_serve_def Let_def rest_route_def) (simp add: demo_deps_def)
qed

lemma demo_post_persists: "shouldPersistAudit demo_post (ok_json JNull)"
  by (simp add: demo_post_def shouldPersistAudit_def toUpperCase_def ascii_upper_char_def url_pathname_def Let_def)

definition demo_object :: "bool \<Rightarrow> json option \<Rightarrow> nat option \<Rightarrow> persist_task list \<Rightarrow> unit c2_process c2_container" where
  "demo_object h st n ts =
     \<lparr>envVars = container_env_vars demo_env, containerHydrated = h,
      storage = (case st of None \<Rightarrow> (\<lambda>_. None) | Some v \<Rightarrow> [AUDIT_STORAGE_KEY \<mapsto> v]),
      process = map_option demo_runtime n, waiting = ts\<rparr>"

lemma demo_initial: "obj (initial_edge demo_env) = demo_object False None None []"
  by (simp add: initial_edge_def new_C2Container_def demo_object_def)

lemma demo_hydrate_fresh: "hydrate demo_api (demo_object False None None ts) = (demo_object True None (Some 0) ts, Inr ())"
  by (simp add: hydrate_def demo_object_def base_call_def boot_def restoreAudit_def stored_def onStart_def)

lemma demo_hydrated: "hydrate demo_api (demo_object True st n ts) = (demo_object True st n ts, Inr ())"
  by (simp add: hydrate_def demo_object_def)

lemma demo_forward:
  "forward demo_api (demo_object h st (Some n) ts) demo_post =
     (demo_object h st (Some (Suc n)) (ts @ [ReadTrail]), Inr (ok_json JNull))"
  by (simp add: forward_def demo_object_def base_call_def container_serve_def boot_def demo_post_serve
      demo_post_persists)

lemma demo_task_read:
  "i < length ts \<Longrightarrow> ts ! i = ReadTrail \<Longrightarrow>
     run_task demo_api i (demo_object h st (Some n) ts) =
       demo_object h st (Some n) (ts[i := PutRecords (records_json (demo_records n))])"
  by (simp add: run_task_def demo_object_def base_call_def container_serve_def boot_def serve_trail audit_trail_def
      Let_def js_member_def json_nullish_def records_json_def demo_records_def)

lemma demo_task_put:
  "i < length ts \<Longrightarrow> ts ! i = PutRecords v \<Longrightarrow>
     run_task demo_api i (demo_object h st n ts) = demo_object h (Some v) n (without i ts)"
  by (cases st) (simp_all add: run_task_def demo_object_def storage_put_def without_def)

lemma demo_records_length: "length (demo_records n) = n"
  by (induction n) (simp_all add: demo_records_def append_event_def)

lemma demo_records_take: "take n (demo_records (Suc n)) = demo_records n"
  using demo_records_length [of n] by (simp add: demo_records_def append_event_def)


definition demo_state :: "bool \<Rightarrow> json option \<Rightarrow> nat option \<Rightarrow> persist_task list \<Rightarrow> request list \<Rightarrow>
    unit c2_process edge_state" where
  "demo_state h st n ts fs = \<lparr>obj = demo_object h st n ts, flights = fs\<rparr>"

lemma demo_enter:
  "edge_step demo_api None (demo_state False None None ts fs) (Enter demo_post)
     (demo_state True None (Some 0) ts (fs @ [demo_post]))"
  "edge_step demo_api None (demo_state True st n ts fs) (Enter demo_post) (demo_state True st n ts (fs @ [demo_post]))"
  using enter [of demo_api "demo_state False None None ts fs"] enter [of demo_api "demo_state True st n ts fs"]
  by (simp_all add: demo_state_def demo_hydrate_fresh demo_hydrated)

lemma demo_serve:
  "edge_step demo_api None (demo_state h st (Some n) ts [demo_post]) (Serve 0)
     (demo_state h st (Some (Suc n)) (ts @ [ReadTrail]) [])"
  using serve [of 0 "demo_state h st (Some n) ts [demo_post]" demo_api]
  by (simp add: demo_state_def demo_forward without_def)

lemma demo_read:
  "i < length ts \<Longrightarrow> ts ! i = ReadTrail \<Longrightarrow>
     edge_step demo_api None (demo_state h st (Some n) ts fs) (Task i)
       (demo_state h st (Some n) (ts[i := PutRecords (records_json (demo_records n))]) fs)"
  using task [of i "demo_state h st (Some n) ts fs" demo_api]
  by (simp add: demo_state_def demo_task_read) (simp add: demo_object_def demo_task_read)

lemma demo_put:
  "i < length ts \<Longrightarrow> ts ! i = PutRecords v \<Longrightarrow>
     edge_step demo_api None (demo_state h st n ts fs) (Task i) (demo_state h (Some v) n (without i ts) fs)"
  using task [of i "demo_state h st n ts fs" demo_api]
  by (simp add: demo_state_def demo_task_put) (simp add: demo_object_def demo_task_put)

lemma demo_waiting [simp]: "waiting (demo_object h st n ts) = ts"
  by (simp add: demo_object_def)

abbreviation put_demo :: "nat \<Rightarrow> persist_task" where
  "put_demo n \<equiv> PutRecords (records_json (demo_records n))"

definition one_request_run :: "edge_event list" where
  "one_request_run = [Enter demo_post, Serve 0, Task 0, Task 0]"

lemma one_request_run:
  "edge_run demo_api None (demo_state False None None [] []) one_request_run
     (demo_state True (Some (records_json (demo_records 1))) (Some 1) [] [])"
  unfolding one_request_run_def
  using demo_enter(1) [of "[]" "[]"] demo_serve [of True None 0 "[]"] demo_read [of 0 "[ReadTrail]" True None 1 "[]"]
    demo_put [of 0 "[put_demo 1]" "records_json (demo_records 1)" True None "Some 1" "[]"]
  by (auto intro!: edge_run.intros simp: without_def)

definition racing_run :: "edge_event list" where
  "racing_run = [Enter demo_post, Serve 0, Task 0, Enter demo_post, Serve 0, Task 1, Task 1, Task 0]"

lemma racing_run:
  "edge_run demo_api None (demo_state False None None [] []) racing_run
     (demo_state True (Some (records_json (demo_records 1))) (Some 2) [] [])"
  unfolding racing_run_def
  using demo_enter(1) [of "[]" "[]"] demo_serve [of True None 0 "[]"] demo_read [of 0 "[ReadTrail]" True None 1 "[]"]
    demo_enter(2) [of None "Some 1" "[put_demo 1]" "[]"] demo_serve [of True None 1 "[put_demo 1]"]
    demo_read [of 1 "[put_demo 1, ReadTrail]" True None 2 "[]"]
    demo_put [of 1 "[put_demo 1, put_demo 2]" "records_json (demo_records 2)" True None "Some 2" "[]"]
    demo_put [of 0 "[put_demo 1]" "records_json (demo_records 1)" True "Some (records_json (demo_records 2))" "Some 2" "[]"]
  by (auto intro!: edge_run.intros simp: without_def numeral_2_eq_2)

lemma demo_state_initial: "initial_edge demo_env = demo_state False None None [] []"
  by (simp add: demo_state_def initial_edge_def new_C2Container_def demo_object_def)

lemma demo_state_facts [simp]:
  "stored (obj (demo_state h (Some v) n ts fs)) = Some v" "waiting (obj (demo_state h st n ts fs)) = ts"
  "flights (demo_state h st n ts fs) = fs" "process (obj (demo_state h st n ts fs)) = map_option demo_runtime n"
  by (simp_all add: demo_state_def demo_object_def stored_def)

text \<open>
  An older snapshot can win: two changing requests are answered, both snapshot tasks finish,
  and yet storage holds only the first record of a trail of two, because the task that read the trail
  first stored last; a stop now loses the second record for good.
\<close>

theorem an_older_snapshot_can_win:
  "\<exists>e rt. edge_run (edge_api demo_deps () (\<lambda>v. True)) None (initial_edge demo_env)
       [Enter demo_post, Serve 0, Task 0, Enter demo_post, Serve 0, Task 1, Task 1, Task 0] e \<and>
     flights e = [] \<and> waiting (obj e) = [] \<and> process (obj e) = Some rt \<and>
     length (log_records (audit rt)) = 2 \<and> stored (obj e) = Some (records_json (take 1 (log_records (audit rt))))"
proof -
  have "length (log_records (audit (demo_runtime 2))) = 2"
    using demo_records_length [of 2] by (simp add: demo_records_def)
  moreover have "take 1 (log_records (audit (demo_runtime 2))) = demo_records 1"
    using demo_records_take [of 1] by (simp add: demo_records_def numeral_2_eq_2)
  ultimately show ?thesis
    using racing_run unfolding racing_run_def demo_state_initial
    by (intro exI [of _ "demo_state True (Some (records_json (demo_records 1))) (Some 2) [] []"]
        exI [of _ "demo_runtime 2"]) simp
qed

lemma demo_benign: "benign demo_deps demo_post"
  by (simp add: benign_def demo_post_def snapshot_records_def)


theorem snapshot_survives_restart_witness:
  "snd (c2_fetch demo_api ((persistAudit demo_api (demo_object True None (Some 1) []))\<lparr>process := None,
     containerHydrated := False\<rparr>) trail_request) = Inr (audit_trail demo_deps (demo_runtime 1))"
  by (rule snapshot_survives_restart) (simp_all add: demo_object_def)

theorem mutating_request_becomes_durable_witness:
  "stored (run_task demo_api 0 (run_task demo_api 0 (fst (c2_fetch demo_api (demo_object True None (Some 0) []) demo_post)))) =
     Some (records_json (demo_records 1))"
  using mutating_request_becomes_durable
    [of "demo_object True None (Some 0) []" "demo_runtime 0" demo_deps demo_post "demo_runtime 1" "ok_json JNull"
      "\<lambda>v. True" "()"]
  by (simp add: Let_def demo_object_def demo_post_serve demo_post_persists demo_records_def)

theorem failed_hydration_blocks_the_request_witness:
  "let api = demo_api\<lparr>startAndWaitForPorts := \<lambda>p. (p, [HookError], Inl ContainerError)\<rparr> in
   snd (c2_fetch api (demo_object False None None []) demo_post) = Inl ContainerError"
proof -
  let ?api = "demo_api\<lparr>startAndWaitForPorts := \<lambda>p. (p, [HookError], Inl ContainerError)\<rparr>"
  have "hydrate ?api (demo_object False None None []) = (demo_object False None None [], Inl ContainerError)"
    by (simp add: hydrate_def base_call_def demo_object_def onError_def)
  from failed_hydration_blocks_the_request [OF this] show ?thesis by (simp add: Let_def)
qed

theorem stop_erases_the_snapshot_witness:
  "stored (onStop demo_api (demo_object True (Some (records_json (demo_records 1))) None [])) = Some (JArr [])"
  using stop_erases_the_snapshot [of "demo_object True (Some (records_json (demo_records 1))) None []"
      "\<lambda>v. True" demo_deps "()"]
  by (simp add: Let_def demo_object_def)

theorem eviction_rolls_the_trail_back_witness:
  "\<exists>rt'. fst (c2_fetch demo_api (demo_object False (Some (records_json (demo_records 1))) (Some 2) []) trail_request) =
     (demo_object False (Some (records_json (demo_records 1))) (Some 2) [])\<lparr>process := Some rt', containerHydrated := True\<rparr> \<and>
     length (log_records (audit rt')) = 1"
proof -
  have "demo_records 1 \<noteq> []" using demo_records_length [of 1] by auto
  then obtain rt' where "c2_fetch demo_api (demo_object False (Some (records_json (demo_records 1))) (Some 2) []) trail_request =
     ((demo_object False (Some (records_json (demo_records 1))) (Some 2) [])\<lparr>process := Some rt', containerHydrated := True\<rparr>,
      Inr (audit_trail demo_deps rt'))" "log_records (audit rt') = demo_records 1"
    using eviction_rolls_the_trail_back
      [of "demo_object False (Some (records_json (demo_records 1))) (Some 2) []" "demo_runtime 2" "demo_records 1"
        demo_deps "()" "\<lambda>v. True"]
    by (auto simp: demo_object_def stored_def)
  then show ?thesis using demo_records_length [of 1] by auto
qed

definition refusing_api :: "unit container_api" where
  "refusing_api =
     \<lparr>startAndWaitForPorts = (\<lambda>p. (p, [], Inr ())),
      containerFetch = (\<lambda>p req. (p, [], Inr (if req_method req = ''GET''
        then ok_json (JObj [(''records'', JArr [])]) else http_error 503))),
      superFetch = (\<lambda>p req. (p, [], Inr (ok_json JNull))), storageAccepts = (\<lambda>v. True)\<rparr>"

theorem refused_restore_loses_the_snapshot_witness:
  "let s = \<lparr>envVars = [], containerHydrated = False, storage = [AUDIT_STORAGE_KEY \<mapsto> JArr [JObj []]],
      process = (), waiting = []\<rparr>; s' = fst (c2_fetch refusing_api s demo_post)
   in stored s = Some (JArr [JObj []]) \<and>
      stored (run_task refusing_api 0 (run_task refusing_api 0 s')) = Some (JArr [])"
  using refused_restore_loses_the_snapshot
    [of "\<lparr>envVars = [], containerHydrated = False, storage = [AUDIT_STORAGE_KEY \<mapsto> JArr [JObj []]],
      process = (), waiting = []\<rparr>" "[JObj []]" refusing_api "()" "http_error 503" demo_post "()" "ok_json JNull"
      "ok_json (JObj [(''records'', JArr [])])" "[]"]
  by (simp add: Let_def refusing_api_def snapshot_request_def trail_request_def stored_def demo_post_persists)


section \<open>The tamper demo\<close>

definition tamper_request :: request where
  "tamper_request = \<lparr>req_method = ''POST'', req_url = ''https://c2/api/admin/audit/tamper'',
     req_headers = [], req_body = NoBody\<rparr>"

definition restore_request :: request where
  "restore_request = \<lparr>req_method = ''POST'', req_url = ''https://c2/api/admin/audit/restore'',
     req_headers = [], req_body = NoBody\<rparr>"

lemma serve_tamper: "c2_serve d rt tamper_request = demo_route d (inject_audit_tamper d rt) rt"
proof -
  have "url_pathname (req_url tamper_request) = ''/api/admin/audit/tamper''"
    by (simp add: tamper_request_def url_pathname_def)
  then show ?thesis by (simp add: c2_serve_def Let_def) (simp add: tamper_request_def)
qed

lemma serve_restore: "c2_serve d rt restore_request = demo_route d (restore_audit_tamper d rt) rt"
proof -
  have "url_pathname (req_url restore_request) = ''/api/admin/audit/restore''"
    by (simp add: restore_request_def url_pathname_def)
  then show ?thesis by (simp add: c2_serve_def Let_def) (simp add: restore_request_def)
qed

text \<open>
  The tamper demo is visible and reversible: on a verified log of at least two records the
  tamper route makes the health report say not verified with one broken record, and the restore route
  brings back every record and a log that verifies and can be appended to.
\<close>

theorem tamper_demo_is_visible_and_reversible:
  assumes "demo_tamper_enabled d" "logger_ok (digest d) (number_repr d) (audit rt)" "number_text (number_repr d)"
    and "2 \<le> length (log_records (audit rt))" "wf_record (log_records (audit rt) ! 1)"
    and "inject_one_char_tamper (repr_other d) (log_records (audit rt)) 1 = Inr tampered"
    and "\<not> collides (digest d) (number_repr d) (record_body (tampered ! 1)) (record_body (log_records (audit rt) ! 1))"
  shows "let rt1 = fst (c2_serve d rt tamper_request); rt2 = fst (c2_serve d rt1 restore_request) in
     log_records (audit rt1) = tampered \<and> \<not> ok (verify_now d rt1) \<and> broken_links (verify_now d rt1) = 1 \<and>
     log_records (audit rt2) = log_records (audit rt) \<and> logger_ok (digest d) (number_repr d) (audit rt2)"
proof -
  let ?recs = "log_records (audit rt)"
  let ?rt1 = "rt\<lparr>audit_pre_tamper := Some ?recs, audit := replace_records (repr_other d) (audit rt) tampered\<rparr>"
  have v: "ok (verify_audit_chain (digest d) (number_repr d) ?recs)"
    using assms(2) by (simp add: chain_simps logger_ok_def)
  have one: "nat 1 = 1" by simp
  have detect: "verify_audit_chain (digest d) (number_repr d) tampered =
      \<lparr>ok = False, total = length ?recs, break_index = Some 1, reason = Some HASH_MISMATCH,
       errors = [(1, HASH_MISMATCH)]\<rparr>"
    using detect_injected [OF v assms(3,6)] assms(5,7) by simp
  have "fst (c2_serve d rt tamper_request) = ?rt1"
    using assms(1,4,6) by (simp add: serve_tamper demo_route_def inject_audit_tamper_def Let_def)
  moreover have "fst (c2_serve d ?rt1 restore_request) = ?rt1\<lparr>audit := replace_records (repr_other d) (audit ?rt1) ?recs\<rparr>"
    using assms(1) by (simp add: serve_restore demo_route_def restore_audit_tamper_def Let_def)
  moreover have "verified d ?recs" using assms(2) by (simp add: logger_ok_def)
  ultimately show ?thesis
    by (simp add: Let_def verify_now_def detect broken_links_def replace_records_ok)
qed

theorem tamper_demo_is_visible_and_reversible_witness:
  "\<exists>tampered. inject_one_char_tamper (\<lambda>j. ''?'') demo_sealed 1 = Inr tampered \<and>
     (let d = demo_deps\<lparr>demo_tamper_enabled := True\<rparr>;
          rt = \<lparr>audit = open_logger (\<lambda>j. ''?'') (Some demo_sealed), audit_pre_tamper = None, rest = ()\<rparr>
      in log_records (audit (fst (c2_serve d rt tamper_request))) = tampered \<and>
         log_records (audit (fst (c2_serve d (fst (c2_serve d rt tamper_request)) restore_request))) = demo_sealed)"
proof -
  let ?d = "demo_deps\<lparr>demo_tamper_enabled := True\<rparr>"
  let ?rt = "\<lparr>audit = open_logger (\<lambda>j. ''?'') (Some demo_sealed), audit_pre_tamper = None, rest = ()\<rparr>"
  obtain tampered where t: "inject_one_char_tamper (\<lambda>j. ''?'') demo_sealed 1 = Inr tampered"
    by (auto simp: inject_one_char_tamper_def demo_sealed_def demo_record_def flip_approved_def Let_def)
  have recs: "log_records (audit ?rt) = demo_sealed"
    using open_logger_keeps [OF demo_sealed_chain] by simp
  have "logger_ok id unary_num (open_logger (\<lambda>j. ''?'') (Some demo_sealed))"
    by (rule open_logger_ok) (simp add: load_audit_records_def demo_sealed_chain)
  moreover have "wf_record (demo_sealed ! 1)" "2 \<le> length demo_sealed"
    by (simp_all add: wf_record_def demo_sealed_def demo_record_def Let_def)
  moreover have "\<not> collides id unary_num a b" for a b by (simp add: collides_def record_digest_def)
  ultimately show ?thesis
    using tamper_demo_is_visible_and_reversible [of ?d ?rt tampered] t number_text_unary recs
    by (simp add: Let_def demo_deps_def)
qed

end
