(* ===== verification/Gate_Data.thy ===== *)
theory Gate_Data
  imports Canonical_JSON "HOL-Library.AList"
begin

text \<open>
  The data of the command gate: courses of action and verdicts (\<open>core/coa.py\<close>), decision tokens
  (\<open>core/schema.py\<close>), and the JSON each is served as. Dicts are association lists with distinct keys;
  floats are rationals, printed by the parameter \<open>num\<close>.
\<close>

section \<open>Courses of action\<close>

datatype action_tier = TIER_0_AUTONOMOUS | TIER_1_HITL | TIER_2_DUAL_KEY

datatype gate_verdict = APPROVED | REJECTED_FAST | REJECTED_OPERATOR | TIMED_OUT_FALLBACK

fun tier_value :: "action_tier \<Rightarrow> int" where
  "tier_value TIER_0_AUTONOMOUS = 0"
| "tier_value TIER_1_HITL = 1"
| "tier_value TIER_2_DUAL_KEY = 2"

text \<open>\<open>ActionTier\<close> is an integer enumeration: tiers are ordered by how much authority they ask for.\<close>

lemma tier_value_inject [simp]: "tier_value a = tier_value b \<longleftrightarrow> a = b"
  by (cases a; cases b) simp_all

instantiation action_tier :: linorder
begin

definition less_eq_action_tier :: "action_tier \<Rightarrow> action_tier \<Rightarrow> bool" where
  "less_eq_action_tier a b \<longleftrightarrow> tier_value a \<le> tier_value b"

definition less_action_tier :: "action_tier \<Rightarrow> action_tier \<Rightarrow> bool" where
  "less_action_tier a b \<longleftrightarrow> tier_value a < tier_value b"

instance
  by standard (auto simp: less_eq_action_tier_def less_action_tier_def)

end

fun verdict_value :: "gate_verdict \<Rightarrow> string" where
  "verdict_value APPROVED = ''APPROVED''"
| "verdict_value REJECTED_FAST = ''REJECTED_FAST''"
| "verdict_value REJECTED_OPERATOR = ''REJECTED_OPERATOR''"
| "verdict_value TIMED_OUT_FALLBACK = ''TIMED_OUT_FALLBACK''"

type_synonym dict = "(string \<times> json) list"

record course_of_action =
  coa_id :: string
  tier :: action_tier
  target_entity_id :: string
  target_coordinates :: "rat \<times> rat"
  intent :: string
  timeout_seconds :: rat
  pre_conditions :: dict
  post_conditions :: dict
  invariants :: dict
  confidence :: rat
  corroborating_sources :: "string list"
  raw_input_digest :: string
  speed_kt :: "rat option"
  metadata :: dict

definition default_coa :: "string \<Rightarrow> course_of_action" where
  "default_coa i =
     \<lparr>coa_id = i, tier = TIER_1_HITL, target_entity_id = '''', target_coordinates = (0, 0),
      intent = ''INSPECT_TARGET'', timeout_seconds = 5, pre_conditions = [], post_conditions = [],
      invariants = [], confidence = 0, corroborating_sources = [], raw_input_digest = '''',
      speed_kt = None, metadata = []\<rparr>"

definition json_or_null :: "('a \<Rightarrow> json) \<Rightarrow> 'a option \<Rightarrow> json" where
  "json_or_null f v = (case v of None \<Rightarrow> JNull | Some x \<Rightarrow> f x)"

text \<open>\<open>coa.model_dump(mode="json")\<close>: the fields in the order of the class.\<close>

definition coa_json :: "course_of_action \<Rightarrow> json" where
  "coa_json c = JObj
     [(''coa_id'', JStr (coa_id c)), (''tier'', JNum (of_int (tier_value (tier c)))),
      (''target_entity_id'', JStr (target_entity_id c)),
      (''target_coordinates'', JArr [JNum (fst (target_coordinates c)), JNum (snd (target_coordinates c))]),
      (''intent'', JStr (intent c)), (''timeout_seconds'', JNum (timeout_seconds c)),
      (''pre_conditions'', JObj (pre_conditions c)), (''post_conditions'', JObj (post_conditions c)),
      (''invariants'', JObj (invariants c)), (''confidence'', JNum (confidence c)),
      (''corroborating_sources'', JArr (map JStr (corroborating_sources c))),
      (''raw_input_digest'', JStr (raw_input_digest c)), (''speed_kt'', json_or_null JNum (speed_kt c)),
      (''metadata'', JObj (metadata c))]"

section \<open>Decision tokens\<close>

record decision_token =
  token_id :: string
  for_coa :: string
  verdict :: string
  issued_at :: string
  operator_id :: "string option"
  token_reason :: "string option"
  token_digest :: string

definition token_body :: "decision_token \<Rightarrow> dict" where
  "token_body t =
     [(''token_id'', JStr (token_id t)), (''coa_id'', JStr (for_coa t)), (''verdict'', JStr (verdict t)),
      (''issued_at'', JStr (issued_at t)), (''operator_id'', json_or_null JStr (operator_id t)),
      (''reason'', json_or_null JStr (token_reason t))]"

definition token_json :: "decision_token \<Rightarrow> json" where
  "token_json t = JObj (token_body t @ [(''digest'', JStr (token_digest t))])"

text \<open>\<open>token.seal()\<close>: the digest of everything but the digest.\<close>

definition seal_digest :: "(string \<Rightarrow> string) \<Rightarrow> (rat \<Rightarrow> string) \<Rightarrow> decision_token \<Rightarrow> string" where
  "seal_digest sha num t = sha (canonical_json num (JObj (token_body t)))"

definition seal :: "(string \<Rightarrow> string) \<Rightarrow> (rat \<Rightarrow> string) \<Rightarrow> decision_token \<Rightarrow> decision_token" where
  "seal sha num t = t\<lparr>token_digest := seal_digest sha num t\<rparr>"

text \<open>A token made for a COA, with the id and the time the call drew.\<close>

definition new_token ::
    "(string \<Rightarrow> string) \<Rightarrow> (rat \<Rightarrow> string) \<Rightarrow> string \<Rightarrow> string \<Rightarrow> string \<Rightarrow> gate_verdict \<Rightarrow>
       string option \<Rightarrow> string option \<Rightarrow> decision_token" where
  "new_token sha num uid now cid v op reason =
     seal sha num \<lparr>token_id = uid, for_coa = cid, verdict = verdict_value v, issued_at = now,
       operator_id = op, token_reason = reason, token_digest = ''''\<rparr>"

definition sealed_token :: "(string \<Rightarrow> string) \<Rightarrow> (rat \<Rightarrow> string) \<Rightarrow> decision_token \<Rightarrow> bool" where
  "sealed_token sha num t \<longleftrightarrow> token_digest t = seal_digest sha num t"

lemma token_body_digest [simp]: "token_body (t\<lparr>token_digest := d\<rparr>) = token_body t"
  by (simp add: token_body_def)

lemma seal_sealed [simp]: "sealed_token sha num (seal sha num t)"
  by (simp add: sealed_token_def seal_def seal_digest_def)

lemma new_token_facts [simp]:
  "sealed_token sha num (new_token sha num uid now cid v op reason)"
  "for_coa (new_token sha num uid now cid v op reason) = cid"
  "verdict (new_token sha num uid now cid v op reason) = verdict_value v"
  by (simp_all add: new_token_def) (simp_all add: seal_def)

end
