(* ===== verification/Ontology.thy ===== *)
theory Ontology
  imports Gate_Data Complex_Main
begin

text \<open>
  The picture: observations (\<open>core/schema.py\<close>) and the graph that correlates them into tracks
  (\<open>SpatialEntityGraph\<close> of \<open>core/ontology.py\<close>). The great-circle distance and the dead-reckoning
  association of \<open>core/kinematics.py\<close> are the record \<open>geometry\<close>, which \<open>Kinematics\<close> defines.
\<close>

section \<open>Observations\<close>

record observation =
  observation_id :: string
  source_id :: string
  entity_hint :: string
  position :: "rat \<times> rat"
  ob_altitude_m :: "rat option"
  speed_mps :: rat
  heading_deg :: "rat option"
  ob_confidence :: rat
  observed_at :: string
  modality :: string
  ob_attributes :: dict
  raw_digest :: string

definition observation_body :: "observation \<Rightarrow> dict" where
  "observation_body b =
     [(''observation_id'', JStr (observation_id b)), (''source_id'', JStr (source_id b)),
      (''entity_hint'', JStr (entity_hint b)), (''latitude'', JNum (fst (position b))),
      (''longitude'', JNum (snd (position b))), (''altitude_m'', json_or_null JNum (ob_altitude_m b)),
      (''speed_mps'', JNum (speed_mps b)), (''heading_deg'', json_or_null JNum (heading_deg b)),
      (''confidence'', JNum (ob_confidence b)), (''observed_at'', JStr (observed_at b)),
      (''modality'', JStr (modality b)), (''attributes'', JObj (ob_attributes b))]"

definition observation_json :: "observation \<Rightarrow> json" where
  "observation_json b = JObj (observation_body b @ [(''raw_digest'', JStr (raw_digest b))])"

text \<open>A digest that is already there is kept as it is.\<close>

definition ensure_digest :: "(string \<Rightarrow> string) \<Rightarrow> (rat \<Rightarrow> string) \<Rightarrow> observation \<Rightarrow> observation" where
  "ensure_digest sha num b =
     (if raw_digest b \<noteq> [] then b
      else b\<lparr>raw_digest := sha (canonical_json num (JObj (observation_body b)))\<rparr>)"

section \<open>Tracks\<close>

record track =
  track_id :: string
  tr_position :: "rat \<times> rat"
  tr_speed_mps :: rat
  tr_confidence :: rat
  source_ids :: "string list"
  modalities :: "string list"
  observation_ids :: "string list"
  digests :: "string list"
  updated_at :: "string option"
  tr_attributes :: dict

record graph =
  associate_radius_m :: real
  seen :: "observation list"
  tracks :: "(string \<times> track) list"

record geometry =
  great_circle_m :: "rat \<times> rat \<Rightarrow> rat \<times> rat \<Rightarrow> real"
  associate_kinematically :: "observation \<Rightarrow> observation \<Rightarrow> bool"
  projected_separation_m :: "observation \<Rightarrow> observation \<Rightarrow> real option"

definition empty_graph :: graph where
  "empty_graph = \<lparr>associate_radius_m = 2000, seen = [], tracks = []\<rparr>"

section \<open>Association\<close>

text \<open>The first earlier observation of the track that can be reconciled by dead reckoning.\<close>

fun first_separation :: "geometry \<Rightarrow> observation \<Rightarrow> track \<Rightarrow> observation list \<Rightarrow> real option" where
  "first_separation ge b t [] = None"
| "first_separation ge b t (other # rest) =
     (if observation_id other \<notin> set (observation_ids t) then first_separation ge b t rest
      else if \<not> associate_kinematically ge b other then first_separation ge b t rest
      else case projected_separation_m ge b other of
             Some sep \<Rightarrow> Some sep
           | None \<Rightarrow> first_separation ge b t rest)"

definition association_distance :: "geometry \<Rightarrow> graph \<Rightarrow> observation \<Rightarrow> track \<Rightarrow> real option" where
  "association_distance ge g b t =
     (let d = great_circle_m ge (position b) (tr_position t) in
      if d \<le> associate_radius_m g then Some d else first_separation ge b t (seen g))"

text \<open>The loop over the tracks: a track replaces the best one when it is strictly closer.\<close>

fun closest :: "(track \<Rightarrow> real option) \<Rightarrow> (track \<times> real) option \<Rightarrow> track list \<Rightarrow> (track \<times> real) option" where
  "closest far best [] = best"
| "closest far best (t # ts) =
     closest far
       (case far t of
          None \<Rightarrow> best
        | Some d \<Rightarrow> (case best of Some (t', d') \<Rightarrow> if d < d' then Some (t, d) else best | None \<Rightarrow> Some (t, d))) ts"

definition preferred_id :: "observation \<Rightarrow> string" where
  "preferred_id b = (if entity_hint b \<noteq> [] then entity_hint b else source_id b)"

definition find_nearby :: "geometry \<Rightarrow> graph \<Rightarrow> observation \<Rightarrow> track option" where
  "find_nearby ge g b =
     (case map_of (tracks g) (preferred_id b) of
        Some t \<Rightarrow> Some t
      | None \<Rightarrow> map_option fst (closest (association_distance ge g b) None (map snd (tracks g))))"

section \<open>Ingest\<close>

definition new_track :: "observation \<Rightarrow> track" where
  "new_track b =
     \<lparr>track_id = preferred_id b, tr_position = position b, tr_speed_mps = speed_mps b,
      tr_confidence = ob_confidence b, source_ids = [source_id b], modalities = [modality b],
      observation_ids = [observation_id b], digests = [raw_digest b], updated_at = Some (observed_at b),
      tr_attributes = ob_attributes b\<rparr>"

definition add_missing :: "'a \<Rightarrow> 'a list \<Rightarrow> 'a list" where
  "add_missing x xs = (if x \<in> set xs then xs else xs @ [x])"

definition dict_update :: "dict \<Rightarrow> dict \<Rightarrow> dict" where
  "dict_update kvs d = foldl (\<lambda>acc kv. AList.update (fst kv) (snd kv) acc) d kvs"

definition fuse :: "observation \<Rightarrow> track \<Rightarrow> track" where
  "fuse b t =
     (let t1 = t\<lparr>source_ids := add_missing (source_id b) (source_ids t),
            modalities := add_missing (modality b) (modalities t),
            observation_ids := observation_ids t @ [observation_id b], digests := digests t @ [raw_digest b]\<rparr>;
          t2 = (if ob_confidence b \<ge> tr_confidence t1
            then t1\<lparr>tr_position := position b, tr_speed_mps := speed_mps b, tr_confidence := ob_confidence b\<rparr> else t1)
      in t2\<lparr>updated_at := Some (observed_at b), tr_attributes := dict_update (ob_attributes b) (tr_attributes t2)\<rparr>)"

text \<open>The track that took the observation is given back too.\<close>

definition ingest ::
    "(string \<Rightarrow> string) \<Rightarrow> (rat \<Rightarrow> string) \<Rightarrow> geometry \<Rightarrow> observation \<Rightarrow> graph \<Rightarrow> graph \<times> track" where
  "ingest sha num ge b0 g =
     (let b = ensure_digest sha num b0; g1 = g\<lparr>seen := seen g @ [b]\<rparr>;
          t = (case find_nearby ge g1 b of None \<Rightarrow> new_track b | Some t \<Rightarrow> fuse b t)
      in (g1\<lparr>tracks := AList.update (track_id t) t (tracks g1)\<rparr>, t))"

definition ingest_many ::
    "(string \<Rightarrow> string) \<Rightarrow> (rat \<Rightarrow> string) \<Rightarrow> geometry \<Rightarrow> observation list \<Rightarrow> graph \<Rightarrow> graph" where
  "ingest_many sha num ge bs g = foldl (\<lambda>g b. fst (ingest sha num ge b g)) g bs"

definition all_tracks :: "graph \<Rightarrow> track list" where
  "all_tracks g = map snd (tracks g)"

definition get_track :: "graph \<Rightarrow> string \<Rightarrow> track option" where
  "get_track g k = map_of (tracks g) k"

definition observations_for :: "graph \<Rightarrow> string \<Rightarrow> observation list" where
  "observations_for g k =
     filter (\<lambda>b. preferred_id b = k \<or>
       observation_id b \<in> set (case get_track g k of None \<Rightarrow> [] | Some t \<Rightarrow> observation_ids t)) (seen g)"

fun join_bars :: "string list \<Rightarrow> string" where
  "join_bars [] = []"
| "join_bars [s] = s"
| "join_bars (s # ss) = s @ ''|'' @ join_bars ss"

definition fused_digest :: "(string \<Rightarrow> string) \<Rightarrow> track \<Rightarrow> string" where
  "fused_digest sha t = sha (join_bars (sort (digests t)))"

section \<open>Association finds the closest track\<close>

lemma closest_spec:
  "closest far best ts = r \<Longrightarrow>
     (case r of
        None \<Rightarrow> best = None \<and> (\<forall>t \<in> set ts. far t = None)
      | Some (t, d) \<Rightarrow> (best = Some (t, d) \<or> t \<in> set ts \<and> far t = Some d) \<and>
          (\<forall>t' \<in> set ts. \<forall>d'. far t' = Some d' \<longrightarrow> d \<le> d') \<and> (\<forall>t' d'. best = Some (t', d') \<longrightarrow> d \<le> d'))"
proof (induction far best ts arbitrary: r rule: closest.induct)
  case (2 far best t ts)
  show ?case
    using 2(1) [of r] 2(2)
    by (cases r; cases "far t"; cases best) (auto split: if_splits)
qed (auto split: option.splits)

lemma find_nearby_cases:
  assumes "find_nearby ge g b = Some t"
  shows "t \<in> snd ` set (tracks g) \<and>
    (map_of (tracks g) (preferred_id b) = Some t \<or>
     map_of (tracks g) (preferred_id b) = None \<and>
       (\<exists>d. association_distance ge g b t = Some d \<and>
         (\<forall>t' d'. t' \<in> snd ` set (tracks g) \<longrightarrow> association_distance ge g b t' = Some d' \<longrightarrow> d \<le> d')))"
proof (cases "map_of (tracks g) (preferred_id b)")
  case None
  then obtain d where "closest (association_distance ge g b) None (map snd (tracks g)) = Some (t, d)"
    using assms by (auto simp: find_nearby_def)
  from closest_spec [OF this] None show ?thesis by auto
next
  case (Some t')
  then show ?thesis using assms by (force simp: find_nearby_def dest: map_of_SomeD)
qed

lemma find_nearby_None:
  assumes "find_nearby ge g b = None"
  shows "map_of (tracks g) (preferred_id b) = None" "t \<in> snd ` set (tracks g) \<Longrightarrow> association_distance ge g b t = None"
proof -
  show "map_of (tracks g) (preferred_id b) = None"
    using assms by (auto simp: find_nearby_def split: option.splits)
  then have "closest (association_distance ge g b) None (map snd (tracks g)) = None"
    using assms by (auto simp: find_nearby_def)
  from closest_spec [OF this] show "t \<in> snd ` set (tracks g) \<Longrightarrow> association_distance ge g b t = None" by auto
qed


section \<open>A track is the fusion of its own observations\<close>

text \<open>
  The abstract picture: every observation is assigned the name of a track, in order of arrival, and a
  track is what fusing its observations one after the other gives.
\<close>

definition track_of :: "observation list \<Rightarrow> track" where
  "track_of bs = foldl (\<lambda>t b. fuse b t) (new_track (hd bs)) (tl bs)"

definition assigned_to :: "string list \<Rightarrow> observation list \<Rightarrow> string \<Rightarrow> observation list" where
  "assigned_to names obs k = map fst (filter (\<lambda>bn. snd bn = k) (zip obs names))"

definition in_order :: "'a list \<Rightarrow> 'a list" where
  "in_order xs = foldl (\<lambda>ys x. add_missing x ys) [] xs"

definition picture_from :: "string list \<Rightarrow> observation list \<Rightarrow> (string \<times> track) list" where
  "picture_from names obs = map (\<lambda>k. (k, track_of (assigned_to names obs k))) (in_order names)"

lemma add_missing_simps [simp]:
  "set (add_missing x xs) = insert x (set xs)" "distinct (add_missing x xs) = distinct xs"
  "add_missing x xs \<noteq> []"
  by (auto simp: add_missing_def)

lemma in_order_snoc [simp]: "in_order [] = []" "in_order (xs @ [x]) = add_missing x (in_order xs)"
  by (simp_all add: in_order_def)

lemma in_order_set [simp]: "set (in_order xs) = set xs" "distinct (in_order xs)"
  by (induction xs rule: rev_induct) auto

lemma track_of_new [simp]: "track_of [b] = new_track b"
  by (simp add: track_of_def)

lemma track_of_snoc: "bs \<noteq> [] \<Longrightarrow> track_of (bs @ [b]) = fuse b (track_of bs)"
  by (cases bs) (simp_all add: track_of_def)

lemma assigned_to_snoc [simp]:
  "length names = length obs \<Longrightarrow>
     assigned_to (names @ [n]) (obs @ [b]) k = assigned_to names obs k @ (if n = k then [b] else [])"
  by (simp add: assigned_to_def)

lemma assigned_to_nil:
  "length names = length obs \<Longrightarrow> assigned_to names obs k = [] \<longleftrightarrow> k \<notin> set names"
  by (induction names obs rule: list_induct2) (auto simp: assigned_to_def)

lemma assigned_to_subset: "set (assigned_to names obs k) \<subseteq> set obs"
  by (auto simp: assigned_to_def dest: set_zip_leftD)

text \<open>What fusing keeps and what it changes.\<close>

lemma fuse_fields [simp]:
  "track_id (fuse b t) = track_id t" "observation_ids (fuse b t) = observation_ids t @ [observation_id b]"
  "digests (fuse b t) = digests t @ [raw_digest b]" "updated_at (fuse b t) = Some (observed_at b)"
  "source_ids (fuse b t) = add_missing (source_id b) (source_ids t)"
  "modalities (fuse b t) = add_missing (modality b) (modalities t)"
  "tr_confidence (fuse b t) = max (tr_confidence t) (ob_confidence b)"
  by (auto simp: fuse_def Let_def)

lemma fuse_state:
  "(tr_position (fuse b t), tr_speed_mps (fuse b t)) =
     (if ob_confidence b \<ge> tr_confidence t then (position b, speed_mps b) else (tr_position t, tr_speed_mps t))"
  by (auto simp: fuse_def Let_def)

lemma new_track_fields [simp]:
  "track_id (new_track b) = preferred_id b" "observation_ids (new_track b) = [observation_id b]"
  "digests (new_track b) = [raw_digest b]" "updated_at (new_track b) = Some (observed_at b)"
  "tr_confidence (new_track b) = ob_confidence b" "tr_position (new_track b) = position b"
  "tr_speed_mps (new_track b) = speed_mps b" "source_ids (new_track b) = [source_id b]"
  "modalities (new_track b) = [modality b]"
  by (simp_all add: new_track_def)

lemma track_of_fields:
  assumes "bs \<noteq> []"
  shows "observation_ids (track_of bs) = map observation_id bs" "digests (track_of bs) = map raw_digest bs"
    "track_id (track_of bs) = preferred_id (hd bs)" "updated_at (track_of bs) = Some (observed_at (last bs))"
  using assms
proof (induction bs rule: rev_nonempty_induct)
  case (snoc b bs)
  { case 1 show ?case using snoc by (simp add: track_of_snoc) next
    case 2 show ?case using snoc by (simp add: track_of_snoc) next
    case 3 show ?case using snoc by (simp add: track_of_snoc) next
    case 4 show ?case using snoc by (simp add: track_of_snoc) }
qed simp_all

lemma track_of_most_confident:
  "bs \<noteq> [] \<Longrightarrow> \<exists>b \<in> set bs.
     tr_position (track_of bs) = position b \<and> tr_speed_mps (track_of bs) = speed_mps b \<and>
     tr_confidence (track_of bs) = ob_confidence b \<and> (\<forall>b' \<in> set bs. ob_confidence b' \<le> ob_confidence b)"
proof (induction bs rule: rev_nonempty_induct)
  case (snoc b bs)
  then obtain m where m: "m \<in> set bs" "tr_position (track_of bs) = position m"
      "tr_speed_mps (track_of bs) = speed_mps m" "tr_confidence (track_of bs) = ob_confidence m"
      "\<forall>b' \<in> set bs. ob_confidence b' \<le> ob_confidence m"
    by blast
  show ?case
  proof (cases "ob_confidence b \<ge> ob_confidence m")
    case True
    then show ?thesis
      using m snoc.hyps fuse_state [of b "track_of bs"] by (intro bexI [of _ b]) (auto simp: track_of_snoc)
  next
    case False
    then show ?thesis
      using m snoc.hyps fuse_state [of b "track_of bs"] by (intro bexI [of _ m]) (auto simp: track_of_snoc)
  qed
qed simp

section \<open>Ingesting refines the abstract picture\<close>

definition refines :: "string list \<Rightarrow> graph \<Rightarrow> bool" where
  "refines names g \<longleftrightarrow> length names = length (seen g) \<and> tracks g = picture_from names (seen g) \<and>
     (\<forall>k \<in> set names. preferred_id (hd (assigned_to names (seen g) k)) = k)"

lemma map_of_tabled: "map_of (map (\<lambda>k. (k, f k)) ks) k = (if k \<in> set ks then Some (f k) else None)"
  by (induction ks) auto

lemma update_fresh: "k \<notin> fst ` set rows \<Longrightarrow> AList.update k v rows = rows @ [(k, v)]"
  by (induction rows) auto

lemma update_tabled:
  "distinct ks \<Longrightarrow> AList.update k t (map (\<lambda>k. (k, f k)) ks) =
     map (\<lambda>k'. (k', if k' = k then t else f k')) (add_missing k ks)"
  by (induction ks) (auto simp: add_missing_def)

lemma map_of_picture:
  "map_of (picture_from names obs) k = (if k \<in> set names then Some (track_of (assigned_to names obs k)) else None)"
  by (simp add: picture_from_def map_of_tabled)

lemma update_picture:
  assumes "length names = length obs" "t = track_of (assigned_to names obs k @ [b])"
  shows "AList.update k t (picture_from names obs) = picture_from (names @ [k]) (obs @ [b])"
  using assms by (auto simp: picture_from_def update_tabled intro!: map_cong)

lemma track_named:
  assumes "refines names g" "(k, t) \<in> set (tracks g)"
  shows "t = track_of (assigned_to names (seen g) k)" "k \<in> set names" "track_id t = k"
    "assigned_to names (seen g) k \<noteq> []"
  using assms assigned_to_nil [of names "seen g" k]
  by (auto simp: refines_def picture_from_def track_of_fields)

lemma ingest_refines:
  assumes "refines names g" "ingest sha num ge b0 g = (g', t)"
  shows "refines (names @ [track_id t]) g'"
proof -
  let ?b = "ensure_digest sha num b0"
  let ?g = "g\<lparr>seen := seen g @ [?b]\<rparr>"
  have len: "length names = length (seen g)" and tr: "tracks g = picture_from names (seen g)"
    using assms(1) by (simp_all add: refines_def)
  have g': "g' = ?g\<lparr>tracks := AList.update (track_id t) t (tracks g)\<rparr>"
    and t: "t = (case find_nearby ge ?g ?b of None \<Rightarrow> new_track ?b | Some t \<Rightarrow> fuse ?b t)"
    using assms(2) by (auto simp: ingest_def Let_def)
  show ?thesis
  proof (cases "find_nearby ge ?g ?b")
    case None
    then have new: "preferred_id ?b \<notin> set names" "t = new_track ?b"
      using find_nearby_None(1) [OF None] t tr by (simp_all add: map_of_picture split: if_splits)
    then have "assigned_to names (seen g) (preferred_id ?b) = []" using assigned_to_nil [OF len] by simp
    then show ?thesis
      using assms(1) new g' len tr by (auto simp: refines_def update_picture)
  next
    case (Some u)
    then obtain k where k: "(k, u) \<in> set (tracks g)" using find_nearby_cases [OF Some] by auto
    note u = track_named [OF assms(1) k]
    have "track_id t = k" "t = track_of (assigned_to names (seen g) k @ [?b])"
      using Some t u by (simp_all add: track_of_snoc)
    then show ?thesis
      using assms(1) g' len tr u by (auto simp: refines_def update_picture)
  qed
qed

lemma ingest_many_seen:
  "seen (ingest_many sha num ge bs g) = seen g @ map (ensure_digest sha num) bs"
  by (induction bs arbitrary: g) (simp_all add: ingest_many_def ingest_def Let_def)

lemma ingest_many_append:
  "ingest_many sha num ge (bs @ bs') g = ingest_many sha num ge bs' (ingest_many sha num ge bs g)"
  by (simp add: ingest_many_def)

lemma ingest_many_snoc [simp]:
  "ingest_many sha num ge [] g = g"
  "ingest_many sha num ge (bs @ [b]) g = fst (ingest sha num ge b (ingest_many sha num ge bs g))"
  by (simp_all add: ingest_many_def)

lemma refines_empty: "refines [] empty_graph"
  by (simp add: refines_def empty_graph_def picture_from_def)

lemma ingest_many_refines: "\<exists>names. refines names (ingest_many sha num ge bs empty_graph)"
proof (induction bs rule: rev_induct)
  case (snoc b bs)
  then show ?case
    using ingest_refines by (metis ingest_many_snoc(2) prod.collapse)
qed (use refines_empty in auto)

text \<open>
  Claim C15: Whatever is ingested, the picture refines the abstract one: every observation is assigned
  one track, the tracks are exactly those assigned, each under its own id, and a track is what fusing
  its observations in order of arrival gives.
\<close>

theorem picture_is_the_fusion_of_an_assignment:
  "\<exists>names. length names = length bs \<and>
     tracks (ingest_many sha num ge bs empty_graph) = picture_from names (map (ensure_digest sha num) bs) \<and>
     map (track_id \<circ> snd) (tracks (ingest_many sha num ge bs empty_graph)) = in_order names"
proof -
  obtain names where r: "refines names (ingest_many sha num ge bs empty_graph)" using ingest_many_refines by blast
  have seen: "seen (ingest_many sha num ge bs empty_graph) = map (ensure_digest sha num) bs"
    by (simp add: ingest_many_seen empty_graph_def)
  have "map (track_id \<circ> snd) (tracks (ingest_many sha num ge bs empty_graph)) =
      map fst (tracks (ingest_many sha num ge bs empty_graph))"
    using track_named(3) [OF r] by (auto intro!: map_cong)
  also have "\<dots> = in_order names" using r by (simp add: refines_def picture_from_def comp_def)
  finally show ?thesis using r seen by (auto simp: refines_def)
qed

lemma ensure_digest_fields [simp]:
  "observation_id (ensure_digest sha num b) = observation_id b" "position (ensure_digest sha num b) = position b"
  "speed_mps (ensure_digest sha num b) = speed_mps b" "ob_confidence (ensure_digest sha num b) = ob_confidence b"
  "preferred_id (ensure_digest sha num b) = preferred_id b"
  by (simp_all add: ensure_digest_def preferred_id_def)

lemma ensure_digest_idem [simp]:
  "ensure_digest sha num (ensure_digest sha num b) = ensure_digest sha num b"
  by (simp add: ensure_digest_def observation_body_def)

text \<open>
  When no two observations share an id, a track has the position, the speed and the confidence
  of one of its observations, and none of its observations is more confident.
\<close>

theorem track_state_is_of_a_most_confident_observation:
  assumes "t \<in> set (all_tracks (ingest_many sha num ge bs empty_graph))" "distinct (map observation_id bs)"
  shows "\<exists>b \<in> set bs. observation_id b \<in> set (observation_ids t) \<and>
    (tr_position t, tr_speed_mps t, tr_confidence t) = (position b, speed_mps b, ob_confidence b) \<and>
    (\<forall>b' \<in> set bs. observation_id b' \<in> set (observation_ids t) \<longrightarrow> ob_confidence b' \<le> ob_confidence b)"
proof -
  let ?g = "ingest_many sha num ge bs empty_graph"
  obtain names where r: "refines names ?g" using ingest_many_refines by blast
  obtain k where "(k, t) \<in> set (tracks ?g)" using assms(1) by (auto simp: all_tracks_def)
  note t = track_named [OF r this]
  let ?own = "assigned_to names (seen ?g) k"
  have own: "set ?own \<subseteq> ensure_digest sha num ` set bs"
    using assigned_to_subset [of names "seen ?g" k] by (simp add: ingest_many_seen empty_graph_def)
  obtain m where m: "m \<in> set ?own" "tr_position t = position m" "tr_speed_mps t = speed_mps m"
      "tr_confidence t = ob_confidence m" "\<forall>b' \<in> set ?own. ob_confidence b' \<le> ob_confidence m"
    using track_of_most_confident [OF t(4)] t(1) by auto
  have ids: "set (observation_ids t) = observation_id ` set ?own" using track_of_fields(1) [OF t(4)] t(1) by simp
  obtain b where b: "b \<in> set bs" "m = ensure_digest sha num b" using own m(1) by blast
  have "ob_confidence b' \<le> ob_confidence b"
    if b': "b' \<in> set bs" and listed: "observation_id b' \<in> set (observation_ids t)" for b'
  proof -
    obtain c where c: "c \<in> set ?own" "observation_id c = observation_id b'" using listed ids by auto
    obtain b'' where "b'' \<in> set bs" "c = ensure_digest sha num b''" using own c(1) by blast
    then have "c = ensure_digest sha num b'" using assms(2) b' c(2) by (auto simp: distinct_map inj_on_def)
    then show ?thesis using m(5) c(1) b(2) by auto
  qed
  moreover have "observation_id b \<in> set (observation_ids t)" using imageI [OF m(1), of observation_id] ids b(2) by simp
  moreover have "(tr_position t, tr_speed_mps t, tr_confidence t) = (position b, speed_mps b, ob_confidence b)"
    using m(2-4) b(2) by simp
  ultimately show ?thesis using b(1) by blast
qed

text \<open>
  Claim C30: Where an observation goes: to the track its hint names, however far; else to a closest one
  of the tracks it can be associated with; and it opens a track of its own only when there is none. No
  other track changes.
\<close>

theorem ingest_goes_to_the_closest_track:
  assumes "ingest sha num ge b g = (g', t)"
    and "b' = ensure_digest sha num b"
    and "reach = association_distance ge (g\<lparr>seen := seen g @ [b']\<rparr>) b'"
  shows "map_of (tracks g') = (map_of (tracks g))(track_id t \<mapsto> t) \<and>
    (case map_of (tracks g) (preferred_id b) of
       Some u \<Rightarrow> t = fuse b' u
     | None \<Rightarrow>
         (\<forall>u \<in> set (all_tracks g). reach u = None) \<and> t = new_track b' \<or>
         (\<exists>u \<in> set (all_tracks g). \<exists>d. reach u = Some d \<and> t = fuse b' u \<and>
           (\<forall>u' \<in> set (all_tracks g). \<forall>d'. reach u' = Some d' \<longrightarrow> d \<le> d')))"
proof -
  let ?g1 = "g\<lparr>seen := seen g @ [b']\<rparr>"
  have g': "g' = ?g1\<lparr>tracks := AList.update (track_id t) t (tracks g)\<rparr>"
    and t: "t = (case find_nearby ge ?g1 b' of None \<Rightarrow> new_track b' | Some t \<Rightarrow> fuse b' t)"
    using assms(1,2) by (auto simp: ingest_def Let_def)
  have "map_of (tracks g') = (map_of (tracks g))(track_id t \<mapsto> t)" using g' by (simp add: update_conv')
  moreover have "preferred_id b' = preferred_id b" using assms(2) by simp
  ultimately show ?thesis
  proof (cases "find_nearby ge ?g1 b'")
    case None
    have "map_of (tracks g) (preferred_id b) = None" "\<forall>u \<in> set (all_tracks g). reach u = None"
      using find_nearby_None [OF None] \<open>preferred_id b' = _\<close> assms(3) by (auto simp: all_tracks_def)
    moreover have "t = new_track b'" using t None by simp
    ultimately show ?thesis using \<open>map_of (tracks g') = _\<close> by simp
  next
    case (Some u)
    have new: "t = fuse b' u" using t Some by simp
    note found = find_nearby_cases [OF Some, simplified graph.simps]
    show ?thesis
    proof (cases "map_of (tracks g) (preferred_id b)")
      case None
      then obtain d where "reach u = Some d" "\<forall>t' d'. t' \<in> set (all_tracks g) \<longrightarrow> reach t' = Some d' \<longrightarrow> d \<le> d'"
          "u \<in> set (all_tracks g)"
        using found \<open>preferred_id b' = _\<close> assms(3) by (auto simp: all_tracks_def)
      then have "\<exists>u \<in> set (all_tracks g). \<exists>d. reach u = Some d \<and> t = fuse b' u \<and>
          (\<forall>u' \<in> set (all_tracks g). \<forall>d'. reach u' = Some d' \<longrightarrow> d \<le> d')"
        using new by blast
      then show ?thesis using None \<open>map_of (tracks g') = _\<close> by simp
    next
      case (Some v)
      then show ?thesis using found new \<open>preferred_id b' = _\<close> \<open>map_of (tracks g') = _\<close> by simp
    qed
  qed
qed

section \<open>A shared hint is a shared track\<close>

lemma ingest_named:
  assumes "map_of (tracks g) (preferred_id b) = Some u"
  shows "ingest sha num ge b g =
    (g\<lparr>seen := seen g @ [ensure_digest sha num b],
       tracks := AList.update (track_id u) (fuse (ensure_digest sha num b) u) (tracks g)\<rparr>,
     fuse (ensure_digest sha num b) u)"
  using assms by (simp add: ingest_def Let_def find_nearby_def)

lemma ingest_first:
  "ingest sha num ge b empty_graph =
     (empty_graph\<lparr>seen := [ensure_digest sha num b],
        tracks := [(preferred_id b, new_track (ensure_digest sha num b))]\<rparr>, new_track (ensure_digest sha num b))"
  by (simp add: ingest_def Let_def find_nearby_def empty_graph_def)

lemma shared_hint_is_one_track:
  "bs \<noteq> [] \<Longrightarrow> \<forall>b \<in> set bs. preferred_id b = k \<Longrightarrow>
     tracks (ingest_many sha num ge bs empty_graph) = [(k, track_of (map (ensure_digest sha num) bs))]"
proof (induction bs rule: rev_nonempty_induct)
  case (single b)
  then show ?case by (simp add: ingest_many_def ingest_first)
next
  case (snoc b bs)
  then have "tracks (ingest_many sha num ge bs empty_graph) = [(k, track_of (map (ensure_digest sha num) bs))]"
    by simp
  moreover have "track_id (track_of (map (ensure_digest sha num) bs)) = k"
    using snoc.hyps snoc.prems by (simp add: track_of_fields hd_map)
  ultimately show ?case using snoc.hyps snoc.prems by (simp add: ingest_named track_of_snoc)
qed

section \<open>A small picture\<close>

definition flat_earth :: geometry where
  "flat_earth =
     \<lparr>great_circle_m = (\<lambda>p q. real_of_rat (\<bar>fst p - fst q\<bar> + \<bar>snd p - snd q\<bar>)),
      associate_kinematically = (\<lambda>a b. False), projected_separation_m = (\<lambda>a b. None)\<rparr>"

definition sighting :: "string \<Rightarrow> string \<Rightarrow> rat \<Rightarrow> rat \<Rightarrow> observation" where
  "sighting i hint x c =
     \<lparr>observation_id = i, source_id = ''RADAR'', entity_hint = hint, position = (x, 0), ob_altitude_m = None,
      speed_mps = x, heading_deg = None, ob_confidence = c, observed_at = ''T'', modality = ''radar'',
      ob_attributes = [], raw_digest = ''D''\<rparr>"

definition harbour :: "observation list" where
  "harbour = [sighting ''o1'' ''A'' 0 (1/2), sighting ''o2'' ''B'' 1000 (9/10), sighting ''o3'' ''C'' 5000 (1/2)]"

lemmas harbour_defs = harbour_def sighting_def flat_earth_def ensure_digest_def empty_graph_def

lemma harbour_picture:
  "tracks (ingest_many id (\<lambda>q. []) flat_earth harbour empty_graph) =
     [(''A'', fuse (harbour ! 1) (new_track (harbour ! 0))), (''C'', new_track (harbour ! 2))]"
  by (simp add: harbour_defs ingest_many_def ingest_def Let_def find_nearby_def association_distance_def
      preferred_id_def new_track_def fuse_def add_missing_def dict_update_def)

theorem track_state_is_of_a_most_confident_observation_witness:
  "fuse (harbour ! 1) (new_track (harbour ! 0))
     \<in> set (all_tracks (ingest_many id (\<lambda>q. []) flat_earth harbour empty_graph)) \<and>
   (\<exists>b \<in> set harbour. observation_id b \<in> {''o1'', ''o2''} \<and>
     tr_position (fuse (harbour ! 1) (new_track (harbour ! 0))) = position b)"
proof -
  have t: "fuse (harbour ! 1) (new_track (harbour ! 0))
      \<in> set (all_tracks (ingest_many id (\<lambda>q. []) flat_earth harbour empty_graph))"
    by (simp add: all_tracks_def harbour_picture)
  have d: "distinct (map observation_id harbour)" by (simp add: harbour_defs)
  have "set (observation_ids (fuse (harbour ! 1) (new_track (harbour ! 0)))) = {''o1'', ''o2''}"
    by (auto simp: harbour_defs)
  then show ?thesis
    using track_state_is_of_a_most_confident_observation [OF t d] t by (metis prod.inject)
qed

theorem ingest_goes_to_the_closest_track_witness:
  "\<exists>g t. ingest id (\<lambda>q. []) flat_earth (harbour ! 1)
       (fst (ingest id (\<lambda>q. []) flat_earth (harbour ! 0) empty_graph)) = (g, t) \<and>
     t = fuse (harbour ! 1) (new_track (harbour ! 0)) \<and> map_of (tracks g) ''A'' = Some t"
proof -
  let ?g = "fst (ingest id (\<lambda>q. []) flat_earth (harbour ! 0) empty_graph)"
  let ?t = "fuse (harbour ! 1) (new_track (harbour ! 0))"
  have "snd (ingest id (\<lambda>q. []) flat_earth (harbour ! 1) ?g) = ?t"
    by (simp add: harbour_defs ingest_def Let_def find_nearby_def association_distance_def
      preferred_id_def new_track_def fuse_def add_missing_def dict_update_def)
  then obtain g where g: "ingest id (\<lambda>q. []) flat_earth (harbour ! 1) ?g = (g, ?t)"
    by (metis prod.collapse)
  from ingest_goes_to_the_closest_track [OF this refl refl]
  have "map_of (tracks g) = (map_of (tracks ?g))(track_id ?t \<mapsto> ?t)" by blast
  moreover have "track_id ?t = ''A''" by (simp add: harbour_defs preferred_id_def)
  ultimately show ?thesis using g by auto
qed

end
