(* ===== verification/Interlock.thy ===== *)
theory Interlock
  imports Gate_Data
begin

text \<open>
  The deterministic interlocks of \<open>core/interlock.py\<close> and the tier policy of \<open>core/policy.py\<close>. The
  great-circle distance of \<open>core/ontology.py\<close> is the parameter \<open>haversine_m\<close>; the text of a debris
  veto, which only reports the numbers, is \<open>veto_text\<close>. Divisions are exact: the code adds
  \<open>1e-15\<close> to a denominator, and an edge whose longitudes differ by exactly that much is left out.
\<close>

section \<open>Point in polygon\<close>

definition crosses :: "rat \<Rightarrow> rat \<Rightarrow> rat \<times> rat \<Rightarrow> rat \<times> rat \<Rightarrow> bool" where
  "crosses lat lon p_j p_i =
     (let (lat_i, lon_i) = p_i; (lat_j, lon_j) = p_j in
      ((lon_i > lon) \<noteq> (lon_j > lon)) \<and>
      lat < (lat_j - lat_i) * (lon - lon_i) / (lon_j - lon_i + 1 / 10 ^ 15) + lat_i)"

fun ray_cast :: "rat \<Rightarrow> rat \<Rightarrow> rat \<times> rat \<Rightarrow> (rat \<times> rat) list \<Rightarrow> bool \<Rightarrow> bool" where
  "ray_cast lat lon p_j [] inside = inside"
| "ray_cast lat lon p_j (p_i # ps) inside =
     ray_cast lat lon p_i ps (if crosses lat lon p_j p_i then \<not> inside else inside)"

definition point_in_polygon :: "rat \<Rightarrow> rat \<Rightarrow> (rat \<times> rat) list \<Rightarrow> bool" where
  "point_in_polygon lat lon polygon =
     (if length polygon < 3 then False else ray_cast lat lon (last polygon) polygon False)"

section \<open>The interlock\<close>

record zone =
  zone_name :: "string option"
  polygon :: "(rat \<times> rat) list"

record poi =
  poi_id :: "string option"
  kind :: "string option"
  center :: "rat \<times> rat"
  buffer_m :: "rat option"
  offshore_nofire_m :: "rat option"

record interlock =
  forbidden_zones :: "zone list"
  max_speed_kt :: rat
  reject_null_coordinates :: bool
  active_coa_ids :: "string set"
  cni_pois :: "poi list"

record interlock_deps =
  haversine_m :: "rat \<times> rat \<Rightarrow> rat \<times> rat \<Rightarrow> rat"
  veto_text :: "poi \<Rightarrow> course_of_action \<Rightarrow> string"
  float_repr :: "rat \<Rightarrow> string"

definition TERMINAL_INTENTS :: "string set" where
  "TERMINAL_INTENTS = {''TERMINAL_SAM_INTERCEPT'', ''OVERHEAD_KINETIC_INTERCEPT''}"

definition debris_footprint_radius_m :: "rat \<Rightarrow> rat" where
  "debris_footprint_radius_m altitude_m = max 500 (altitude_m * 8 + 400)"

text \<open>\<open>bool(metadata.get(...))\<close> and \<open>float(metadata.get("altitude_m", 71.0))\<close>; a value that is no number
  raises in the code and is left out here.\<close>

fun json_truthy :: "json \<Rightarrow> bool" where
  "json_truthy JNull = False"
| "json_truthy (JBool b) = b"
| "json_truthy (JNum q) = (q \<noteq> 0)"
| "json_truthy (JStr s) = (s \<noteq> [])"
| "json_truthy (JArr xs) = (xs \<noteq> [])"
| "json_truthy (JObj kvs) = (kvs \<noteq> [])"

definition dangerous :: "course_of_action \<Rightarrow> bool" where
  "dangerous coa \<longleftrightarrow>
     (case map_of (metadata coa) ''dangerous_proposal_draft'' of None \<Rightarrow> False | Some j \<Rightarrow> json_truthy j) \<or>
     intent coa \<in> TERMINAL_INTENTS"

definition altitude_m :: "course_of_action \<Rightarrow> rat" where
  "altitude_m coa = (case map_of (metadata coa) ''altitude_m'' of Some (JNum q) \<Rightarrow> q | _ \<Rightarrow> 71)"

definition hits_poi :: "interlock_deps \<Rightarrow> course_of_action \<Rightarrow> poi \<Rightarrow> bool" where
  "hits_poi d coa p \<longleftrightarrow> kind p \<in> {Some ''civilian_cni'', None} \<and>
     haversine_m d (target_coordinates coa) (center p) \<le>
       (case buffer_m p of None \<Rightarrow> 2500 | Some b \<Rightarrow> b) + debris_footprint_radius_m (altitude_m coa)"

text \<open>Each check gives the reason of its veto, or nothing.\<close>

definition verify_cni_debris :: "interlock_deps \<Rightarrow> interlock \<Rightarrow> course_of_action \<Rightarrow> string option" where
  "verify_cni_debris d il coa =
     (if \<not> dangerous coa \<or> cni_pois il = [] then None
      else map_option (\<lambda>p. veto_text d p coa) (find (hits_poi d coa) (cni_pois il)))"

text \<open>\<open>f"{target_entity_id}:{intent}:{target_coordinates}"\<close>\<close>

definition dup_key :: "interlock_deps \<Rightarrow> course_of_action \<Rightarrow> string" where
  "dup_key d coa =
     target_entity_id coa @ '':'' @ intent coa @ '':('' @ float_repr d (fst (target_coordinates coa)) @
     '', '' @ float_repr d (snd (target_coordinates coa)) @ '')''"

definition geofence :: "interlock \<Rightarrow> course_of_action \<Rightarrow> zone option" where
  "geofence il coa =
     find (\<lambda>z. point_in_polygon (fst (target_coordinates coa)) (snd (target_coordinates coa)) (polygon z))
       (forbidden_zones il)"

definition speeding :: "interlock \<Rightarrow> course_of_action \<Rightarrow> bool" where
  "speeding il coa = (case speed_kt coa of None \<Rightarrow> False | Some v \<Rightarrow> v > max_speed_kt il)"

definition speed_text :: "interlock_deps \<Rightarrow> interlock \<Rightarrow> course_of_action \<Rightarrow> string" where
  "speed_text d il coa =
     ''Speed limit exceeded: '' @ (case speed_kt coa of None \<Rightarrow> '''' | Some v \<Rightarrow> float_repr d v) @
     '' > '' @ float_repr d (max_speed_kt il) @ '' kt''"

definition interlock_verify :: "interlock_deps \<Rightarrow> interlock \<Rightarrow> course_of_action \<Rightarrow> string option" where
  "interlock_verify d il coa =
     (if reject_null_coordinates il \<and> target_coordinates coa = (0, 0) then Some ''Null coordinates violation''
      else if speeding il coa then Some (speed_text d il coa)
      else
        (case geofence il coa of
           Some z \<Rightarrow> Some (''Geofence violation: '' @ (case zone_name z of None \<Rightarrow> ''forbidden_zone'' | Some n \<Rightarrow> n))
         | None \<Rightarrow>
             (case verify_cni_debris d il coa of
                Some reason \<Rightarrow> Some reason
              | None \<Rightarrow>
                  if coa_id coa \<in> active_coa_ids il then Some ''Duplicate active task''
                  else if dup_key d coa \<in> active_coa_ids il then Some ''Duplicate task for target/intent''
                  else None)))"

definition register_active :: "interlock_deps \<Rightarrow> course_of_action \<Rightarrow> interlock \<Rightarrow> interlock" where
  "register_active d coa il = il\<lparr>active_coa_ids := active_coa_ids il \<union> {coa_id coa, dup_key d coa}\<rparr>"

section \<open>The tier policy\<close>

record tiered_policy =
  default_timeout_seconds :: rat
  confidence_auto_approve_min :: rat
  min_corroborating_sources_tier1 :: nat

definition resolve_tier :: "tiered_policy \<Rightarrow> course_of_action \<Rightarrow> action_tier" where
  "resolve_tier p coa =
     (if tier coa = TIER_2_DUAL_KEY then TIER_2_DUAL_KEY
      else if confidence coa \<ge> confidence_auto_approve_min p \<and>
        min_corroborating_sources_tier1 p \<le> length (corroborating_sources coa) \<and>
        intent coa \<in> {''OBSERVE_ONLY'', ''STATION_KEEP''} then TIER_0_AUTONOMOUS
      else if tier coa = TIER_0_AUTONOMOUS then TIER_0_AUTONOMOUS
      else TIER_1_HITL)"

definition apply_defaults :: "tiered_policy \<Rightarrow> course_of_action \<Rightarrow> course_of_action" where
  "apply_defaults p coa =
     (let c1 = (if timeout_seconds coa \<le> 0 then coa\<lparr>timeout_seconds := default_timeout_seconds p\<rparr> else coa);
          c2 = c1\<lparr>tier := resolve_tier p c1\<rparr>
      in if map_of (invariants c2) ''fail_safe'' = None
         then c2\<lparr>invariants := invariants c2 @ [(''fail_safe'', JStr ''STATION_KEEP'')]\<rparr> else c2)"

text \<open>
  The policy lowers a tier only from the operator to autonomy, and then only for a confident,
  corroborated COA that observes or keeps station. A tier 0 that the client declared stays 0:
  the conditions are not asked of it.
\<close>

lemma resolve_tier_lowers:
  "resolve_tier p c < tier c \<Longrightarrow> tier c = TIER_1_HITL \<and> confidence_auto_approve_min p \<le> confidence c \<and>
     min_corroborating_sources_tier1 p \<le> length (corroborating_sources c) \<and>
     intent c \<in> {''OBSERVE_ONLY'', ''STATION_KEEP''}"
  by (cases "tier c") (auto simp: resolve_tier_def less_action_tier_def split: if_splits)

lemma declared_tier0_stays: "tier c = TIER_0_AUTONOMOUS \<Longrightarrow> resolve_tier p c = TIER_0_AUTONOMOUS"
  by (simp add: resolve_tier_def)

section \<open>The geometry of a rectangular zone\<close>

lemma crosses_level:
  "crosses lat lon (a, lon_j) (a, lon_i) \<longleftrightarrow> ((lon_i > lon) \<noteq> (lon_j > lon)) \<and> lat < a"
  by (simp add: crosses_def)

lemma crosses_upright: "\<not> crosses lat lon (lat_j, c) (lat_i, c)"
  by (simp add: crosses_def)

lemma rectangle_ray_cast:
  assumes "a < b" "c < d"
  shows "point_in_polygon lat lon [(a, c), (a, d), (b, d), (b, c), (a, c)] \<longleftrightarrow>
    a \<le> lat \<and> lat < b \<and> c \<le> lon \<and> lon < d"
  using assms by (auto simp: point_in_polygon_def crosses_level crosses_upright)

section \<open>What a passed check means\<close>

text \<open>The part of the interlock that does not depend on what is already active.\<close>

definition statically_safe :: "interlock_deps \<Rightarrow> interlock \<Rightarrow> course_of_action \<Rightarrow> bool" where
  "statically_safe d il coa \<longleftrightarrow>
     \<not> (reject_null_coordinates il \<and> target_coordinates coa = (0, 0)) \<and> \<not> speeding il coa \<and>
     geofence il coa = None \<and> verify_cni_debris d il coa = None"

lemma interlock_verify_None:
  "interlock_verify d il coa = None \<longleftrightarrow>
     statically_safe d il coa \<and> coa_id coa \<notin> active_coa_ids il \<and> dup_key d coa \<notin> active_coa_ids il"
  by (auto simp: interlock_verify_def statically_safe_def split: option.splits)

lemma statically_safe_active [simp]:
  "statically_safe d (il\<lparr>active_coa_ids := ids\<rparr>) coa = statically_safe d il coa"
  "statically_safe d (register_active d' coa' il) coa = statically_safe d il coa"
  by (simp_all add: statically_safe_def speeding_def geofence_def verify_cni_debris_def register_active_def
      split: option.splits)

text \<open>A copy under another id whose metadata gained keys the interlock does not read is as safe.\<close>

lemma statically_safe_relabel:
  assumes "map_of md ''dangerous_proposal_draft'' = map_of (metadata coa) ''dangerous_proposal_draft''"
    "map_of md ''altitude_m'' = map_of (metadata coa) ''altitude_m''"
  shows "statically_safe d il (coa\<lparr>coa_id := i, metadata := md\<rparr>) = statically_safe d il coa"
proof -
  have "dangerous (coa\<lparr>coa_id := i, metadata := md\<rparr>) = dangerous coa"
    using assms(1) by (simp add: dangerous_def)
  moreover have "altitude_m (coa\<lparr>coa_id := i, metadata := md\<rparr>) = altitude_m coa"
    using assms(2) by (simp add: altitude_m_def)
  moreover have "hits_poi d (coa\<lparr>coa_id := i, metadata := md\<rparr>) = hits_poi d coa"
    using \<open>altitude_m _ = altitude_m coa\<close> by (simp add: hits_poi_def fun_eq_iff)
  ultimately show ?thesis
    by (simp add: statically_safe_def speeding_def geofence_def verify_cni_debris_def)
qed

end
