(* ===== verification/Sensor_Adapters.thy ===== *)
theory Sensor_Adapters
  imports Ontology Interlock JS_Runtime
begin

text \<open>
  How outside evidence becomes observations: candidate events (\<open>adapters/sar_candidate_event.py\<close>), the
  Sentinel detections and the GLINT events with their fixtures (\<open>sentinel_imagery.py\<close>, \<open>glint_client.py\<close>),
  and the corroboration of the two (\<open>dual_sar.py\<close>). What a network call, a file or the validation of
  the third-party library \<open>pydantic\<close> gives is the record \<open>feeds\<close>. A time is its ISO text.
\<close>

section \<open>Values of outside data\<close>

datatype feed_error = Bad_Value | Bad_Type | Missing_Key | IO_Failure

definition attempt :: "feed_error + 'a \<Rightarrow> ('a \<Rightarrow> feed_error + 'b) \<Rightarrow> feed_error + 'b" where
  "attempt r f = (case r of Inl e \<Rightarrow> Inl e | Inr v \<Rightarrow> f v)"

lemma attempt_simps [simp]: "attempt (Inl e) f = Inl e" "attempt (Inr v) f = f v"
  by (simp_all add: attempt_def)

lemma attempt_Inr: "attempt r f = Inr w \<longleftrightarrow> (\<exists>v. r = Inr v \<and> f v = Inr w)"
  by (cases r) auto

fun attempt_all :: "('a \<Rightarrow> feed_error + 'b) \<Rightarrow> 'a list \<Rightarrow> feed_error + 'b list" where
  "attempt_all f [] = Inr []"
| "attempt_all f (x # xs) = attempt (f x) (\<lambda>y. attempt (attempt_all f xs) (\<lambda>ys. Inr (y # ys)))"

lemma attempt_all_Inr: "attempt_all f xs = Inr ys \<longleftrightarrow> list_all2 (\<lambda>x y. f x = Inr y) xs ys"
  by (induction xs arbitrary: ys) (auto simp: attempt_Inr list_all2_Cons1)

definition py_space :: "char \<Rightarrow> bool" where
  "py_space c = (let n = of_char c :: nat in (9 \<le> n \<and> n \<le> 13) \<or> (28 \<le> n \<and> n \<le> 32) \<or> n = 133 \<or> n = 160)"

definition strip :: "string \<Rightarrow> string" where
  "strip = trim_by py_space"

text \<open>The built-in conversions of strings, and \<open>str\<close> of what is no string.\<close>

datatype timestamp = Naive string | Aware string

record py_builtins =
  float_of :: "string \<Rightarrow> rat option"
  int_of :: "string \<Rightarrow> int option"
  str_of :: "json \<Rightarrow> string"
  fromisoformat :: "string \<Rightarrow> timestamp option"

fun py_float :: "py_builtins \<Rightarrow> json \<Rightarrow> feed_error + rat" where
  "py_float py (JNum q) = Inr q"
| "py_float py (JBool b) = Inr (of_bool b)"
| "py_float py (JStr s) = (case float_of py s of Some q \<Rightarrow> Inr q | None \<Rightarrow> Inl Bad_Value)"
| "py_float py _ = Inl Bad_Type"

fun py_int :: "py_builtins \<Rightarrow> json \<Rightarrow> feed_error + int" where
  "py_int py (JNum q) = Inr (if q < 0 then \<lceil>q\<rceil> else \<lfloor>q\<rfloor>)"
| "py_int py (JBool b) = Inr (of_bool b)"
| "py_int py (JStr s) = (case int_of py s of Some i \<Rightarrow> Inr i | None \<Rightarrow> Inl Bad_Value)"
| "py_int py _ = Inl Bad_Type"

fun py_str :: "py_builtins \<Rightarrow> json \<Rightarrow> string" where
  "py_str py (JStr s) = s"
| "py_str py j = str_of py j"

text \<open>\<open>a or b or ...\<close> over look-ups, a missing key being \<open>None\<close>.\<close>

definition first_truthy :: "json option list \<Rightarrow> json option" where
  "first_truthy vs = find json_truthy (List.map_filter id vs)"

definition or_else :: "json option list \<Rightarrow> json \<Rightarrow> json" where
  "or_else vs dflt = (case first_truthy vs of Some j \<Rightarrow> j | None \<Rightarrow> dflt)"

definition get_or :: "dict \<Rightarrow> string \<Rightarrow> json \<Rightarrow> json" where
  "get_or kvs k dflt = (case map_of kvs k of Some j \<Rightarrow> j | None \<Rightarrow> dflt)"

section \<open>Candidate events\<close>

record bounding_box =
  min_lat :: rat
  max_lat :: rat
  min_lon :: rat
  max_lon :: rat

record candidate_event =
  event_id :: string
  ce_timestamp :: timestamp
  ce_source_id :: string
  area_id :: string
  event_type :: string
  ce_confidence :: rat
  location :: "rat \<times> rat"
  ce_box :: "bounding_box option"
  ce_attributes :: dict

datatype sar_payload = Event candidate_event | Raw dict

fun aware :: "timestamp \<Rightarrow> string" where
  "aware (Aware s) = s"
| "aware (Naive s) = s @ ''Z''"

definition box_json :: "bounding_box \<Rightarrow> json" where
  "box_json b = JObj [(''min_lat'', JNum (min_lat b)), (''max_lat'', JNum (max_lat b)),
     (''min_lon'', JNum (min_lon b)), (''max_lon'', JNum (max_lon b))]"

text \<open>\<open>CandidateEvent.model_validate\<close>: \<open>read\<close> is the reading of the fields, the bounds are the model's.\<close>

definition parse_candidate_event :: "(dict \<Rightarrow> candidate_event option) \<Rightarrow> sar_payload \<Rightarrow> feed_error + candidate_event" where
  "parse_candidate_event read p =
     (case p of
        Event e \<Rightarrow> Inr e
      | Raw d \<Rightarrow> (case read d of
            None \<Rightarrow> Inl Bad_Value
          | Some e \<Rightarrow> if 0 \<le> ce_confidence e \<and> ce_confidence e \<le> 1 then Inr e else Inl Bad_Value))"

definition SPACE_SAR_MODALITY :: string where
  "SPACE_SAR_MODALITY = ''space_sar''"

definition event_observation :: "candidate_event \<Rightarrow> observation" where
  "event_observation e =
     (let attrs = dict_update (ce_attributes e)
            [(''area_id'', JStr (area_id e)), (''event_type'', JStr (event_type e)),
             (''ingress'', JStr ''candidate_event''), (''schema_version'', JStr ''1.3.0'')]
      in \<lparr>observation_id = event_id e, source_id = ce_source_id e, entity_hint = event_type e,
          position = location e, ob_altitude_m = None, speed_mps = 0, heading_deg = None,
          ob_confidence = ce_confidence e, observed_at = aware (ce_timestamp e), modality = SPACE_SAR_MODALITY,
          ob_attributes = (case ce_box e of None \<Rightarrow> attrs | Some b \<Rightarrow> AList.update ''bounding_box'' (box_json b) attrs),
          raw_digest = []\<rparr>)"

definition candidate_event_to_observation ::
    "(string \<Rightarrow> string) \<Rightarrow> (rat \<Rightarrow> string) \<Rightarrow> (dict \<Rightarrow> candidate_event option) \<Rightarrow> sar_payload \<Rightarrow> feed_error + observation" where
  "candidate_event_to_observation sha num read p =
     attempt (parse_candidate_event read p) (\<lambda>e. Inr (ensure_digest sha num (event_observation e)))"

section \<open>Sentinel detections\<close>

definition DARK_VESSEL_EVENT_TYPE :: string where
  "DARK_VESSEL_EVENT_TYPE = ''UNANNOUNCED_DARK_VESSEL''"

definition SENTINEL_SOURCE_ID :: string where
  "SENTINEL_SOURCE_ID = ''SENTINEL_IMAGERY_ANALYSIS''"

definition DEFAULT_CHIP_URI :: string where
  "DEFAULT_CHIP_URI = ''tests/fixtures/sentinel_chip.jpg''"

definition correlation_status :: "py_builtins \<Rightarrow> dict \<Rightarrow> string" where
  "correlation_status py det = lower (strip (py_str py (or_else [map_of det ''correlation_status''] (JStr []))))"

definition lat_lng :: "py_builtins \<Rightarrow> dict \<Rightarrow> feed_error + rat \<times> rat" where
  "lat_lng py det =
     (case (map_of det ''lat'', map_of det ''lng'', map_of det ''latitude'', map_of det ''longitude'') of
        (Some x, Some y, _) \<Rightarrow> attempt (py_float py x) (\<lambda>a. attempt (py_float py y) (\<lambda>b. Inr (a, b)))
      | (_, _, Some x, Some y) \<Rightarrow> attempt (py_float py x) (\<lambda>a. attempt (py_float py y) (\<lambda>b. Inr (a, b)))
      | _ \<Rightarrow> Inl Bad_Value)"

text \<open>A measurement, under each of its names, when it is given and not null.\<close>

definition measured :: "py_builtins \<Rightarrow> dict \<Rightarrow> string \<Rightarrow> string list \<Rightarrow> feed_error + dict" where
  "measured py det k names =
     (case map_of det k of
        None \<Rightarrow> Inr []
      | Some JNull \<Rightarrow> Inr []
      | Some j \<Rightarrow> attempt (py_float py j) (\<lambda>q. Inr (map (\<lambda>n. (n, JNum q)) names)))"

definition geo_box :: "py_builtins \<Rightarrow> dict \<Rightarrow> feed_error + bounding_box option" where
  "geo_box py det =
     (case map_of det ''geo_bbox'' of
        Some (JObj geo) \<Rightarrow>
          attempt (attempt_all (\<lambda>k. case map_of geo k of None \<Rightarrow> Inl Missing_Key | Some j \<Rightarrow> py_float py j)
              [''min_lat'', ''max_lat'', ''min_lon'', ''max_lon''])
            (\<lambda>qs. Inr (Some \<lparr>min_lat = qs ! 0, max_lat = qs ! 1, min_lon = qs ! 2, max_lon = qs ! 3\<rparr>))
      | _ \<Rightarrow> Inr None)"

definition sentinel_detection_to_candidate_event ::
    "py_builtins \<Rightarrow> dict \<Rightarrow> string \<Rightarrow> timestamp \<Rightarrow> json \<Rightarrow> feed_error + candidate_event" where
  "sentinel_detection_to_candidate_event py det scan ts evidence_uri =
     (if correlation_status py det \<noteq> ''uncorrelated'' then Inl Bad_Value
      else
        attempt (lat_lng py det) (\<lambda>p.
        let idx = get_or det ''index'' (JNum 0);
            i = py_str py (or_else [map_of det ''detection_id''] (JStr (''EVT-SAR-SG-'' @ scan @ ''-'' @ py_str py idx)))
        in attempt (py_float py (get_or det ''confidence'' (JNum (7 / 10)))) (\<lambda>conf.
           attempt (measured py det ''length'' [''vessel_length_m'', ''length_m'']) (\<lambda>len.
           attempt (measured py det ''beam'' [''vessel_beam_m'', ''beam_m'']) (\<lambda>beam.
           attempt (measured py det ''angle'' [''heading_deg'']) (\<lambda>angle.
           attempt (geo_box py det) (\<lambda>bx.
           let chip = (case first_truthy [Some evidence_uri, map_of det ''evidence_image_uri'', map_of det ''cropped_chip_path''] of
                 None \<Rightarrow> []
               | Some j \<Rightarrow> [(''evidence_image_uri'', JStr (py_str py j))])
           in Inr \<lparr>event_id = i, ce_timestamp = ts, ce_source_id = SENTINEL_SOURCE_ID, area_id = ''singapore_strait'',
                event_type = DARK_VESSEL_EVENT_TYPE, ce_confidence = max 0 (min 1 conf), location = p, ce_box = bx,
                ce_attributes =
                  [(''ais_absent'', JBool True), (''ais_correlation'', JStr ''NONE''), (''ingress'', JStr ''sentinel_imagery''),
                   (''correlation_status'', JStr ''uncorrelated''), (''scan_id'', JStr scan), (''detection_index'', idx)] @
                  len @ beam @ angle @ chip\<rparr>)))))))"

text \<open>A text that is no ISO time raises; without a text the time is now.\<close>

definition parse_timestamp :: "py_builtins \<Rightarrow> string \<Rightarrow> json option \<Rightarrow> feed_error + timestamp" where
  "parse_timestamp py now v =
     (case v of
        Some (JStr s) \<Rightarrow>
          if strip s = [] then Inr (Aware now)
          else (case fromisoformat py (concat (map (\<lambda>c. if c = CHR ''Z'' then ''+00:00'' else [c]) s)) of
                  None \<Rightarrow> Inl Bad_Value
                | Some t \<Rightarrow> Inr (Aware (aware t)))
      | _ \<Rightarrow> Inr (Aware now))"

text \<open>What is no object, or not uncorrelated, is passed over.\<close>

definition dark_detections :: "py_builtins \<Rightarrow> json list \<Rightarrow> dict list" where
  "dark_detections py ds =
     filter (\<lambda>det. correlation_status py det = ''uncorrelated'')
       (List.map_filter (\<lambda>j. case j of JObj det \<Rightarrow> Some det | _ \<Rightarrow> None) ds)"

definition sentinel_run_cv_to_candidate_events ::
    "py_builtins \<Rightarrow> string \<Rightarrow> dict \<Rightarrow> feed_error + candidate_event list" where
  "sentinel_run_cv_to_candidate_events py now payload =
     (case map_of payload ''detections'' of
        Some (JArr ds) \<Rightarrow>
          (let scan = py_str py (or_else [map_of payload ''scan_id'', map_of payload ''folder_name''] (JStr ''scan''));
               chip = or_else [map_of payload ''evidence_image_uri''] (JStr DEFAULT_CHIP_URI)
           in attempt (parse_timestamp py now (map_of payload ''timestamp'')) (\<lambda>ts.
              attempt (attempt_all (\<lambda>det. sentinel_detection_to_candidate_event py det scan ts chip) (dark_detections py ds))
                (\<lambda>es. Inr (map (\<lambda>e. e\<lparr>ce_attributes :=
                  AList.update ''vessel_count_est'' (JNum (of_nat (length es))) (ce_attributes e)\<rparr>) es))))
      | _ \<Rightarrow> Inl Bad_Value)"

section \<open>The feeds and their fixtures\<close>

text \<open>A pull gives \<open>None\<close> on any failure; a fixture file may fail to load. Pulls are numbered by when they happen.\<close>

datatype feed_kind = Ais | Air

datatype feed_source = Auto | Indago | Live | Fixture

record feeds =
  builtins :: py_builtins
  read_event :: "dict \<Rightarrow> candidate_event option"
  assumed_fixture :: "feed_error + dict"
  run_cv_fixture :: "feed_error + dict"
  fetch_glint :: "nat \<Rightarrow> dict option"
  fetch_run_cv :: "nat \<Rightarrow> dict option"
  open_feed :: "feed_kind \<Rightarrow> dict option \<Rightarrow> bool \<Rightarrow> feed_source option \<Rightarrow> int \<Rightarrow> nat \<Rightarrow> feed_error + observation list \<times> string"
  sensorsim_rows :: "nat \<Rightarrow> feed_error + (feed_error + observation) list"

definition resolve_sentinel_events ::
    "feeds \<Rightarrow> nat \<Rightarrow> string \<Rightarrow> bool \<Rightarrow> dict option \<Rightarrow> bool \<Rightarrow> feed_error + candidate_event list \<times> string" where
  "resolve_sentinel_events fd n now pull_upstream run_cv use_fixture =
     (let events = sentinel_run_cv_to_candidate_events (builtins fd) now;
          fixture = attempt (run_cv_fixture fd) (\<lambda>d. attempt (events d) (\<lambda>es. Inr (es, ''fixture'')))
      in case run_cv of
           Some d \<Rightarrow> attempt (events d) (\<lambda>es. Inr (es, ''run_cv''))
         | None \<Rightarrow>
             if pull_upstream then
               (case fetch_run_cv fd n of
                  Some d \<Rightarrow> attempt (events d) (\<lambda>es. if es \<noteq> [] then Inr (es, ''upstream'') else fixture)
                | None \<Rightarrow> fixture)
             else if use_fixture then fixture
             else Inl Bad_Value)"

definition annotate_glint_event :: "candidate_event \<Rightarrow> candidate_event" where
  "annotate_glint_event e = e\<lparr>ce_attributes :=
     dict_update [(''ingress'', JStr ''glint''), (''provenance'', JStr ''assumed-mock''), (''schema_version'', JStr ''1.3.0'')]
       (ce_attributes e)\<rparr>"

definition load_glint_fixture :: "feeds \<Rightarrow> feed_error + candidate_event" where
  "load_glint_fixture fd =
     attempt (assumed_fixture fd) (\<lambda>d.
     attempt (parse_candidate_event (read_event fd) (Raw d)) (\<lambda>e. Inr (annotate_glint_event e)))"

definition fetch_glint_event :: "feeds \<Rightarrow> nat \<Rightarrow> candidate_event option" where
  "fetch_glint_event fd n =
     (case fetch_glint fd n of
        None \<Rightarrow> None
      | Some d \<Rightarrow> (case parse_candidate_event (read_event fd) (Raw d) of
            Inl err \<Rightarrow> None | Inr e \<Rightarrow> Some (annotate_glint_event e)))"

definition resolve_glint_events ::
    "feeds \<Rightarrow> nat \<Rightarrow> bool \<Rightarrow> bool \<Rightarrow> feed_error + candidate_event list \<times> string" where
  "resolve_glint_events fd n pull_upstream use_fixture =
     (let fixture = attempt (load_glint_fixture fd) (\<lambda>e. Inr ([e], ''glint_fixture'')) in
      if pull_upstream then
        (case fetch_glint_event fd n of Some e \<Rightarrow> Inr ([e], ''glint'') | None \<Rightarrow> fixture)
      else if use_fixture then fixture
      else Inl Bad_Value)"

section \<open>Dual-SAR corroboration\<close>

definition DEFAULT_ALIGN_M :: real where
  "DEFAULT_ALIGN_M = 3000"

definition CONFIDENCE_CAP :: rat where
  "CONFIDENCE_CAP = 98 / 100"

definition point_in_bbox :: "rat \<times> rat \<Rightarrow> bounding_box \<Rightarrow> bool" where
  "point_in_bbox p b \<longleftrightarrow>
     min (min_lat b) (max_lat b) \<le> fst p \<and> fst p \<le> max (min_lat b) (max_lat b) \<and>
     min (min_lon b) (max_lon b) \<le> snd p \<and> snd p \<le> max (min_lon b) (max_lon b)"

definition sector_aligns :: "geometry \<Rightarrow> candidate_event \<Rightarrow> candidate_event \<Rightarrow> bool" where
  "sector_aligns ge macro micro \<longleftrightarrow>
     (case ce_box macro of Some b \<Rightarrow> point_in_bbox (location micro) b | None \<Rightarrow> False) \<or>
     (let m = great_circle_m ge (location macro) (location micro) in
      m \<le> DEFAULT_ALIGN_M \<or>
      area_id macro \<noteq> [] \<and> area_id micro \<noteq> [] \<and> area_id macro = area_id micro \<and> m \<le> DEFAULT_ALIGN_M * 2)"

fun first_min :: "('a \<Rightarrow> real) \<Rightarrow> 'a list \<Rightarrow> 'a option" where
  "first_min key [] = None"
| "first_min key (x # xs) =
     (case first_min key xs of None \<Rightarrow> Some x | Some y \<Rightarrow> if key x \<le> key y then Some x else Some y)"

definition nearest_macro :: "geometry \<Rightarrow> candidate_event list \<Rightarrow> candidate_event \<Rightarrow> candidate_event option" where
  "nearest_macro ge macros micro =
     first_min (\<lambda>m. great_circle_m ge (location m) (location micro)) (filter (\<lambda>m. sector_aligns ge m micro) macros)"

definition fuse_pair :: "py_builtins \<Rightarrow> candidate_event \<Rightarrow> candidate_event \<Rightarrow> feed_error + candidate_event" where
  "fuse_pair py macro micro =
     attempt (py_int py (or_else [map_of (ce_attributes macro) ''vessel_count_est'',
         map_of (ce_attributes micro) ''vessel_count_est''] (JNum 0))) (\<lambda>vessels.
     let attrs = dict_update
           [(''ingress'', JStr ''dual_sar''), (''dual_sar_status'', JStr ''corroborated''),
            (''macro_event_id'', JStr (event_id macro)), (''macro_source_id'', JStr (ce_source_id macro)),
            (''macro_event_type'', JStr (event_type macro)), (''micro_event_id'', JStr (event_id micro)),
            (''micro_source_id'', JStr (ce_source_id micro)), (''schema_version'', JStr ''1.3.0'')]
           (ce_attributes micro);
         attrs1 = (if vessels \<noteq> 0 then AList.update ''vessel_count_est'' (JNum (of_int vessels)) attrs else attrs);
         attrs2 = (if area_id macro \<noteq> [] \<and> first_truthy [map_of attrs1 ''area_id''] = None
           then AList.update ''area_id'' (JStr (area_id macro)) attrs1 else attrs1)
     in Inr (micro\<lparr>ce_source_id := ''DUAL_SAR'', area_id := (if area_id micro \<noteq> [] then area_id micro else area_id macro),
          ce_confidence := min CONFIDENCE_CAP (max (ce_confidence macro) (ce_confidence micro) + 1 / 10),
          ce_attributes := attrs2\<rparr>))"

definition annotate_sia_only :: "candidate_event \<Rightarrow> candidate_event" where
  "annotate_sia_only e = e\<lparr>ce_attributes :=
     dict_update [(''ingress'', or_else [map_of (ce_attributes e) ''ingress''] (JStr ''sentinel_imagery'')),
       (''dual_sar_status'', JStr ''sia_only'')] (ce_attributes e)\<rparr>"

definition corroborate ::
    "py_builtins \<Rightarrow> geometry \<Rightarrow> candidate_event list \<Rightarrow> candidate_event list \<Rightarrow> feed_error + candidate_event list" where
  "corroborate py ge macros micros =
     (if macros = [] then Inr (map annotate_sia_only micros)
      else attempt_all (\<lambda>micro. case nearest_macro ge macros micro of
             None \<Rightarrow> Inr (annotate_sia_only micro) | Some macro \<Rightarrow> fuse_pair py macro micro) micros)"

definition corroborated :: "candidate_event \<Rightarrow> bool" where
  "corroborated e \<longleftrightarrow> map_of (ce_attributes e) ''dual_sar_status'' = Some (JStr ''corroborated'')"

text \<open>A GLINT failure that is a value, type or I/O error leaves the detections uncorroborated.\<close>

definition resolve_dual_sar_events ::
    "feeds \<Rightarrow> geometry \<Rightarrow> nat \<Rightarrow> string \<Rightarrow> bool \<Rightarrow> bool \<Rightarrow> dict option \<Rightarrow> feed_error + candidate_event list \<times> string" where
  "resolve_dual_sar_events fd ge n now pull use_fixture run_cv =
     (if \<not> pull \<and> \<not> use_fixture \<and> run_cv = None then Inl Bad_Value
      else
        attempt (resolve_sentinel_events fd n now pull run_cv (use_fixture \<or> pull)) (\<lambda>(micros, sia_source).
        if micros = [] then Inr ([], sia_source)
        else
          (let glint = resolve_glint_events fd n pull (use_fixture \<or> pull \<or> run_cv \<noteq> None) in
           if glint = Inl Missing_Key then Inl Missing_Key
           else
             (let macros = (case glint of Inl err \<Rightarrow> [] | Inr (es, src) \<Rightarrow> es) in
              attempt (corroborate (builtins fd) ge macros micros) (\<lambda>fused.
              Inr (fused,
                if \<exists>e \<in> set fused. corroborated e then ''dual_sar''
                else if macros = [] then (if sia_source = ''fixture'' then ''sia_only'' else sia_source)
                else ''sia_only''))))))"


section \<open>What the adapters promise\<close>

lemma detection_event:
  "sentinel_detection_to_candidate_event py det scan ts u = Inr e \<Longrightarrow>
     event_type e = DARK_VESSEL_EVENT_TYPE \<and> 0 \<le> ce_confidence e \<and> ce_confidence e \<le> 1"
  by (auto simp: sentinel_detection_to_candidate_event_def Let_def attempt_Inr split: if_splits)

lemma sentinel_events:
  assumes "sentinel_run_cv_to_candidate_events py now payload = Inr es" "e \<in> set es"
  shows "event_type e = DARK_VESSEL_EVENT_TYPE" "0 \<le> ce_confidence e \<and> ce_confidence e \<le> 1"
    "map_of (ce_attributes e) ''vessel_count_est'' = Some (JNum (of_nat (length es)))"
proof -
  obtain ds scan ts u es0 where es0: "attempt_all (\<lambda>det. sentinel_detection_to_candidate_event py det scan ts u)
        (dark_detections py ds) = Inr es0"
    and es: "es = map (\<lambda>e. e\<lparr>ce_attributes :=
        AList.update ''vessel_count_est'' (JNum (of_nat (length es0))) (ce_attributes e)\<rparr>) es0"
    using assms(1)
    by (auto simp: sentinel_run_cv_to_candidate_events_def Let_def attempt_Inr split: option.splits json.splits)
  obtain e0 where e0: "e0 \<in> set es0"
      "e = e0\<lparr>ce_attributes := AList.update ''vessel_count_est'' (JNum (of_nat (length es0))) (ce_attributes e0)\<rparr>"
    using assms(2) es by auto
  obtain det where "sentinel_detection_to_candidate_event py det scan ts u = Inr e0"
    using es0 e0(1) unfolding attempt_all_Inr by (auto simp: list_all2_conv_all_nth in_set_conv_nth)
  note det = detection_event [OF this]
  show "event_type e = DARK_VESSEL_EVENT_TYPE" "0 \<le> ce_confidence e \<and> ce_confidence e \<le> 1"
    using det e0(2) by simp_all
  show "map_of (ce_attributes e) ''vessel_count_est'' = Some (JNum (of_nat (length es)))"
    using e0(2) es by (simp add: update_conv')
qed

lemma event_observation_fields [simp]:
  "preferred_id (event_observation e) = (if event_type e \<noteq> [] then event_type e else ce_source_id e)"
  "observation_id (event_observation e) = event_id e"
  by (simp_all add: event_observation_def preferred_id_def Let_def)


lemma first_min_None [simp]: "first_min key xs = None \<longleftrightarrow> xs = []"
  by (cases xs) (auto split: option.splits)

lemma first_min_spec:
  "first_min key xs = Some x \<Longrightarrow> x \<in> set xs \<and> (\<forall>y \<in> set xs. key x \<le> key y)"
proof (induction xs arbitrary: x)
  case (Cons a xs)
  show ?case
  proof (cases "first_min key xs")
    case None
    then show ?thesis using Cons.prems by simp
  next
    case (Some y)
    then show ?thesis using Cons.prems Cons.IH [OF Some] by (auto split: if_splits)
  qed
qed simp

text \<open>What a detection keeps, and how sure of it one is, after corroboration.\<close>

definition corroborates :: "geometry \<Rightarrow> candidate_event list \<Rightarrow> candidate_event \<Rightarrow> candidate_event \<Rightarrow> bool" where
  "corroborates ge macros micro e \<longleftrightarrow>
     event_id e = event_id micro \<and> location e = location micro \<and> ce_timestamp e = ce_timestamp micro \<and>
     event_type e = event_type micro \<and> ce_box e = ce_box micro \<and>
     (if \<exists>m \<in> set macros. sector_aligns ge m micro
      then corroborated e \<and> ce_source_id e = ''DUAL_SAR'' \<and>
        (\<exists>m \<in> set macros. sector_aligns ge m micro \<and>
          (\<forall>m' \<in> set macros. sector_aligns ge m' micro \<longrightarrow>
             great_circle_m ge (location m) (location micro) \<le> great_circle_m ge (location m') (location micro)) \<and>
          ce_confidence e = min CONFIDENCE_CAP (max (ce_confidence m) (ce_confidence micro) + 1 / 10))
      else \<not> corroborated e \<and> ce_source_id e = ce_source_id micro \<and> ce_confidence e = ce_confidence micro)"

lemma dict_update_Nil [simp]: "dict_update [] d = d"
  by (simp add: dict_update_def)

lemma dict_update_Cons [simp]: "dict_update (kv # kvs) d = dict_update kvs (AList.update (fst kv) (snd kv) d)"
  by (simp add: dict_update_def)

lemma sia_only_corroborates:
  "\<forall>m \<in> set macros. \<not> sector_aligns ge m micro \<Longrightarrow> corroborates ge macros micro (annotate_sia_only micro)"
  by (auto simp: corroborates_def annotate_sia_only_def corroborated_def update_conv')

lemma fuse_pair_corroborates:
  assumes "nearest_macro ge macros micro = Some macro" "fuse_pair py macro micro = Inr e"
  shows "corroborates ge macros micro e"
proof -
  have "macro \<in> set macros" "sector_aligns ge macro micro" "\<forall>m' \<in> set macros. sector_aligns ge m' micro \<longrightarrow>
      great_circle_m ge (location macro) (location micro) \<le> great_circle_m ge (location m') (location micro)"
    using first_min_spec [OF assms(1) [unfolded nearest_macro_def]] by auto
  moreover have "corroborated e"
    using assms(2) by (auto simp: fuse_pair_def attempt_Inr Let_def corroborated_def update_conv')
  moreover have "ce_source_id e = ''DUAL_SAR''" "event_id e = event_id micro" "location e = location micro"
    "ce_timestamp e = ce_timestamp micro" "event_type e = event_type micro" "ce_box e = ce_box micro"
    "ce_confidence e = min CONFIDENCE_CAP (max (ce_confidence macro) (ce_confidence micro) + 1 / 10)"
    using assms(2) by (auto simp: fuse_pair_def attempt_Inr Let_def)
  ultimately show ?thesis unfolding corroborates_def by auto
qed

text \<open>
  Corroboration keeps every detection with its id, place, time and type, in order. One that
  aligns with a macro event takes its confidence from a nearest such event, a tenth above the higher of
  the two and at most the cap; any other is left at its own.
\<close>

theorem corroboration_keeps_every_detection:
  assumes "corroborate py ge macros micros = Inr es"
  shows "list_all2 (corroborates ge macros) micros es"
proof (cases "macros = []")
  case True
  then show ?thesis
    using assms by (auto simp: corroborate_def list_all2_map2 intro!: list_all2_same [THEN iffD2] sia_only_corroborates)
next
  case False
  have "corroborates ge macros micro e"
    if "(case nearest_macro ge macros micro of None \<Rightarrow> Inr (annotate_sia_only micro)
          | Some macro \<Rightarrow> fuse_pair py macro micro) = Inr e" for micro e
  proof (cases "nearest_macro ge macros micro")
    case None
    then have "\<forall>m \<in> set macros. \<not> sector_aligns ge m micro" by (auto simp: nearest_macro_def filter_empty_conv)
    then show ?thesis using that None sia_only_corroborates by auto
  next
    case (Some macro)
    then show ?thesis using that fuse_pair_corroborates by simp
  qed
  then show ?thesis using assms False unfolding corroborate_def attempt_all_Inr [symmetric]
    by (auto simp: attempt_all_Inr elim: list_all2_mono)
qed

text \<open>
  Whatever goes wrong with GLINT (no network, a malformed event, no fixture), a Dual-SAR
  request with detections still gives them, each marked as seen by Sentinel only.
\<close>

theorem glint_failure_falls_back_to_sentinel:
  assumes "resolve_sentinel_events fd n now pull run_cv (fixture \<or> pull) = Inr (micros, src)" "micros \<noteq> []"
    and "resolve_glint_events fd n pull (fixture \<or> pull \<or> run_cv \<noteq> None) = Inl err" "err \<noteq> Missing_Key"
  shows "resolve_dual_sar_events fd ge n now pull fixture run_cv =
    Inr (map annotate_sia_only micros, if src = ''fixture'' then ''sia_only'' else src)"
proof -
  have "pull \<or> fixture \<or> run_cv \<noteq> None"
    using assms(1) by (auto simp: resolve_sentinel_events_def Let_def split: option.splits if_splits)
  moreover have "\<not> corroborated (annotate_sia_only e)" for e
    by (simp add: annotate_sia_only_def corroborated_def update_conv')
  ultimately show ?thesis
    using assms by (auto simp: resolve_dual_sar_events_def corroborate_def Let_def)
qed

section \<open>The properties at concrete inputs\<close>

definition plain_builtins :: py_builtins where
  "plain_builtins = \<lparr>float_of = (\<lambda>s. None), int_of = (\<lambda>s. None), str_of = (\<lambda>j. ''0''), fromisoformat = (\<lambda>s. None)\<rparr>"

definition detection_at :: "rat \<Rightarrow> json" where
  "detection_at x = JObj [(''correlation_status'', JStr ''Uncorrelated''), (''lat'', JNum x), (''lng'', JNum x),
     (''detection_id'', JStr ''D'')]"

definition two_vessels :: dict where
  "two_vessels = [(''detections'', JArr [detection_at 1, JNull, detection_at 50])]"

definition dark_vessel :: "string \<Rightarrow> rat \<Rightarrow> candidate_event" where
  "dark_vessel now x = \<lparr>event_id = ''D'', ce_timestamp = Aware now, ce_source_id = SENTINEL_SOURCE_ID,
     area_id = ''singapore_strait'', event_type = DARK_VESSEL_EVENT_TYPE, ce_confidence = 7 / 10, location = (x, x),
     ce_box = None, ce_attributes =
       [(''ais_absent'', JBool True), (''ais_correlation'', JStr ''NONE''), (''ingress'', JStr ''sentinel_imagery''),
        (''correlation_status'', JStr ''uncorrelated''), (''scan_id'', JStr ''scan''), (''detection_index'', JNum 0),
        (''evidence_image_uri'', JStr DEFAULT_CHIP_URI), (''vessel_count_est'', JNum 2)]\<rparr>"

lemma first_truthy_simps [simp]:
  "first_truthy [] = None" "first_truthy (None # vs) = first_truthy vs"
  "first_truthy (Some j # vs) = (if json_truthy j then Some j else first_truthy vs)"
  by (simp_all add: first_truthy_def)

lemma status_uncorrelated: "lower (strip ''Uncorrelated'') = ''uncorrelated''"
  by code_simp

lemma detected_at:
  "sentinel_detection_to_candidate_event plain_builtins
     [(''correlation_status'', JStr ''Uncorrelated''), (''lat'', JNum x), (''lng'', JNum x), (''detection_id'', JStr ''D'')]
     ''scan'' (Aware now) (JStr DEFAULT_CHIP_URI) =
   Inr ((dark_vessel now x)\<lparr>ce_attributes := butlast (ce_attributes (dark_vessel now x))\<rparr>)"
  by (simp add: sentinel_detection_to_candidate_event_def correlation_status_def or_else_def status_uncorrelated
      lat_lng_def get_or_def measured_def geo_box_def dark_vessel_def Let_def DEFAULT_CHIP_URI_def)

lemma two_vessels_events:
  "sentinel_run_cv_to_candidate_events plain_builtins now two_vessels = Inr [dark_vessel now 1, dark_vessel now 50]"
  by (simp add: sentinel_run_cv_to_candidate_events_def two_vessels_def Let_def dark_detections_def detection_at_def
      correlation_status_def or_else_def status_uncorrelated parse_timestamp_def detected_at)
    (simp add: dark_vessel_def)


definition macro_event :: candidate_event where
  "macro_event = (dark_vessel ''T'' 1)\<lparr>event_id := ''M'', ce_source_id := ''GLINT'', ce_confidence := 9 / 10\<rparr>"

theorem corroboration_keeps_every_detection_witness:
  "\<exists>e e'. corroborate plain_builtins flat_earth [macro_event] [dark_vessel ''T'' 1, dark_vessel ''T'' 5000] = Inr [e, e'] \<and>
     ce_confidence e = 98 / 100 \<and> location e = (1, 1) \<and> ce_confidence e' = 7 / 10"
proof -
  have near: "sector_aligns flat_earth macro_event (dark_vessel ''T'' 1)"
    and far: "\<not> sector_aligns flat_earth macro_event (dark_vessel ''T'' 5000)"
    by (simp_all add: sector_aligns_def flat_earth_def macro_event_def dark_vessel_def DEFAULT_ALIGN_M_def)
  obtain es where es: "corroborate plain_builtins flat_earth [macro_event] [dark_vessel ''T'' 1, dark_vessel ''T'' 5000] = Inr es"
    using near far
    by (auto simp: corroborate_def nearest_macro_def fuse_pair_def Let_def or_else_def)
      (simp_all add: dark_vessel_def macro_event_def)
  from corroboration_keeps_every_detection [OF es]
  obtain e e' where "es = [e, e']" "corroborates flat_earth [macro_event] (dark_vessel ''T'' 1) e"
      "corroborates flat_earth [macro_event] (dark_vessel ''T'' 5000) e'"
    by (auto simp: list_all2_Cons1)
  then show ?thesis
    using es near far by (auto simp: corroborates_def CONFIDENCE_CAP_def) (simp_all add: dark_vessel_def macro_event_def)
qed

definition no_glint :: feeds where
  "no_glint = \<lparr>builtins = plain_builtins, read_event = (\<lambda>d. None), assumed_fixture = Inl IO_Failure,
     run_cv_fixture = Inr two_vessels, fetch_glint = (\<lambda>n. None), fetch_run_cv = (\<lambda>n. None),
     open_feed = (\<lambda>k p b s l n. Inl IO_Failure), sensorsim_rows = (\<lambda>n. Inl IO_Failure)\<rparr>"

theorem glint_failure_falls_back_to_sentinel_witness:
  "resolve_dual_sar_events no_glint flat_earth 0 ''T'' True False None =
     Inr (map annotate_sia_only [dark_vessel ''T'' 1, dark_vessel ''T'' 50], ''sia_only'')"
proof -
  have "resolve_sentinel_events no_glint 0 ''T'' True None (False \<or> True) = Inr ([dark_vessel ''T'' 1, dark_vessel ''T'' 50], ''fixture'')"
    by (simp add: resolve_sentinel_events_def no_glint_def two_vessels_events)
  moreover have "resolve_glint_events no_glint 0 True (False \<or> True \<or> None \<noteq> (None :: dict option)) = Inl IO_Failure"
    by (simp add: resolve_glint_events_def no_glint_def fetch_glint_event_def load_glint_fixture_def)
  ultimately show ?thesis
    using glint_failure_falls_back_to_sentinel [of no_glint 0 "''T''" True None False] by simp
qed

end
