(* ===== verification/Scenario_Base.thy ===== *)
theory Scenario_Base
  imports Sensor_Adapters
begin

text \<open>
  What a scenario is to the gate (\<open>app/scenarios/base.py\<close>): the finding it warns with, its three
  functions, the registry, and the result of interpreting its picture (\<open>app/llm_interpreter.py\<close>).
\<close>

section \<open>Findings\<close>

record finding_record =
  fi_scenario :: string
  fi_track :: string
  threat_class :: string
  warning_minutes_est :: rat
  mismatch_m :: rat
  fi_confidence :: rat
  picture_summary :: string
  fi_hypothesis :: string
  spoof_sources :: "string list"
  approach_sources :: "string list"
  other_sources :: "string list"
  message :: string
  amber_alert :: "string option"
  source_breakdown :: dict

text \<open>\<open>list(dict.fromkeys(...))\<close>: each source once, in the order of first mention.\<close>

definition all_sources :: "finding_record \<Rightarrow> string list" where
  "all_sources f = foldl (\<lambda>acc s. add_missing s acc) [] (approach_sources f @ spoof_sources f @ other_sources f)"

text \<open>\<open>asdict\<close>: the fields in the order of the class.\<close>

definition finding_dict :: "finding_record \<Rightarrow> dict" where
  "finding_dict f =
     [(''scenario_id'', JStr (fi_scenario f)), (''track_id'', JStr (fi_track f)),
      (''threat_class'', JStr (threat_class f)), (''warning_minutes_est'', JNum (warning_minutes_est f)),
      (''mismatch_m'', JNum (mismatch_m f)), (''confidence'', JNum (fi_confidence f)),
      (''picture_summary'', JStr (picture_summary f)), (''adversarial_hypothesis'', JStr (fi_hypothesis f)),
      (''spoof_sources'', JArr (map JStr (spoof_sources f))),
      (''approach_sources'', JArr (map JStr (approach_sources f))),
      (''other_sources'', JArr (map JStr (other_sources f))), (''message'', JStr (message f)),
      (''amber_alert'', json_or_null JStr (amber_alert f)), (''source_breakdown'', JObj (source_breakdown f))]"

lemma add_missing_fold:
  "distinct acc \<Longrightarrow> distinct (foldl (\<lambda>acc s. add_missing s acc) acc ss) \<and>
     set (foldl (\<lambda>acc s. add_missing s acc) acc ss) = set acc \<union> set ss"
  by (induction ss arbitrary: acc) (auto simp: add_missing_def)

lemma all_sources_facts [simp]:
  "distinct (all_sources f)"
  "set (all_sources f) = set (approach_sources f) \<union> set (spoof_sources f) \<union> set (other_sources f)"
  using add_missing_fold [of "[]" "approach_sources f @ spoof_sources f @ other_sources f"]
  by (simp_all add: all_sources_def Un_assoc del: foldl_append)

section \<open>Scenarios\<close>

text \<open>A scenario by its functions; its events are given as the observations \<open>normalize_sensor_event\<close> makes
  of them. \<open>build_coa\<close> is given the fresh id of the COA; \<open>None\<close> is a failed assertion.\<close>

record scenario =
  scenario_key :: string
  build_events :: "nat \<Rightarrow> observation list"
  detect :: "graph \<Rightarrow> finding_record option"
  build_coa :: "graph \<Rightarrow> finding_record \<Rightarrow> rat \<Rightarrow> string \<Rightarrow> course_of_action option"

definition get_scenario :: "(string \<times> scenario) list \<Rightarrow> string \<Rightarrow> scenario option" where
  "get_scenario reg sid =
     (let raw = strip sid in
      case map_of reg raw of
        Some sc \<Rightarrow> Some sc
      | None \<Rightarrow> map_option snd (find (\<lambda>kv. toUpperCase (fst kv) = toUpperCase raw) reg))"

section \<open>Interpretations\<close>

record interpreter_result =
  candidate_coa :: course_of_action
  hypotheses :: "json list"
  interpreter_confidence :: rat
  interpreted_picture :: string
  adversarial_hypothesis :: string
  interpreter_source :: string
  interpreter_model :: json
  interpreter_error :: json

end
