(* ===== verification/Gate_State.thy ===== *)
theory Gate_State
  imports Scenario_Base Audit_Server
begin

text \<open>
  The state of the command gate, the part of \<open>C2Runtime\<close> in \<open>app/c2_server.py\<close> that is not the audit
  log: the picture, the pending proposals, the inbox and the acks, with the SQLite copy of
  \<open>core/runtime_store.py\<close> beside it. A dict is an association list in insertion order, as is a table
  (both keep the place of a key that is written again). What a row's JSON text denotes is kept, not the
  text. Fresh ids and clock readings are numbered draws.
\<close>

section \<open>What the gate calls\<close>

record gate_deps =
  interlocks :: interlock_deps
  sha256_hex :: "string \<Rightarrow> string"
  num_repr :: "rat \<Rightarrow> string"
  uuid4 :: "nat \<Rightarrow> string"
  utc_now :: "nat \<Rightarrow> string"
  isoformat :: "string \<Rightarrow> string"
  earth :: geometry
  outside :: feeds
  registry :: "(string \<times> scenario) list"
  interpreter :: "graph \<Rightarrow> finding_record \<Rightarrow> rat \<Rightarrow> bool \<Rightarrow> string \<Rightarrow> interpreter_result option"
  load_pois :: "poi list option"            \<comment> \<open>\<open>None\<close>: reading the file fails\<close>
  offshore_safe_intercept :: "rat \<times> rat \<Rightarrow> rat \<Rightarrow> rat \<times> rat"

section \<open>The state\<close>

record pending =
  coa :: course_of_action
  for_unit :: string
  navy_unit_id :: "string option"
  queued_at :: "string option"

record tasking =
  tasked_coa :: course_of_action
  token :: decision_token
  unit_id :: string
  tasked_at :: string
  task_status :: string
  ack_record :: "dict option"

record runtime_store =
  st_observations :: "(string \<times> observation) list"
  st_finding :: "finding_record option"
  st_scenario_id :: "string option"
  st_proposals :: "(string \<times> pending) list"
  st_inbox :: "(string \<times> tasking) list"
  st_acked :: "string set"

definition empty_store :: runtime_store where
  "empty_store = \<lparr>st_observations = [], st_finding = None, st_scenario_id = None, st_proposals = [],
     st_inbox = [], st_acked = {}\<rparr>"

record gate_state =
  policy :: tiered_policy
  il :: interlock
  entity_graph :: graph
  finding :: "finding_record option"
  scenario_id :: "string option"
  proposals :: "(string \<times> pending) list"
  inbox :: "(string \<times> tasking) list"
  acked :: "string set"
  store :: "runtime_store option"           \<comment> \<open>\<open>None\<close>: the database could not be opened\<close>
  drawn :: nat

definition tasking_json :: "tasking \<Rightarrow> json" where
  "tasking_json t = JObj
     ([(''coa'', coa_json (tasked_coa t)), (''token'', token_json (token t)), (''unit_id'', JStr (unit_id t)),
       (''issued_at'', JStr (tasked_at t)), (''status'', JStr (task_status t))] @
      (case ack_record t of None \<Rightarrow> [] | Some a \<Rightarrow> [(''ack'', JObj a)]))"

section \<open>The store\<close>

definition write_store :: "(runtime_store \<Rightarrow> runtime_store) \<Rightarrow> gate_state \<Rightarrow> gate_state" where
  "write_store f g = g\<lparr>store := map_option f (store g)\<rparr>"

definition digested :: "gate_deps \<Rightarrow> observation \<Rightarrow> observation" where
  "digested d = ensure_digest (sha256_hex d) (num_repr d)"

definition persist_observation :: "gate_deps \<Rightarrow> observation \<Rightarrow> gate_state \<Rightarrow> gate_state" where
  "persist_observation d b =
     write_store (\<lambda>st. st\<lparr>st_observations := AList.update (observation_id b) (digested d b) (st_observations st)\<rparr>)"

text \<open>Replacing the rows stops at an id that is already there: the insert fails, what was written stays.\<close>

fun insert_rows :: "gate_deps \<Rightarrow> observation list \<Rightarrow> (string \<times> observation) list \<Rightarrow> (string \<times> observation) list" where
  "insert_rows d [] rows = rows"
| "insert_rows d (b # bs) rows =
     (if observation_id b \<in> fst ` set rows then rows
      else insert_rows d bs (rows @ [(observation_id b, digested d b)]))"

definition persist_picture :: "gate_deps \<Rightarrow> gate_state \<Rightarrow> gate_state" where
  "persist_picture d g =
     write_store (\<lambda>st. st\<lparr>st_observations := insert_rows d (seen (entity_graph g)) [], st_finding := finding g,
       st_scenario_id := scenario_id g\<rparr>) g"

text \<open>The payload of a proposal has the navy unit only when it is a non-empty string.\<close>

definition stored_pending :: "pending \<Rightarrow> pending" where
  "stored_pending p = p\<lparr>navy_unit_id := (case navy_unit_id p of Some u \<Rightarrow> if u = [] then None else Some u | None \<Rightarrow> None)\<rparr>"

definition persist_proposal :: "string \<Rightarrow> pending \<Rightarrow> gate_state \<Rightarrow> gate_state" where
  "persist_proposal cid p =
     write_store (\<lambda>st. st\<lparr>st_proposals := AList.update cid (stored_pending p) (st_proposals st)\<rparr>)"

definition delete_proposal :: "string \<Rightarrow> gate_state \<Rightarrow> gate_state" where
  "delete_proposal cid = write_store (\<lambda>st. st\<lparr>st_proposals := AList.delete cid (st_proposals st)\<rparr>)"

definition persist_inbox_item :: "string \<Rightarrow> tasking \<Rightarrow> gate_state \<Rightarrow> gate_state" where
  "persist_inbox_item cid t = write_store (\<lambda>st. st\<lparr>st_inbox := AList.update cid t (st_inbox st)\<rparr>)"

definition persist_acked :: "string \<Rightarrow> gate_state \<Rightarrow> gate_state" where
  "persist_acked cid = write_store (\<lambda>st. st\<lparr>st_acked := insert cid (st_acked st)\<rparr>)"

definition ingest_all :: "gate_deps \<Rightarrow> observation list \<Rightarrow> graph \<Rightarrow> graph" where
  "ingest_all d = ingest_many (sha256_hex d) (num_repr d) (earth d)"

text \<open>The rest of \<open>C2Runtime.__init__\<close>: a process that starts over a database, with its policy file.\<close>

definition with_pois :: "gate_deps \<Rightarrow> interlock \<Rightarrow> interlock" where
  "with_pois d i = (case load_pois d of Some pois \<Rightarrow> i\<lparr>cni_pois := pois\<rparr> | None \<Rightarrow> i)"

definition start_gate ::
    "gate_deps \<Rightarrow> tiered_policy \<Rightarrow> interlock \<Rightarrow> nat \<Rightarrow> runtime_store option \<Rightarrow> gate_state" where
  "start_gate d pol i n db =
     (let st = (case db of Some st \<Rightarrow> st | None \<Rightarrow> empty_store) in
      \<lparr>policy = pol, il = with_pois d (i\<lparr>active_coa_ids := {}\<rparr>), 
       entity_graph = ingest_all d (map snd (st_observations st)) empty_graph, finding = st_finding st, scenario_id = st_scenario_id st, proposals = st_proposals st,
       inbox = st_inbox st, acked = st_acked st, store = db, drawn = n\<rparr>)"

definition gate_reset :: "gate_state \<Rightarrow> gate_state" where
  "gate_reset g = write_store (\<lambda>st. empty_store)
     (g\<lparr>entity_graph := empty_graph, finding := None, scenario_id := None, proposals := [], inbox := [], acked := {},
        il := (il g)\<lparr>active_coa_ids := {}\<rparr>\<rparr>)"

section \<open>Loading a scenario\<close>

text \<open>\<open>KeyError\<close>, the 404 of a picture without a finding, or an exception of the scenario or the interpreter.\<close>

datatype scenario_error = Unknown_Scenario | No_Finding | Not_Built

definition ingest_scenario ::
    "gate_deps \<Rightarrow> string \<Rightarrow> gate_state \<Rightarrow> gate_state \<times> (scenario_error + scenario \<times> finding_record)" where
  "ingest_scenario d sid g =
     (case get_scenario (registry d) sid of
        None \<Rightarrow> (g, Inl Unknown_Scenario)
      | Some sc \<Rightarrow>
          (let gr = ingest_all d (build_events sc (drawn g)) empty_graph;
               g1 = g\<lparr>entity_graph := gr, scenario_id := Some (scenario_key sc), finding := detect sc gr,
                 drawn := Suc (drawn g)\<rparr>
           in case finding g1 of
                None \<Rightarrow> (g1, Inl No_Finding)
              | Some f \<Rightarrow> (persist_picture d g1, Inr (sc, f))))"

definition load_scenario ::
    "gate_deps \<Rightarrow> string \<Rightarrow> rat \<Rightarrow> gate_state \<Rightarrow> gate_state \<times> (scenario_error + course_of_action)" where
  "load_scenario d sid timeout g =
     (case ingest_scenario d sid g of
        (g1, Inl e) \<Rightarrow> (g1, Inl e)
      | (g1, Inr (sc, f)) \<Rightarrow>
          (g1\<lparr>drawn := Suc (drawn g1)\<rparr>,
           case build_coa sc (entity_graph g1) f timeout (uuid4 d (drawn g1)) of
             None \<Rightarrow> Inl Not_Built
           | Some c \<Rightarrow> Inr (apply_defaults (policy g1) c)))"

definition interpret_scenario ::
    "gate_deps \<Rightarrow> string \<Rightarrow> rat \<Rightarrow> bool \<Rightarrow> gate_state \<Rightarrow> gate_state \<times> (scenario_error + interpreter_result)" where
  "interpret_scenario d sid timeout force g =
     (case ingest_scenario d sid g of
        (g1, Inl e) \<Rightarrow> (g1, Inl e)
      | (g1, Inr (sc, f)) \<Rightarrow>
          (g1\<lparr>drawn := Suc (drawn g1)\<rparr>,
           case interpreter d (entity_graph g1) f timeout force (uuid4 d (drawn g1)) of
             None \<Rightarrow> Inl Not_Built
           | Some r \<Rightarrow> Inr (r\<lparr>candidate_coa := apply_defaults (policy g1) (candidate_coa r)\<rparr>)))"

definition failure_status :: "scenario_error \<Rightarrow> nat" where
  "failure_status e = (if e = Not_Built then 500 else 404)"

end
