(* ===== verification/Picture_Routes.thy ===== *)
theory Picture_Routes
  imports Gate_State
begin

text \<open>
  The routes of \<open>app/c2_server.py\<close> and \<open>app/verify_ui.py\<close> that feed or read the picture: candidate
  events, open feeds, the interpretation of a scenario, the state of the ontology, and the ingress form
  of the operator page. A handler gives the new state, what it appends to the audit log, and its answer,
  which may quote the records the appends returned. The best-effort replay log is left out.
\<close>

section \<open>Handlers\<close>

type_synonym answer = "audit_record list \<Rightarrow> response"
type_synonym outcome = "gate_state \<times> log_event list \<times> answer"

definition event :: "gate_deps \<Rightarrow> nat \<Rightarrow> string \<Rightarrow> string \<Rightarrow> dict \<Rightarrow> log_event" where
  "event d n name severity data =
     \<lparr>ev_now = utc_now d n, ev_name = name, ev_severity = severity, ev_data = JObj data\<rparr>"

definition refuse :: "nat \<Rightarrow> gate_state \<Rightarrow> outcome" where
  "refuse code g = (g, [], \<lambda>recs. http_error code)"

definition page :: answer where
  "page recs = html_page"

text \<open>\<open>req.timeout_seconds or policy.default_timeout_seconds\<close>\<close>

definition or_default :: "rat option \<Rightarrow> rat \<Rightarrow> rat" where
  "or_default v d = (case v of Some q \<Rightarrow> if q = 0 then d else q | None \<Rightarrow> d)"

definition finding_json :: "gate_state \<Rightarrow> json" where
  "finding_json g = json_or_null (JObj \<circ> finding_dict) (finding g)"

section \<open>Observing\<close>

text \<open>\<open>runtime.graph.ingest\<close> and \<open>runtime.persist_observation\<close>, with the track that took the observation.\<close>

definition observe :: "gate_deps \<Rightarrow> observation \<Rightarrow> gate_state \<Rightarrow> gate_state \<times> string" where
  "observe d b g =
     (let (gr, t) = ingest (sha256_hex d) (num_repr d) (earth d) b (entity_graph g)
      in (persist_observation d b (g\<lparr>entity_graph := gr\<rparr>), track_id t))"

text \<open>An observation ingested and logged.\<close>

definition observe_logged ::
    "gate_deps \<Rightarrow> string \<Rightarrow> (string \<Rightarrow> dict) \<Rightarrow> observation \<Rightarrow> gate_state \<Rightarrow> gate_state \<times> log_event \<times> string" where
  "observe_logged d name data b g =
     (let (g1, t) = observe d b g; n = drawn g1
      in (g1\<lparr>drawn := Suc n\<rparr>, event d n name ''Info'' (data t), t))"

section \<open>Candidate events\<close>

record candidate_request =
  cr_event :: "dict option"
  cr_use_fixture :: bool
  cr_use_sentinel :: bool
  cr_pull_upstream :: bool
  cr_run_cv :: "dict option"
  cr_pull_glint :: bool
  cr_use_glint :: bool
  cr_dual_sar :: bool
  cr_pull_dual :: bool

text \<open>What a request asks for, in the order the code looks: the events, with their source when they are
  resolved. A \<open>ValueError\<close> and an empty list are the client's fault, any other exception is not caught.\<close>

definition resolved_events ::
    "bool \<Rightarrow> feed_error + candidate_event list \<times> string \<Rightarrow> nat + sar_payload list \<times> string option" where
  "resolved_events may_be_empty r =
     (case r of
        Inl Bad_Value \<Rightarrow> Inl 400
      | Inl _ \<Rightarrow> Inl 500
      | Inr (es, src) \<Rightarrow> if es = [] \<and> \<not> may_be_empty then Inl 400 else Inr (map Event es, Some src))"

definition requested_events ::
    "gate_deps \<Rightarrow> nat \<Rightarrow> candidate_request \<Rightarrow> nat + sar_payload list \<times> string option" where
  "requested_events d n req =
     (let fd = outside d; now = utc_now d n in
      if cr_dual_sar req \<or> cr_pull_dual req
      then resolved_events False
             (resolve_dual_sar_events fd (earth d) n now (cr_pull_dual req) (cr_dual_sar req \<or> cr_pull_dual req) (cr_run_cv req))
      else if cr_run_cv req \<noteq> None \<or> cr_pull_upstream req \<or> cr_use_sentinel req
      then resolved_events False
             (resolve_sentinel_events fd n now (cr_pull_upstream req) (cr_run_cv req) (cr_use_sentinel req \<or> cr_pull_upstream req))
      else if cr_pull_glint req \<or> cr_use_glint req
      then resolved_events True (resolve_glint_events fd n (cr_pull_glint req) (cr_use_glint req \<or> cr_pull_glint req))
      else if cr_use_fixture req
      then (case assumed_fixture fd of Inl err \<Rightarrow> Inl 500 | Inr e \<Rightarrow> Inr ([Raw e], None))
      else (case cr_event req of Some e \<Rightarrow> Inr ([Raw e], None) | None \<Rightarrow> Inl 400))"

text \<open>The loop stops at the first event that does not parse; what came before it stays.\<close>

fun ingest_events ::
    "gate_deps \<Rightarrow> string \<Rightarrow> sar_payload list \<Rightarrow> gate_state \<Rightarrow>
       gate_state \<times> log_event list \<times> (feed_error + (observation \<times> string) list)" where
  "ingest_events d src [] g = (g, [], Inr [])"
| "ingest_events d src (p # ps) g =
     (case candidate_event_to_observation (sha256_hex d) (num_repr d) (read_event (outside d)) p of
        Inl err \<Rightarrow> (g, [], Inl err)
      | Inr b \<Rightarrow>
          (let (g1, e, t) = observe_logged d ''candidate_event_ingested'' (\<lambda>t.
                 [(''observation_id'', JStr (observation_id b)), (''source_id'', JStr (source_id b)),
                  (''modality'', JStr (modality b)), (''track_id'', JStr t), (''event_type'', JStr (entity_hint b)),
                  (''ingress_source'', JStr src)]) b g;
               (g2, es, r) = ingest_events d src ps g1
           in (g2, e # es, attempt r (\<lambda>bts. Inr ((b, t) # bts)))))"

definition ingress_candidate_event :: "gate_deps \<Rightarrow> candidate_request \<Rightarrow> gate_state \<Rightarrow> outcome" where
  "ingress_candidate_event d req g =
     (let g0 = g\<lparr>drawn := Suc (drawn g)\<rparr> in
      case requested_events d (drawn g) req of
        Inl code \<Rightarrow> refuse code g0
      | Inr (ps, src) \<Rightarrow>
          (case ingest_events d (case src of Some s \<Rightarrow> s | None \<Rightarrow> ''candidate_event'') ps g0 of
             (g1, es, Inl err) \<Rightarrow> (g1, es, \<lambda>recs. http_error 400)
           | (g1, es, Inr []) \<Rightarrow> (g1, es, \<lambda>recs. http_error 500)
           | (g1, es, Inr ((b, t) # bts)) \<Rightarrow>
               (g1, es, \<lambda>recs. ok_json (JObj
                 [(''status'', JStr ''INGESTED''), (''observation'', observation_json b),
                  (''observations'', JArr (map (observation_json \<circ> fst) ((b, t) # bts))), (''track_id'', JStr t),
                  (''track_ids'', JArr (map (JStr \<circ> snd) ((b, t) # bts))),
                  (''count'', json_nat (length ((b, t) # bts))),
                  (''source'', JStr (case src of Some s \<Rightarrow> s
                    | None \<Rightarrow> if cr_use_fixture req then ''fixture'' else ''event''))]))))"

section \<open>Open feeds\<close>

record open_feed_request =
  of_feed :: string
  of_payload :: "dict option"
  of_use_fixture :: bool
  of_source :: "string option"
  of_limit :: int

fun feed_name :: "feed_kind \<Rightarrow> string" where
  "feed_name Ais = ''ais''"
| "feed_name Air = ''air''"

text \<open>\<open>text.split(",")\<close>, with \<open>";"\<close> read as \<open>","\<close>.\<close>

fun split_commas :: "string \<Rightarrow> string list" where
  "split_commas [] = [[]]"
| "split_commas (c # cs) =
     (if c = CHR '','' \<or> c = CHR '';'' then [] # split_commas cs
      else (c # hd (split_commas cs)) # tl (split_commas cs))"

definition feed_of :: "string \<Rightarrow> feed_kind option" where
  "feed_of s =
     (if s \<in> {''ais'', ''open_ais'', ''datagovsg'', ''data.gov.sg''} then Some Ais
      else if s \<in> {''air'', ''open_air'', ''adsb'', ''ads-b''} then Some Air
      else None)"

fun select_feeds :: "feed_kind list \<Rightarrow> string list \<Rightarrow> feed_kind list option" where
  "select_feeds out [] = Some out"
| "select_feeds out (part # parts) =
     (if strip part = [] then select_feeds out parts
      else (case feed_of (strip part) of
              None \<Rightarrow> None
            | Some k \<Rightarrow> select_feeds (add_missing k out) parts))"

definition parse_open_feed_selection :: "string \<Rightarrow> feed_kind list option" where
  "parse_open_feed_selection raw =
     (let s = lower (strip raw) in
      if s \<in> {[], ''0'', ''false'', ''off'', ''none''} then Some []
      else if s \<in> {''1'', ''true'', ''on'', ''all'', ''*''} then Some [Ais, Air]
      else select_feeds [] (split_commas s))"

definition parse_open_feed_source :: "string \<Rightarrow> feed_source option" where
  "parse_open_feed_source raw =
     (let s = lower (strip raw) in
      if s = [] \<or> s = ''auto'' then Some Auto
      else if s \<in> {''indago'', ''duckdb'', ''indago_duckdb'', ''local''} then Some Indago
      else if s = ''live'' then Some Live
      else if s = ''fixture'' then Some Fixture
      else None)"

text \<open>One feed's observations, each ingested and logged, with the item it adds to the answer.\<close>

fun ingest_feed ::
    "gate_deps \<Rightarrow> feed_kind \<Rightarrow> string \<Rightarrow> observation list \<Rightarrow> gate_state \<Rightarrow> gate_state \<times> log_event list \<times> json list" where
  "ingest_feed d k src [] g = (g, [], [])"
| "ingest_feed d k src (b # bs) g =
     (let (g1, e, t) = observe_logged d ''open_feed_ingested'' (\<lambda>t.
            [(''feed'', JStr (feed_name k)), (''source'', JStr src), (''observation_id'', JStr (observation_id b)),
             (''source_id'', JStr (source_id b)), (''modality'', JStr (modality b)), (''track_id'', JStr t)]) b g;
          (g2, es, items) = ingest_feed d k src bs g1
      in (g2, e # es, JObj [(''feed'', JStr (feed_name k)), (''source'', JStr src),
            (''observation'', observation_json (digested d b)), (''track_id'', JStr t)] # items))"

text \<open>The feeds in turn, up to the first that fails: its answer is \<open>Inl\<close> of a status.\<close>

fun ingest_feeds ::
    "gate_deps \<Rightarrow> open_feed_request \<Rightarrow> feed_source option \<Rightarrow> feed_kind list \<Rightarrow> gate_state \<Rightarrow>
       gate_state \<times> log_event list \<times> (nat + dict \<times> json list)" where
  "ingest_feeds d req src [] g = (g, [], Inr ([], []))"
| "ingest_feeds d req src (k # ks) g =
     (let g0 = g\<lparr>drawn := Suc (drawn g)\<rparr> in
      case open_feed (outside d) k (of_payload req) (of_use_fixture req) src (of_limit req) (drawn g) of
        Inl err \<Rightarrow> (g0, [], Inl (if err \<in> {Bad_Value, IO_Failure} then 400 else 500))
      | Inr (bs, resolved) \<Rightarrow>
          (let (g1, es, items) = ingest_feed d k resolved bs g0; (g2, es', r) = ingest_feeds d req src ks g1
           in (g2, es @ es',
               case r of Inl code \<Rightarrow> Inl code
               | Inr (sources, items') \<Rightarrow> Inr ((feed_name k, JStr resolved) # sources, items @ items'))))"

definition ingress_open_feed :: "gate_deps \<Rightarrow> open_feed_request \<Rightarrow> gate_state \<Rightarrow> outcome" where
  "ingress_open_feed d req g =
     (case parse_open_feed_selection (of_feed req) of
        None \<Rightarrow> refuse 400 g
      | Some feeds \<Rightarrow>
          if feeds = [] then refuse 400 g
          else if of_payload req \<noteq> None \<and> length feeds \<noteq> 1 then refuse 400 g
          else
            (let src = map_option parse_open_feed_source (of_source req) in
             if src = Some None then refuse 400 g
             else if of_payload req = None \<and> \<not> of_use_fixture req \<and> of_source req = None then refuse 400 g
             else
               (case ingest_feeds d req (case src of Some s \<Rightarrow> s | None \<Rightarrow> None) feeds g of
                  (g1, es, Inl code) \<Rightarrow> (g1, es, \<lambda>recs. http_error code)
                | (g1, es, Inr (sources, items)) \<Rightarrow>
                    (g1, es, \<lambda>recs. ok_json (JObj
                      [(''status'', JStr ''INGESTED''), (''feeds'', JArr (map (JStr \<circ> feed_name) feeds)),
                       (''resolved_sources'', JObj sources), (''count'', json_nat (length items)),
                       (''items'', JArr items)])))))"


section \<open>Interpreting and reading the picture\<close>

record interpret_request =
  ir_scenario :: string
  ir_timeout :: "rat option"
  ir_heuristic :: bool

text \<open>An unknown scenario raises \<open>KeyError\<close>, here caught; no finding raises the 404 itself.\<close>

definition interpret_picture :: "gate_deps \<Rightarrow> interpret_request \<Rightarrow> gate_state \<Rightarrow> outcome" where
  "interpret_picture d req g =
     (case interpret_scenario d (ir_scenario req) (or_default (ir_timeout req) (default_timeout_seconds (policy g)))
             (ir_heuristic req) g of
        (g1, Inl err) \<Rightarrow> refuse (failure_status err) g1
      | (g1, Inr r) \<Rightarrow>
          (let n = drawn g1; c = candidate_coa r in
           (g1\<lparr>drawn := Suc n\<rparr>,
            [event d n ''picture_interpreted'' ''Low''
               [(''scenario_id'', JStr (ir_scenario req)), (''source'', JStr (interpreter_source r)),
                (''model'', interpreter_model r), (''error'', interpreter_error r),
                (''hypothesis_count'', json_nat (length (hypotheses r))), (''coa_id'', JStr (coa_id c)),
                (''intent'', JStr (intent c))]],
            \<lambda>recs. ok_json (JObj
              [(''status'', JStr ''INTERPRETED''), (''source'', JStr (interpreter_source r)),
               (''model'', interpreter_model r), (''error'', interpreter_error r),
               (''hypotheses'', JArr (hypotheses r)), (''confidence'', JNum (interpreter_confidence r)),
               (''picture_summary'', JStr (interpreted_picture r)),
               (''adversarial_hypothesis'', JStr (adversarial_hypothesis r)), (''candidate_coa'', coa_json c),
               (''finding'', finding_json g1)]))))"

definition track_json :: "gate_deps \<Rightarrow> track \<Rightarrow> json" where
  "track_json d t = JObj
     [(''track_id'', JStr (track_id t)), (''latitude'', JNum (fst (tr_position t))),
      (''longitude'', JNum (snd (tr_position t))), (''speed_mps'', JNum (tr_speed_mps t)),
      (''confidence'', JNum (tr_confidence t)), (''source_ids'', JArr (map JStr (source_ids t))),
      (''modalities'', JArr (map JStr (modalities t))),
      (''updated_at'', json_or_null (\<lambda>s. JStr (isoformat d s)) (updated_at t)),
      (''attributes'', JObj (tr_attributes t))]"

text \<open>The fields of the finding under the names of the amber alert.\<close>

definition amber_json :: "finding_record \<Rightarrow> json" where
  "amber_json f = JObj
     [(''alert'', json_or_null JStr (amber_alert f)), (''threat_class'', JStr (threat_class f)),
      (''mismatch_m'', JNum (mismatch_m f)), (''picture_summary'', JStr (picture_summary f)),
      (''source_breakdown'', JObj (source_breakdown f)), (''scenario_id'', JStr (fi_scenario f))]"

definition ontology_json :: "gate_deps \<Rightarrow> gate_state \<Rightarrow> json" where
  "ontology_json d g = JObj
     [(''scenario_id'', json_or_null JStr (scenario_id g)),
      (''tracks'', JArr (map (track_json d) (all_tracks (entity_graph g)))),
      (''observations'', JArr (map observation_json (seen (entity_graph g)))),
      (''amber_alert'', json_or_null amber_json (finding g)),
      (''pending_proposals'', JArr (map (JStr \<circ> fst) (proposals g))),
      (''inbox_depth'', json_nat (length (filter (\<lambda>k. k \<notin> acked g) (map fst (inbox g)))))]"

definition ontology_state :: "gate_deps \<Rightarrow> gate_state \<Rightarrow> outcome" where
  "ontology_state d g = (g, [], \<lambda>recs. ok_json (ontology_json d g))"

section \<open>The ingress form of the operator page\<close>

text \<open>The page does not log. Value, type and I/O errors become its message; a missing key is a 500.\<close>

definition page_error :: "feed_error \<Rightarrow> answer" where
  "page_error err = (if err = Missing_Key then (\<lambda>recs. http_error 500) else page)"

fun observe_all :: "gate_deps \<Rightarrow> observation list \<Rightarrow> gate_state \<Rightarrow> gate_state" where
  "observe_all d [] g = g"
| "observe_all d (b # bs) g = observe_all d bs (fst (observe d b g))"

text \<open>Rows that do not normalise are skipped.\<close>

fun observe_rows :: "gate_deps \<Rightarrow> (feed_error + observation) list \<Rightarrow> gate_state \<Rightarrow> gate_state" where
  "observe_rows d [] g = g"
| "observe_rows d (r # rows) g =
     (case r of
        Inr b \<Rightarrow> observe_rows d rows (fst (observe d b g))
      | Inl err \<Rightarrow> if err = IO_Failure then g else observe_rows d rows g)"

fun observe_events :: "gate_deps \<Rightarrow> sar_payload list \<Rightarrow> gate_state \<Rightarrow> gate_state \<times> feed_error option" where
  "observe_events d [] g = (g, None)"
| "observe_events d (p # ps) g =
     (case candidate_event_to_observation (sha256_hex d) (num_repr d) (read_event (outside d)) p of
        Inl err \<Rightarrow> (g, Some err)
      | Inr b \<Rightarrow> observe_events d ps (fst (observe d b g)))"

definition page_events :: "gate_deps \<Rightarrow> string \<Rightarrow> nat \<Rightarrow> feed_error + candidate_event list \<times> string" where
  "page_events d mode n =
     (let fd = outside d; now = utc_now d n in
      if mode = ''dual_sar'' then resolve_dual_sar_events fd (earth d) n now False True None
      else if mode \<in> {''glint'', ''glint_fixture''} then resolve_glint_events fd n False True
      else if mode = ''glint_pull'' then resolve_glint_events fd n True True
      else if mode \<in> {''sentinel'', ''sia''} then resolve_sentinel_events fd n now False None True
      else Inl Bad_Value)"

definition verify_ingress :: "gate_deps \<Rightarrow> string \<Rightarrow> gate_state \<Rightarrow> outcome" where
  "verify_ingress d mode g =
     (let g0 = g\<lparr>drawn := Suc (drawn g)\<rparr> in
      if mode \<in> {''indago'', ''open_ais'', ''indago_ais''} then
        (case open_feed (outside d) Ais None False (Some Auto) 40 (drawn g) of
           Inl err \<Rightarrow> (g0, [], page_error err)
         | Inr (bs, src) \<Rightarrow> (observe_all d bs g0, [], page))
      else if mode \<in> {''sensorsim_reload'', ''sensorsim'', ''s1_trojan_reload'', ''canonical_reload''} then
        (case sensorsim_rows (outside d) (drawn g) of
           Inl err \<Rightarrow> (g0, [], page_error err)
         | Inr rows \<Rightarrow> (observe_rows d rows g0, [], page))
      else
        (case page_events d mode (drawn g) of
           Inl err \<Rightarrow> (g0, [], page_error err)
         | Inr (es, src) \<Rightarrow>
             (case observe_events d (map Event es) g0 of
                (g1, None) \<Rightarrow> (g1, [], page)
              | (g1, Some err) \<Rightarrow> (g1, [], page_error err))))"

end
