(* ===== verification/C2_Gate.thy ===== *)
theory C2_Gate
  imports Picture_Routes
begin

text \<open>
  The command handlers of \<open>app/c2_server.py\<close>: proposing a course of action, the guardrail demo,
  approving, the recipient's inbox and ack, and the routes of \<open>app/verify_ui.py\<close> that do the same from
  the operator pages. Handlers are as in \<open>Picture_Routes\<close>. Request bodies arrive parsed; the pages the
  \<open>/verify\<close> routes render are left out.
\<close>

section \<open>Requests\<close>

record proposal_request =
  req_scenario :: "string option"
  req_coa :: "course_of_action option"
  req_unit :: string
  req_timeout :: "rat option"
  req_interpret :: bool
  req_heuristic :: bool

record guardrail_request =
  gr_scenario :: string
  gr_unit :: string
  gr_navy_unit :: string
  gr_timeout :: "rat option"

record approve_request =
  ap_coa :: string
  ap_decision :: string
  ap_operator :: string

record ack_request =
  ak_coa :: string
  ak_unit :: string
  ak_signature :: "string option"
  ak_status :: string
  ak_message :: string
  ak_telemetry :: dict

section \<open>Proposing\<close>

definition sealed_by_gate ::
    "gate_deps \<Rightarrow> nat \<Rightarrow> string \<Rightarrow> gate_verdict \<Rightarrow> string option \<Rightarrow> string \<Rightarrow> decision_token" where
  "sealed_by_gate d n cid v op why =
     new_token (sha256_hex d) (num_repr d) (uuid4 d n) (utc_now d (Suc n)) cid v op (Some why)"

definition reject_fast :: "gate_deps \<Rightarrow> course_of_action \<Rightarrow> string \<Rightarrow> gate_state \<Rightarrow> outcome" where
  "reject_fast d c why g =
     (let n = drawn g; t = sealed_by_gate d n (coa_id c) REJECTED_FAST None why in
      (g\<lparr>drawn := n + 3\<rparr>,
       [event d (n + 2) ''coa_rejected_fast'' ''High'' [(''coa'', coa_json c), (''token'', token_json t)]],
       \<lambda>recs. ok_json (JObj [(''status'', JStr ''REJECTED_FAST''), (''reason'', JStr why),
         (''coa'', coa_json c), (''token'', token_json t)])))"

definition put_inbox :: "string \<Rightarrow> tasking \<Rightarrow> gate_state \<Rightarrow> gate_state" where
  "put_inbox cid t g = persist_inbox_item cid t (g\<lparr>inbox := AList.update cid t (inbox g)\<rparr>)"

definition put_proposal :: "string \<Rightarrow> pending \<Rightarrow> gate_state \<Rightarrow> gate_state" where
  "put_proposal cid p g = persist_proposal cid p (g\<lparr>proposals := AList.update cid p (proposals g)\<rparr>)"

definition activate :: "gate_deps \<Rightarrow> course_of_action \<Rightarrow> gate_state \<Rightarrow> gate_state" where
  "activate d c g = g\<lparr>il := register_active (interlocks d) c (il g)\<rparr>"

definition auto_approve :: "gate_deps \<Rightarrow> course_of_action \<Rightarrow> string \<Rightarrow> gate_state \<Rightarrow> outcome" where
  "auto_approve d c u g =
     (let n = drawn g; t = sealed_by_gate d n (coa_id c) APPROVED (Some ''autonomous'') ''tier0_auto'';
          task = \<lparr>tasked_coa = c, token = t, unit_id = u, tasked_at = utc_now d (n + 2),
            task_status = ''PENDING_ACK'', ack_record = None\<rparr>
      in (activate d c (put_inbox (coa_id c) task (g\<lparr>drawn := n + 4\<rparr>)),
          [event d (n + 3) ''coa_auto_approved'' ''High''
             [(''coa_id'', JStr (coa_id c)), (''token'', token_json t)]],
          \<lambda>recs. ok_json (JObj [(''status'', JStr ''APPROVED''), (''coa'', coa_json c),
            (''token'', token_json t), (''finding'', finding_json g)])))"

definition queue_proposal ::
    "gate_deps \<Rightarrow> course_of_action \<Rightarrow> string \<Rightarrow> interpreter_result option \<Rightarrow> gate_state \<Rightarrow> outcome" where
  "queue_proposal d c u r g =
     (let n = drawn g;
          p = \<lparr>coa = c, for_unit = u, navy_unit_id = None, queued_at = Some (utc_now d n)\<rparr>
      in (put_proposal (coa_id c) p (g\<lparr>drawn := n + 2\<rparr>),
          [event d (n + 1) ''coa_proposed'' ''Medium''
             [(''coa_id'', JStr (coa_id c)), (''scenario_id'', json_or_null JStr (scenario_id g)),
              (''intent'', JStr (intent c)), (''unit_id'', JStr u), (''finding'', finding_json g),
              (''interpreter_source'', json_or_null (\<lambda>i. JStr (interpreter_source i)) r)]],
          \<lambda>recs. ok_json (JObj
            ([(''status'', JStr ''QUEUED''), (''coa'', coa_json c), (''finding'', finding_json g)] @
             (case r of None \<Rightarrow> []
              | Some i \<Rightarrow> [(''hypotheses'', JArr (hypotheses i)),
                  (''interpreter_source'', JStr (interpreter_source i)),
                  (''interpreter_error'', interpreter_error i)])))))"

definition submit ::
    "gate_deps \<Rightarrow> course_of_action \<Rightarrow> string \<Rightarrow> interpreter_result option \<Rightarrow> gate_state \<Rightarrow> outcome" where
  "submit d c u r g =
     (case interlock_verify (interlocks d) (il g) c of
        Some why \<Rightarrow> reject_fast d c why g
      | None \<Rightarrow>
          if tier c = TIER_0_AUTONOMOUS then auto_approve d c u g else queue_proposal d c u r g)"

text \<open>An unknown scenario raises \<open>KeyError\<close>, caught only when the proposal is interpreted.\<close>

definition gate_proposals :: "gate_deps \<Rightarrow> proposal_request \<Rightarrow> gate_state \<Rightarrow> outcome" where
  "gate_proposals d req g =
     (let timeout = or_default (req_timeout req) (default_timeout_seconds (policy g)) in
      case req_scenario req of
        Some (ch # sid) \<Rightarrow>
          if req_interpret req then
            (case interpret_scenario d (ch # sid) timeout (req_heuristic req) g of
               (g1, Inl e) \<Rightarrow> refuse (failure_status e) g1
             | (g1, Inr r) \<Rightarrow> submit d (candidate_coa r) (req_unit req) (Some r) g1)
          else
            (case load_scenario d (ch # sid) timeout g of
               (g1, Inl e) \<Rightarrow> refuse (if e = No_Finding then 404 else 500) g1
             | (g1, Inr c) \<Rightarrow> submit d c (req_unit req) None g1)
      | _ \<Rightarrow>
          (case req_coa req of
             Some c \<Rightarrow> submit d (apply_defaults (policy g) c) (req_unit req) None g
           | None \<Rightarrow> refuse 400 g))"

section \<open>The guardrail demo\<close>

definition CNI_FALLOUT_CODE :: string where
  "CNI_FALLOUT_CODE = ''SAFETY_LOCKOUT_CNI_FALLOUT_HAZARD''"

text \<open>The draft of Option A: the scenario's COA marked dangerous, with a terminal intent.\<close>

definition dangerous_draft :: "course_of_action \<Rightarrow> course_of_action" where
  "dangerous_draft c =
     c\<lparr>metadata := AList.update ''dangerous_proposal_draft'' (JBool True) (metadata c),
       intent := (if intent c \<in> TERMINAL_INTENTS then intent c else ''TERMINAL_SAM_INTERCEPT'')\<rparr>"

definition option_b_target :: "gate_deps \<Rightarrow> poi list \<Rightarrow> course_of_action \<Rightarrow> rat \<times> rat" where
  "option_b_target d pois c =
     (case find (\<lambda>p. poi_id p = Some ''POI-01'') pois of
        Some p \<Rightarrow> offshore_safe_intercept d (center p)
          ((case offshore_nofire_m p of None \<Rightarrow> 1200 | Some m \<Rightarrow> m) + 100)
      | None \<Rightarrow> target_coordinates c)"

definition build_option_b_fallback ::
    "gate_deps \<Rightarrow> poi list \<Rightarrow> string \<Rightarrow> course_of_action \<Rightarrow> finding_record option \<Rightarrow> course_of_action" where
  "build_option_b_fallback d pois i c f =
     (let given = [(''option_id'', JStr ''B''), (''dangerous_proposal_draft'', JBool False),
            (''enforced_failsafe'', JBool True), (''fallback_of'', JStr (coa_id c)),
            (''rationale'', JStr (''Enforced Option B: offshore kinetic intercept beyond CNI buffer '' @
              ''+ directional RF soft-kill.''))];
          more = (case f of None \<Rightarrow> []
                  | Some fi \<Rightarrow> [(''amber_alert'', json_or_null JStr (amber_alert fi)),
                      (''source_breakdown'', JObj (source_breakdown fi))])
      in c\<lparr>coa_id := i, intent := ''OFFSHORE_INTERCEPT_RF_SOFTKILL'',
           target_coordinates := option_b_target d pois c, speed_kt := None,
           metadata := foldl (\<lambda>md kv. AList.update (fst kv) (snd kv) md) (metadata c) (given @ more)\<rparr>)"

definition guardrail :: "gate_deps \<Rightarrow> guardrail_request \<Rightarrow> gate_state \<Rightarrow> outcome" where
  "guardrail d req g =
     (let timeout = or_default (gr_timeout req) (default_timeout_seconds (policy g));
          g0 = g\<lparr>il := with_pois d (il g)\<rparr>
      in case load_scenario d (gr_scenario req) timeout g0 of
           (g1, Inl e) \<Rightarrow> refuse (if e = No_Finding then 404 else 500) g1
         | (g1, Inr c0) \<Rightarrow>
             (let c = dangerous_draft c0;
                  why = (case interlock_verify (interlocks d) (il g1) c of
                    Some r \<Rightarrow> r
                  | None \<Rightarrow> CNI_FALLOUT_CODE @ '': expected HARD VETO for terminal SAM over CNI'')
              in case load_pois d of
                   None \<Rightarrow> refuse 500 g1
                 | Some pois \<Rightarrow>
                     (let n = drawn g1;
                          b = apply_defaults (policy g1)
                            (build_option_b_fallback d pois (uuid4 d n) c (finding g1))
                      in case interlock_verify (interlocks d) (il g1) b of
                           Some r \<Rightarrow> refuse 500 (g1\<lparr>drawn := n + 1\<rparr>)
                         | None \<Rightarrow>
                             (let p = \<lparr>coa = b, for_unit = gr_unit req, navy_unit_id = Some (gr_navy_unit req),
                                    queued_at = Some (utc_now d (n + 1))\<rparr>
                              in (put_proposal (coa_id b) p (g1\<lparr>drawn := n + 3\<rparr>),
                                  [event d (n + 2) ''guardrail_veto_option_b_queued'' ''High''
                                     [(''veto_reason'', JStr why), (''dangerous'', coa_json c),
                                      (''fallback'', coa_json b), (''unit_id'', JStr (gr_unit req)),
                                      (''navy_unit_id'', JStr (gr_navy_unit req))]],
                                  \<lambda>recs. ok_json (JObj
                                    [(''status'', JStr ''GUARDRAIL_VETO_OPTION_B_QUEUED''),
                                     (''veto_reason'', JStr why), (''veto_code'', JStr CNI_FALLOUT_CODE),
                                     (''dangerous_proposal_draft'', coa_json c), (''fallback_coa'', coa_json b),
                                     (''finding'', finding_json g1),
                                     (''queued_for'', JArr [JStr (gr_unit req), JStr (gr_navy_unit req)])]))))))"

section \<open>Approving\<close>

definition read_decision :: "string \<Rightarrow> (gate_verdict \<times> string) option" where
  "read_decision s =
     (let decision = lower (strip s) in
      if decision \<in> {''y'', ''yes'', ''approve'', ''approved''} then Some (APPROVED, ''operator_approve'')
      else if decision \<in> {''n'', ''no'', ''deny'', ''denied'', ''reject'', ''rejected''}
      then Some (REJECTED_OPERATOR, ''operator_deny'')
      else None)"

text \<open>One tasking written and logged.\<close>

definition issue ::
    "gate_deps \<Rightarrow> course_of_action \<Rightarrow> decision_token \<Rightarrow> string \<Rightarrow> gate_state \<Rightarrow> gate_state \<times> log_event" where
  "issue d c t u g =
     (let n = drawn g;
          task = \<lparr>tasked_coa = c, token = t, unit_id = u, tasked_at = utc_now d n,
            task_status = ''PENDING_ACK'', ack_record = None\<rparr>
      in (put_inbox (coa_id c) task (g\<lparr>drawn := n + 2\<rparr>),
          event d (n + 1) ''tasking_issued'' ''High'' [(''coa_id'', JStr (coa_id c)), (''unit_id'', JStr u)]))"

text \<open>The copy for the navy, under an id and with a token of its own.\<close>

definition navy_copy :: "string \<Rightarrow> course_of_action \<Rightarrow> course_of_action" where
  "navy_copy i c =
     c\<lparr>coa_id := i,
       metadata := AList.update ''dispatch_role'' (JStr ''navy_mothership_interdiction'')
         (AList.update ''paired_coa_id'' (JStr (coa_id c)) (metadata c))\<rparr>"

definition issue_navy ::
    "gate_deps \<Rightarrow> course_of_action \<Rightarrow> string \<Rightarrow> string \<Rightarrow> string \<Rightarrow> gate_state \<Rightarrow> gate_state \<times> log_event" where
  "issue_navy d c op why u g =
     (let n = drawn g; c' = navy_copy (uuid4 d n) c
      in issue d c' (sealed_by_gate d (n + 1) (coa_id c') APPROVED (Some op) why) u (g\<lparr>drawn := n + 3\<rparr>))"

definition needs_navy :: "pending \<Rightarrow> string option" where
  "needs_navy p =
     (case navy_unit_id p of
        Some u \<Rightarrow> if u \<noteq> [] \<and> u \<noteq> for_unit p then Some u else None
      | None \<Rightarrow> None)"

definition issue_all ::
    "gate_deps \<Rightarrow> pending \<Rightarrow> decision_token \<Rightarrow> string \<Rightarrow> string \<Rightarrow> gate_state \<Rightarrow> gate_state \<times> log_event list" where
  "issue_all d p t op why g =
     (let (g1, e1) = issue d (coa p) t (for_unit p) g;
          (g2, es) = (case needs_navy p of
             None \<Rightarrow> (g1, [])
           | Some u \<Rightarrow> (let (g', e) = issue_navy d (coa p) op why u g1 in (g', [e])))
      in (activate d (coa p) g2, e1 # es))"

definition gate_approve :: "gate_deps \<Rightarrow> approve_request \<Rightarrow> gate_state \<Rightarrow> outcome" where
  "gate_approve d req g =
     (case map_of (proposals g) (ap_coa req) of
        None \<Rightarrow> refuse 404 g
      | Some p \<Rightarrow>
          (case read_decision (ap_decision req) of
             None \<Rightarrow> refuse 400 g
           | Some (v, why) \<Rightarrow>
               (let n = drawn g;
                    t = sealed_by_gate d n (coa_id (coa p)) v (Some (ap_operator req)) why;
                    g1 = delete_proposal (ap_coa req)
                      (g\<lparr>proposals := AList.delete (ap_coa req) (proposals g), drawn := n + 3\<rparr>);
                    decided = event d (n + 2) ''gate_decision'' ''High''
                      [(''coa_id'', JStr (coa_id (coa p))), (''verdict'', JStr (verdict_value v)),
                       (''token'', token_json t), (''operator_id'', JStr (ap_operator req))];
                    (g2, es) = (if v = APPROVED then issue_all d p t (ap_operator req) why g1 else (g1, []))
                in (g2, decided # es,
                    \<lambda>recs. ok_json (JObj [(''status'', JStr (verdict_value v)), (''coa'', coa_json (coa p)),
                      (''token'', token_json t)])))))"

section \<open>The recipient\<close>

definition inbox_items :: "string \<Rightarrow> gate_state \<Rightarrow> tasking list" where
  "inbox_items u g = filter (\<lambda>t. unit_id t = u \<and> coa_id (tasked_coa t) \<notin> acked g) (map snd (inbox g))"

definition recipient_inbox :: "string \<Rightarrow> gate_state \<Rightarrow> outcome" where
  "recipient_inbox u g =
     (let items = inbox_items u g in
      (g, [], \<lambda>recs. ok_json (JObj [(''unit_id'', JStr u), (''taskings'', JArr (map tasking_json items)),
        (''count'', json_nat (length items))])))"

definition ack_signature :: "gate_deps \<Rightarrow> nat \<Rightarrow> ack_request \<Rightarrow> string" where
  "ack_signature d n req =
     (case ak_signature req of
        Some (ch # s) \<Rightarrow> ch # s
      | _ \<Rightarrow> sha256_hex d (canonical_json (num_repr d)
          (JObj [(''coa_id'', JStr (ak_coa req)), (''unit_id'', JStr (ak_unit req)),
            (''status'', JStr (ak_status req)), (''time'', JStr (utc_now d n))])))"

definition ack_dict :: "gate_deps \<Rightarrow> nat \<Rightarrow> ack_request \<Rightarrow> tasking \<Rightarrow> dict" where
  "ack_dict d n req t =
     [(''ack_id'', JStr (uuid4 d (n + 1))), (''coa_id'', JStr (ak_coa req)), (''unit_id'', JStr (ak_unit req)),
      (''status'', JStr (ak_status req)), (''message'', JStr (ak_message req)),
      (''telemetry'', JObj (ak_telemetry req)), (''signature'', JStr (ack_signature d n req)),
      (''token_digest'', JStr (token_digest (token t))), (''acked_at'', JStr (utc_now d (n + 2)))]"

definition sealed_hash :: "audit_record list \<Rightarrow> json" where
  "sealed_hash recs =
     (case recs of [] \<Rightarrow> JNull | rec # _ \<Rightarrow> (case map_of rec ''hash'' of Some v \<Rightarrow> v | None \<Rightarrow> JNull))"

definition recipient_ack :: "gate_deps \<Rightarrow> ack_request \<Rightarrow> gate_state \<Rightarrow> outcome" where
  "recipient_ack d req g =
     (case map_of (inbox g) (ak_coa req) of
        None \<Rightarrow> refuse 404 g
      | Some t \<Rightarrow>
          if unit_id t \<noteq> ak_unit req then refuse 403 g
          else
            (let n = drawn g; a = ack_dict d n req t; t' = t\<lparr>task_status := ''ACKED'', ack_record := Some a\<rparr>
             in (put_inbox (ak_coa req) t'
                   (persist_acked (ak_coa req)
                     (g\<lparr>acked := insert (ak_coa req) (acked g), drawn := n + 4\<rparr>)),
                 [event d (n + 3) ''recipient_ack'' ''High'' a],
                 \<lambda>recs. ok_json (JObj [(''status'', JStr ''ACKED''), (''ack'', JObj a),
                   (''audit_hash'', sealed_hash recs)]))))"

section \<open>The operator pages\<close>

text \<open>A page shows what the call it makes answers, and its error when there is one.\<close>

definition as_page :: "outcome \<Rightarrow> outcome" where
  "as_page r = (fst r, fst (snd r), page)"

definition DEFAULT_SCENARIO :: string where
  "DEFAULT_SCENARIO = ''S1_trojan''"

definition DEFAULT_TIMEOUT :: rat where
  "DEFAULT_TIMEOUT = 30"

definition verify_propose :: "gate_deps \<Rightarrow> string \<Rightarrow> string \<Rightarrow> gate_state \<Rightarrow> outcome" where
  "verify_propose d sid u g =
     (case load_scenario d sid DEFAULT_TIMEOUT g of
        (g1, Inl e) \<Rightarrow> (g1, [], if e = Not_Built then (\<lambda>recs. http_error 500) else page)
      | (g1, Inr c) \<Rightarrow>
          (let n = drawn g1; p = \<lparr>coa = c, for_unit = u, navy_unit_id = None, queued_at = None\<rparr>
           in (put_proposal (coa_id c) p (g1\<lparr>drawn := n + 2\<rparr>),
               [event d (n + 1) ''coa_proposed'' ''Info''
                  [(''coa_id'', JStr (coa_id c)), (''scenario_id'', JStr sid), (''unit_id'', JStr u)]],
               page)))"

definition verify_approve :: "gate_deps \<Rightarrow> string \<Rightarrow> string \<Rightarrow> gate_state \<Rightarrow> outcome" where
  "verify_approve d cid decision g =
     as_page (gate_approve d \<lparr>ap_coa = cid, ap_decision = decision, ap_operator = ''nexusgate-verify-screen1''\<rparr> g)"

definition verify_guardrail :: "gate_deps \<Rightarrow> string \<Rightarrow> string \<Rightarrow> string \<Rightarrow> gate_state \<Rightarrow> outcome" where
  "verify_guardrail d sid u navy g =
     as_page (guardrail d \<lparr>gr_scenario = sid, gr_unit = u, gr_navy_unit = navy, gr_timeout = Some DEFAULT_TIMEOUT\<rparr> g)"

definition verify_ack :: "gate_deps \<Rightarrow> string \<Rightarrow> string \<Rightarrow> gate_state \<Rightarrow> outcome" where
  "verify_ack d cid u g =
     as_page (recipient_ack d \<lparr>ak_coa = cid, ak_unit = u, ak_signature = None, ak_status = ''ACKED'',
       ak_message = ''nexusgate-verify-screen2'', ak_telemetry = []\<rparr> g)"

section \<open>Steps of the gate\<close>

text \<open>
  \<open>Page\<close> stands for the routes that only render, \<open>Inbox\<close> and \<open>Ontology\<close> for those that only read.
  \<open>Restart\<close> is not a request: the process dies and another one starts over the same database.
\<close>

datatype gate_request =
    Propose proposal_request
  | Guardrail guardrail_request
  | Approve approve_request
  | Inbox string
  | Acknowledge ack_request
  | Verify_Propose string string
  | Verify_Approve string string
  | Verify_Guardrail string string string
  | Verify_Ack string string
  | Candidate candidate_request
  | Open_Feed open_feed_request
  | Interpret interpret_request
  | Ontology
  | Verify_Ingress string
  | Page
  | Reset
  | Restart

fun gate_step :: "gate_deps \<Rightarrow> gate_request \<Rightarrow> gate_state \<Rightarrow> outcome" where
  "gate_step d (Propose req) g = gate_proposals d req g"
| "gate_step d (Guardrail req) g = guardrail d req g"
| "gate_step d (Approve req) g = gate_approve d req g"
| "gate_step d (Inbox u) g = recipient_inbox u g"
| "gate_step d (Acknowledge req) g = recipient_ack d req g"
| "gate_step d (Verify_Propose sid u) g = verify_propose d sid u g"
| "gate_step d (Verify_Approve cid s) g = verify_approve d cid s g"
| "gate_step d (Verify_Guardrail sid u navy) g = verify_guardrail d sid u navy g"
| "gate_step d (Verify_Ack cid u) g = verify_ack d cid u g"
| "gate_step d (Candidate req) g = ingress_candidate_event d req g"
| "gate_step d (Open_Feed req) g = ingress_open_feed d req g"
| "gate_step d (Interpret req) g = interpret_picture d req g"
| "gate_step d Ontology g = ontology_state d g"
| "gate_step d (Verify_Ingress mode) g = verify_ingress d mode g"
| "gate_step d Page g = (g, [], page)"
| "gate_step d Reset g = (gate_reset g, [], \<lambda>recs. ok_json (JObj [(''status'', JStr ''reset'')]))"
| "gate_step d Restart g = (start_gate d (policy g) (il g) (drawn g) (store g), [], page)"

fun gate_run :: "gate_deps \<Rightarrow> gate_request list \<Rightarrow> gate_state \<Rightarrow> gate_state \<times> log_event list" where
  "gate_run d [] g = (g, [])"
| "gate_run d (r # rs) g =
     (let (g1, es, answer) = gate_step d r g; (g2, es') = gate_run d rs g1 in (g2, es @ es'))"

text \<open>A first start, over a database that was just created.\<close>

definition new_gate :: "gate_deps \<Rightarrow> tiered_policy \<Rightarrow> interlock \<Rightarrow> gate_state" where
  "new_gate d pol i = start_gate d pol i 0 (Some empty_store)"

lemma gate_run_append:
  "gate_run d (rs @ rs') g =
     (let (g1, es) = gate_run d rs g; (g2, es') = gate_run d rs' g1 in (g2, es @ es'))"
  by (induction rs arbitrary: g) (simp_all split: prod.splits)

end
