(* ===== verification/Gate_Safety.thy ===== *)
theory Gate_Safety
  imports C2_Gate
begin

text \<open>
  What holds of every state the gate can reach. A handler is a composition of a few writes (put a
  proposal, drop it, put a tasking, mark an ack, activate), so a property of all states is shown by
  the locale \<open>gate_invariant\<close>, whose assumptions are about one write each.
\<close>

section \<open>The writes\<close>

definition gate_token :: "gate_deps \<Rightarrow> string \<Rightarrow> decision_token \<Rightarrow> bool" where
  "gate_token d cid t \<longleftrightarrow> sealed_token (sha256_hex d) (num_repr d) t \<and> verdict t = ''APPROVED'' \<and> for_coa t = cid"

definition issued_event :: "string \<Rightarrow> log_event \<Rightarrow> bool" where
  "issued_event cid e \<longleftrightarrow> ev_name e \<in> {''tasking_issued'', ''coa_auto_approved''} \<and>
     json_get (ev_data e) ''coa_id'' = Some (JStr cid)"

lemma gate_token_sealed [simp]: "gate_token d cid (sealed_by_gate d n cid APPROVED op why)"
  by (simp add: gate_token_def sealed_by_gate_def)

lemma issued_event_simps [simp]:
  "issued_event cid (event d n ''tasking_issued'' sev ((''coa_id'', JStr cid) # kvs))"
  "issued_event cid (event d n ''coa_auto_approved'' sev ((''coa_id'', JStr cid) # kvs))"
  by (simp_all add: issued_event_def event_def)

lemma update_map:
  "map (\<lambda>kv. (fst kv, f (snd kv))) (AList.update k v xs) = AList.update k (f v) (map (\<lambda>kv. (fst kv, f (snd kv))) xs)"
  by (induction xs) auto

lemma delete_map:
  "map (\<lambda>kv. (fst kv, f (snd kv))) (AList.delete k xs) = AList.delete k (map (\<lambda>kv. (fst kv, f (snd kv))) xs)"
  by (simp add: AList.delete_eq filter_map comp_def case_prod_beta split_beta')

lemma set_update_subset: "set (AList.update k v xs) \<subseteq> insert (k, v) (set xs)"
  by (induction xs) auto

lemma put_simps [simp]:
  "il (put_inbox k t g) = il g" "il (put_proposal k p g) = il g"
  "proposals (put_inbox k t g) = proposals g" "inbox (put_proposal k p g) = inbox g"
  "inbox (put_inbox k t g) = AList.update k t (inbox g)"
  "proposals (put_proposal k p g) = AList.update k p (proposals g)"
  "acked (put_inbox k t g) = acked g" "acked (put_proposal k p g) = acked g"
  "drawn (put_inbox k t g) = drawn g" "drawn (put_proposal k p g) = drawn g"
  "policy (put_inbox k t g) = policy g" "policy (put_proposal k p g) = policy g"
  by (simp_all add: put_inbox_def put_proposal_def persist_inbox_item_def persist_proposal_def write_store_def)

lemma write_store_simps [simp]:
  "il (write_store f g) = il g" "proposals (write_store f g) = proposals g" "inbox (write_store f g) = inbox g"
  "acked (write_store f g) = acked g" "drawn (write_store f g) = drawn g" "policy (write_store f g) = policy g"
  "entity_graph (write_store f g) = entity_graph g" "finding (write_store f g) = finding g"
  "scenario_id (write_store f g) = scenario_id g" "store (write_store f g) = map_option f (store g)"
  by (simp_all add: write_store_def)

lemma activate_simps [simp]:
  "il (activate d c g) = register_active (interlocks d) c (il g)" "proposals (activate d c g) = proposals g"
  "inbox (activate d c g) = inbox g" "acked (activate d c g) = acked g" "store (activate d c g) = store g"
  by (simp_all add: activate_def)

lemma other_write_simps [simp]:
  "il (persist_picture d g) = il g" "proposals (persist_picture d g) = proposals g"
  "inbox (persist_picture d g) = inbox g" "acked (persist_picture d g) = acked g"
  "il (fst (observe d b g)) = il g" "proposals (fst (observe d b g)) = proposals g"
  "inbox (fst (observe d b g)) = inbox g" "acked (fst (observe d b g)) = acked g"
  "il (persist_acked k g) = il g" "proposals (persist_acked k g) = proposals g"
  "inbox (persist_acked k g) = inbox g" "acked (persist_acked k g) = acked g"
  "il (delete_proposal k g) = il g" "proposals (delete_proposal k g) = proposals g"
  "inbox (delete_proposal k g) = inbox g" "acked (delete_proposal k g) = acked g"
  by (simp_all add: persist_picture_def persist_acked_def delete_proposal_def observe_def persist_observation_def
      split: prod.splits)

section \<open>Invariants of the picture\<close>

text \<open>What the picture's routes log: evidence, never a decision or a tasking.\<close>

definition logged_object :: "log_event \<Rightarrow> bool" where
  "logged_object e \<longleftrightarrow> (\<exists>kvs. ev_data e = JObj kvs)"

lemma event_object [simp]: "logged_object (event d n name sev kvs)"
  by (simp add: logged_object_def event_def)

definition evidence_event :: "log_event \<Rightarrow> bool" where
  "evidence_event e \<longleftrightarrow> logged_object e \<and> ev_name e \<in> {''candidate_event_ingested'', ''open_feed_ingested'', ''picture_interpreted''}"

lemma evidence_event_simps [simp]: "evidence_event (event d n name sev kvs) \<longleftrightarrow>
    name \<in> {''candidate_event_ingested'', ''open_feed_ingested'', ''picture_interpreted''}"
  by (simp add: evidence_event_def) (simp add: event_def)

text \<open>
  \<open>P g L\<close>: the property of a state and of what has been logged. The picture changes when a scenario is
  loaded, which is stored only if something was found, and when an observation is added.
\<close>

locale picture_invariant =
  fixes d :: gate_deps
    and P :: "gate_state \<Rightarrow> log_event list \<Rightarrow> bool"
  assumes evidence: "P g L \<Longrightarrow> evidence_event e \<Longrightarrow> P g (L @ [e])"
    and draw: "P g L \<Longrightarrow> P (g\<lparr>drawn := n\<rparr>) L"
    and nothing_found: "P g L \<Longrightarrow> get_scenario (registry d) sid = Some sc \<Longrightarrow>
      gr = ingest_all d (build_events sc n) empty_graph \<Longrightarrow> detect sc gr = None \<Longrightarrow>
      P (g\<lparr>entity_graph := gr, scenario_id := Some (scenario_key sc), finding := None, drawn := m\<rparr>) L"
    and found: "P g L \<Longrightarrow> get_scenario (registry d) sid = Some sc \<Longrightarrow>
      gr = ingest_all d (build_events sc n) empty_graph \<Longrightarrow> detect sc gr = Some f \<Longrightarrow>
      P (persist_picture d (g\<lparr>entity_graph := gr, scenario_id := Some (scenario_key sc), finding := Some f, drawn := m\<rparr>)) L"
    and observed: "P g L \<Longrightarrow> P (fst (observe d b g)) L"
begin

lemma ingest_inv:
  assumes "P g L" "ingest_scenario d sid g = (g1, r)"
  shows "P g1 L"
proof (cases "get_scenario (registry d) sid")
  case (Some sc)
  show ?thesis
    using assms(2) Some nothing_found [OF assms(1) Some refl] found [OF assms(1) Some refl]
    by (auto simp: ingest_scenario_def Let_def split: option.splits)
qed (use assms in \<open>simp add: ingest_scenario_def\<close>)

lemma load_inv:
  assumes "P g L" "load_scenario d sid q g = (g1, r)"
  shows "P g1 L"
proof -
  obtain g2 r2 where i: "ingest_scenario d sid g = (g2, r2)" by (cases "ingest_scenario d sid g")
  then have "P g2 L" by (rule ingest_inv [OF assms(1)])
  then show ?thesis using assms(2) draw [of g2 L "Suc (drawn g2)"]
    by (auto simp: load_scenario_def i split: sum.splits)
qed

lemma interpret_inv:
  assumes "P g L" "interpret_scenario d sid q b g = (g1, r)"
  shows "P g1 L"
proof -
  obtain g2 r2 where i: "ingest_scenario d sid g = (g2, r2)" by (cases "ingest_scenario d sid g")
  then have "P g2 L" by (rule ingest_inv [OF assms(1)])
  then show ?thesis using assms(2) draw [of g2 L "Suc (drawn g2)"]
    by (auto simp: interpret_scenario_def Let_def i split: sum.splits)
qed

lemma refuse_inv: "P g L \<Longrightarrow> refuse n g = (g', es, a) \<Longrightarrow> P g' (L @ es)"
  by (auto simp: refuse_def)

lemma observe_logged_inv:
  assumes "P g L" "observe_logged d name data b g = (g1, e, t)"
    "name \<in> {''candidate_event_ingested'', ''open_feed_ingested''}"
  shows "P g1 (L @ [e])"
proof -
  have "P ((fst (observe d b g))\<lparr>drawn := n\<rparr>) (L @ [event d m name sev kvs])" for n m sev kvs
    by (rule evidence [OF draw [OF observed [OF assms(1)]]]) (use assms(3) in auto)
  then show ?thesis using assms(2) by (auto simp: observe_logged_def Let_def split: prod.splits)
qed

lemma ingest_events_inv: "P g L \<Longrightarrow> ingest_events d src ps g = (g1, es, r) \<Longrightarrow> P g1 (L @ es)"
proof (induction ps arbitrary: g L es r)
  case (Cons p ps)
  show ?case
  proof (cases "candidate_event_to_observation (sha256_hex d) (num_repr d) (read_event (outside d)) p")
    case (Inr b)
    obtain g2 e t where o: "observe_logged d ''candidate_event_ingested'' (\<lambda>t.
        [(''observation_id'', JStr (observation_id b)), (''source_id'', JStr (source_id b)),
         (''modality'', JStr (modality b)), (''track_id'', JStr t), (''event_type'', JStr (entity_hint b)),
         (''ingress_source'', JStr src)]) b g = (g2, e, t)"
      by (cases rule: prod_cases3)
    obtain es' r' where "ingest_events d src ps g2 = (g1, es', r')" "es = e # es'"
      using Cons.prems(2) Inr o by (auto split: prod.splits)
    then show ?thesis using Cons.IH [OF observe_logged_inv [OF Cons.prems(1) o]] by simp
  qed (use Cons.prems in simp)
qed simp

lemma candidate_inv:
  assumes "P g L" "ingress_candidate_event d req g = (g', es, a)"
  shows "P g' (L @ es)"
proof -
  have P0: "P (g\<lparr>drawn := n\<rparr>) L" for n by (rule draw [OF assms(1)])
  show ?thesis
    using assms(2) P0
    by (auto simp: ingress_candidate_event_def Let_def split: sum.splits prod.splits list.splits
        elim: refuse_inv [OF P0] ingest_events_inv [OF P0])
qed

lemma ingest_feed_inv: "P g L \<Longrightarrow> ingest_feed d k src bs g = (g1, es, items) \<Longrightarrow> P g1 (L @ es)"
proof (induction bs arbitrary: g L es items)
  case (Cons b bs)
  obtain g2 e t where o: "observe_logged d ''open_feed_ingested'' (\<lambda>t.
      [(''feed'', JStr (feed_name k)), (''source'', JStr src), (''observation_id'', JStr (observation_id b)),
       (''source_id'', JStr (source_id b)), (''modality'', JStr (modality b)), (''track_id'', JStr t)]) b g = (g2, e, t)"
    by (cases rule: prod_cases3)
  obtain es' items' where "ingest_feed d k src bs g2 = (g1, es', items')" "es = e # es'"
    using Cons.prems(2) o by (auto split: prod.splits)
  then show ?case using Cons.IH [OF observe_logged_inv [OF Cons.prems(1) o]] by simp
qed simp

lemma ingest_feeds_inv: "P g L \<Longrightarrow> ingest_feeds d req src ks g = (g1, es, r) \<Longrightarrow> P g1 (L @ es)"
proof (induction ks arbitrary: g L es r)
  case (Cons k ks)
  have P0: "P (g\<lparr>drawn := Suc (drawn g)\<rparr>) L" by (rule draw [OF Cons.prems(1)])
  show ?case
  proof (cases "open_feed (outside d) k (of_payload req) (of_use_fixture req) src (of_limit req) (drawn g)")
    case (Inr br)
    obtain bs resolved where br: "br = (bs, resolved)" by (cases br)
    obtain g2 es1 items where f: "ingest_feed d k resolved bs (g\<lparr>drawn := Suc (drawn g)\<rparr>) = (g2, es1, items)"
      by (cases rule: prod_cases3)
    obtain es2 r' where "ingest_feeds d req src ks g2 = (g1, es2, r')" "es = es1 @ es2"
      using Cons.prems(2) Inr br f by (auto simp: Let_def split: prod.splits)
    then show ?thesis using Cons.IH [OF ingest_feed_inv [OF P0 f]] by simp
  qed (use Cons.prems P0 in \<open>simp add: Let_def\<close>)
qed simp

lemma open_feed_inv:
  assumes "P g L" "ingress_open_feed d req g = (g', es, a)"
  shows "P g' (L @ es)"
  using assms
  by (auto simp: ingress_open_feed_def Let_def split: option.splits if_splits sum.splits prod.splits
      elim: refuse_inv ingest_feeds_inv)

lemma interpret_picture_inv:
  assumes "P g L" "interpret_picture d req g = (g', es, a)"
  shows "P g' (L @ es)"
proof -
  let ?q = "or_default (ir_timeout req) (default_timeout_seconds (policy g))"
  obtain g1 r where i: "interpret_scenario d (ir_scenario req) ?q (ir_heuristic req) g = (g1, r)"
    by (cases "interpret_scenario d (ir_scenario req) ?q (ir_heuristic req) g")
  have P1: "P g1 L" using interpret_inv [OF assms(1) i] .
  show ?thesis
    using assms(2) P1 evidence [OF draw [OF P1]]
    by (auto simp: interpret_picture_def Let_def i split: sum.splits elim: refuse_inv)
qed

lemma observe_all_inv: "P g L \<Longrightarrow> P (observe_all d bs g) L"
  by (induction bs arbitrary: g) (simp_all add: observed)

lemma observe_rows_inv: "P g L \<Longrightarrow> P (observe_rows d rows g) L"
  by (induction rows arbitrary: g) (auto simp: observed split: sum.splits)

lemma observe_events_inv: "P g L \<Longrightarrow> observe_events d ps g = (g1, r) \<Longrightarrow> P g1 L"
proof (induction ps arbitrary: g)
  case (Cons p ps)
  then show ?case using Cons.IH [OF observed [OF Cons.prems(1)]] by (auto split: sum.splits)
qed simp

lemma verify_ingress_inv:
  assumes "P g L" "verify_ingress d mode g = (g', es, a)"
  shows "P g' (L @ es)"
proof -
  let ?g = "g\<lparr>drawn := Suc (drawn g)\<rparr>"
  have P0: "P ?g L" by (rule draw [OF assms(1)])
  have "P (fst (observe_events d ps ?g)) L" for ps
    using observe_events_inv [OF P0, of ps] by (cases "observe_events d ps ?g") simp
  then show ?thesis
    using assms(2) P0 observe_all_inv [OF P0] observe_rows_inv [OF P0]
    unfolding verify_ingress_def Let_def
    by (simp split: if_splits sum.splits prod.splits option.splits) (metis fst_conv)+
qed

end

section \<open>Invariants of the handlers\<close>

text \<open>
  \<open>good\<close>: what is known of a COA that is queued or issued; \<open>open_pages\<close>: proposals from the operator
  page, which no interlock saw, count too.
\<close>

locale gate_invariant = picture_invariant +
  fixes good :: "interlock \<Rightarrow> course_of_action \<Rightarrow> bool"
    and open_pages :: bool
  assumes log: "P g L \<Longrightarrow> P g (L @ es)"
    and pois: "P g L \<Longrightarrow> P (g\<lparr>il := with_pois d (il g)\<rparr>) L"
    and queue: "P g L \<Longrightarrow> good (il g) (coa p) \<Longrightarrow> P (put_proposal (coa_id (coa p)) p g) L"
    and consume: "P g L \<Longrightarrow> P (delete_proposal k (g\<lparr>proposals := AList.delete k (proposals g), drawn := n\<rparr>)) L"
    and issuing: "P g L \<Longrightarrow> good (il g) (tasked_coa t) \<Longrightarrow> gate_token d (coa_id (tasked_coa t)) (token t) \<Longrightarrow>
      issued_event (coa_id (tasked_coa t)) e \<Longrightarrow> P (put_inbox (coa_id (tasked_coa t)) t g) (L @ [e])"
    and activated: "P g L \<Longrightarrow> P (activate d c g) L"
    and acking: "P g L \<Longrightarrow> map_of (inbox g) k = Some t \<Longrightarrow>
      P (put_inbox k (t\<lparr>task_status := st, ack_record := a\<rparr>) (persist_acked k (g\<lparr>acked := insert k (acked g), drawn := n\<rparr>))) L"
    and good_verified: "interlock_verify (interlocks d) i c = None \<Longrightarrow> good i c"
    and good_pending: "P g L \<Longrightarrow> map_of (proposals g) k = Some p \<Longrightarrow> good (il g) (coa p)"
    and good_navy: "good i c \<Longrightarrow> good i (navy_copy u c)"
    and good_pages: "open_pages \<Longrightarrow> good i c"
begin

lemma submit_inv:
  assumes "P g L" "submit d c u r g = (g', es, a)"
  shows "P g' (L @ es)"
proof (cases "interlock_verify (interlocks d) (il g) c")
  case None
  show ?thesis
  proof (cases "tier c = TIER_0_AUTONOMOUS")
    case True
    let ?t = "sealed_by_gate d (drawn g) (coa_id c) APPROVED (Some ''autonomous'') ''tier0_auto''"
    let ?task = "\<lparr>tasked_coa = c, token = ?t, unit_id = u, tasked_at = utc_now d (drawn g + 2),
            task_status = ''PENDING_ACK'', ack_record = None\<rparr>"
    have "P (put_inbox (coa_id c) ?task (g\<lparr>drawn := drawn g + 4\<rparr>)) (L @ es)"
      using assms None True issuing [OF draw [OF assms(1)], of "drawn g + 4" ?task]
      by (auto simp: submit_def auto_approve_def Let_def good_verified)
    then show ?thesis using assms None True by (auto simp: submit_def auto_approve_def Let_def intro: activated)
  next
    case False
    let ?p = "\<lparr>coa = c, for_unit = u, navy_unit_id = None, queued_at = Some (utc_now d (drawn g))\<rparr>"
    have "P (put_proposal (coa_id c) ?p (g\<lparr>drawn := drawn g + 2\<rparr>)) L"
      using queue [OF draw [OF assms(1)], of "drawn g + 2" ?p] None by (simp add: good_verified)
    then show ?thesis using assms None False by (auto simp: submit_def queue_proposal_def Let_def intro: log)
  qed
next
  case (Some why)
  then show ?thesis using assms by (auto simp: submit_def reject_fast_def Let_def intro: log draw)
qed

lemma proposals_inv:
  assumes "P g L" "gate_proposals d req g = (g', es, a)"
  shows "P g' (L @ es)"
proof -
  let ?q = "or_default (req_timeout req) (default_timeout_seconds (policy g))"
  let ?s = "the (req_scenario req)"
  obtain g1 r1 where i: "interpret_scenario d ?s ?q (req_heuristic req) g = (g1, r1)"
    by (cases "interpret_scenario d ?s ?q (req_heuristic req) g")
  obtain g2 r2 where l: "load_scenario d ?s ?q g = (g2, r2)" by (cases "load_scenario d ?s ?q g")
  have "P g1 L" "P g2 L" using interpret_inv [OF assms(1) i] load_inv [OF assms(1) l] by auto
  then show ?thesis using assms i l
    by (auto simp: gate_proposals_def Let_def split: option.splits list.splits if_splits sum.splits
        scenario_error.splits elim: submit_inv refuse_inv)
qed

lemma guardrail_inv:
  assumes "P g L" "guardrail d req g = (g', es, a)"
  shows "P g' (L @ es)"
proof -
  let ?q = "or_default (gr_timeout req) (default_timeout_seconds (policy g))"
  let ?g = "g\<lparr>il := with_pois d (il g)\<rparr>"
  obtain g1 r where l: "load_scenario d (gr_scenario req) ?q ?g = (g1, r)"
    by (cases "load_scenario d (gr_scenario req) ?q ?g")
  then have P1: "P g1 L" using load_inv pois assms(1) by blast
  have queued: "P (put_proposal (coa_id b) \<lparr>coa = b, for_unit = u, navy_unit_id = v, queued_at = w\<rparr> (g1\<lparr>drawn := n\<rparr>)) (L @ es)"
    if "interlock_verify (interlocks d) (il g1) b = None" for b u v w n
    using log [OF queue [OF draw [OF P1], of n "\<lparr>coa = b, for_unit = u, navy_unit_id = v, queued_at = w\<rparr>"]] that
    by (simp add: good_verified)
  show ?thesis
    using assms(2) l P1 queued
    by (auto simp: guardrail_def Let_def split: sum.splits scenario_error.splits option.splits
        elim: refuse_inv refuse_inv [OF draw])
qed

lemma issue_inv:
  assumes "P g L" "good (il g) c" "gate_token d (coa_id c) t" "issue d c t u g = (g', e)"
  shows "P g' (L @ [e])" "il g' = il g"
proof -
  let ?task = "\<lparr>tasked_coa = c, token = t, unit_id = u, tasked_at = utc_now d (drawn g),
      task_status = ''PENDING_ACK'', ack_record = None\<rparr>"
  show "P g' (L @ [e])"
    using issuing [OF draw [OF assms(1)], of "drawn g + 2" ?task e] assms by (auto simp: issue_def Let_def)
  show "il g' = il g" using assms(4) by (auto simp: issue_def Let_def)
qed

lemma issue_all_inv:
  assumes "P g L" "good (il g) (coa p)" "gate_token d (coa_id (coa p)) t" "issue_all d p t op why g = (g', es)"
  shows "P g' (L @ es)"
proof -
  obtain g1 e1 where one: "issue d (coa p) t (for_unit p) g = (g1, e1)" by (cases "issue d (coa p) t (for_unit p) g")
  have P1: "P g1 (L @ [e1])" and il1: "il g1 = il g" using issue_inv [OF assms(1,2,3) one] .
  show ?thesis
  proof (cases "needs_navy p")
    case None
    then show ?thesis using assms(4) P1 by (auto simp: issue_all_def one intro: activated)
  next
    case (Some u)
    let ?c = "navy_copy (uuid4 d (drawn g1)) (coa p)"
    let ?t = "sealed_by_gate d (Suc (drawn g1)) (coa_id ?c) APPROVED (Some op) why"
    obtain g2 e2 where two: "issue d ?c ?t u (g1\<lparr>drawn := drawn g1 + 3\<rparr>) = (g2, e2)"
      by (cases "issue d ?c ?t u (g1\<lparr>drawn := drawn g1 + 3\<rparr>)")
    then have "P g2 ((L @ [e1]) @ [e2])"
      using issue_inv(1) [OF draw [OF P1] _ _ two] assms(2) il1 by (simp add: good_navy)
    then show ?thesis
      using assms(4) Some by (auto simp: issue_all_def issue_navy_def one two Let_def intro: activated)
  qed
qed

lemma approve_inv:
  assumes "P g L" "gate_approve d req g = (g', es, a)"
  shows "P g' (L @ es)"
proof (cases "map_of (proposals g) (ap_coa req)")
  case None
  then show ?thesis using assms by (auto simp: gate_approve_def elim: refuse_inv)
next
  case (Some p)
  show ?thesis
  proof (cases "read_decision (ap_decision req)")
    case None
    then show ?thesis using assms Some by (auto simp: gate_approve_def elim: refuse_inv)
  next
    case (Some vw)
    obtain v why where vw: "vw = (v, why)" by (cases vw)
    let ?t = "sealed_by_gate d (drawn g) (coa_id (coa p)) v (Some (ap_operator req)) why"
    let ?g = "delete_proposal (ap_coa req) (g\<lparr>proposals := AList.delete (ap_coa req) (proposals g), drawn := drawn g + 3\<rparr>)"
    have good: "good (il ?g) (coa p)" using good_pending [OF assms(1)] \<open>map_of _ _ = Some p\<close> by simp
    have P: "P ?g (L @ es')" for es' using log [OF consume [OF assms(1)]] by simp
    show ?thesis
    proof (cases "v = APPROVED")
      case True
      obtain g2 es2 where i: "issue_all d p ?t (ap_operator req) why ?g = (g2, es2)"
        by (cases "issue_all d p ?t (ap_operator req) why ?g")
      have "P g2 ((L @ [e]) @ es2)" for e
        by (rule issue_all_inv [OF P good _ i]) (simp add: True)
      then show ?thesis
        using assms(2) \<open>map_of _ _ = Some p\<close> Some vw True i by (auto simp: gate_approve_def Let_def)
    next
      case False
      then show ?thesis
        using assms(2) \<open>map_of _ _ = Some p\<close> Some vw P by (auto simp: gate_approve_def Let_def)
    qed
  qed
qed

lemma ack_inv:
  assumes "P g L" "recipient_ack d req g = (g', es, a)"
  shows "P g' (L @ es)"
proof (cases "map_of (inbox g) (ak_coa req)")
  case (Some t)
  then show ?thesis
    using assms log [OF acking [OF assms(1)]]
    by (auto simp: recipient_ack_def Let_def split: if_splits elim: refuse_inv)
qed (use assms in \<open>auto simp: recipient_ack_def elim: refuse_inv\<close>)

lemma propose_page_inv:
  assumes "P g L" "verify_propose d sid u g = (g', es, a)" "open_pages"
  shows "P g' (L @ es)"
proof -
  obtain g1 r where l: "load_scenario d sid DEFAULT_TIMEOUT g = (g1, r)" by (cases "load_scenario d sid DEFAULT_TIMEOUT g")
  have P1: "P g1 L" using load_inv [OF assms(1) l] .
  have "P (put_proposal (coa_id c) \<lparr>coa = c, for_unit = u, navy_unit_id = v, queued_at = w\<rparr> (g1\<lparr>drawn := n\<rparr>)) (L @ es)"
    for c v w n
    using log [OF queue [OF draw [OF P1], of n "\<lparr>coa = c, for_unit = u, navy_unit_id = v, queued_at = w\<rparr>"]]
      good_pages [OF assms(3)] by simp
  then show ?thesis
    using assms(2) l P1 by (auto simp: verify_propose_def Let_def split: sum.splits)
qed

lemma page_inv:
  assumes "as_page r = (g', es, a)" "\<And>g' es a. r = (g', es, a) \<Longrightarrow> P g' (L @ es)"
  shows "P g' (L @ es)"
  using assms by (cases r) (auto simp: as_page_def)

lemma step_inv:
  assumes "P g L" "gate_step d r g = (g', es, a)" "r \<noteq> Reset" "r \<noteq> Restart"
    "open_pages \<or> (\<forall>sid u. r \<noteq> Verify_Propose sid u)"
  shows "P g' (L @ es)"
  using assms
proof (cases r)
  case (Inbox u)
  then show ?thesis using assms log [OF assms(1)] by (auto simp: recipient_inbox_def Let_def)
next
  case (Verify_Approve cid s)
  then show ?thesis using assms(2) approve_inv [OF assms(1)] by (auto simp: verify_approve_def elim!: page_inv)
next
  case (Verify_Guardrail sid u v)
  then show ?thesis using assms(2) guardrail_inv [OF assms(1)] by (auto simp: verify_guardrail_def elim!: page_inv)
next
  case (Verify_Ack cid u)
  then show ?thesis using assms(2) ack_inv [OF assms(1)] by (auto simp: verify_ack_def elim!: page_inv)
qed (use assms log [OF assms(1)] in \<open>auto simp: ontology_state_def intro: proposals_inv guardrail_inv approve_inv
    ack_inv propose_page_inv candidate_inv open_feed_inv interpret_picture_inv verify_ingress_inv\<close>)

lemma run_without_restart_inv:
  "P g L \<Longrightarrow> gate_run d rs g = (g', es) \<Longrightarrow> Reset \<notin> set rs \<Longrightarrow> Restart \<notin> set rs \<Longrightarrow> open_pages \<Longrightarrow> P g' (L @ es)"
proof (induction rs arbitrary: g L es)
  case (Cons r rs)
  obtain g1 es1 a where s: "gate_step d r g = (g1, es1, a)" by (cases "gate_step d r g")
  obtain es2 where r: "gate_run d rs g1 = (g', es2)" "es = es1 @ es2"
    using Cons.prems(2) s by (cases "gate_run d rs g1") auto
  have "P g1 (L @ es1)" using step_inv [OF Cons.prems(1) s] Cons.prems(3-5) by auto
  then have "P g' ((L @ es1) @ es2)" by (rule Cons.IH [OF _ r(1)]) (use Cons.prems(3-5) in auto)
  then show ?case using r(2) by simp
qed simp

end

text \<open>With the two steps that clear or reload the state, the invariant holds of every run.\<close>

locale run_invariant = gate_invariant +
  assumes resetting: "P g L \<Longrightarrow> P (gate_reset g) L"
    and restarting: "P g L \<Longrightarrow> P (start_gate d (policy g) (il g) (drawn g) (store g)) L"
begin

lemma any_step_inv:
  assumes "P g L" "gate_step d r g = (g', es, a)" "open_pages \<or> (\<forall>sid u. r \<noteq> Verify_Propose sid u)"
  shows "P g' (L @ es)"
proof (cases "r = Reset \<or> r = Restart")
  case True
  then show ?thesis using assms resetting restarting by auto
next
  case False
  then show ?thesis using step_inv [OF assms(1,2)] assms(3) by blast
qed

lemma run_inv:
  "P g L \<Longrightarrow> gate_run d rs g = (g', es) \<Longrightarrow>
     open_pages \<or> (\<forall>sid u. Verify_Propose sid u \<notin> set rs) \<Longrightarrow> P g' (L @ es)"
proof (induction rs arbitrary: g L es)
  case (Cons r rs)
  obtain g1 es1 a where s: "gate_step d r g = (g1, es1, a)" by (cases "gate_step d r g")
  obtain es2 where r: "gate_run d rs g1 = (g', es2)" "es = es1 @ es2"
    using Cons.prems(2) s by (cases "gate_run d rs g1") auto
  have "P g1 (L @ es1)" using any_step_inv [OF Cons.prems(1) s] Cons.prems(3) by auto
  then have "P g' ((L @ es1) @ es2)" by (rule Cons.IH [OF _ r(1)]) (use Cons.prems(3) in auto)
  then show ?case using r(2) by simp
qed simp

end

end
