(* ===== verification/Gate_Invariants.thy ===== *)
theory Gate_Invariants
  imports Gate_Safety
begin

text \<open>
  The invariants of the gate, as interpretations of \<open>run_invariant\<close> and \<open>gate_invariant\<close>: issued
  taskings carry a sealed approval and were logged, queued and issued COAs passed the interlock, the
  database mirrors the memory, and an active target stays active.
\<close>

section \<open>Properties of the tables, in memory and in the database\<close>

definition tables_ok :: "(string \<Rightarrow> pending \<Rightarrow> bool) \<Rightarrow> (string \<Rightarrow> tasking \<Rightarrow> bool) \<Rightarrow> gate_state \<Rightarrow> bool" where
  "tables_ok Q R g \<longleftrightarrow>
     (\<forall>(k, p) \<in> set (proposals g). Q k p) \<and> (\<forall>(k, t) \<in> set (inbox g). R k t) \<and>
     (\<forall>st. store g = Some st \<longrightarrow> (\<forall>(k, p) \<in> set (st_proposals st). Q k p) \<and> (\<forall>(k, t) \<in> set (st_inbox st). R k t))"

lemma tables_mono:
  "tables_ok Q R g \<Longrightarrow> (\<And>k p. Q k p \<Longrightarrow> Q' k p) \<Longrightarrow> (\<And>k t. R k t \<Longrightarrow> R' k t) \<Longrightarrow> tables_ok Q' R' g"
  by (fastforce simp: tables_ok_def)

lemma tables_frame [simp]:
  "tables_ok Q R (g\<lparr>drawn := n\<rparr>) = tables_ok Q R g"
  "tables_ok Q R (g\<lparr>entity_graph := gr, scenario_id := s, finding := f\<rparr>) = tables_ok Q R g"
  "tables_ok Q R (g\<lparr>il := i\<rparr>) = tables_ok Q R g"
  "tables_ok Q R (activate d c g) = tables_ok Q R g"
  by (simp_all add: tables_ok_def activate_def)

lemma store_simps [simp]:
  "store (persist_picture d g) = map_option (\<lambda>st. st\<lparr>st_observations := insert_rows d (seen (entity_graph g)) [],
     st_finding := finding g, st_scenario_id := scenario_id g\<rparr>) (store g)"
  "store (fst (observe d b g)) = map_option (\<lambda>st. st\<lparr>st_observations :=
     AList.update (observation_id b) (digested d b) (st_observations st)\<rparr>) (store g)"
  "store (put_proposal k p g) =
     map_option (\<lambda>st. st\<lparr>st_proposals := AList.update k (stored_pending p) (st_proposals st)\<rparr>) (store g)"
  "store (put_inbox k t g) = map_option (\<lambda>st. st\<lparr>st_inbox := AList.update k t (st_inbox st)\<rparr>) (store g)"
  "store (delete_proposal k g) = map_option (\<lambda>st. st\<lparr>st_proposals := AList.delete k (st_proposals st)\<rparr>) (store g)"
  "store (persist_acked k g) = map_option (\<lambda>st. st\<lparr>st_acked := insert k (st_acked st)\<rparr>) (store g)"
  by (simp_all add: persist_picture_def put_proposal_def put_inbox_def delete_proposal_def persist_acked_def
      persist_proposal_def persist_inbox_item_def observe_def persist_observation_def split: prod.splits)

lemma tables_picture: "tables_ok Q R g \<Longrightarrow> tables_ok Q R (persist_picture d g)"
  by (auto simp: tables_ok_def)

lemma tables_observe: "tables_ok Q R g \<Longrightarrow> tables_ok Q R (fst (observe d b g))"
  by (auto simp: tables_ok_def)

lemma tables_put_proposal:
  "tables_ok Q R g \<Longrightarrow> Q k p \<Longrightarrow> Q k (stored_pending p) \<Longrightarrow> tables_ok Q R (put_proposal k p g)"
  by (auto simp: tables_ok_def dest!: set_update_subset [THEN subsetD])

lemma tables_put_inbox: "tables_ok Q R g \<Longrightarrow> R k t \<Longrightarrow> tables_ok Q R (put_inbox k t g)"
  by (auto simp: tables_ok_def dest!: set_update_subset [THEN subsetD])

lemma tables_consume:
  "tables_ok Q R g \<Longrightarrow>
     tables_ok Q R (delete_proposal k (g\<lparr>proposals := AList.delete k (proposals g), drawn := n\<rparr>))"
  by (auto simp: tables_ok_def AList.delete_eq)

lemma tables_acked: "tables_ok Q R g \<Longrightarrow> tables_ok Q R (persist_acked k (g\<lparr>acked := A, drawn := n\<rparr>))"
  by (auto simp: tables_ok_def)

lemma tables_reset: "tables_ok Q R (gate_reset g)"
  by (auto simp: tables_ok_def gate_reset_def empty_store_def)

lemma tables_restart: "tables_ok Q R g \<Longrightarrow> tables_ok Q R (start_gate d pol i n (store g))"
  by (auto simp: tables_ok_def start_gate_def empty_store_def Let_def split: option.splits)

lemma tables_new: "tables_ok Q R (new_gate d pol i)"
  by (auto simp: tables_ok_def new_gate_def start_gate_def empty_store_def Let_def)

lemma tables_inbox: "tables_ok Q R g \<Longrightarrow> map_of (inbox g) k = Some t \<Longrightarrow> R k t"
  by (auto simp: tables_ok_def dest: map_of_SomeD)

lemma tables_proposal: "tables_ok Q R g \<Longrightarrow> map_of (proposals g) k = Some p \<Longrightarrow> Q k p"
  by (auto simp: tables_ok_def dest: map_of_SomeD)

lemmas tables_intros = tables_picture tables_observe tables_put_proposal tables_put_inbox tables_consume tables_acked
  tables_reset tables_restart

lemma stored_pending_keeps [simp]: "coa (stored_pending p) = coa p" "for_unit (stored_pending p) = for_unit p"
  "stored_pending (stored_pending p) = stored_pending p" "needs_navy (stored_pending p) = needs_navy p"
  by (auto simp: stored_pending_def needs_navy_def split: option.splits)

section \<open>What is issued is sealed, approved and logged\<close>

definition issued_properly :: "gate_deps \<Rightarrow> log_event list \<Rightarrow> string \<Rightarrow> tasking \<Rightarrow> bool" where
  "issued_properly d L k t \<longleftrightarrow>
     coa_id (tasked_coa t) = k \<and> gate_token d k (token t) \<and> (\<exists>e \<in> set L. issued_event k e)"

lemma issued_longer:
  "tables_ok Q (issued_properly d L) g \<Longrightarrow> tables_ok Q (issued_properly d (L @ es)) g"
  by (erule tables_mono) (auto simp: issued_properly_def)

interpretation issued: run_invariant d "\<lambda>g L. tables_ok (\<lambda>k p. True) (issued_properly d L) g" "\<lambda>i c. True" True
proof (unfold_locales, goal_cases)
  case (10 g L t e)
  then show ?case by (intro tables_put_inbox issued_longer) (auto simp: issued_properly_def)
next
  case (12 g L k t a st n)
  then have "issued_properly d L k (t\<lparr>task_status := st, ack_record := a\<rparr>)"
    by (auto simp: issued_properly_def dest: tables_inbox)
  then show ?case using 12 by (auto intro: tables_intros)
qed (auto intro: tables_intros issued_longer)

section \<open>What is queued or issued passed the interlock\<close>

definition safe_now :: "gate_deps \<Rightarrow> interlock \<Rightarrow> course_of_action \<Rightarrow> bool" where
  "safe_now d i c \<longleftrightarrow> statically_safe (interlocks d) (with_pois d i) c"

lemma with_pois_idem [simp]: "with_pois d (with_pois d i) = with_pois d i"
  by (simp add: with_pois_def split: option.splits)

lemma safe_now_static [simp]:
  "safe_now d (with_pois d i) c = safe_now d i c"
  "safe_now d (register_active e c' i) c = safe_now d i c"
  "safe_now d (i\<lparr>active_coa_ids := A\<rparr>) c = safe_now d i c"
  by (simp_all add: safe_now_def with_pois_def register_active_def statically_safe_def speeding_def geofence_def
      verify_cni_debris_def split: option.splits)

lemma il_simps [simp]:
  "il (gate_reset g) = (il g)\<lparr>active_coa_ids := {}\<rparr>"
  "il (start_gate d pol i n db) = with_pois d (i\<lparr>active_coa_ids := {}\<rparr>)"
  by (simp_all add: gate_reset_def start_gate_def Let_def)

lemma with_pois_fixed: "with_pois d i = i \<longleftrightarrow> (case load_pois d of Some pois \<Rightarrow> cni_pois i = pois | None \<Rightarrow> True)"
  by (cases i) (auto simp: with_pois_def split: option.splits)

lemma with_pois_active [simp]:
  "with_pois d i = i \<Longrightarrow> with_pois d (register_active e c i) = register_active e c i"
  "with_pois d i = i \<Longrightarrow> with_pois d (i\<lparr>active_coa_ids := A\<rparr>) = i\<lparr>active_coa_ids := A\<rparr>"
  by (simp_all add: with_pois_fixed register_active_def split: option.splits)

lemma safe_navy_copy: "safe_now d i c \<Longrightarrow> safe_now d i (navy_copy u c)"
  unfolding safe_now_def navy_copy_def by (subst statically_safe_relabel) (simp_all add: update_conv')

definition all_safe :: "gate_deps \<Rightarrow> gate_state \<Rightarrow> log_event list \<Rightarrow> bool" where
  "all_safe d g L \<longleftrightarrow> with_pois d (il g) = il g \<and>
     tables_ok (\<lambda>k p. safe_now d (il g) (coa p)) (\<lambda>k t. safe_now d (il g) (tasked_coa t)) g"

text \<open>Pages are shut out: \<open>verify_propose\<close> queues what no interlock saw.\<close>

lemma verified_safe: "interlock_verify (interlocks d) i c = None \<Longrightarrow> with_pois d i = i \<Longrightarrow> safe_now d i c"
  by (simp add: safe_now_def interlock_verify_None)

interpretation safe: run_invariant d "all_safe d"
    "\<lambda>i c. with_pois d i = i \<longrightarrow> safe_now d i c" False
proof (unfold_locales, goal_cases)
  case (8 g L p)
  then show ?case by (auto simp: all_safe_def intro: tables_intros)
next
  case (10 g L t e)
  then show ?case by (auto simp: all_safe_def intro: tables_intros)
next
  case (12 g L k t a st n)
  then show ?case by (auto simp: all_safe_def dest: tables_inbox intro!: tables_intros)
next
  case (13 i c)
  then show ?case by (simp add: verified_safe)
next
  case (14 g L k p)
  then show ?case by (auto simp: all_safe_def dest: tables_proposal)
next
  case (15 i c u)
  then show ?case by (simp add: safe_navy_copy)
qed (auto simp: all_safe_def intro: tables_intros)

section \<open>The database mirrors the memory\<close>

definition mirrored :: "gate_state \<Rightarrow> bool" where
  "mirrored g \<longleftrightarrow> (\<exists>st. store g = Some st \<and>
     st_proposals st = map (\<lambda>kv. (fst kv, stored_pending (snd kv))) (proposals g) \<and>
     st_inbox st = inbox g \<and> st_acked st = acked g)"

interpretation mirror: run_invariant d "\<lambda>g L. mirrored g" "\<lambda>i c. True" True
  by unfold_locales
    (auto simp: mirrored_def update_map delete_map gate_reset_def empty_store_def start_gate_def Let_def comp_def)

lemma new_gate_mirrored: "mirrored (new_gate d pol i)"
  by (simp add: mirrored_def new_gate_def start_gate_def Let_def empty_store_def)

section \<open>What is active stays active\<close>

interpretation active: gate_invariant d "\<lambda>g L. K \<subseteq> active_coa_ids (il g)" "\<lambda>i c. True" True
  by unfold_locales (auto simp: register_active_def with_pois_def split: option.splits)

section \<open>Runs from the start\<close>

lemma issued_run:
  assumes "gate_run d rs (new_gate d pol i) = (g, es)" "map_of (inbox g) k = Some t"
  shows "issued_properly d es k t"
  using issued.run_inv [OF tables_new assms(1), of "[]"] assms(2) by (auto dest: tables_inbox)

lemma safe_run:
  assumes "gate_run d rs (new_gate d pol i) = (g, es)" "\<forall>sid u. Verify_Propose sid u \<notin> set rs"
  shows "all_safe d g es"
proof -
  have "all_safe d (new_gate d pol i) []"
    by (simp add: all_safe_def tables_new) (simp add: new_gate_def)
  then show ?thesis using safe.run_inv [of d _ "[]"] assms by auto
qed

lemma all_safe_inbox: "all_safe d g L \<Longrightarrow> map_of (inbox g) k = Some t \<Longrightarrow> statically_safe (interlocks d) (il g) (tasked_coa t)"
  by (auto simp: all_safe_def safe_now_def dest: tables_inbox)

lemma mirrored_run: "gate_run d rs (new_gate d pol i) = (g, es) \<Longrightarrow> mirrored g"
  using mirror.run_inv [OF new_gate_mirrored] by blast

end
