(* ===== verification/Gate_Properties.thy ===== *)
theory Gate_Properties
  imports Gate_Invariants
begin

text \<open>
  The properties of the command gate: what reaches an inbox, what an approval does, and what the
  interlocks still guarantee after it.
\<close>

section \<open>What an approval writes\<close>

lemma issue_writes:
  "issue d c t u g = (g', e) \<Longrightarrow> map_of (inbox g') k =
     (if k = coa_id c then Some \<lparr>tasked_coa = c, token = t, unit_id = u, tasked_at = utc_now d (drawn g),
        task_status = ''PENDING_ACK'', ack_record = None\<rparr> else map_of (inbox g) k)"
  by (auto simp: issue_def Let_def update_conv')

lemma issue_frame: "issue d c t u g = (g', e) \<Longrightarrow> il g' = il g \<and> proposals g' = proposals g"
  by (auto simp: issue_def Let_def)

lemma issue_all_writes:
  assumes "issue_all d p t op why g = (g', es)" "needs_navy p = None \<or> coa_id (coa p) \<notin> range (uuid4 d)"
  shows "\<exists>task. map_of (inbox g') (coa_id (coa p)) = Some task \<and> tasked_coa task = coa p \<and>
      unit_id task = for_unit p"
  using assms
  by (auto simp: issue_all_def issue_navy_def Let_def issue_writes navy_copy_def split: prod.splits option.splits)

lemma issue_all_frame:
  "issue_all d p t op why g = (g', es) \<Longrightarrow>
     proposals g' = proposals g \<and> il g' = register_active (interlocks d) (coa p) (il g)"
  by (auto simp: issue_all_def issue_navy_def Let_def split: prod.splits option.splits dest!: issue_frame)

lemma approve_issues:
  assumes "map_of (proposals g) (ap_coa req) = Some p" "read_decision (ap_decision req) = Some (APPROVED, why)"
    "needs_navy p = None \<or> coa_id (coa p) \<notin> range (uuid4 d)"
  shows "\<exists>task. map_of (inbox (fst (gate_approve d req g))) (coa_id (coa p)) = Some task \<and> tasked_coa task = coa p \<and>
    unit_id task = for_unit p"
  using assms
  by (auto simp: gate_approve_def Let_def split: prod.splits dest!: issue_all_writes)

lemma approve_activates:
  assumes "map_of (proposals g) (ap_coa req) = Some p" "read_decision (ap_decision req) = Some (APPROVED, why)"
  shows "il (fst (gate_approve d req g)) = register_active (interlocks d) (coa p) (il g)"
  using assms by (auto simp: gate_approve_def Let_def split: prod.splits dest!: issue_all_frame)

lemma approve_keeps_others:
  "k \<noteq> ap_coa req \<Longrightarrow> map_of (proposals (fst (gate_approve d req g))) k = map_of (proposals g) k"
  by (auto simp: gate_approve_def refuse_def Let_def delete_conv' split: option.splits prod.splits if_splits
      dest!: issue_all_frame)

lemma approve_logs:
  "map_of (proposals g) (ap_coa req) = Some p \<Longrightarrow> read_decision (ap_decision req) = Some vw \<Longrightarrow>
     fst (snd (gate_approve d req g)) \<noteq> []"
  by (auto simp: gate_approve_def Let_def split: prod.splits)

lemma approve_consumes:
  assumes "gate_approve d req g = (g1, es, a)" "es \<noteq> []"
  shows "map_of (proposals g1) (ap_coa req) = None"
  using assms
  by (auto simp: gate_approve_def refuse_def Let_def delete_conv' split: option.splits prod.splits if_splits
      dest!: issue_all_frame)

section \<open>Every tasking is a sealed approval\<close>

text \<open>
  Claim C2: Whatever requests and restarts the gate has seen, a tasking in the inbox is filed under the
  id of its COA and carries a token that is sealed, says APPROVED, and names that COA.
\<close>

theorem inbox_tokens_are_sealed_approvals:
  assumes "gate_run d rs (new_gate d pol i) = (g, es)" "map_of (inbox g) k = Some t"
  shows "coa_id (tasked_coa t) = k \<and> for_coa (token t) = k \<and> verdict (token t) = ''APPROVED'' \<and>
    token_digest (token t) = seal_digest (sha256_hex d) (num_repr d) (token t)"
  using issued_run [OF assms] by (auto simp: issued_properly_def gate_token_def sealed_token_def)

text \<open>
  Claim C8: No tasking is in the inbox that the audit log does not know: some event of the run, a
  tasking issued or a COA auto-approved, names its id.
\<close>

theorem nothing_issued_unlogged:
  assumes "gate_run d rs (new_gate d pol i) = (g, es)" "map_of (inbox g) k = Some t"
  shows "\<exists>e \<in> set es. ev_name e \<in> {''tasking_issued'', ''coa_auto_approved''} \<and>
    json_get (ev_data e) ''coa_id'' = Some (JStr k)"
  using issued_run [OF assms] by (auto simp: issued_properly_def issued_event_def)

section \<open>The interlock and the routes around it\<close>


text \<open>What the operator page queues, its approval issues.\<close>

lemma page_issues_what_it_queues:
  assumes "load_scenario d sid DEFAULT_TIMEOUT g = (g1, Inr c)"
    and "gate_run d [Verify_Propose sid u, Verify_Approve (coa_id c) ''y''] g = (g2, es)"
  shows "\<exists>t. map_of (inbox g2) (coa_id c) = Some t \<and> tasked_coa t = c"
proof -
  let ?p = "\<lparr>coa = c, for_unit = u, navy_unit_id = None, queued_at = None\<rparr>"
  let ?g = "put_proposal (coa_id c) ?p (g1\<lparr>drawn := drawn g1 + 2\<rparr>)"
  let ?req = "\<lparr>ap_coa = coa_id c, ap_decision = ''y'', ap_operator = ''nexusgate-verify-screen1''\<rparr>"
  have "fst (gate_step d (Verify_Propose sid u) g) = ?g"
    using assms(1) by (simp add: verify_propose_def Let_def)
  then have "g2 = fst (gate_approve d ?req ?g)"
    using assms(2) by (auto simp: verify_approve_def as_page_def split: prod.splits)
  moreover have "map_of (proposals ?g) (ap_coa ?req) = Some ?p" by (simp add: update_conv')
  moreover have "read_decision (ap_decision ?req) = Some (APPROVED, ''operator_approve'')"
    by (simp add: read_decision_def strip_def trim_by_def py_space_def lower_def ascii_lower_char_def)
  ultimately show ?thesis using approve_issues [of ?g ?req ?p] by (auto simp: needs_navy_def)
qed

text \<open>
  The propose route of the operator page skips the interlock: a scenario whose COA the API
  rejects fast is queued by it, and the approval that follows issues the vetoed COA.
\<close>

theorem operator_page_bypasses_the_interlock:
  assumes "load_scenario d sid DEFAULT_TIMEOUT g = (g1, Inr c)"
    and "interlock_verify (interlocks d) (il g1) c = Some why"
    and "gate_run d [Verify_Propose sid u, Verify_Approve (coa_id c) ''y''] g = (g2, es)"
  shows "\<exists>t. map_of (inbox g2) (coa_id c) = Some t \<and> tasked_coa t = c"
  by (rule page_issues_what_it_queues [OF assms(1,3)])

text \<open>
  An approval does not ask the interlock again: a pending COA that is vetoed by now, as the
  second of two equal ones is after the first was approved, is issued all the same.
\<close>

theorem approval_does_not_recheck:
  assumes "map_of (proposals g) (ap_coa req) = Some p" "coa_id (coa p) = ap_coa req"
    and "read_decision (ap_decision req) = Some (APPROVED, w)"
    and "interlock_verify (interlocks d) (il g) (coa p) = Some why"
    and "needs_navy p = None \<or> ap_coa req \<notin> range (uuid4 d)"
  shows "\<exists>t. map_of (inbox (fst (gate_approve d req g))) (ap_coa req) = Some t \<and> tasked_coa t = coa p"
  using approve_issues [OF assms(1,3)] assms(2,5) by auto

text \<open>
  Claim C23: Once a COA is approved, no other one with the same target, intent and coordinates gets
  past the interlock, whatever requests follow, until a reset or a restart.
\<close>

theorem approved_target_stays_blocked:
  assumes "map_of (proposals g) (ap_coa req) = Some p" "read_decision (ap_decision req) = Some (APPROVED, w)"
    and "gate_run d rs (fst (gate_approve d req g)) = (g2, es)" "Reset \<notin> set rs" "Restart \<notin> set rs"
    and "dup_key (interlocks d) c = dup_key (interlocks d) (coa p)"
  shows "interlock_verify (interlocks d) (il g2) c \<noteq> None"
proof -
  let ?K = "{dup_key (interlocks d) c}"
  have "?K \<subseteq> active_coa_ids (il (fst (gate_approve d req g)))"
    unfolding approve_activates [OF assms(1,2)] by (simp add: register_active_def assms(6))
  then have "?K \<subseteq> active_coa_ids (il g2)"
    using active.run_without_restart_inv [where K = ?K, OF _ assms(3-5)] by simp
  then show ?thesis by (simp add: interlock_verify_None)
qed

text \<open>
  A restart forgets what is active: the interlock of the new process accepts again every
  tasking that is in its inbox, though the operator page was never used.
\<close>

theorem restart_readmits_every_issued_tasking:
  assumes "gate_run d (rs @ [Restart]) (new_gate d pol i) = (g, es)" "\<forall>sid u. Verify_Propose sid u \<notin> set rs"
    "map_of (inbox g) k = Some t"
  shows "interlock_verify (interlocks d) (il g) (tasked_coa t) = None"
proof -
  have "active_coa_ids (il g) = {}"
    using assms(1) by (auto simp: gate_run_append with_pois_def split: prod.splits option.splits)
  moreover have "statically_safe (interlocks d) (il g) (tasked_coa t)"
    using all_safe_inbox [OF safe_run [OF assms(1)] assms(3)] assms(2) by auto
  ultimately show ?thesis by (simp add: interlock_verify_None)
qed

text \<open>
  The decision is about an id, not about what the operator saw: a proposal that is pending
  under an id is replaced by a later one that names the same id, and the approval issues the later one.
\<close>

theorem pending_proposal_can_be_replaced:
  assumes "map_of (proposals g) (ap_coa req) = Some p" "coa_id c = ap_coa req" "coa p \<noteq> c"
    and "interlock_verify (interlocks d) (il g) c = None" "tier c \<noteq> TIER_0_AUTONOMOUS"
    and "read_decision (ap_decision req) = Some (APPROVED, w)"
  shows "\<exists>t. map_of (inbox (fst (gate_approve d req (fst (submit d c u None g))))) (ap_coa req) = Some t \<and> tasked_coa t = c"
proof -
  let ?g = "fst (submit d c u None g)"
  let ?p = "\<lparr>coa = c, for_unit = u, navy_unit_id = None, queued_at = Some (utc_now d (drawn g))\<rparr>"
  have "map_of (proposals ?g) (ap_coa req) = Some ?p"
    using assms(2,4,5) by (simp add: submit_def queue_proposal_def Let_def update_conv')
  from approve_issues [OF this assms(6)] show ?thesis using assms(2) by (auto simp: needs_navy_def)
qed

section \<open>One decision, one ack\<close>

text \<open>
  A proposal is decided once: after a decision on it that was carried out, any further one
  is refused with 404 and changes nothing.
\<close>

theorem proposal_is_decided_once:
  assumes "gate_approve d req g = (g1, es, a)" "es \<noteq> []" "ap_coa req' = ap_coa req"
  shows "gate_approve d req' g1 = (g1, [], \<lambda>recs. http_error 404)"
  using approve_consumes [OF assms(1,2)] assms(3) by (simp add: gate_approve_def refuse_def)

text \<open>
  An ack takes effect only when the unit is the one the tasking was issued to, and from then
  on no unit's inbox lists the tasking.
\<close>

theorem only_the_assigned_unit_acks:
  assumes "recipient_ack d req g = (g1, es, a)" "es \<noteq> []"
  shows "(\<exists>t. map_of (inbox g) (ak_coa req) = Some t \<and> unit_id t = ak_unit req) \<and>
    (\<forall>u. ak_coa req \<notin> (\<lambda>t. coa_id (tasked_coa t)) ` set (inbox_items u g1))"
  using assms
  by (auto simp: recipient_ack_def refuse_def inbox_items_def Let_def split: option.splits if_splits)

section \<open>The database\<close>

definition live_view :: "gate_state \<Rightarrow> (string \<times> pending) list \<times> (string \<times> tasking) list \<times> string set" where
  "live_view g = (map (\<lambda>kv. (fst kv, stored_pending (snd kv))) (proposals g), inbox g, acked g)"

text \<open>
  Claim C9: The database refines the memory: at every point of every run, a process started over it
  has the proposals, the inbox and the acks of the one that wrote it.
\<close>

theorem restart_restores_the_live_view:
  assumes "gate_run d rs (new_gate d pol i) = (g, es)"
  shows "live_view (fst (gate_step d Restart g)) = live_view g"
proof -
  obtain st where "store g = Some st" "st_inbox st = inbox g" "st_acked st = acked g"
    "st_proposals st = map (\<lambda>kv. (fst kv, stored_pending (snd kv))) (proposals g)"
    using mirrored_run [OF assms] unfolding mirrored_def by blast
  then show ?thesis by (simp add: live_view_def start_gate_def Let_def comp_def)
qed

section \<open>The properties at concrete inputs\<close>

text \<open>
  The policy file's settings, one scenario whose COA lies inside the zone \<open>demo_no_go\<close>, and requests
  against them.
\<close>

definition maritime_policy :: tiered_policy where
  "maritime_policy = \<lparr>default_timeout_seconds = 5, confidence_auto_approve_min = 95 / 100,
     min_corroborating_sources_tier1 = 2\<rparr>"

definition maritime_interlock :: interlock where
  "maritime_interlock =
     \<lparr>forbidden_zones =
        [\<lparr>zone_name = Some ''demo_no_go'',
          polygon = [(1230 / 1000, 103850 / 1000), (1230 / 1000, 103852 / 1000), (1232 / 1000, 103852 / 1000),
            (1232 / 1000, 103850 / 1000), (1230 / 1000, 103850 / 1000)]\<rparr>],
      max_speed_kt = 40, reject_null_coordinates = True, active_coa_ids = {}, cni_pois = []\<rparr>"

definition coa_at :: "string \<Rightarrow> rat \<times> rat \<Rightarrow> course_of_action" where
  "coa_at i p = (default_coa i)\<lparr>target_entity_id := ''T'', target_coordinates := p,
     invariants := [(''fail_safe'', JStr ''STATION_KEEP'')]\<rparr>"

definition demo_finding :: finding_record where
  "demo_finding = \<lparr>fi_scenario = ''S'', fi_track = ''hull'', threat_class = ''SPOOF'', warning_minutes_est = 8,
     mismatch_m = 0, fi_confidence = 1 / 2, picture_summary = [], fi_hypothesis = [], spoof_sources = [],
     approach_sources = [], other_sources = [], message = [], amber_alert = None, source_breakdown = []\<rparr>"

definition no_go_scenario :: scenario where
  "no_go_scenario = \<lparr>scenario_key = ''S'', build_events = (\<lambda>n. harbour), detect = (\<lambda>gr. Some demo_finding),
     build_coa = (\<lambda>gr f q i. Some (coa_at i (1231 / 1000, 103851 / 1000)))\<rparr>"

definition demo_gate_deps :: gate_deps where
  "demo_gate_deps =
     \<lparr>interlocks = \<lparr>haversine_m = (\<lambda>a b. 0), veto_text = (\<lambda>p c. ''veto''), float_repr = (\<lambda>q. ''q'')\<rparr>,
      sha256_hex = id, num_repr = unary_num, uuid4 = (\<lambda>n. replicate n CHR ''u''), utc_now = (\<lambda>n. replicate n CHR ''t''),
      isoformat = id, earth = flat_earth, outside = no_glint,
      registry = [(''S'', no_go_scenario)],
      interpreter = (\<lambda>gr f q b i. Some \<lparr>candidate_coa = default_coa i, hypotheses = [], interpreter_confidence = 0,
        interpreted_picture = [], adversarial_hypothesis = [], interpreter_source = ''heuristic'',
        interpreter_model = JNull, interpreter_error = JNull\<rparr>),
      load_pois = None, offshore_safe_intercept = (\<lambda>p m. p)\<rparr>"

definition demo_gate :: gate_state where
  "demo_gate = new_gate demo_gate_deps maritime_policy maritime_interlock"

definition propose_raw :: "course_of_action \<Rightarrow> gate_request" where
  "propose_raw c = Propose \<lparr>req_scenario = None, req_coa = Some c, req_unit = ''U'', req_timeout = None,
     req_interpret = False, req_heuristic = False\<rparr>"

definition approve_raw :: "string \<Rightarrow> approve_request" where
  "approve_raw k = \<lparr>ap_coa = k, ap_decision = '' Yes '', ap_operator = ''op''\<rparr>"

definition demo_run :: "gate_request list" where
  "demo_run = [propose_raw (coa_at ''A'' (1, 2)), Approve (approve_raw ''A'')]"

lemmas demo_gate_defs = demo_gate_def new_gate_def start_gate_def empty_store_def with_pois_def Let_def
  maritime_policy_def maritime_interlock_def coa_at_def default_coa_def demo_gate_deps_def
  propose_raw_def approve_raw_def gate_proposals_def submit_def queue_proposal_def apply_defaults_def
  resolve_tier_def or_default_def

lemma decision_words [simp]:
  "read_decision '' Yes '' = Some (APPROVED, ''operator_approve'')"
  "read_decision ''y'' = Some (APPROVED, ''operator_approve'')"
  by code_simp+

lemma demo_verify:
  "interlock_verify (interlocks demo_gate_deps) (il demo_gate) (coa_at i (1, 2)) = None"
  "interlock_verify (interlocks demo_gate_deps) (il demo_gate) (coa_at i (3, 4)) = None"
  "interlock_verify (interlocks demo_gate_deps) (il demo_gate) (coa_at i (1231 / 1000, 103851 / 1000)) =
     Some ''Geofence violation: demo_no_go''"
  by (simp_all add: interlock_verify_def speeding_def geofence_def verify_cni_debris_def dangerous_def
      TERMINAL_INTENTS_def demo_gate_defs rectangle_ray_cast)

lemma demo_defaults: "apply_defaults (policy demo_gate) (coa_at i p) = coa_at i p"
  by (simp add: demo_gate_defs)

lemma demo_tier [simp]: "tier (coa_at i p) = TIER_1_HITL" "coa_id (coa_at i p) = i"
  by (simp_all add: coa_at_def default_coa_def)

lemma demo_propose:
  "gate_step demo_gate_deps (propose_raw (coa_at i p)) demo_gate = submit demo_gate_deps (coa_at i p) ''U'' None demo_gate"
  by (simp add: propose_raw_def gate_proposals_def Let_def demo_defaults)

lemma demo_queued:
  assumes "interlock_verify (interlocks demo_gate_deps) (il g) (coa_at i p) = None"
  shows "map_of (proposals (fst (submit demo_gate_deps (coa_at i p) u None g))) i =
      Some \<lparr>coa = coa_at i p, for_unit = u, navy_unit_id = None, queued_at = Some (replicate (drawn g) CHR ''t'')\<rparr>"
    "il (fst (submit demo_gate_deps (coa_at i p) u None g)) = il g"
  using assms by (simp_all add: submit_def queue_proposal_def Let_def update_conv') (simp_all add: demo_gate_deps_def)

lemma demo_run_facts:
  "\<exists>t. map_of (inbox (fst (gate_run demo_gate_deps demo_run demo_gate))) ''A'' = Some t \<and>
     tasked_coa t = coa_at ''A'' (1, 2) \<and> unit_id t = ''U''"
proof -
  let ?g = "fst (submit demo_gate_deps (coa_at ''A'' (1, 2)) ''U'' None demo_gate)"
  have "fst (gate_run demo_gate_deps demo_run demo_gate) = fst (gate_approve demo_gate_deps (approve_raw ''A'') ?g)"
    by (simp add: demo_run_def demo_propose split: prod.splits)
  then show ?thesis
    using approve_issues [OF demo_queued(1) [OF demo_verify(1)], of "approve_raw ''A''"]
    by (simp add: approve_raw_def needs_navy_def)
qed


abbreviation demo_end :: gate_state where
  "demo_end \<equiv> fst (gate_run demo_gate_deps demo_run demo_gate)"

abbreviation demo_pending :: gate_state where
  "demo_pending \<equiv> fst (submit demo_gate_deps (coa_at ''A'' (1, 2)) ''U'' None demo_gate)"

lemma demo_reached:
  "gate_run demo_gate_deps demo_run (new_gate demo_gate_deps maritime_policy maritime_interlock) =
     (demo_end, snd (gate_run demo_gate_deps demo_run demo_gate))"
  by (simp add: demo_gate_def)

lemmas demo_pending_A = demo_queued(1) [OF demo_verify(1)]

lemma demo_no_pages: "\<forall>sid u. Verify_Propose sid u \<notin> set demo_run"
  by (simp add: demo_run_def propose_raw_def)

theorem inbox_tokens_are_sealed_approvals_witness:
  "\<exists>t. map_of (inbox demo_end) ''A'' = Some t \<and> verdict (token t) = ''APPROVED''"
  using demo_run_facts inbox_tokens_are_sealed_approvals [OF demo_reached, of "''A''"] by blast

theorem nothing_issued_unlogged_witness:
  "\<exists>e \<in> set (snd (gate_run demo_gate_deps demo_run demo_gate)).
     json_get (ev_data e) ''coa_id'' = Some (JStr ''A'')"
  using demo_run_facts nothing_issued_unlogged [OF demo_reached, of "''A''"] by blast


theorem restart_restores_the_live_view_witness:
  "live_view (fst (gate_step demo_gate_deps Restart demo_end)) = live_view demo_end"
  by (rule restart_restores_the_live_view [OF demo_reached])

lemma demo_load:
  "load_scenario demo_gate_deps ''S'' DEFAULT_TIMEOUT demo_gate =
     (fst (load_scenario demo_gate_deps ''S'' DEFAULT_TIMEOUT demo_gate), Inr (coa_at ''u'' (1231 / 1000, 103851 / 1000)))"
  "il (fst (load_scenario demo_gate_deps ''S'' DEFAULT_TIMEOUT demo_gate)) = il demo_gate"
proof -
  have "get_scenario (registry demo_gate_deps) ''S'' = Some no_go_scenario"
    by (simp add: get_scenario_def demo_gate_deps_def strip_def trim_by_def py_space_def)
  then show "load_scenario demo_gate_deps ''S'' DEFAULT_TIMEOUT demo_gate =
      (fst (load_scenario demo_gate_deps ''S'' DEFAULT_TIMEOUT demo_gate), Inr (coa_at ''u'' (1231 / 1000, 103851 / 1000)))"
    "il (fst (load_scenario demo_gate_deps ''S'' DEFAULT_TIMEOUT demo_gate)) = il demo_gate"
    by (simp_all add: load_scenario_def ingest_scenario_def Let_def no_go_scenario_def persist_picture_def write_store_def
        demo_gate_defs)
qed

theorem operator_page_bypasses_the_interlock_witness:
  "\<exists>t. map_of (inbox (fst (gate_run demo_gate_deps [Verify_Propose ''S'' ''W'', Verify_Approve ''u'' ''y''] demo_gate))) ''u''
       = Some t \<and> tasked_coa t = coa_at ''u'' (1231 / 1000, 103851 / 1000)"
  using operator_page_bypasses_the_interlock [OF demo_load(1), of "''Geofence violation: demo_no_go''" "''W''", OF _ surjective_pairing]
  by (simp add: demo_load(2) demo_verify(3))

lemma demo_dup: "dup_key d (coa_at i p) = dup_key d (coa_at j p)"
  by (simp add: dup_key_def coa_at_def default_coa_def)

theorem approved_target_stays_blocked_witness:
  "interlock_verify (interlocks demo_gate_deps) (il (fst (gate_approve demo_gate_deps (approve_raw ''A'') demo_pending)))
     (coa_at ''B'' (1, 2)) \<noteq> None"
  by (rule approved_target_stays_blocked [of demo_pending "approve_raw ''A''" _ _ _ "[]"])
    (simp add: approve_raw_def demo_pending_A, simp_all add: approve_raw_def demo_dup [of _ "''B''" _ "''A''"])

definition two_pending :: gate_state where
  "two_pending = fst (submit demo_gate_deps (coa_at ''B'' (1, 2)) ''U'' None demo_pending)"

theorem approval_does_not_recheck_witness:
  "\<exists>t. map_of (inbox (fst (gate_approve demo_gate_deps (approve_raw ''B'')
       (fst (gate_approve demo_gate_deps (approve_raw ''A'') two_pending))))) ''B'' = Some t \<and> tasked_coa t = coa_at ''B'' (1, 2)"
proof -
  let ?g = "fst (gate_approve demo_gate_deps (approve_raw ''A'') two_pending)"
  have ok: "interlock_verify (interlocks demo_gate_deps) (il demo_pending) (coa_at ''B'' (1, 2)) = None"
    by (simp add: demo_queued(2) [OF demo_verify(1)] demo_verify)
  have B: "map_of (proposals ?g) (ap_coa (approve_raw ''B'')) = Some \<lparr>coa = coa_at ''B'' (1, 2), for_unit = ''U'',
      navy_unit_id = None, queued_at = Some (replicate (drawn demo_pending) CHR ''t'')\<rparr>"
    using demo_queued(1) [OF ok] by (simp add: approve_keeps_others two_pending_def approve_raw_def)
  have "map_of (proposals two_pending) ''A'' = map_of (proposals demo_pending) ''A''"
    using ok by (simp add: two_pending_def submit_def queue_proposal_def Let_def update_conv')
  then have "il ?g = register_active (interlocks demo_gate_deps) (coa_at ''A'' (1, 2)) (il demo_gate)"
    using approve_activates [of two_pending "approve_raw ''A''"] demo_pending_A demo_queued(2) [OF ok]
      demo_queued(2) [OF demo_verify(1)]
    by (simp add: approve_raw_def two_pending_def)
  then have "interlock_verify (interlocks demo_gate_deps) (il ?g) (coa_at ''B'' (1, 2)) \<noteq> None"
    by (simp add: interlock_verify_None register_active_def demo_dup [of _ "''B''" _ "''A''"])
  then show ?thesis
    using approval_does_not_recheck [OF B, of "''operator_approve''"] by (auto simp: approve_raw_def needs_navy_def)
qed

theorem restart_readmits_every_issued_tasking_witness:
  "\<exists>t. map_of (inbox (fst (gate_step demo_gate_deps Restart demo_end))) ''A'' = Some t \<and>
     interlock_verify (interlocks demo_gate_deps) (il (fst (gate_step demo_gate_deps Restart demo_end))) (tasked_coa t) = None"
proof -
  let ?g = "fst (gate_step demo_gate_deps Restart demo_end)"
  have run: "gate_run demo_gate_deps (demo_run @ [Restart]) (new_gate demo_gate_deps maritime_policy maritime_interlock) =
      (?g, snd (gate_run demo_gate_deps demo_run demo_gate))"
    by (simp add: gate_run_append demo_reached case_prod_beta)
  obtain st where "store demo_end = Some st" "st_inbox st = inbox demo_end"
    using mirrored_run [OF demo_reached] by (auto simp: mirrored_def)
  then have "inbox ?g = inbox demo_end" by (simp add: start_gate_def Let_def)
  then show ?thesis
    using demo_run_facts restart_readmits_every_issued_tasking [OF run demo_no_pages, of "''A''"] by auto
qed

theorem pending_proposal_can_be_replaced_witness:
  "\<exists>t. map_of (inbox (fst (gate_approve demo_gate_deps (approve_raw ''A'')
       (fst (submit demo_gate_deps (coa_at ''A'' (3, 4)) ''U'' None demo_pending))))) ''A'' = Some t \<and> tasked_coa t = coa_at ''A'' (3, 4)"
proof -
  have "target_coordinates (coa_at ''A'' (1, 2)) \<noteq> target_coordinates (coa_at ''A'' (3, 4))" by (simp add: coa_at_def)
  then have "coa_at ''A'' (1, 2) \<noteq> coa_at ''A'' (3, 4)" by metis
  then show ?thesis
    using pending_proposal_can_be_replaced [of demo_pending "approve_raw ''A''" _ "coa_at ''A'' (3, 4)" demo_gate_deps
        "''operator_approve''" "''U''"] demo_pending_A [of "''A''" "''U''"]
    by (simp add: approve_raw_def demo_queued(2) [OF demo_verify(1)] demo_verify)
qed

theorem proposal_is_decided_once_witness:
  "let g = fst (gate_approve demo_gate_deps (approve_raw ''A'') demo_pending)
   in gate_approve demo_gate_deps (approve_raw ''A'') g = (g, [], \<lambda>recs. http_error 404)"
proof -
  let ?r = "gate_approve demo_gate_deps (approve_raw ''A'') demo_pending"
  have "fst (snd ?r) \<noteq> []"
    using approve_logs [of demo_pending "approve_raw ''A''"] demo_pending_A [of "''A''" "''U''"]
    by (simp add: approve_raw_def)
  then show ?thesis
    using proposal_is_decided_once [of demo_gate_deps "approve_raw ''A''" demo_pending "fst ?r" "fst (snd ?r)" "snd (snd ?r)"
        "approve_raw ''A''"] by (simp add: Let_def)
qed

definition ack_raw :: "string \<Rightarrow> ack_request" where
  "ack_raw u = \<lparr>ak_coa = ''A'', ak_unit = u, ak_signature = None, ak_status = ''ACKED'', ak_message = '''', ak_telemetry = []\<rparr>"

theorem only_the_assigned_unit_acks_witness:
  "\<forall>u. ''A'' \<notin> (\<lambda>t. coa_id (tasked_coa t)) ` set (inbox_items u (fst (recipient_ack demo_gate_deps (ack_raw ''U'') demo_end)))"
proof -
  let ?r = "recipient_ack demo_gate_deps (ack_raw ''U'') demo_end"
  have "fst (snd ?r) \<noteq> []"
    using demo_run_facts by (auto simp: recipient_ack_def ack_raw_def Let_def)
  then show ?thesis
    using only_the_assigned_unit_acks [of demo_gate_deps "ack_raw ''U''" demo_end "fst ?r" "fst (snd ?r)" "snd (snd ?r)"]
    by (simp add: ack_raw_def)
qed

end
