(* ===== verification/Command_System.thy ===== *)
theory Command_System
  imports Edge_System Gate_Properties
begin

text \<open>
  The command gate inside the C2 service inside its container behind the edge: the gate's handlers as
  the \<open>rest_handler\<close> of \<open>Audit_Server\<close>, routed by method and path, and what of the gate's invariants
  survives every interleaving of requests, snapshots, stops and evictions.
\<close>

section \<open>The gate as the service's handler\<close>

text \<open>
  FastAPI parses query, form and body; \<open>None\<close> is its 422.
\<close>

record http_gate =
  gate_of :: gate_deps
  parse_proposal :: "body \<Rightarrow> proposal_request option"
  parse_guardrail :: "body \<Rightarrow> guardrail_request option"
  parse_approve :: "body \<Rightarrow> approve_request option"
  parse_ack :: "body \<Rightarrow> ack_request option"
  parse_candidate :: "body \<Rightarrow> candidate_request option"
  parse_open_feed :: "body \<Rightarrow> open_feed_request option"
  parse_interpret :: "body \<Rightarrow> interpret_request option"
  query_param :: "string \<Rightarrow> string \<Rightarrow> string option"
  form_field :: "body \<Rightarrow> string \<Rightarrow> string option"

definition DEFAULT_UNIT :: string where
  "DEFAULT_UNIT = ''CUE-NODE-01''"

definition DEFAULT_NAVY_UNIT :: string where
  "DEFAULT_NAVY_UNIT = ''PCG-PT-44''"

definition field_or :: "http_gate \<Rightarrow> body \<Rightarrow> string \<Rightarrow> string \<Rightarrow> string" where
  "field_or h b name dflt = (case form_field h b name of Some v \<Rightarrow> v | None \<Rightarrow> dflt)"

text \<open>\<open>None\<close>: not a route of the gate. \<open>Some None\<close>: its parameters do not parse.\<close>

definition gate_route :: "http_gate \<Rightarrow> request \<Rightarrow> gate_request option option" where
  "gate_route h req =
     (let route = (req_method req, url_pathname (req_url req)); b = req_body req in
      if route = (''POST'', ''/api/gate/proposals'') then Some (map_option Propose (parse_proposal h b))
      else if route = (''POST'', ''/api/gate/demo-evaluate-with-guardrail'')
      then Some (map_option Guardrail (parse_guardrail h b))
      else if route = (''POST'', ''/api/gate/approve'') then Some (map_option Approve (parse_approve h b))
      else if route = (''GET'', ''/api/recipient/inbox'')
      then Some (map_option Inbox (query_param h (req_url req) ''unit_id''))
      else if route = (''POST'', ''/api/recipient/ack'') then Some (map_option Acknowledge (parse_ack h b))
      else if route = (''POST'', ''/verify/command/propose'')
      then Some (Some (Verify_Propose (field_or h b ''scenario_id'' DEFAULT_SCENARIO) (field_or h b ''unit_id'' DEFAULT_UNIT)))
      else if route = (''POST'', ''/verify/command/approve'')
      then Some (case (form_field h b ''coa_id'', form_field h b ''decision'') of
                   (Some cid, Some s) \<Rightarrow> Some (Verify_Approve cid s) | _ \<Rightarrow> None)
      else if route = (''POST'', ''/verify/command/guardrail'')
      then Some (Some (Verify_Guardrail (field_or h b ''scenario_id'' ''S1_trojan'') (field_or h b ''unit_id'' DEFAULT_UNIT)
             (field_or h b ''navy_unit_id'' DEFAULT_NAVY_UNIT)))
      else if route = (''POST'', ''/verify/recipient/ack'')
      then Some (case form_field h b ''coa_id'' of
                   Some cid \<Rightarrow> Some (Verify_Ack cid (field_or h b ''unit_id'' DEFAULT_UNIT)) | None \<Rightarrow> None)
      else if route = (''POST'', ''/api/ingress/candidate-event'') then Some (map_option Candidate (parse_candidate h b))
      else if route = (''POST'', ''/api/ingress/open-feed'') then Some (map_option Open_Feed (parse_open_feed h b))
      else if route = (''POST'', ''/api/interpret'') then Some (map_option Interpret (parse_interpret h b))
      else if route = (''GET'', ''/api/ontology/state'') then Some (Some Ontology)
      else if route = (''POST'', ''/verify/command/ingress'')
      then Some (Some (Verify_Ingress (field_or h b ''mode'' ''sentinel'')))
      else if fst route = ''GET'' \<and>
        snd route \<in> {''/verify'', ''/verify/command'', ''/verify/recipient'', ''/verify/recipient/poll''}
      then Some (Some Page)
      else None)"

definition root_to_verify :: response where
  "root_to_verify = \<lparr>status = 302, statusText = [], resp_headers = [(''location'', ''/verify'')], resp_body = NoBody\<rparr>"

definition other_route :: "gate_state \<Rightarrow> request \<Rightarrow> outcome" where
  "other_route g req =
     (if (req_method req, url_pathname (req_url req)) = (''GET'', ''/'') then (g, [], \<lambda>recs. root_to_verify)
      else refuse 404 g)"

definition gate_handler :: "http_gate \<Rightarrow> gate_state \<Rightarrow> request \<Rightarrow> outcome" where
  "gate_handler h g req =
     (case gate_route h req of
        Some (Some r) \<Rightarrow> gate_step (gate_of h) r g
      | Some None \<Rightarrow> refuse 422 g
      | None \<Rightarrow> other_route g req)"

definition gate_service :: "http_gate \<Rightarrow> gate_state c2_deps \<Rightarrow> gate_state c2_deps" where
  "gate_service h d = d\<lparr>rest_handler := gate_handler h, rest_cleared := gate_reset\<rparr>"

section \<open>Invariants of the service behind the edge\<close>

text \<open>\<open>J\<close> holds of a service that just booted and is kept by every request in \<open>A\<close>, among them those the
  Durable Object itself sends.\<close>

locale service_invariant =
  fixes d :: "'r c2_deps" and r0 :: 'r and J :: "'r c2_runtime \<Rightarrow> bool" and A :: "request \<Rightarrow> bool"
  assumes fresh: "J (new_C2Runtime d None r0)"
    and serves: "J rt \<Longrightarrow> A req \<Longrightarrow> J (fst (c2_serve d rt req))"
    and own_trail: "A trail_request"
    and own_snapshot: "A (snapshot_request v)"
begin

definition holds :: "'r c2_process c2_container \<Rightarrow> bool" where
  "holds s \<longleftrightarrow> (\<forall>rt. process s = Some rt \<longrightarrow> J rt)"

lemma boots: "holds s \<Longrightarrow> boot d r0 (process s) = (rt, hs) \<Longrightarrow> J rt"
  by (auto simp: boot_def holds_def fresh split: option.splits)

lemma served:
  assumes "holds s" "A req" "base_call (\<lambda>p. container_serve d r0 p req) s = (s', r)"
  shows "holds s'"
proof -
  obtain rt hs where b: "boot d r0 (process s) = (rt, hs)" by (cases "boot d r0 (process s)")
  show ?thesis
    using assms(3) serves [OF boots [OF assms(1) b] assms(2)] b
    by (auto simp: base_call_def container_serve_def holds_def split: prod.splits)
qed

lemma restored: "holds s \<Longrightarrow> restoreAudit (edge_api d r0 acc) s = (s', r) \<Longrightarrow> holds s'"
  by (auto simp: restoreAudit_def split: option.splits if_splits prod.splits sum.splits
      dest: served [OF _ own_snapshot])

lemma hydrated:
  assumes "holds s" "hydrate (edge_api d r0 acc) s = (s', r)"
  shows "holds s'"
proof (cases "containerHydrated s")
  case True
  then show ?thesis using assms by (simp add: hydrate_def)
next
  case False
  obtain s1 r1 where start: "base_call (startAndWaitForPorts (edge_api d r0 acc)) s = (s1, r1)" by fastforce
  obtain s2 r2 where restore: "restoreAudit (edge_api d r0 acc) s1 = (s2, r2)" by fastforce
  obtain rt hs where b: "boot d r0 (process s) = (rt, hs)" by (cases "boot d r0 (process s)")
  have "holds s1" using start boots [OF assms(1) b] b by (auto simp: base_call_def holds_def)
  moreover from this have "holds s2" using restored restore by blast
  ultimately show ?thesis
    using assms(2) False start restore unfolding hydrate_def by (auto simp: holds_def split: sum.splits)
qed

lemma forwarded:
  assumes "holds s" "A req" "forward (edge_api d r0 acc) s req = (s', r)"
  shows "holds s'"
proof -
  obtain s1 r1 where call: "base_call (\<lambda>p. container_serve d r0 p req) s = (s1, r1)" by fastforce
  have "holds s1" by (rule served [OF assms(1,2) call])
  then show ?thesis using assms(3) call by (auto simp: forward_def holds_def split: sum.splits if_splits)
qed

lemma tasked: "holds s \<Longrightarrow> holds (run_task (edge_api d r0 acc) i s)"
proof -
  assume s: "holds s"
  obtain s' t' where step: "persist_step (edge_api d r0 acc) s (waiting s ! i) = (s', t')" by fastforce
  have "holds s'"
  proof (cases "waiting s ! i")
    case ReadTrail
    obtain s1 r1 where call: "base_call (\<lambda>p. container_serve d r0 p trail_request) s = (s1, r1)" by fastforce
    then have "s' = s1" using step ReadTrail by (auto split: sum.splits if_splits)
    then show ?thesis using served [OF s own_trail call] by simp
  next
    case (PutRecords v)
    then show ?thesis using step s by (auto simp: storage_put_def holds_def split: if_splits)
  qed
  then show ?thesis using step by (auto simp: run_task_def holds_def split: option.splits)
qed

lemma step_holds:
  assumes "edge_step (edge_api d r0 acc) None e ev e'" "holds (obj e) \<and> (\<forall>req \<in> set (flights e). A req)"
    "\<And>req. ev = Enter req \<Longrightarrow> A req"
  shows "holds (obj e') \<and> (\<forall>req \<in> set (flights e'). A req)"
  using assms(1)
proof cases
  case (enter s u req)
  then show ?thesis using assms(2,3) hydrated [OF _ enter(3)] by auto
next
  case (enter_fail s err req)
  then show ?thesis using assms(2) hydrated [OF _ enter_fail(3)] by auto
next
  case (serve i s r)
  then have "A (flights e ! i)" using assms(2) by simp
  then show ?thesis using serve assms(2) forwarded [OF _ _ serve(4)] without_subset [of i "flights e"] by auto
next
  case (task i)
  then show ?thesis using assms(2) tasked by simp
qed (use assms(2) in \<open>auto simp: holds_def\<close>)

lemma run_holds:
  assumes "edge_run (edge_api d r0 acc) None e evs e'" "holds (obj e) \<and> (\<forall>req \<in> set (flights e). A req)"
    "\<And>req. Enter req \<in> set evs \<Longrightarrow> A req"
  shows "holds (obj e')"
  using assms
proof (induction rule: edge_run.induct)
  case (more e ev e' evs e'')
  have "holds (obj e') \<and> (\<forall>req \<in> set (flights e'). A req)"
    using more.prems by (intro step_holds [OF more.hyps(1)]) auto
  then show ?case using more by auto
qed simp

lemma every_process:
  assumes "edge_run (edge_api d r0 acc) None (initial_edge env) evs e" "\<And>req. Enter req \<in> set evs \<Longrightarrow> A req"
    "process (obj e) = Some rt"
  shows "J rt"
  using run_holds [OF assms(1) _ assms(2)] assms(3)
  by (simp add: holds_def initial_edge_def new_C2Container_def)

end

section \<open>No unsafe tasking behind the edge\<close>

lemma all_safe_log: "all_safe d g L \<longleftrightarrow> all_safe d g []"
  by (simp add: all_safe_def)

lemma other_route_safe: "all_safe d g [] \<Longrightarrow> all_safe d (fst (other_route g req)) []"
  by (simp add: other_route_def refuse_def)

lemma handler_safe:
  assumes "all_safe (gate_of h) g []" "\<forall>sid u. gate_route h req \<noteq> Some (Some (Verify_Propose sid u))"
  shows "all_safe (gate_of h) (fst (gate_handler h g req)) []"
proof (cases "gate_route h req")
  case None
  then show ?thesis using assms(1) other_route_safe by (simp add: gate_handler_def)
next
  case (Some r)
  show ?thesis
  proof (cases r)
    case None
    then show ?thesis using assms(1) Some by (simp add: gate_handler_def refuse_def)
  next
    case (Some r')
    obtain g' es a where s: "gate_step (gate_of h) r' g = (g', es, a)" by (cases "gate_step (gate_of h) r' g")
    have "all_safe (gate_of h) g' ([] @ es)"
      by (rule safe.any_step_inv [OF assms(1) s]) (use assms(2) \<open>gate_route h req = Some r\<close> Some in auto)
    then show ?thesis
      using s \<open>gate_route h req = Some r\<close> Some by (simp add: gate_handler_def all_safe_def)
  qed
qed

text \<open>Requests that do not propose from the operator page, as the route table sees them.\<close>

definition not_page_proposal :: "request \<Rightarrow> bool" where
  "not_page_proposal req \<longleftrightarrow> (req_method req, url_pathname (req_url req)) \<noteq> (''POST'', ''/verify/command/propose'')"

lemma route_page_proposal: "not_page_proposal req \<Longrightarrow> gate_route h req \<noteq> Some (Some (Verify_Propose sid u))"
  by (auto simp: not_page_proposal_def gate_route_def Let_def split: if_splits option.splits)

lemma rest_frames [simp]:
  "rest (fst (admin_audit_snapshot d rt b)) = rest rt" "rest (fst (inject_audit_tamper d rt)) = rest rt"
  "rest (fst (restore_audit_tamper d rt)) = rest rt" "rest (runtime_reset d rt) = rest_cleared d (rest rt)"
  "rest (fst (demo_route d r rt)) = (if demo_tamper_enabled d then rest (fst r) else rest rt)"
  "rest (fst (rest_route d rt req)) = fst (rest_handler d (rest rt) req)"
  by (auto simp: admin_audit_snapshot_def inject_audit_tamper_def restore_audit_tamper_def runtime_reset_def
      demo_route_def rest_route_def Let_def split: option.splits sum.splits prod.splits)

lemma serve_rest:
  "rest (fst (c2_serve d rt req)) = rest rt \<or> rest (fst (c2_serve d rt req)) = rest_cleared d (rest rt) \<or>
   rest (fst (c2_serve d rt req)) = fst (rest_handler d (rest rt) req)"
  by (simp add: c2_serve_def Let_def)

lemma serve_safe:
  assumes "all_safe (gate_of h) (rest rt) []" "not_page_proposal req"
  shows "all_safe (gate_of h) (rest (fst (c2_serve (gate_service h d) rt req))) []"
proof -
  have "all_safe (gate_of h) (gate_reset (rest rt)) []" using assms(1) by (rule safe.resetting)
  moreover have "all_safe (gate_of h) (fst (gate_handler h (rest rt) req)) []"
    using handler_safe [OF assms(1)] route_page_proposal [OF assms(2)] by simp
  ultimately show ?thesis
    using assms(1) serve_rest [of "gate_service h d" rt req] by (auto simp: gate_service_def)
qed

interpretation behind_edge: service_invariant "gate_service h d" "new_gate (gate_of h) pol i"
    "\<lambda>rt. all_safe (gate_of h) (rest rt) []" not_page_proposal
proof (unfold_locales, goal_cases)
  case 1
  show ?case using safe_run [of "gate_of h" "[]" pol i] by (simp add: new_C2Runtime_def)
next
  case (2 rt req)
  then show ?case by (rule serve_safe)
qed (simp_all add: not_page_proposal_def request_paths trail_request_def snapshot_request_def)


section \<open>A request through the edge\<close>

definition tier0_coa :: course_of_action where
  "tier0_coa = (coa_at ''A'' (1, 2))\<lparr>tier := TIER_0_AUTONOMOUS\<rparr>"

definition demo_http :: http_gate where
  "demo_http = \<lparr>gate_of = demo_gate_deps,
     parse_proposal = (\<lambda>b. Some \<lparr>req_scenario = None, req_coa = Some tier0_coa, req_unit = ''U'', req_timeout = None,
       req_interpret = False, req_heuristic = False\<rparr>),
     parse_guardrail = (\<lambda>b. None), parse_approve = (\<lambda>b. None), parse_ack = (\<lambda>b. None),
     parse_candidate = (\<lambda>b. None), parse_open_feed = (\<lambda>b. None), parse_interpret = (\<lambda>b. None), query_param = (\<lambda>u n. None), form_field = (\<lambda>b n. None)\<rparr>"

definition demo_base :: "gate_state c2_deps" where
  "demo_base =
     \<lparr>digest = id, number_repr = unary_num, repr_other = (\<lambda>j. ''?''), demo_tamper_enabled = False, audit_path = ''gate.jsonl'',
      rest_handler = (\<lambda>g req. refuse 404 g), rest_cleared = id\<rparr>"

definition demo_service :: "gate_state c2_deps" where
  "demo_service = gate_service demo_http demo_base"

lemma demo_http_gate [simp]: "gate_of demo_http = demo_gate_deps"
  by (simp add: demo_http_def)

definition propose_request :: request where
  "propose_request = \<lparr>req_method = ''POST'', req_url = ''https://c2/api/gate/proposals'', req_headers = [], req_body = NoBody\<rparr>"

abbreviation gate_api :: "gate_state c2_process container_api" where
  "gate_api \<equiv> edge_api demo_service demo_gate (\<lambda>v. True)"

lemma propose_path: "url_pathname (req_url propose_request) = ''/api/gate/proposals''"
  by (simp add: propose_request_def url_pathname_def)

lemma propose_handled:
  "gate_handler demo_http demo_gate propose_request = auto_approve demo_gate_deps tier0_coa ''U'' demo_gate"
proof -
  have "interlock_verify (interlocks demo_gate_deps) (il demo_gate) tier0_coa = None"
    by (simp add: interlock_verify_def speeding_def geofence_def verify_cni_debris_def dangerous_def tier0_coa_def
      TERMINAL_INTENTS_def demo_gate_defs rectangle_ray_cast)
  moreover have "apply_defaults (policy demo_gate) tier0_coa = tier0_coa" by (simp add: tier0_coa_def demo_gate_defs)
  ultimately show ?thesis
    by (simp add: gate_handler_def gate_route_def Let_def propose_path)
      (simp add: propose_request_def demo_http_def gate_proposals_def submit_def Let_def, simp add: tier0_coa_def)
qed

definition booted :: "gate_state c2_process c2_container" where
  "booted = fst (hydrate gate_api (obj (initial_edge demo_env)))"

lemma booted_facts:
  "hydrate gate_api (obj (initial_edge demo_env)) = (booted, Inr ())"
  "process booted = Some (new_C2Runtime demo_service None demo_gate)"
  by (simp_all add: booted_def hydrate_def initial_edge_def new_C2Container_def base_call_def boot_def restoreAudit_def
      stored_def onStart_def)

lemma forwarded_facts:
  "\<exists>s r rt. forward gate_api booted propose_request = (s, r) \<and> process s = Some rt \<and>
     rest rt = fst (auto_approve demo_gate_deps tier0_coa ''U'' demo_gate)"
proof -
  have "rest (new_C2Runtime demo_service None demo_gate) = demo_gate" by (simp add: new_C2Runtime_def)
  then have "rest (fst (c2_serve demo_service (new_C2Runtime demo_service None demo_gate) propose_request)) =
      fst (auto_approve demo_gate_deps tier0_coa ''U'' demo_gate)"
    using propose_handled
    by (simp add: c2_serve_def Let_def propose_path) (simp add: demo_service_def gate_service_def)
  then show ?thesis
    by (auto simp: forward_def base_call_def container_serve_def boot_def booted_facts Let_def split: prod.splits)
qed


end
