(* ===== verification/Edge_Liveness.thy ===== *)
theory Edge_Liveness
  imports Edge_System
begin

text \<open>
  The snapshot tasks of the edge left to themselves: they finish after a bounded number of steps,
  whatever the container answers, and when no older snapshot is on its way they leave the current trail
  in storage, in whatever order they are run.
\<close>

section \<open>Tasks finish\<close>

fun task_work :: "persist_task \<Rightarrow> nat" where
  "task_work ReadTrail = 2"
| "task_work (PutRecords v) = 1"

definition queued_work :: "'p c2_container \<Rightarrow> nat" where
  "queued_work s = sum_list (map task_work (waiting s))"

fun is_task :: "edge_event \<Rightarrow> bool" where
  "is_task (Task i) = True"
| "is_task _ = False"

lemma work_without:
  "i < length ts \<Longrightarrow> sum_list (map task_work ts) = task_work (ts ! i) + sum_list (map task_work (without i ts))"
  by (subst id_take_nth_drop [of i ts]) (simp_all add: without_def)

lemma work_update:
  "i < length ts \<Longrightarrow>
     sum_list (map task_work (ts[i := t])) + task_work (ts ! i) = task_work t + sum_list (map task_work ts)"
  by (induction ts arbitrary: i) (auto split: nat.splits)

lemma persist_step_waiting: "persist_step api s t = (s', t') \<Longrightarrow> waiting s' = waiting s"
  by (cases t) (auto simp: storage_put_def dest!: base_call_keeps split: prod.splits sum.splits if_splits)

lemma persist_step_work: "persist_step api s t = (s', Some t') \<Longrightarrow> task_work t' < task_work t"
  by (cases t) (auto split: prod.splits sum.splits if_splits)

lemma run_task_work:
  assumes "i < length (waiting s)"
  shows "queued_work (run_task api i s) < queued_work s"
proof -
  obtain s' t' where step: "persist_step api s (waiting s ! i) = (s', t')" by fastforce
  have w: "waiting s' = waiting s" by (rule persist_step_waiting [OF step])
  show ?thesis
  proof (cases t')
    case None
    have "0 < task_work (waiting s ! i)" by (cases "waiting s ! i") simp_all
    then show ?thesis
      using work_without [OF assms] None step w by (simp add: run_task_def queued_work_def without_def)
  next
    case (Some t)
    then show ?thesis
      using work_update [OF assms, of t] persist_step_work [of api s "waiting s ! i" s' t] step w
      by (simp add: run_task_def queued_work_def)
  qed
qed

lemma task_step:
  assumes "edge_step api dead e ev e'" "is_task ev"
  obtains i where "i < length (waiting (obj e))" "e' = e\<lparr>obj := run_task api i (obj e)\<rparr>" "ev = Task i"
  using assms by (cases rule: edge_step.cases) auto


section \<open>And leave the trail in storage\<close>

text \<open>Every queued task will store the trail \<open>v\<close>, and one of them has or is still to come.\<close>

definition storing :: "json \<Rightarrow> 'p c2_container \<Rightarrow> bool" where
  "storing v s \<longleftrightarrow> set (waiting s) \<subseteq> {ReadTrail, PutRecords v} \<and> (waiting s \<noteq> [] \<or> stored s = Some v)"

context audit_backend
begin

lemma task_storing:
  assumes "running (process s)" "v = JArr (trail (process s))" "storageAccepts api v" "storing v s"
    "i < length (waiting s)"
  shows "storing v (run_task api i s) \<and> process (run_task api i s) = process s"
proof (cases "waiting s ! i")
  case ReadTrail
  then have "run_task api i s = s\<lparr>waiting := (waiting s)[i := PutRecords v]\<rparr>"
    using read_step [OF assms(1)] assms(2) by (simp add: run_task_def)
  moreover have "set ((waiting s)[i := PutRecords v]) \<subseteq> insert (PutRecords v) (set (waiting s))"
    by (rule set_update_subset_insert)
  ultimately show ?thesis using assms(4,5) by (auto simp: storing_def)
next
  case (PutRecords w)
  then have "w = v" using assms(4) nth_mem [OF assms(5)] by (auto simp: storing_def)
  then have "run_task api i s =
      s\<lparr>storage := (storage s)(AUDIT_STORAGE_KEY \<mapsto> v), waiting := without i (waiting s)\<rparr>"
    using PutRecords assms(3) by (simp add: run_task_def storage_put_def without_def)
  moreover have "stored (s\<lparr>storage := (storage s)(AUDIT_STORAGE_KEY \<mapsto> v), waiting := without i (waiting s)\<rparr>) = Some v"
    by (simp add: stored_def)
  ultimately show ?thesis using assms(4) without_subset [of i "waiting s"] by (auto simp: storing_def)
qed

lemma tasks_storing:
  assumes "edge_run api dead e evs e'" "list_all is_task evs" "running (process (obj e))"
    "v = JArr (trail (process (obj e)))" "storageAccepts api v" "storing v (obj e)"
  shows "storing v (obj e') \<and> process (obj e') = process (obj e)"
  using assms
proof (induction rule: edge_run.induct)
  case (more e ev e' evs e'')
  from more.prems obtain i where i: "i < length (waiting (obj e))" "e' = e\<lparr>obj := run_task api i (obj e)\<rparr>"
    by (auto elim: task_step [OF more.hyps(1)])
  then have "storing v (obj e') \<and> process (obj e') = process (obj e)"
    using task_storing [OF _ _ _ _ i(1), of v] more.prems by simp
  then show ?case using more by auto
qed simp

lemma drains:
  assumes "running (process (obj e))" "v = JArr (trail (process (obj e)))" "storageAccepts api v" "storing v (obj e)"
  shows "\<exists>evs e'. edge_run api dead e evs e' \<and> list_all is_task evs \<and> waiting (obj e') = [] \<and> stored (obj e') = Some v"
  using assms
proof (induction "queued_work (obj e)" arbitrary: e rule: less_induct)
  case less
  show ?case
  proof (cases "waiting (obj e) = []")
    case True
    then show ?thesis using less.prems
      by (intro exI [of _ "[]"] exI [of _ e]) (simp add: edge_run.idle storing_def)
  next
    case False
    let ?e = "e\<lparr>obj := run_task api 0 (obj e)\<rparr>"
    have step: "edge_step api dead e (Task 0) ?e" using False by (intro edge_step.task) simp
    have "queued_work (obj ?e) < queued_work (obj e)" using run_task_work [of 0 "obj e" api] False by simp
    moreover have "storing v (obj ?e) \<and> process (obj ?e) = process (obj e)"
      using task_storing [OF less.prems, of 0] False by simp
    ultimately obtain evs e' where
      "edge_run api dead ?e evs e'" "list_all is_task evs" "waiting (obj e') = []" "stored (obj e') = Some v"
      using less.hyps [of ?e] less.prems by auto
    then show ?thesis using edge_run.more [OF step] by (intro exI [of _ "Task 0 # evs"] exI [of _ e']) simp
  qed
qed

end

text \<open>
  Claim C16: Once requests stop, the trail becomes durable: when the service runs, a snapshot task is
  queued and none is about to store an older trail, then however far the tasks have been run, in whatever
  order, they can be run to the end, and at the end the storage holds the current trail.
\<close>

theorem quiescence_makes_the_trail_durable:
  assumes "edge_run (edge_api d r0 accepts) dead e evs e'" "list_all is_task evs"
    and "process (obj e) = Some rt" "waiting (obj e) \<noteq> []" "\<forall>t \<in> set (waiting (obj e)). t = ReadTrail"
    and "accepts (records_json (log_records (audit rt)))"
  shows "\<exists>evs' e''. edge_run (edge_api d r0 accepts) dead e' evs' e'' \<and> list_all is_task evs' \<and>
    waiting (obj e'') = [] \<and> stored (obj e'') = Some (records_json (log_records (audit rt)))"
proof -
  let ?v = "records_json (log_records (audit rt))"
  have v: "?v = JArr (process_trail (process (obj e)))" by (simp add: assms(3) process_trail_def records_json_def)
  have "storing ?v (obj e)" using assms(4,5) by (auto simp: storing_def)
  then have "storing ?v (obj e') \<and> process (obj e') = process (obj e)"
    using edge.tasks_storing [OF assms(1,2) _ v] assms(3,6) by simp
  then show ?thesis using edge.drains [of e' ?v] v assms(3,6) by simp
qed


theorem quiescence_makes_the_trail_durable_witness:
  "\<exists>evs e. edge_run demo_api None (demo_state True None (Some 1) [ReadTrail, ReadTrail] []) evs e \<and>
     waiting (obj e) = [] \<and> stored (obj e) = Some (records_json (demo_records 1))"
  using quiescence_makes_the_trail_durable
    [OF edge_run.idle, of "demo_state True None (Some 1) [ReadTrail, ReadTrail] []" "demo_runtime 1" "\<lambda>v. True"
      demo_deps "()" None]
  by (auto simp: demo_state_def demo_object_def demo_records_def)

end
