(* ===== verification/Latency_Gate.thy ===== *)
theory Latency_Gate
  imports Gate_Properties
begin

text \<open>
  \<open>LatencyBoundedGate.evaluate\<close> of \<open>core/gate.py\<close>: the interlock, then the operator's answer within a
  deadline, failing closed. The queue an operator answers on is what it delivers and when; the answer is
  taken when it arrives before the deadline, and the third component says how long the call waited.
\<close>

datatype operator_channel = No_Channel | Silent | Answers rat string

definition decision_deadline :: "rat \<Rightarrow> course_of_action \<Rightarrow> rat" where
  "decision_deadline timeout_sec c = (if timeout_seconds c > 0 then timeout_seconds c else timeout_sec)"

definition approves :: "string \<Rightarrow> bool" where
  "approves s \<longleftrightarrow> lower (strip s) \<in> {''y'', ''yes'', ''approve'', ''approved''}"

definition evaluate ::
    "gate_deps \<Rightarrow> nat \<Rightarrow> rat \<Rightarrow> interlock \<Rightarrow> course_of_action \<Rightarrow> operator_channel \<Rightarrow>
       gate_verdict \<times> decision_token \<times> rat" where
  "evaluate d n timeout_sec i c ch =
     (case interlock_verify (interlocks d) i c of
        Some why \<Rightarrow> (REJECTED_FAST, sealed_by_gate d n (coa_id c) REJECTED_FAST None why, 0)
      | None \<Rightarrow>
          if tier c = TIER_0_AUTONOMOUS then
            (APPROVED, sealed_by_gate d n (coa_id c) APPROVED (Some ''autonomous'') ''tier0_auto'', 0)
          else
            (let timeout = decision_deadline timeout_sec c;
                 late = (TIMED_OUT_FALLBACK, sealed_by_gate d n (coa_id c) TIMED_OUT_FALLBACK None ''latency_timeout'', timeout)
             in case ch of
                  No_Channel \<Rightarrow>
                    (TIMED_OUT_FALLBACK, sealed_by_gate d n (coa_id c) TIMED_OUT_FALLBACK None ''no_operator_channel'', 0)
                | Silent \<Rightarrow> late
                | Answers t s \<Rightarrow>
                    if t \<ge> timeout then late
                    else if approves s then
                      (APPROVED, sealed_by_gate d n (coa_id c) APPROVED (Some ''operator'') ''operator_approve'', t)
                    else
                      (REJECTED_OPERATOR, sealed_by_gate d n (coa_id c) REJECTED_OPERATOR (Some ''operator'') ''operator_deny'', t)))"

text \<open>
  Claim C10: The gate fails closed: its verdict is APPROVED exactly when the interlock passes and either
  the COA is of tier 0 or an operator's approval arrived before the deadline.
\<close>

theorem latency_gate_fails_closed:
  "fst (evaluate d n timeout_sec i c ch) = APPROVED \<longleftrightarrow>
     interlock_verify (interlocks d) i c = None \<and>
     (tier c = TIER_0_AUTONOMOUS \<or> (\<exists>t s. ch = Answers t s \<and> t < decision_deadline timeout_sec c \<and> approves s))"
  by (auto simp: evaluate_def Let_def split: option.splits operator_channel.splits)

text \<open>
  The decision is latency-bounded: however late the operator answers, the call returns within
  the deadline, the COA's own timeout when it is positive and the gate's otherwise.
\<close>

theorem latency_gate_is_bounded:
  assumes "0 \<le> timeout_sec"
  shows "snd (snd (evaluate d n timeout_sec i c ch)) \<le> decision_deadline timeout_sec c"
  using assms by (auto simp: evaluate_def Let_def decision_deadline_def split: option.splits operator_channel.splits)

theorem latency_gate_is_bounded_witness:
  "snd (snd (evaluate demo_gate_deps 0 5 maritime_interlock (coa_at ''A'' (1, 2)) (Answers 60 ''y''))) \<le> 5"
  using latency_gate_is_bounded [of 5 demo_gate_deps 0 maritime_interlock "coa_at ''A'' (1, 2)" "Answers 60 ''y''"]
  by (simp add: decision_deadline_def coa_at_def default_coa_def)

text \<open>The REST approval and the gate agree on the words that approve.\<close>

lemma approves_iff: "approves s \<longleftrightarrow> read_decision s = Some (APPROVED, ''operator_approve'')"
  by (auto simp: approves_def read_decision_def Let_def)

end
