(* ===== verification/Contract_Types.thy ===== *)
theory Contract_Types
  imports TS_Check Gate_Data Audit_Server
begin

text \<open>
  The REST contract \<open>docs/api/archview-types.ts\<close> for the ARCHVIEW client, each declaration as a value of
  the type language of \<open>TS_Types\<close>, and which answers of the service conform to it.
\<close>

section \<open>The declarations\<close>

definition OntologyState_decl :: ts_decl where
  "OntologyState_decl = Interface ''OntologyState'' [] [] [
      Prop False False ''scenario_id'' (TUnion [TString, TNull]),
      Prop False False ''tracks'' (TArray (TRef ''Track'' [])),
      Prop False False ''observations'' (TArray (TRef ''Observation'' [])),
      Prop False False ''amber_alert'' (TUnion [TRef ''AmberAlert'' [], TNull]),
      Prop False False ''pending_proposals'' (TArray TString),
      Prop False False ''inbox_depth'' TNumber]"

definition Track_decl :: ts_decl where
  "Track_decl = Interface ''Track'' [] [] [
      Prop False False ''track_id'' TString,
      Prop False False ''latitude'' TNumber,
      Prop False False ''longitude'' TNumber,
      Prop False False ''speed_mps'' (TUnion [TNumber, TNull]),
      Prop False False ''confidence'' TNumber,
      Prop False False ''source_ids'' (TArray TString),
      Prop False False ''modalities'' (TArray TString),
      Prop False False ''updated_at'' TString,
      Prop False False ''attributes'' (TRef ''Record'' [TString, TUnknown])]"

definition Observation_decl :: ts_decl where
  "Observation_decl = Interface ''Observation'' [] [] [
      Prop False False ''observation_id'' TString,
      Prop False False ''source_id'' TString,
      Prop False False ''entity_hint'' (TUnion [TString, TNull]),
      Prop False False ''latitude'' TNumber,
      Prop False False ''longitude'' TNumber,
      Prop False False ''altitude_m'' (TUnion [TNumber, TNull]),
      Prop False False ''speed_mps'' (TUnion [TNumber, TNull]),
      Prop False False ''heading_deg'' (TUnion [TNumber, TNull]),
      Prop False False ''confidence'' TNumber,
      Prop False False ''observed_at'' TString,
      Prop False False ''modality'' TString,
      Prop False False ''attributes'' (TRef ''Record'' [TString, TUnknown]),
      Prop False False ''raw_digest'' TString]"

definition AmberAlert_decl :: ts_decl where
  "AmberAlert_decl = Interface ''AmberAlert'' [] [] [
      Prop False False ''alert'' TString,
      Prop False False ''threat_class'' TString,
      Prop False False ''mismatch_m'' (TUnion [TNumber, TNull]),
      Prop False False ''picture_summary'' TString,
      Prop False False ''source_breakdown'' (TRef ''Record'' [TString, TUnknown]),
      Prop False False ''scenario_id'' (TUnion [TString, TNull])]"

definition CourseOfAction_decl :: ts_decl where
  "CourseOfAction_decl = Interface ''CourseOfAction'' [] [] [
      Prop False False ''coa_id'' TString,
      Prop False False ''tier'' TString,
      Prop False False ''target_entity_id'' TString,
      Prop False False ''target_coordinates'' (TUnion [TTuple [(Req, TNumber), (Req, TNumber)], TArray
          TNumber]),
      Prop False False ''intent'' TString,
      Prop False False ''timeout_seconds'' TNumber,
      Prop False False ''pre_conditions'' (TArray TUnknown),
      Prop False False ''post_conditions'' (TArray TUnknown),
      Prop False False ''invariants'' (TArray TUnknown),
      Prop False False ''confidence'' TNumber,
      Prop False False ''corroborating_sources'' (TArray TString),
      Prop False False ''raw_input_digest'' TString,
      Prop False False ''speed_kt'' (TUnion [TNumber, TNull]),
      Prop False False ''metadata'' (TRef ''Record'' [TString, TUnknown])]"

definition Finding_decl :: ts_decl where
  "Finding_decl = Interface ''Finding'' [] [] [
      Prop False False ''amber_alert'' TString,
      Index False TString TUnknown]"

definition DecisionToken_decl :: ts_decl where
  "DecisionToken_decl = Interface ''DecisionToken'' [] [] [
      Prop False False ''token_id'' TString,
      Prop False False ''coa_id'' TString,
      Prop False False ''verdict'' TString,
      Prop False False ''issued_at'' TString,
      Prop False False ''operator_id'' (TUnion [TString, TNull]),
      Prop False False ''reason'' TString,
      Prop False False ''digest'' TString]"

definition ProposalQueued_decl :: ts_decl where
  "ProposalQueued_decl = Interface ''ProposalQueued'' [] [] [
      Prop False False ''status'' (TStrLit ''QUEUED''),
      Prop False False ''coa'' (TRef ''CourseOfAction'' []),
      Prop False False ''finding'' (TRef ''Finding'' [])]"

definition ProposalApproved_decl :: ts_decl where
  "ProposalApproved_decl = Interface ''ProposalApproved'' [] [] [
      Prop False False ''status'' (TStrLit ''APPROVED''),
      Prop False False ''coa'' (TRef ''CourseOfAction'' []),
      Prop False False ''token'' (TRef ''DecisionToken'' []),
      Prop False False ''finding'' (TRef ''Finding'' [])]"

definition ProposalRejected_decl :: ts_decl where
  "ProposalRejected_decl = Interface ''ProposalRejected'' [] [] [
      Prop False False ''status'' (TStrLit ''REJECTED_FAST''),
      Prop False False ''reason'' TString,
      Prop False False ''coa'' (TRef ''CourseOfAction'' []),
      Prop False False ''token'' (TRef ''DecisionToken'' [])]"

definition ProposalResponse_decl :: ts_decl where
  "ProposalResponse_decl = Alias ''ProposalResponse'' [] (TUnion [TRef ''ProposalQueued'' [], TRef
      ''ProposalApproved'' [], TRef ''ProposalRejected'' []])"

definition ApproveRequest_decl :: ts_decl where
  "ApproveRequest_decl = Interface ''ApproveRequest'' [] [] [
      Prop False False ''coa_id'' TString,
      Prop False False ''decision'' (TUnion [TStrLit ''y'', TStrLit ''n'']),
      Prop False True ''operator_id'' TString]"

definition ApproveResponse_decl :: ts_decl where
  "ApproveResponse_decl = Interface ''ApproveResponse'' [] [] [
      Prop False False ''status'' TString,
      Prop False False ''coa'' (TRef ''CourseOfAction'' []),
      Prop False False ''token'' (TRef ''DecisionToken'' [])]"

definition AuditTrail_decl :: ts_decl where
  "AuditTrail_decl = Interface ''AuditTrail'' [] [] [
      Prop False False ''count'' TNumber,
      Prop False False ''path'' TString,
      Prop False False ''records'' (TArray (TRef ''AuditRecord'' []))]"

definition AuditRecord_decl :: ts_decl where
  "AuditRecord_decl = Interface ''AuditRecord'' [] [] [
      Prop False False ''class_name'' TString,
      Prop False False ''activity_name'' TString,
      Prop False False ''severity'' TString,
      Prop False False ''time'' TString,
      Prop False False ''metadata'' (TRef ''Record'' [TString, TUnknown]),
      Prop False False ''prev_hash'' TString,
      Prop False False ''hash'' TString]"

definition AuditHealth_decl :: ts_decl where
  "AuditHealth_decl = Interface ''AuditHealth'' [] [] [
      Prop False False ''verified'' TBoolean,
      Prop False False ''broken'' TNumber,
      Prop False False ''count'' TNumber,
      Prop False False ''label'' TString]"

definition InboxResponse_decl :: ts_decl where
  "InboxResponse_decl = Interface ''InboxResponse'' [] [] [
      Prop False False ''unit_id'' TString,
      Prop False False ''taskings'' (TArray (TRef ''Tasking'' [])),
      Prop False False ''count'' TNumber]"

definition Tasking_decl :: ts_decl where
  "Tasking_decl = Interface ''Tasking'' [] [] [
      Prop False False ''coa'' (TRef ''CourseOfAction'' []),
      Prop False False ''token'' (TRef ''DecisionToken'' []),
      Prop False False ''unit_id'' TString,
      Prop False False ''issued_at'' TString,
      Prop False False ''status'' TString]"

definition AckRequest_decl :: ts_decl where
  "AckRequest_decl = Interface ''AckRequest'' [] [] [
      Prop False False ''coa_id'' TString,
      Prop False False ''unit_id'' TString,
      Prop False True ''status'' TString,
      Prop False True ''message'' TString,
      Prop False True ''telemetry'' (TRef ''Record'' [TString, TUnknown]),
      Prop False True ''signature'' TString]"

definition AckResponse_decl :: ts_decl where
  "AckResponse_decl = Interface ''AckResponse'' [] [] [
      Prop False False ''status'' TString,
      Prop False False ''ack'' (TRef ''AckRecord'' []),
      Prop False False ''audit_hash'' TString]"

definition AckRecord_decl :: ts_decl where
  "AckRecord_decl = Interface ''AckRecord'' [] [] [
      Prop False False ''ack_id'' TString,
      Prop False False ''coa_id'' TString,
      Prop False False ''unit_id'' TString,
      Prop False False ''status'' TString,
      Prop False False ''message'' TString,
      Prop False False ''telemetry'' (TRef ''Record'' [TString, TUnknown]),
      Prop False False ''signature'' TString,
      Prop False False ''token_digest'' TString,
      Prop False False ''acked_at'' TString]"

definition archview :: type_env where
  "archview =
     [(''OntologyState'', OntologyState_decl),
      (''Track'', Track_decl),
      (''Observation'', Observation_decl),
      (''AmberAlert'', AmberAlert_decl),
      (''CourseOfAction'', CourseOfAction_decl),
      (''Finding'', Finding_decl),
      (''DecisionToken'', DecisionToken_decl),
      (''ProposalQueued'', ProposalQueued_decl),
      (''ProposalApproved'', ProposalApproved_decl),
      (''ProposalRejected'', ProposalRejected_decl),
      (''ProposalResponse'', ProposalResponse_decl),
      (''ApproveRequest'', ApproveRequest_decl),
      (''ApproveResponse'', ApproveResponse_decl),
      (''AuditTrail'', AuditTrail_decl),
      (''AuditRecord'', AuditRecord_decl),
      (''AuditHealth'', AuditHealth_decl),
      (''InboxResponse'', InboxResponse_decl),
      (''Tasking'', Tasking_decl),
      (''AckRequest'', AckRequest_decl),
      (''AckResponse'', AckResponse_decl),
      (''AckRecord'', AckRecord_decl)]"

section \<open>Deciding conformance\<close>

lemma archview_lookup [simp]:
  "lookup is_type_decl archview ''OntologyState'' = Some OntologyState_decl"
  "lookup is_type_decl archview ''Track'' = Some Track_decl"
  "lookup is_type_decl archview ''Observation'' = Some Observation_decl"
  "lookup is_type_decl archview ''AmberAlert'' = Some AmberAlert_decl"
  "lookup is_type_decl archview ''CourseOfAction'' = Some CourseOfAction_decl"
  "lookup is_type_decl archview ''Finding'' = Some Finding_decl"
  "lookup is_type_decl archview ''DecisionToken'' = Some DecisionToken_decl"
  "lookup is_type_decl archview ''ProposalQueued'' = Some ProposalQueued_decl"
  "lookup is_type_decl archview ''ProposalApproved'' = Some ProposalApproved_decl"
  "lookup is_type_decl archview ''ProposalRejected'' = Some ProposalRejected_decl"
  "lookup is_type_decl archview ''ProposalResponse'' = Some ProposalResponse_decl"
  "lookup is_type_decl archview ''ApproveRequest'' = Some ApproveRequest_decl"
  "lookup is_type_decl archview ''ApproveResponse'' = Some ApproveResponse_decl"
  "lookup is_type_decl archview ''AuditTrail'' = Some AuditTrail_decl"
  "lookup is_type_decl archview ''AuditRecord'' = Some AuditRecord_decl"
  "lookup is_type_decl archview ''AuditHealth'' = Some AuditHealth_decl"
  "lookup is_type_decl archview ''InboxResponse'' = Some InboxResponse_decl"
  "lookup is_type_decl archview ''Tasking'' = Some Tasking_decl"
  "lookup is_type_decl archview ''AckRequest'' = Some AckRequest_decl"
  "lookup is_type_decl archview ''AckResponse'' = Some AckResponse_decl"
  "lookup is_type_decl archview ''AckRecord'' = Some AckRecord_decl"
  by (simp_all add: archview_def OntologyState_decl_def Track_decl_def Observation_decl_def AmberAlert_decl_def CourseOfAction_decl_def
      Finding_decl_def DecisionToken_decl_def ProposalQueued_decl_def ProposalApproved_decl_def ProposalRejected_decl_def ProposalResponse_decl_def ApproveRequest_decl_def
      ApproveResponse_decl_def AuditTrail_decl_def AuditRecord_decl_def AuditHealth_decl_def InboxResponse_decl_def Tasking_decl_def
      AckRequest_decl_def AckResponse_decl_def AckRecord_decl_def)

inductive_simps conforms_base_iff [simp]:
  "conforms env v TAny" "conforms env v TUnknown" "conforms env v TNull" "conforms env v TString"
  "conforms env v TNumber" "conforms env v TBoolean" "conforms env v (TStrLit s)"

inductive_simps conforms_shape_iff:
  "conforms env v (TArray t)" "conforms env v (TUnion ts)" "conforms env v (TInter ts)" "conforms env v (TRef n args)"

lemma conforms_array_iff [simp]: "conforms env (JArr vs) (TArray t) \<longleftrightarrow> (\<forall>v \<in> set vs. conforms env v t)"
  by (subst conforms_shape_iff(1)) auto

lemma conforms_union_iff [simp]: "conforms env v (TUnion ts) \<longleftrightarrow> (\<exists>t \<in> set ts. conforms env v t)"
  by (subst conforms_shape_iff(2)) auto

lemma conforms_inter_iff [simp]: "conforms env v (TInter ts) \<longleftrightarrow> (\<forall>t \<in> set ts. conforms env v t)"
  by (subst conforms_shape_iff(3)) auto

fun member_fits :: "type_env \<Rightarrow> dict \<Rightarrow> ts_type member \<Rightarrow> bool" where
  "member_fits env kvs (Prop ro opt n t) = (case map_of kvs n of None \<Rightarrow> opt | Some w \<Rightarrow> conforms env w t)"
| "member_fits env kvs (Index ro k t) = (k = TString \<and> (\<forall>kv \<in> set kvs. conforms env (snd kv) t))"
| "member_fits env kvs _ = False"

lemma conforms_obj_iff [simp]:
  "conforms env v (TObj ms) \<longleftrightarrow> (\<exists>kvs. v = JObj kvs \<and> list_all (member_fits env kvs) ms)"
proof
  assume "conforms env v (TObj ms)"
  then obtain kvs where v: "v = JObj kvs" and js: "list_all json_member ms" and
    props: "\<And>ro opt n t. Prop ro opt n t \<in> set ms \<Longrightarrow> (map_of kvs n = None \<longrightarrow> opt) \<and>
      (\<forall>w. map_of kvs n = Some w \<longrightarrow> conforms env w t)" and
    idx: "\<And>ro k t. Index ro k t \<in> set ms \<Longrightarrow> k = TString \<and> (\<forall>kv \<in> set kvs. conforms env (snd kv) t)"
    by (elim conforms_obj) auto
  have "member_fits env kvs m" if "m \<in> set ms" for m
  proof -
    have jm: "json_member m" using js that by (simp add: list_all_iff)
    show ?thesis
    proof (cases m)
      case (Prop ro opt n t)
      then show ?thesis using props [of ro opt n t] that by (simp split: option.splits)
    next
      case (Index ro k t)
      then show ?thesis using idx [of ro k t] that by simp
    qed (use jm in simp_all)
  qed
  then show "\<exists>kvs. v = JObj kvs \<and> list_all (member_fits env kvs) ms" using v by (auto simp: list_all_iff)
next
  assume "\<exists>kvs. v = JObj kvs \<and> list_all (member_fits env kvs) ms"
  then obtain kvs where v: "v = JObj kvs" and fits: "\<And>m. m \<in> set ms \<Longrightarrow> member_fits env kvs m"
    by (auto simp: list_all_iff)
  have "json_member m" if "m \<in> set ms" for m using fits [OF that] by (cases m) simp_all
  then have "list_all json_member ms" by (simp add: list_all_iff)
  then show "conforms env v (TObj ms)"
    unfolding v by (rule conforms.obj) (fastforce dest!: fits split: option.splits)+
qed

text \<open>A name of the contract conforms as its declaration does; a record of unknowns is any object.\<close>

fun plain_members :: "ts_decl \<Rightarrow> ts_type member list option" where
  "plain_members (Interface n ps ext ms) = (if ps = [] \<and> ext = [] then Some (map (\<lambda>m. subst_member m []) ms) else None)"
| "plain_members _ = None"

lemma conforms_archview:
  "lookup is_type_decl archview n = Some d \<Longrightarrow> plain_members d = Some ms \<Longrightarrow> n \<noteq> ''Array'' \<Longrightarrow> n \<noteq> ''Record'' \<Longrightarrow>
     conforms archview v (TRef n []) \<longleftrightarrow> (\<exists>kvs. v = JObj kvs \<and> list_all (member_fits archview kvs) ms)"
  by (cases d; subst conforms_shape_iff(4)) (auto simp: unfold_decl_def bind_def Let_def split: if_splits)

lemma conforms_record [simp]: "conforms env v (TRef ''Record'' [TString, TUnknown]) \<longleftrightarrow> (\<exists>kvs. v = JObj kvs)"
  by (subst conforms_shape_iff(4)) simp

lemma coa_never_conforms: "\<not> conforms archview (coa_json c) (TRef ''CourseOfAction'' [])"
  by (simp add: conforms_archview [OF archview_lookup(5)] CourseOfAction_decl_def subst_member_def coa_json_def)

lemma token_conforms_iff:
  "conforms archview (token_json t) (TRef ''DecisionToken'' []) \<longleftrightarrow> token_reason t \<noteq> None"
  by (simp add: conforms_archview [OF archview_lookup(7)] DecisionToken_decl_def subst_member_def token_json_def
      token_body_def json_or_null_def split: option.splits)

end
