(* ===== verification/Picture_Properties.thy ===== *)
theory Picture_Properties
  imports Gate_Properties
begin

text \<open>
  The picture over all runs: it is always what ingesting its observations gives, the database has its
  rows, and a restart rebuilds it, with the two exceptions the code leaves: an id that comes twice, and
  a scenario load that finds nothing. The routes that feed it touch nothing else.
\<close>

section \<open>The picture and its rows\<close>

lemma ingest_digested: "ingest sha num ge (ensure_digest sha num b) g = ingest sha num ge b g"
  by (simp add: ingest_def)

lemma ingest_many_digested: "ingest_many sha num ge (map (ensure_digest sha num) bs) g = ingest_many sha num ge bs g"
  by (induction bs arbitrary: g) (simp_all add: ingest_many_def ingest_digested)

lemma ingest_all_seen: "seen (ingest_all d bs empty_graph) = map (digested d) bs"
  by (simp add: ingest_all_def ingest_many_seen digested_def empty_graph_def)

lemma digested_idem [simp]: "digested d (digested d b) = digested d b" "observation_id (digested d b) = observation_id b"
  by (simp_all add: digested_def)

lemma ingest_all_again: "ingest_all d (map (digested d) bs) gr = ingest_all d bs gr"
  by (simp add: ingest_all_def digested_def [abs_def] ingest_many_digested)

text \<open>The graph is what its observations make it.\<close>

definition rebuilt :: "gate_deps \<Rightarrow> graph \<Rightarrow> bool" where
  "rebuilt d gr \<longleftrightarrow> gr = ingest_all d (seen gr) empty_graph"

lemma empty_graph_simps [simp]: "seen empty_graph = []" "tracks empty_graph = []" "ingest_all d [] gr = gr"
  by (simp_all add: empty_graph_def ingest_all_def)

lemma rebuilt_all [simp]: "rebuilt d (ingest_all d bs empty_graph)"
  by (simp add: rebuilt_def ingest_all_seen ingest_all_again)

lemma rebuilt_empty [simp]: "rebuilt d empty_graph"
  using rebuilt_all [of d "[]"] by (simp add: ingest_all_def)

lemma rebuilt_ingest:
  assumes "rebuilt d gr"
  shows "rebuilt d (fst (ingest (sha256_hex d) (num_repr d) (earth d) b gr))"
proof -
  have "gr = ingest_all d (seen gr) empty_graph" using assms by (simp add: rebuilt_def)
  then have "fst (ingest (sha256_hex d) (num_repr d) (earth d) b gr) = ingest_all d (seen gr @ [b]) empty_graph"
    by (simp add: ingest_all_def)
  then show ?thesis by simp
qed

lemma rebuilt_digested: "rebuilt d gr \<Longrightarrow> b \<in> set (seen gr) \<Longrightarrow> digested d b = b"
  unfolding rebuilt_def by (metis (no_types, lifting) digested_idem(1) in_set_conv_nth ingest_all_seen length_map nth_map)

lemma seen_ingest: "seen (fst (ingest (sha256_hex d) (num_repr d) (earth d) b gr)) = seen gr @ [digested d b]"
  by (simp add: ingest_def Let_def digested_def)

definition ids :: "observation list \<Rightarrow> string list" where
  "ids bs = map observation_id bs"

lemma ids_simps [simp]: "ids [] = []" "ids (b # bs) = observation_id b # ids bs" "ids (xs @ ys) = ids xs @ ids ys"
  by (simp_all add: ids_def)

lemma ids_digested [simp]: "ids (map (digested d) bs) = ids bs"
  by (simp add: ids_def)

text \<open>The rows: keyed by id, digested, no id twice.\<close>

definition rows_ok :: "gate_deps \<Rightarrow> (string \<times> observation) list \<Rightarrow> bool" where
  "rows_ok d rows \<longleftrightarrow> distinct (map fst rows) \<and> (\<forall>(k, b) \<in> set rows. k = observation_id b \<and> digested d b = b)"

lemma rows_Nil [simp]: "rows_ok d []"
  by (simp add: rows_ok_def)

lemma rows_keys: "rows_ok d rows \<Longrightarrow> map fst rows = ids (map snd rows)"
  by (auto simp: rows_ok_def ids_def)

lemma rows_digested: "rows_ok d rows \<Longrightarrow> map (digested d) (map snd rows) = map snd rows"
  by (auto simp: rows_ok_def)

lemma rows_update: "rows_ok d rows \<Longrightarrow> rows_ok d (AList.update (observation_id b) (digested d b) rows)"
  by (auto simp: rows_ok_def distinct_update dest!: set_update_subset [THEN subsetD])

lemma insert_rows_ok: "rows_ok d rows \<Longrightarrow> rows_ok d (insert_rows d bs rows)"
  by (induction d bs rows rule: insert_rows.induct) (auto simp: rows_ok_def)

lemma insert_rows_all:
  "distinct (ids bs) \<Longrightarrow> fst ` set rows \<inter> set (ids bs) = {} \<Longrightarrow>
     map snd (insert_rows d bs rows) = map snd rows @ map (digested d) bs"
  by (induction d bs rows rule: insert_rows.induct) auto

section \<open>The picture survives a restart\<close>

text \<open>Every scenario finds something in its own events, so that a load is always stored.\<close>

definition always_finds :: "gate_deps \<Rightarrow> bool" where
  "always_finds d \<longleftrightarrow> (\<forall>sc \<in> snd ` set (registry d). \<forall>n.
     detect sc (ingest_all d (build_events sc n) empty_graph) \<noteq> None)"

definition stored_exactly :: "gate_state \<Rightarrow> runtime_store \<Rightarrow> bool" where
  "stored_exactly g st \<longleftrightarrow>
     (distinct (ids (seen (entity_graph g))) \<longrightarrow> map snd (st_observations st) = seen (entity_graph g)) \<and>
     st_finding st = finding g \<and> st_scenario_id st = scenario_id g"

definition picture_ok :: "gate_deps \<Rightarrow> gate_state \<Rightarrow> bool" where
  "picture_ok d g \<longleftrightarrow> rebuilt d (entity_graph g) \<and>
     (\<exists>st. store g = Some st \<and> rows_ok d (st_observations st) \<and> (always_finds d \<longrightarrow> stored_exactly g st))"

lemma get_scenario_in: "get_scenario reg sid = Some sc \<Longrightarrow> sc \<in> snd ` set reg"
  by (auto simp: get_scenario_def Let_def find_Some_iff split: option.splits dest!: map_of_SomeD)
    (metis nth_mem snd_conv image_eqI | force)+

lemma picture_simps [simp]:
  "entity_graph (put_inbox k t g) = entity_graph g" "entity_graph (put_proposal k p g) = entity_graph g"
  "entity_graph (delete_proposal k g) = entity_graph g" "entity_graph (persist_acked k g) = entity_graph g"
  "entity_graph (activate d c g) = entity_graph g" "entity_graph (persist_picture d g) = entity_graph g"
  "finding (put_inbox k t g) = finding g" "finding (put_proposal k p g) = finding g"
  "finding (delete_proposal k g) = finding g" "finding (persist_acked k g) = finding g"
  "finding (activate d c g) = finding g" "finding (persist_picture d g) = finding g"
  "scenario_id (put_inbox k t g) = scenario_id g" "scenario_id (put_proposal k p g) = scenario_id g"
  "scenario_id (delete_proposal k g) = scenario_id g" "scenario_id (persist_acked k g) = scenario_id g"
  "scenario_id (activate d c g) = scenario_id g" "scenario_id (persist_picture d g) = scenario_id g"
  by (simp_all add: put_inbox_def put_proposal_def delete_proposal_def persist_acked_def activate_def persist_picture_def
      persist_inbox_item_def persist_proposal_def)

lemma observe_simps [simp]:
  "entity_graph (fst (observe d b g)) = fst (ingest (sha256_hex d) (num_repr d) (earth d) b (entity_graph g))"
  "finding (fst (observe d b g)) = finding g" "scenario_id (fst (observe d b g)) = scenario_id g"
  by (simp_all add: observe_def persist_observation_def split: prod.splits)

lemma picture_ok_observe:
  assumes "picture_ok d g"
  shows "picture_ok d (fst (observe d b g))"
proof -
  obtain st where st: "store g = Some st" "rows_ok d (st_observations st)" "always_finds d \<longrightarrow> stored_exactly g st"
    and re: "rebuilt d (entity_graph g)"
    using assms by (auto simp: picture_ok_def)
  let ?rows = "AList.update (observation_id b) (digested d b) (st_observations st)"
  have "stored_exactly (fst (observe d b g)) (st\<lparr>st_observations := ?rows\<rparr>)" if "stored_exactly g st"
  proof -
    have "map snd ?rows = seen (entity_graph g) @ [digested d b]"
      if "distinct (ids (seen (entity_graph g) @ [digested d b]))"
    proof -
      have "map snd (st_observations st) = seen (entity_graph g)"
        using \<open>stored_exactly g st\<close> that by (simp add: stored_exactly_def)
      moreover from this have "observation_id b \<notin> fst ` set (st_observations st)"
        using that rows_keys [OF st(2)] by (metis (no_types, lifting) digested_idem(2) disjoint_iff distinct_append
            ids_simps(1,2,3) list.set_intros(1) set_map)
      ultimately show ?thesis by (simp add: update_fresh)
    qed
    then show ?thesis using that by (simp add: stored_exactly_def seen_ingest)
  qed
  then show ?thesis using st re by (simp add: picture_ok_def rebuilt_ingest rows_update)
qed

lemma picture_ok_found:
  assumes "picture_ok d g" "gr = ingest_all d bs empty_graph"
  shows "picture_ok d (persist_picture d (g\<lparr>entity_graph := gr, scenario_id := s, finding := f, drawn := m\<rparr>))"
proof -
  have "map snd (insert_rows d (seen gr) []) = seen gr" if "distinct (ids (seen gr))"
    using insert_rows_all [OF that, of "[]" d] assms(2) by (simp add: ingest_all_seen)
  then show ?thesis
    using assms by (auto simp: picture_ok_def stored_exactly_def insert_rows_ok)
qed

lemma picture_ok_restart:
  assumes "picture_ok d g"
  shows "picture_ok d (start_gate d pol i n (store g))"
proof -
  obtain st where "store g = Some st" "rows_ok d (st_observations st)" using assms by (auto simp: picture_ok_def)
  then show ?thesis
    using rows_digested by (simp add: picture_ok_def start_gate_def Let_def stored_exactly_def ingest_all_seen)
qed

interpretation pictured: run_invariant d "\<lambda>g L. picture_ok d g" "\<lambda>i c. True" True
proof (unfold_locales, goal_cases)
  case (3 g L sid sc gr n m)
  then have "\<not> always_finds d" using get_scenario_in [OF 3(2)] by (auto simp: always_finds_def)
  then show ?case using 3 by (auto simp: picture_ok_def)
next
  case (4 g L sid sc gr n f m)
  then show ?case using picture_ok_found by blast
next
  case (5 g L b)
  then show ?case by (rule picture_ok_observe)
next
  case (17 g L)
  then show ?case by (auto simp: picture_ok_def gate_reset_def stored_exactly_def empty_store_def)
next
  case (18 g L)
  then show ?case by (rule picture_ok_restart)
qed (auto simp: picture_ok_def stored_exactly_def)

lemma new_gate_pictured: "picture_ok d (new_gate d pol i)"
  by (simp add: new_gate_def picture_ok_def start_gate_def Let_def stored_exactly_def empty_store_def)

lemma pictured_run: "gate_run d rs (new_gate d pol i) = (g, es) \<Longrightarrow> picture_ok d g"
  using pictured.run_inv [OF new_gate_pictured] by blast


section \<open>The properties\<close>

definition picture_of :: "gate_state \<Rightarrow> graph \<times> finding_record option \<times> string option" where
  "picture_of g = (entity_graph g, finding g, scenario_id g)"

text \<open>
  Claim C17: As long as every scenario finds something and no two of the observations in it share an id,
  the picture a restarted process rebuilds from its rows, tracks, finding and scenario, is the one the
  process before it had.
\<close>

theorem restart_recomputes_the_picture:
  assumes "gate_run d rs (new_gate d pol i) = (g, es)" "always_finds d" "distinct (ids (seen (entity_graph g)))"
  shows "picture_of (fst (gate_step d Restart g)) = picture_of g"
proof -
  obtain st where st: "store g = Some st" "stored_exactly g st" and re: "rebuilt d (entity_graph g)"
    using pictured_run [OF assms(1)] assms(2) by (auto simp: picture_ok_def)
  then have "map snd (st_observations st) = seen (entity_graph g)" "st_finding st = finding g" "st_scenario_id st = scenario_id g"
    using assms(3) by (simp_all add: stored_exactly_def)
  then show ?thesis using st(1) re by (simp add: picture_of_def start_gate_def Let_def rebuilt_def)
qed

text \<open>
  A scenario that finds nothing replaces the picture in memory and is not stored: the process
  has no finding any more, and after a restart the finding and the observations of an earlier scenario
  are back.
\<close>

theorem failed_load_is_undone_by_a_restart:
  assumes "ingest_scenario d sid g = (g1, Inl No_Finding)" "store g = Some st" "st_finding st = Some f"
  shows "finding g1 = None \<and> picture_of (fst (gate_step d Restart g1)) =
    (ingest_all d (map snd (st_observations st)) empty_graph, Some f, st_scenario_id st)"
proof -
  have "finding g1 = None \<and> store g1 = store g"
    using assms(1) by (auto simp: ingest_scenario_def Let_def split: option.splits)
  then show ?thesis
    using assms(2,3) by (simp_all add: picture_of_def start_gate_def Let_def)
qed

lemma rows_with_id:
  "rows_ok d rows \<Longrightarrow> filter (\<lambda>x. observation_id x = k) (map snd rows) = (case map_of rows k of None \<Rightarrow> [] | Some b \<Rightarrow> [b])"
proof (induction rows)
  case (Cons r rows)
  obtain k' b' where r: "r = (k', b')" by (cases r)
  have rest: "rows_ok d rows" "k' = observation_id b'" "k' \<notin> fst ` set rows"
    using Cons.prems r by (auto simp: rows_ok_def)
  have "filter (\<lambda>x. observation_id x = k) (map snd rows) = (case map_of rows k of None \<Rightarrow> [] | Some b \<Rightarrow> [b])"
    by (rule Cons.IH [OF rest(1)])
  moreover have "k = k' \<Longrightarrow> map_of rows k = None" using rest(3) by (simp add: map_of_eq_None_iff)
  ultimately show ?case using rest(2) by (auto simp: r)
qed simp

text \<open>
  Of two observations under one id, such as two readings of one vessel from an open feed, the
  picture keeps both and the database the later: after a restart the earlier is gone.
\<close>

theorem repeated_id_is_forgotten_by_a_restart:
  assumes "gate_run d rs (new_gate d pol i) = (g, es)" "observation_id b' = observation_id b"
    and "g' = fst (observe d b' (fst (observe d b g)))"
  shows "seen (entity_graph g') = seen (entity_graph g) @ [digested d b, digested d b'] \<and>
    filter (\<lambda>x. observation_id x = observation_id b) (seen (entity_graph (fst (gate_step d Restart g')))) = [digested d b']"
proof -
  obtain st where st: "store g = Some st" "rows_ok d (st_observations st)"
    using pictured_run [OF assms(1)] by (auto simp: picture_ok_def)
  let ?rows = "AList.update (observation_id b') (digested d b') (AList.update (observation_id b) (digested d b) (st_observations st))"
  have rows: "rows_ok d ?rows" using rows_update [OF rows_update [OF st(2)]] by blast
  have "map_of ?rows (observation_id b) = Some (digested d b')" using assms(2) by (simp add: update_conv')
  then have "filter (\<lambda>x. observation_id x = observation_id b) (map snd ?rows) = [digested d b']"
    by (simp add: rows_with_id [OF rows])
  moreover have "seen (entity_graph (fst (gate_step d Restart g'))) = map snd ?rows"
    using st(1) assms(3) rows_digested [OF rows] by (simp add: start_gate_def Let_def ingest_all_seen)
  ultimately show ?thesis using assms(3) by (simp add: seen_ingest)
qed

section \<open>Feeding the picture touches nothing else\<close>

fun picture_request :: "gate_request \<Rightarrow> bool" where
  "picture_request (Candidate req) = True"
| "picture_request (Open_Feed req) = True"
| "picture_request (Interpret req) = True"
| "picture_request Ontology = True"
| "picture_request (Verify_Ingress mode) = True"
| "picture_request Page = True"
| "picture_request _ = False"

definition command_view ::
    "gate_state \<Rightarrow> tiered_policy \<times> interlock \<times> (string \<times> pending) list \<times> (string \<times> tasking) list \<times> string set \<times>
       ((string \<times> pending) list \<times> (string \<times> tasking) list \<times> string set) option" where
  "command_view g = (policy g, il g, proposals g, inbox g, acked g,
     map_option (\<lambda>st. (st_proposals st, st_inbox st, st_acked st)) (store g))"

lemma command_view_simps [simp]:
  "command_view (g\<lparr>drawn := n\<rparr>) = command_view g"
  "command_view (g\<lparr>entity_graph := gr, scenario_id := s, finding := f\<rparr>) = command_view g"
  "command_view (persist_picture d g) = command_view g"
  "command_view (fst (observe d b g)) = command_view g"
  by (simp_all add: command_view_def persist_picture_def observe_def persist_observation_def option.map_comp comp_def
      split: prod.splits)

interpretation untouched: picture_invariant d "\<lambda>g L. command_view g = v \<and> list_all evidence_event L"
  by unfold_locales auto

lemma picture_step:
  assumes "picture_request r" "gate_step d r g = (g', es, a)"
  shows "command_view g' = command_view g" "list_all evidence_event es"
proof -
  have "command_view g = command_view g \<and> list_all evidence_event []" by simp
  from untouched.candidate_inv [OF this] untouched.open_feed_inv [OF this] untouched.interpret_picture_inv [OF this]
    untouched.verify_ingress_inv [OF this]
  show "command_view g' = command_view g" "list_all evidence_event es"
    using assms by (cases r; auto simp: ontology_state_def)+
qed

text \<open>
  Claim C22: The routes that feed, interpret or show the picture never decide anything: proposals, inbox,
  acks, interlock and policy stay as they are, in memory and in the database, and what they log is
  evidence, never a decision or a tasking.
\<close>

theorem picture_routes_decide_nothing:
  assumes "picture_request r" "gate_step d r g = (g', es, a)"
  shows "command_view g' = command_view g \<and> (\<forall>e \<in> set es. evidence_event e)"
  using picture_step [OF assms] by (simp add: list_all_iff)

section \<open>The properties at concrete inputs\<close>

lemma demo_scenario: "get_scenario (registry demo_gate_deps) ''S'' = Some no_go_scenario"
  by (simp add: get_scenario_def demo_gate_deps_def strip_def trim_by_def py_space_def)

lemma proposed_picture:
  "seen (entity_graph (fst (verify_propose demo_gate_deps ''S'' ''W'' demo_gate))) = map (digested demo_gate_deps) harbour"
  by (simp add: verify_propose_def load_scenario_def ingest_scenario_def demo_scenario Let_def)
    (simp add: no_go_scenario_def ingest_all_seen)

theorem restart_recomputes_the_picture_witness:
  "\<exists>g es. gate_run demo_gate_deps [Verify_Propose ''S'' ''W''] demo_gate = (g, es) \<and>
     length (seen (entity_graph g)) = 3 \<and> picture_of (fst (gate_step demo_gate_deps Restart g)) = picture_of g"
proof -
  obtain g es where run: "gate_run demo_gate_deps [Verify_Propose ''S'' ''W''] demo_gate = (g, es)" by fastforce
  then have seen: "seen (entity_graph g) = map (digested demo_gate_deps) harbour"
    using proposed_picture by (auto split: prod.splits)
  have "always_finds demo_gate_deps" by (simp add: always_finds_def demo_gate_deps_def no_go_scenario_def)
  moreover have "distinct (ids (seen (entity_graph g)))" by (simp add: seen) (simp add: harbour_def sighting_def)
  ultimately have "picture_of (fst (gate_step demo_gate_deps Restart g)) = picture_of g"
    by (rule restart_recomputes_the_picture [OF run [unfolded demo_gate_def]])
  then show ?thesis using run seen by (simp add: harbour_def)
qed

definition quiet_deps :: gate_deps where
  "quiet_deps = demo_gate_deps\<lparr>registry := [(''S'', no_go_scenario\<lparr>detect := (\<lambda>gr. None)\<rparr>)]\<rparr>"

definition alerted :: runtime_store where
  "alerted = empty_store\<lparr>st_finding := Some (demo_finding\<lparr>amber_alert := Some ''A''\<rparr>), st_scenario_id := Some ''S1''\<rparr>"

theorem failed_load_is_undone_by_a_restart_witness:
  "\<exists>g. ingest_scenario quiet_deps ''S'' (demo_gate\<lparr>store := Some alerted\<rparr>) = (g, Inl No_Finding) \<and> finding g = None \<and>
     finding (fst (gate_step quiet_deps Restart g)) = Some (demo_finding\<lparr>amber_alert := Some ''A''\<rparr>)"
proof -
  have "get_scenario (registry quiet_deps) ''S'' = Some (no_go_scenario\<lparr>detect := (\<lambda>gr. None)\<rparr>)"
    by (simp add: get_scenario_def quiet_deps_def strip_def trim_by_def py_space_def)
  then obtain g where g: "ingest_scenario quiet_deps ''S'' (demo_gate\<lparr>store := Some alerted\<rparr>) = (g, Inl No_Finding)"
    by (simp add: ingest_scenario_def Let_def)
  then show ?thesis
    using failed_load_is_undone_by_a_restart [OF g, of alerted "demo_finding\<lparr>amber_alert := Some ''A''\<rparr>"]
    by (simp add: alerted_def picture_of_def)
qed

theorem repeated_id_is_forgotten_by_a_restart_witness:
  "filter (\<lambda>x. observation_id x = ''o1'') (seen (entity_graph (fst (gate_step demo_gate_deps Restart
     (fst (observe demo_gate_deps (sighting ''o1'' ''A'' 9 1) (fst (observe demo_gate_deps (sighting ''o1'' ''A'' 0 1) demo_gate)))))))) =
   [sighting ''o1'' ''A'' 9 1]"
proof -
  have run: "gate_run demo_gate_deps [] (new_gate demo_gate_deps maritime_policy maritime_interlock) = (demo_gate, [])"
    by (simp add: demo_gate_def)
  have "observation_id (sighting ''o1'' ''A'' 9 1) = observation_id (sighting ''o1'' ''A'' 0 1)" by (simp add: sighting_def)
  from repeated_id_is_forgotten_by_a_restart [OF run this refl] show ?thesis
    by (simp add: sighting_def digested_def ensure_digest_def)
qed

definition sentinel_request :: candidate_request where
  "sentinel_request = \<lparr>cr_event = None, cr_use_fixture = False, cr_use_sentinel = True, cr_pull_upstream = False,
     cr_run_cv = None, cr_pull_glint = False, cr_use_glint = False, cr_dual_sar = False, cr_pull_dual = False\<rparr>"

lemma demo_outside [simp]: "outside demo_gate_deps = no_glint"
  by (simp add: demo_gate_deps_def)

lemma sentinel_requested:
  "requested_events demo_gate_deps n sentinel_request =
     Inr (map Event [dark_vessel (utc_now demo_gate_deps n) 1, dark_vessel (utc_now demo_gate_deps n) 50], Some ''fixture'')"
  by (simp add: requested_events_def sentinel_request_def resolved_events_def resolve_sentinel_events_def Let_def)
    (simp add: no_glint_def two_vessels_events)

theorem picture_routes_decide_nothing_witness:
  "\<exists>g es a. gate_step demo_gate_deps (Candidate sentinel_request) demo_gate = (g, es, a) \<and> length es = 2 \<and>
     command_view g = command_view demo_gate \<and> (\<forall>e \<in> set es. evidence_event e)"
proof -
  obtain g es a where s: "gate_step demo_gate_deps (Candidate sentinel_request) demo_gate = (g, es, a)" by (cases rule: prod_cases3)
  have "length es = 2"
    using s by (auto simp: ingress_candidate_event_def Let_def sentinel_requested candidate_event_to_observation_def
        parse_candidate_event_def split: prod.splits)
  then show ?thesis using s picture_routes_decide_nothing [OF _ s] by simp
qed

end
