(* ===== verification/Contract_Properties.thy ===== *)
theory Contract_Properties
  imports Contract_Types Picture_Properties
begin

text \<open>
  The answers of the gate and of the audit routes against the ARCHVIEW contract: the trail and the
  acks are what \<open>archview-types.ts\<close> declares, a proposal's answer is not.
\<close>

section \<open>The audit trail\<close>

lemma submit_logs_objects: "submit d c u r g = (g', es, a) \<Longrightarrow> list_all logged_object es"
  by (auto simp: submit_def reject_fast_def auto_approve_def queue_proposal_def Let_def split: option.splits if_splits)

lemma refuse_logs_nothing [simp]: "fst (snd (refuse n g)) = []"
  by (simp add: refuse_def)

lemma proposals_log_objects: "list_all logged_object (fst (snd (gate_proposals d req g)))"
proof -
  have "list_all logged_object (fst (snd (submit d c u r g)))" for c u r g
    using submit_logs_objects by (cases "submit d c u r g") auto
  then show ?thesis
    by (auto simp: gate_proposals_def Let_def split: option.splits list.splits prod.splits sum.splits
        scenario_error.splits)
qed

lemma guardrail_logs_objects: "list_all logged_object (fst (snd (guardrail d req g)))"
  by (auto simp: guardrail_def Let_def split: option.splits prod.splits sum.splits scenario_error.splits)

lemma approve_logs_objects: "list_all logged_object (fst (snd (gate_approve d req g)))"
  by (auto simp: gate_approve_def issue_all_def issue_navy_def issue_def Let_def
      split: option.splits prod.splits if_splits)

lemma ack_logs_objects: "list_all logged_object (fst (snd (recipient_ack d req g)))"
  by (auto simp: recipient_ack_def Let_def split: option.splits)

lemma picture_logs_objects: "picture_request r \<Longrightarrow> list_all logged_object (fst (snd (gate_step d r g)))"
  using picture_step(2) [of r d g] by (cases "gate_step d r g") (auto simp: list_all_iff evidence_event_def)

lemma step_logs_objects: "list_all logged_object (fst (snd (gate_step d r g)))"
proof (cases "picture_request r")
  case False
  then show ?thesis
    by (cases r) (auto simp: proposals_log_objects guardrail_logs_objects approve_logs_objects ack_logs_objects
        recipient_inbox_def verify_propose_def verify_approve_def verify_guardrail_def verify_ack_def as_page_def Let_def
        split: prod.splits sum.splits)
qed (rule picture_logs_objects)

lemma run_logs_objects: "list_all logged_object (snd (gate_run d rs g))"
proof (induction rs arbitrary: g)
  case (Cons r rs)
  obtain g1 es a where s: "gate_step d r g = (g1, es, a)" by (cases "gate_step d r g")
  then have "list_all logged_object es" using step_logs_objects [of d r g] by simp
  then show ?case using Cons.IH [of g1] by (auto simp: s split: prod.splits)
qed simp

definition log_conforms :: "audit_logger \<Rightarrow> bool" where
  "log_conforms l \<longleftrightarrow> (\<forall>rec \<in> set (log_records l). conforms archview (JObj rec) (TRef ''AuditRecord'' []))"

lemma appended_conforms:
  assumes "log_conforms l" "logged_object e"
  shows "log_conforms (append_event sha num l e)"
proof -
  obtain kvs where e: "ev_data e = JObj kvs" using assms(2) by (auto simp: logged_object_def)
  have "conforms archview (JObj (snd (append_record sha num l (ev_now e) (ev_name e) (ev_severity e) (ev_data e))))
      (TRef ''AuditRecord'' [])"
    by (simp add: conforms_archview [OF archview_lookup(15)] AuditRecord_decl_def subst_member_def append_record_def Let_def e)
  then show ?thesis using assms(1) by (simp add: log_conforms_def append_event_def)
qed

lemma appended_all_conform:
  "list_all logged_object es \<Longrightarrow> log_conforms l \<Longrightarrow> log_conforms (foldl (append_event sha num) l es)"
  by (induction es arbitrary: l) (simp_all add: appended_conforms)

text \<open>
  Claim C32: Whatever the gate has done since it started over an empty log, \<open>GET /api/audit/trail\<close>
  answers with a value of the declared type \<open>AuditTrail\<close>.
\<close>

theorem audit_trail_has_the_declared_type:
  assumes "gate_run gd rs g = (g', es)"
    and "audit rt = foldl (append_event sha num) (open_logger py None) es"
  shows "\<exists>j. resp_body (audit_trail d rt) = JsonBody j \<and> conforms archview j (TRef ''AuditTrail'' [])"
proof -
  have "list_all logged_object es" using run_logs_objects [of gd rs g] assms(1) by simp
  then have "log_conforms (audit rt)"
    unfolding assms(2) by (rule appended_all_conform) (simp add: open_logger_fresh log_conforms_def)
  then have "conforms archview (records_json (log_records (audit rt))) (TArray (TRef ''AuditRecord'' []))"
    by (simp add: records_json_def log_conforms_def)
  then show ?thesis
    by (simp add: conforms_archview [OF archview_lookup(14)] AuditTrail_decl_def subst_member_def audit_trail_def ok_json_def
        Let_def json_nat_def)
qed

section \<open>Answers of the gate\<close>

lemma conforms_proposal_iff:
  "conforms archview v (TRef ''ProposalResponse'' []) \<longleftrightarrow>
     (\<exists>n \<in> {''ProposalQueued'', ''ProposalApproved'', ''ProposalRejected''}. conforms archview v (TRef n []))"
  by (subst conforms_shape_iff(4)) (simp add: ProposalResponse_decl_def unfold_decl_def bind_def)

lemma proposal_needs_coa:
  assumes "conforms archview (JObj kvs) (TRef ''ProposalResponse'' [])"
  shows "\<exists>j. map_of kvs ''coa'' = Some j \<and> conforms archview j (TRef ''CourseOfAction'' [])"
proof -
  have "\<exists>j. map_of kvs ''coa'' = Some j \<and> conforms archview j (TRef ''CourseOfAction'' [])"
    if "n \<in> {''ProposalQueued'', ''ProposalApproved'', ''ProposalRejected''}" "conforms archview (JObj kvs) (TRef n [])" for n
    using that by (elim insertE emptyE)
      (simp_all add: conforms_archview [OF archview_lookup(8)] conforms_archview [OF archview_lookup(9)]
        conforms_archview [OF archview_lookup(10)] ProposalQueued_decl_def ProposalApproved_decl_def
        ProposalRejected_decl_def subst_member_def split: option.splits)
  then show ?thesis using assms unfolding conforms_proposal_iff by blast
qed

lemma submit_answers_coa:
  "\<exists>kvs. resp_body (snd (snd (submit d c u r g)) recs) = JsonBody (JObj kvs) \<and> map_of kvs ''coa'' = Some (coa_json c)"
  by (auto simp: submit_def reject_fast_def auto_approve_def queue_proposal_def Let_def ok_json_def split: option.splits)

lemma submit_answer_untyped:
  "resp_body (snd (snd (submit d c u r g)) recs) = JsonBody j \<Longrightarrow> \<not> conforms archview j (TRef ''ProposalResponse'' [])"
  using submit_answers_coa [of d c u r g recs] proposal_needs_coa coa_never_conforms by fastforce

lemma refusal_untyped:
  "resp_body (snd (snd (refuse n g)) recs) = JsonBody j \<Longrightarrow> \<not> conforms archview j (TRef ''ProposalResponse'' [])"
  using proposal_needs_coa [of "[]"] by (auto simp: refuse_def http_error_def)

text \<open>
  No answer of \<open>POST /api/gate/proposals\<close>, queued, approved or rejected, has the declared type
  \<open>ProposalResponse\<close>: the COA it serves has a number where \<open>CourseOfAction\<close> declares the string \<open>tier\<close>,
  and objects where it declares arrays of conditions.
\<close>

theorem no_proposal_answer_has_the_declared_type:
  "\<not> (\<exists>j. resp_body (snd (snd (gate_proposals d req g)) recs) = JsonBody j \<and>
      conforms archview j (TRef ''ProposalResponse'' []))"
  by (auto simp: gate_proposals_def Let_def submit_answer_untyped refusal_untyped
      split: option.splits list.splits prod.splits sum.splits scenario_error.splits)

lemma ack_dict_conforms: "conforms archview (JObj (ack_dict d n req t)) (TRef ''AckRecord'' [])"
  by (simp add: conforms_archview [OF archview_lookup(21)] AckRecord_decl_def subst_member_def ack_dict_def)

text \<open>
  An ack that took effect, logged by the service, answers with a value of the declared type
  \<open>AckResponse\<close>: the \<open>audit_hash\<close> is the hash of the record the log sealed for it.
\<close>

theorem ack_answer_has_the_declared_type:
  assumes "recipient_ack d req g = (g', es, answer)" "es \<noteq> []"
    and "sealed_now = drop (length (log_records l)) (log_records (foldl (append_event sha num) l es))"
  shows "\<exists>j. resp_body (answer sealed_now) = JsonBody j \<and> conforms archview j (TRef ''AckResponse'' [])"
proof -
  obtain t e where "es = [e]" and
    answer: "answer = (\<lambda>recs. ok_json (JObj [(''status'', JStr ''ACKED''), (''ack'', JObj (ack_dict d (drawn g) req t)),
      (''audit_hash'', sealed_hash recs)]))"
    using assms(1,2) by (auto simp: recipient_ack_def refuse_def Let_def split: option.splits if_splits)
  then have "sealed_now = [snd (append_record sha num l (ev_now e) (ev_name e) (ev_severity e) (ev_data e))]"
    using assms(3) by (simp add: append_event_def)
  then have "\<exists>s. sealed_hash sealed_now = JStr s"
    by (simp add: sealed_hash_def append_record_def Let_def)
  then show ?thesis
    by (auto simp: answer ok_json_def conforms_archview [OF archview_lookup(20)] AckResponse_decl_def subst_member_def
        ack_dict_conforms)
qed

section \<open>At concrete inputs\<close>

definition demo_trail_deps :: "unit c2_deps" where
  "demo_trail_deps = \<lparr>digest = id, number_repr = unary_num, repr_other = (\<lambda>j. ''?''), demo_tamper_enabled = False,
     audit_path = ''gate.jsonl'', rest_handler = (\<lambda>r req. (r, [], \<lambda>recs. http_error 404)), rest_cleared = id\<rparr>"

definition demo_trail_runtime :: "unit c2_runtime" where
  "demo_trail_runtime =
     \<lparr>audit = foldl (append_event id unary_num) (open_logger (\<lambda>j. ''?'') None) (snd (gate_run demo_gate_deps demo_run demo_gate)),
      audit_pre_tamper = None, rest = ()\<rparr>"

theorem audit_trail_has_the_declared_type_witness:
  "\<exists>j. resp_body (audit_trail demo_trail_deps demo_trail_runtime) = JsonBody j \<and>
     conforms archview j (TRef ''AuditTrail'' [])"
  by (rule audit_trail_has_the_declared_type [OF surjective_pairing]) (simp add: demo_trail_runtime_def)

theorem ack_answer_has_the_declared_type_witness:
  "let r = recipient_ack demo_gate_deps (ack_raw ''U'') demo_end;
       recs = log_records (foldl (append_event id unary_num) (open_logger (\<lambda>j. ''?'') None) (fst (snd r)))
   in \<exists>j. resp_body (snd (snd r) recs) = JsonBody j \<and> conforms archview j (TRef ''AckResponse'' [])"
proof -
  let ?r = "recipient_ack demo_gate_deps (ack_raw ''U'') demo_end"
  have "fst (snd ?r) \<noteq> []"
    using demo_run_facts by (auto simp: recipient_ack_def ack_raw_def Let_def)
  then show ?thesis
    using ack_answer_has_the_declared_type [of demo_gate_deps "ack_raw ''U''" demo_end "fst ?r" "fst (snd ?r)" "snd (snd ?r)" _
        "open_logger (\<lambda>j. ''?'') None" id unary_num, OF _ _ refl]
    by (simp add: Let_def open_logger_fresh)
qed


section \<open>The state of the ontology\<close>

lemma observation_conforms: "conforms archview (observation_json b) (TRef ''Observation'' [])"
  by (simp add: conforms_archview [OF archview_lookup(3)] Observation_decl_def subst_member_def observation_json_def
      observation_body_def json_or_null_def split: option.splits)

lemma track_conforms: "updated_at t \<noteq> None \<Longrightarrow> conforms archview (track_json d t) (TRef ''Track'' [])"
  by (auto simp: conforms_archview [OF archview_lookup(2)] Track_decl_def subst_member_def track_json_def json_or_null_def)

lemma track_updated:
  assumes "rebuilt d gr" "t \<in> set (all_tracks gr)"
  shows "updated_at t \<noteq> None"
proof -
  have "gr = ingest_many (sha256_hex d) (num_repr d) (earth d) (seen gr) empty_graph"
    using assms(1) by (simp add: rebuilt_def ingest_all_def)
  then obtain names where r: "refines names gr" using ingest_many_refines by metis
  obtain k where "(k, t) \<in> set (tracks gr)" using assms(2) by (auto simp: all_tracks_def)
  from track_named [OF r this] show ?thesis using track_of_fields(4) by auto
qed

lemma amber_conforms_iff:
  "conforms archview (amber_json f) (TRef ''AmberAlert'' []) \<longleftrightarrow> amber_alert f \<noteq> None"
  by (auto simp: conforms_archview [OF archview_lookup(4)] AmberAlert_decl_def subst_member_def amber_json_def
      json_or_null_def split: option.splits)

text \<open>
  Claim C40: At every point of every run, \<open>GET /api/ontology/state\<close> answers with the declared type
  \<open>OntologyState\<close>, unless the finding has no amber class: \<open>alert\<close> is then null where the contract
  declares a string.
\<close>

theorem ontology_state_has_the_declared_type_iff:
  assumes "gate_run d rs (new_gate d pol i) = (g, es)"
  shows "conforms archview (ontology_json d g) (TRef ''OntologyState'' []) \<longleftrightarrow>
    (\<forall>f. finding g = Some f \<longrightarrow> amber_alert f \<noteq> None)"
proof -
  have "rebuilt d (entity_graph g)" using pictured_run [OF assms(1)] by (simp add: picture_ok_def)
  then have "\<forall>t \<in> set (all_tracks (entity_graph g)). conforms archview (track_json d t) (TRef ''Track'' [])"
    using track_updated track_conforms by blast
  moreover have "conforms archview (json_or_null amber_json (finding g)) (TUnion [TRef ''AmberAlert'' [], TNull]) \<longleftrightarrow>
      (\<forall>f. finding g = Some f \<longrightarrow> amber_alert f \<noteq> None)"
    by (cases "finding g") (auto simp: json_or_null_def amber_conforms_iff, simp_all add: amber_json_def)
  ultimately show ?thesis
    by (simp add: conforms_archview [OF archview_lookup(1)] OntologyState_decl_def subst_member_def ontology_json_def
        observation_conforms json_nat_def json_or_null_def split: option.splits)
qed

theorem ontology_state_has_the_declared_type_iff_witness:
  "conforms archview (ontology_json demo_gate_deps demo_gate) (TRef ''OntologyState'' []) \<and>
   \<not> conforms archview (ontology_json demo_gate_deps (fst (gate_run demo_gate_deps [Verify_Propose ''S'' ''W''] demo_gate)))
       (TRef ''OntologyState'' [])"
proof -
  have run: "gate_run demo_gate_deps [] (new_gate demo_gate_deps maritime_policy maritime_interlock) = (demo_gate, [])"
    by (simp add: demo_gate_def)
  have "finding demo_gate = None" by (simp add: demo_gate_def new_gate_def start_gate_def Let_def empty_store_def)
  then have cold: "conforms archview (ontology_json demo_gate_deps demo_gate) (TRef ''OntologyState'' [])"
    using ontology_state_has_the_declared_type_iff [OF run] by simp
  obtain g es where run': "gate_run demo_gate_deps [Verify_Propose ''S'' ''W''] demo_gate = (g, es)" by fastforce
  then have "finding g = Some demo_finding"
    by (auto simp: verify_propose_def load_scenario_def ingest_scenario_def demo_scenario Let_def no_go_scenario_def)
  then show ?thesis
    using cold run' ontology_state_has_the_declared_type_iff [OF run' [unfolded demo_gate_def]]
    by (simp add: demo_finding_def)
qed

end
