(* ===== verification/Kinematics.thy ===== *)
theory Kinematics
  imports Ontology
begin

text \<open>
  The geometry of \<open>core/ontology.py\<close> and \<open>core/kinematics.py\<close> over the real numbers: the great-circle
  distance, dead reckoning with its reachability envelope, the association of a radar contact with an
  earlier SAR detection, and the lead-pursuit intercept. \<open>earth_geometry\<close> is what the graph is given.
  \<open>secs\<close> reads the text of a time; rounding is left out.
\<close>

section \<open>Distance and displacement\<close>

definition radians :: "real \<Rightarrow> real" where
  "radians x = x * pi / 180"

definition great_circle :: "real \<times> real \<Rightarrow> real \<times> real \<Rightarrow> real" where
  "great_circle p q =
     (let p1 = radians (fst p); p2 = radians (fst q); dphi = radians (fst q - fst p); dlmb = radians (snd q - snd p);
          a = (sin (dphi / 2))\<^sup>2 + cos p1 * cos p2 * (sin (dlmb / 2))\<^sup>2
      in 2 * 6371000 * arcsin (sqrt a))"

definition M_PER_DEG_LAT :: real where
  "M_PER_DEG_LAT = 111320"

definition kt_to_mps :: "real \<Rightarrow> real" where
  "kt_to_mps knots = knots * (514444 / 10 ^ 6)"

definition displace_m :: "real \<times> real \<Rightarrow> real \<Rightarrow> real \<Rightarrow> real \<times> real" where
  "displace_m p heading distance =
     (fst p + distance * cos (radians heading) / M_PER_DEG_LAT,
      snd p + distance * sin (radians heading) / max (M_PER_DEG_LAT * cos (radians (fst p))) (1 / 10 ^ 6))"

definition enu_offset_m :: "real \<times> real \<Rightarrow> real \<times> real \<Rightarrow> real \<times> real" where
  "enu_offset_m p q =
     ((fst q - fst p) * M_PER_DEG_LAT, (snd q - snd p) * (M_PER_DEG_LAT * cos (radians (fst p))))"

section \<open>Dead reckoning\<close>

definition DEFAULT_SIGMA_NAV_M :: real where "DEFAULT_SIGMA_NAV_M = 250"
definition DEFAULT_HEADING_SIGMA_DEG :: real where "DEFAULT_HEADING_SIGMA_DEG = 20"
definition MAX_DT_SEC :: real where "MAX_DT_SEC = 4 * 3600"
definition DEFAULT_V_MIN_MPS :: real where "DEFAULT_V_MIN_MPS = kt_to_mps 4"
definition DEFAULT_V_MAX_MPS :: real where "DEFAULT_V_MAX_MPS = kt_to_mps 18"
definition DEFAULT_V_EST_MPS :: real where "DEFAULT_V_EST_MPS = kt_to_mps 12"

definition uncertainty_radius_m :: "real \<Rightarrow> real \<Rightarrow> real \<Rightarrow> real \<Rightarrow> real" where
  "uncertainty_radius_m dt v_min v_max sigma = \<bar>dt\<bar> * (v_max - v_min) / 2 + sigma"

record projected_contact =
  at_position :: "real \<times> real"
  origin :: "real \<times> real"
  pc_heading :: "real option"
  pc_speed :: real
  dt_sec :: real
  radius_m :: real
  along_m :: real
  cross_m :: real

definition project_dead_reckoning ::
    "real \<times> real \<Rightarrow> real option \<Rightarrow> real \<Rightarrow> real \<Rightarrow> real \<Rightarrow> real \<Rightarrow> real \<Rightarrow> real \<Rightarrow> projected_contact" where
  "project_dead_reckoning p heading speed dt v_min v_max sigma heading_sigma =
     (case heading of
        None \<Rightarrow>
          (let radius = \<bar>dt\<bar> * v_max + sigma in
           \<lparr>at_position = p, origin = p, pc_heading = None, pc_speed = speed, dt_sec = dt,
            radius_m = radius, along_m = radius, cross_m = radius\<rparr>)
      | Some h \<Rightarrow>
          (let traveled = speed * dt; along = uncertainty_radius_m dt v_min v_max sigma;
               crossing = sigma + \<bar>traveled\<bar> * tan (radians heading_sigma)
           in \<lparr>at_position = displace_m p h traveled, origin = p, pc_heading = Some h, pc_speed = speed, dt_sec = dt,
               radius_m = along, along_m = max along 1, cross_m = max crossing 1\<rparr>))"

definition in_reachability_envelope :: "projected_contact \<Rightarrow> real \<times> real \<Rightarrow> bool" where
  "in_reachability_envelope c q =
     (let (north, east) = enu_offset_m (at_position c) q in
      case pc_heading c of
        None \<Rightarrow> sqrt (north\<^sup>2 + east\<^sup>2) \<le> radius_m c
      | Some h \<Rightarrow>
          (let along = north * cos (radians h) + east * sin (radians h);
               across = - north * sin (radians h) + east * cos (radians h)
           in (along / along_m c)\<^sup>2 + (across / cross_m c)\<^sup>2 \<le> 1))"

section \<open>SAR and radar\<close>

definition place :: "observation \<Rightarrow> real \<times> real" where
  "place b = (of_rat (fst (position b)), of_rat (snd (position b)))"

text \<open>
  An attribute is read by \<open>float\<close>. The adapters write numbers; a text or a nested value, which \<open>float\<close>
  would parse or refuse, counts as absent here.
\<close>

fun number_of :: "json option \<Rightarrow> real option" where
  "number_of (Some (JNum q)) = Some (of_rat q)"
| "number_of (Some (JBool b)) = Some (of_bool b)"
| "number_of _ = None"

definition heading_of :: "observation \<Rightarrow> real option" where
  "heading_of b =
     (case heading_deg b of
        Some h \<Rightarrow> Some (of_rat h)
      | None \<Rightarrow> number_of (case map_of (ob_attributes b) ''heading_deg'' of
          Some j \<Rightarrow> Some j | None \<Rightarrow> map_of (ob_attributes b) ''angle''))"

definition speed_mps_of :: "observation \<Rightarrow> real" where
  "speed_mps_of b =
     (if of_rat (speed_mps b) > (1 / 10 ^ 9 :: real) then of_rat (speed_mps b)
      else case number_of (map_of (ob_attributes b) ''speed_kt'') of
             Some kt \<Rightarrow> if kt > 1 / 10 ^ 9 then kt_to_mps kt else DEFAULT_V_EST_MPS
           | None \<Rightarrow> DEFAULT_V_EST_MPS)"

definition sar_and_radar :: "observation \<Rightarrow> observation \<Rightarrow> (observation \<times> observation) option" where
  "sar_and_radar a b =
     (if modality a = ''space_sar'' \<and> modality b = ''radar'' then Some (a, b)
      else if modality b = ''space_sar'' \<and> modality a = ''radar'' then Some (b, a)
      else None)"

definition project_observation :: "(string \<Rightarrow> real) \<Rightarrow> observation \<Rightarrow> string \<Rightarrow> projected_contact" where
  "project_observation secs b now =
     project_dead_reckoning (place b) (heading_of b) (speed_mps_of b) (secs now - secs (observed_at b))
       DEFAULT_V_MIN_MPS DEFAULT_V_MAX_MPS DEFAULT_SIGMA_NAV_M DEFAULT_HEADING_SIGMA_DEG"

definition associate_kinematically_real :: "(string \<Rightarrow> real) \<Rightarrow> observation \<Rightarrow> observation \<Rightarrow> bool" where
  "associate_kinematically_real secs a b =
     (case sar_and_radar a b of
        None \<Rightarrow> False
      | Some (sar, radar) \<Rightarrow>
          if \<bar>secs (observed_at radar) - secs (observed_at sar)\<bar> > MAX_DT_SEC then False
          else in_reachability_envelope (project_observation secs sar (observed_at radar)) (place radar))"

definition projected_separation_real :: "(string \<Rightarrow> real) \<Rightarrow> observation \<Rightarrow> observation \<Rightarrow> real option" where
  "projected_separation_real secs a b =
     (case sar_and_radar a b of
        None \<Rightarrow> None
      | Some (sar, radar) \<Rightarrow>
          Some (great_circle (at_position (project_observation secs sar (observed_at radar))) (place radar)))"

definition earth_geometry :: "(string \<Rightarrow> real) \<Rightarrow> geometry" where
  "earth_geometry secs =
     \<lparr>great_circle_m = (\<lambda>p q. great_circle (of_rat (fst p), of_rat (snd p)) (of_rat (fst q), of_rat (snd q))),
      associate_kinematically = associate_kinematically_real secs,
      projected_separation_m = projected_separation_real secs\<rparr>"

section \<open>Lead pursuit\<close>

definition MAX_LEAD_FALLBACK_SEC :: real where "MAX_LEAD_FALLBACK_SEC = 600"

definition collision_course_eta_sec :: "real \<Rightarrow> real \<Rightarrow> real \<Rightarrow> real \<Rightarrow> real \<Rightarrow> real option" where
  "collision_course_eta_sec r_n r_e v_n v_e v_o =
     (let r2 = r_n * r_n + r_e * r_e in
      if r2 < 1 then Some 0
      else if v_o \<le> 1 / 10 ^ 9 then None
      else
        (let dot = r_n * v_n + r_e * v_e; vt2 = v_n * v_n + v_e * v_e; a = vt2 - v_o * v_o; b = 2 * dot; c = r2 in
         if \<bar>a\<bar> < 1 / 10 ^ 9 then
           (if \<bar>b\<bar> < 1 / 10 ^ 9 then None
            else (let t = - c / b in if t > 1 / 10 ^ 9 then Some t else None))
         else
           (let disc = b * b - 4 * a * c in
            if disc < 0 then None
            else
              (let positive = filter (\<lambda>t. t > 1 / 10 ^ 9) [(- b + sqrt disc) / (2 * a), (- b - sqrt disc) / (2 * a)]
               in if positive = [] then None else Some (min_list positive)))))"

record lead_pursuit_poi =
  waypoint :: "real \<times> real"
  eta_sec :: real
  pursuit_method :: string
  contact_position :: "real \<times> real"
  contact_heading :: "real option"
  contact_speed :: real
  own_position :: "real \<times> real"
  own_speed :: real
  range_at_intercept_m :: real

definition compute_lead_pursuit_poi ::
    "real \<times> real \<Rightarrow> real option \<Rightarrow> real \<Rightarrow> real \<times> real \<Rightarrow> real \<Rightarrow> real \<Rightarrow> lead_pursuit_poi" where
  "compute_lead_pursuit_poi contact heading speed own own_speed_mps max_lead =
     (let range_m = great_circle own contact; fast = max own_speed_mps (1 / 10 ^ 6);
          poi = (\<lambda>p eta how range. \<lparr>waypoint = p, eta_sec = eta, pursuit_method = how, contact_position = contact,
            contact_heading = heading, contact_speed = speed, own_position = own, own_speed = own_speed_mps,
            range_at_intercept_m = range\<rparr>);
          static = poi contact (range_m / fast) ''static_contact'' range_m
      in case heading of
           None \<Rightarrow> static
         | Some h \<Rightarrow>
             if speed \<le> 1 / 10 ^ 9 then static
             else
               (let (r_n, r_e) = enu_offset_m own contact;
                    lead_sec = min (range_m / fast) max_lead;
                    p = displace_m contact h (speed * lead_sec);
                    along_track = poi p (great_circle own p / fast) ''lead_along_track'' (great_circle own p)
                in case collision_course_eta_sec r_n r_e (speed * cos (radians h)) (speed * sin (radians h)) fast of
                     Some eta \<Rightarrow>
                       if eta \<le> max_lead
                       then poi (displace_m contact h (speed * eta)) eta ''collision_course'' (fast * eta)
                       else along_track
                   | None \<Rightarrow> along_track))"

definition eta_sec_to_point :: "real \<times> real \<Rightarrow> real \<times> real \<Rightarrow> real \<Rightarrow> real" where
  "eta_sec_to_point p target speed = great_circle p target / max speed (1 / 10 ^ 3)"

definition offshore_safe_intercept_real :: "real \<times> real \<Rightarrow> real \<Rightarrow> real \<Rightarrow> real \<times> real" where
  "offshore_safe_intercept_real poi standoff bearing = displace_m poi bearing standoff"

section \<open>Properties\<close>

lemma offset_of_displaced:
  assumes "1 / 10 ^ 6 \<le> M_PER_DEG_LAT * cos (radians (fst p))"
  shows "enu_offset_m p (displace_m p h x) = (x * cos (radians h), x * sin (radians h))"
proof -
  have "0 < M_PER_DEG_LAT * cos (radians (fst p))" using assms by (rule less_le_trans [rotated]) simp
  then have "cos (radians (fst p)) \<noteq> 0" by auto
  moreover have "M_PER_DEG_LAT \<noteq> 0" by (simp add: M_PER_DEG_LAT_def)
  ultimately show ?thesis using assms by (simp add: enu_offset_m_def displace_m_def max_def)
qed

lemma offset_length:
  assumes "1 / 10 ^ 6 \<le> M_PER_DEG_LAT * cos (radians (fst p))" "enu_offset_m p (displace_m p h x) = (n, e)"
  shows "sqrt (n\<^sup>2 + e\<^sup>2) = \<bar>x\<bar>"
proof -
  have "n = x * cos (radians h)" "e = x * sin (radians h)"
    using offset_of_displaced [OF assms(1), of h x] assms(2) by simp_all
  then have "n\<^sup>2 + e\<^sup>2 = x\<^sup>2 * ((cos (radians h))\<^sup>2 + (sin (radians h))\<^sup>2)"
    by (simp only: power_mult_distrib distrib_left)
  then show ?thesis by simp
qed

text \<open>The offshore point is as far from the protected one as asked for.\<close>

lemma offshore_standoff:
  assumes "1 / 10 ^ 6 \<le> M_PER_DEG_LAT * cos (radians (fst poi))"
    and "enu_offset_m poi (offshore_safe_intercept_real poi standoff bearing) = (n, e)"
  shows "sqrt (n\<^sup>2 + e\<^sup>2) = \<bar>standoff\<bar>"
  using offset_length [OF assms(1)] assms(2) by (simp add: offshore_safe_intercept_real_def)

text \<open>
  Claim C36: A contact whose heading is not known is never lost: away from the poles, wherever it went
  since it was seen, at any speed up to \<open>v_max\<close> and on any course, it is inside the envelope.
\<close>

theorem unknown_heading_envelope_is_complete:
  assumes "1 / 10 ^ 6 \<le> M_PER_DEG_LAT * cos (radians (fst p))" "\<bar>v\<bar> \<le> v_max" "0 \<le> sigma"
  shows "in_reachability_envelope (project_dead_reckoning p None s dt v_min v_max sigma hs) (displace_m p h (v * dt))"
proof -
  obtain n e where ne: "enu_offset_m p (displace_m p h (v * dt)) = (n, e)" by fastforce
  have "\<bar>v * dt\<bar> \<le> \<bar>dt\<bar> * v_max" using mult_left_mono [OF assms(2), of "\<bar>dt\<bar>"] by (simp add: abs_mult mult.commute)
  then show ?thesis
    using offset_length [OF assms(1) ne] ne assms(3)
    by (simp add: in_reachability_envelope_def project_dead_reckoning_def Let_def)
qed

theorem unknown_heading_envelope_is_complete_witness:
  "in_reachability_envelope (project_dead_reckoning (0, 100) None 0 3600 2 9 250 20) (displace_m (0, 100) 90 (5 * 3600))"
  by (rule unknown_heading_envelope_is_complete) (simp_all add: M_PER_DEG_LAT_def radians_def)

lemma kinematic_association_symmetric:
  "sar_and_radar a b = sar_and_radar b a"
  "associate_kinematically_real secs a b = associate_kinematically_real secs b a"
  "projected_separation_real secs a b = projected_separation_real secs b a"
proof -
  show "sar_and_radar a b = sar_and_radar b a" by (auto simp: sar_and_radar_def)
  then show "associate_kinematically_real secs a b = associate_kinematically_real secs b a"
    "projected_separation_real secs a b = projected_separation_real secs b a"
    by (simp_all add: associate_kinematically_real_def projected_separation_real_def)
qed

text \<open>
  It does not matter which of two observations comes first: a radar contact and a SAR
  detection are associated, at the same separation, in either order; and nothing else ever is.
\<close>

theorem kinematic_association_is_symmetric:
  "associate_kinematically_real secs a b = associate_kinematically_real secs b a \<and>
   projected_separation_real secs a b = projected_separation_real secs b a \<and>
   (associate_kinematically_real secs a b \<longrightarrow>
      {modality a, modality b} = {''space_sar'', ''radar''} \<and>
      \<bar>secs (observed_at a) - secs (observed_at b)\<bar> \<le> 4 * 3600 \<and> projected_separation_real secs a b \<noteq> None)"
  using kinematic_association_symmetric(2,3) [of secs a b]
  by (auto simp: associate_kinematically_real_def projected_separation_real_def sar_and_radar_def MAX_DT_SEC_def
      abs_minus_commute split: if_splits)

definition gap :: "real \<Rightarrow> real \<Rightarrow> real \<Rightarrow> real \<Rightarrow> real \<Rightarrow> real \<Rightarrow> real" where
  "gap r_n r_e v_n v_e v_o t = (r_n + v_n * t)\<^sup>2 + (r_e + v_e * t)\<^sup>2 - (v_o * t)\<^sup>2"

lemma quadratic_roots:
  fixes a b c d t :: real
  assumes "a \<noteq> 0" "d = b * b - 4 * a * c"
  shows "a * t\<^sup>2 + b * t + c = 0 \<longleftrightarrow>
    0 \<le> d \<and> (t = (- b + sqrt d) / (2 * a) \<or> t = (- b - sqrt d) / (2 * a))"
proof -
  have "4 * a * (a * t\<^sup>2 + b * t + c) = (2 * a * t + b)\<^sup>2 - d" by (simp add: assms(2) power2_eq_square algebra_simps)
  then have iff: "a * t\<^sup>2 + b * t + c = 0 \<longleftrightarrow> (2 * a * t + b)\<^sup>2 = d" using assms(1) by auto
  show ?thesis
  proof (cases "0 \<le> d")
    case True
    then have "(2 * a * t + b)\<^sup>2 = d \<longleftrightarrow> (2 * a * t + b)\<^sup>2 = (sqrt d)\<^sup>2" by simp
    also have "\<dots> \<longleftrightarrow> 2 * a * t + b = sqrt d \<or> 2 * a * t + b = - sqrt d" by (rule power2_eq_iff)
    also have "2 * a * t + b = sqrt d \<longleftrightarrow> t = (- b + sqrt d) / (2 * a)" using assms(1) by (simp add: field_simps)
    also have "2 * a * t + b = - sqrt d \<longleftrightarrow> t = (- b - sqrt d) / (2 * a)" using assms(1) by (simp add: field_simps) linarith
    finally show ?thesis using iff True by simp
  next
    case False
    then show ?thesis using iff zero_le_power2 [of "2 * a * t + b"] by linarith
  qed
qed

lemma min_list_positive:
  "Some t = (if filter P [x, y] = [] then None else Some (min_list (filter P [x, y]))) \<longleftrightarrow>
     P t \<and> (t = x \<or> t = y) \<and> (\<forall>s. P s \<and> (s = x \<or> s = y) \<longrightarrow> t \<le> (s :: real))"
  by (auto simp: min_def)

text \<open>
  Claim C29: For a contact at least a metre away, and unless it is just as fast as the platform, the
  collision course is the first one: the time returned is the least at which the platform, going
  straight, can have covered the distance to where the contact then is, and none is returned only when
  there is no such time.
\<close>

theorem collision_course_is_the_first_intercept:
  assumes "1 \<le> r_n\<^sup>2 + r_e\<^sup>2" "1 / 10 ^ 9 < v_o" "1 / 10 ^ 9 \<le> \<bar>v_n\<^sup>2 + v_e\<^sup>2 - v_o\<^sup>2\<bar>"
  shows "collision_course_eta_sec r_n r_e v_n v_e v_o = Some t \<longleftrightarrow>
    1 / 10 ^ 9 < t \<and> gap r_n r_e v_n v_e v_o t = 0 \<and>
    (\<forall>s. 1 / 10 ^ 9 < s \<and> gap r_n r_e v_n v_e v_o s = 0 \<longrightarrow> t \<le> s)"
proof -
  define a b c d where abcd: "a = v_n * v_n + v_e * v_e - v_o * v_o" "b = 2 * (r_n * v_n + r_e * v_e)"
    "c = r_n * r_n + r_e * r_e" "d = b * b - 4 * a * c"
  define x y where xy: "x = (- b + sqrt d) / (2 * a)" "y = (- b - sqrt d) / (2 * a)"
  have a: "\<not> \<bar>a\<bar> < 1 / 10 ^ 9" "a \<noteq> 0" using assms(3) by (auto simp: abcd power2_eq_square)
  have c: "\<not> c < 1" using assms(1) by (simp add: abcd power2_eq_square)
  have "gap r_n r_e v_n v_e v_o s = a * s\<^sup>2 + b * s + c" for s
    by (simp add: gap_def abcd power2_eq_square algebra_simps)
  then have roots: "gap r_n r_e v_n v_e v_o s = 0 \<longleftrightarrow> 0 \<le> d \<and> (s = x \<or> s = y)" for s
    using quadratic_roots [OF a(2) abcd(4)] by (simp add: xy)
  have "collision_course_eta_sec r_n r_e v_n v_e v_o =
      (if d < 0 then None
       else if filter (\<lambda>t. t > 1 / 10 ^ 9) [x, y] = [] then None
       else Some (min_list (filter (\<lambda>t. t > 1 / 10 ^ 9) [x, y])))"
    using a(1) c assms(2) unfolding collision_course_eta_sec_def Let_def abcd(1,2,3) [symmetric] abcd(4) [symmetric]
      xy [symmetric] by (simp only: if_not_P not_less not_le if_False)
  also have "\<dots> = Some t \<longleftrightarrow> 0 \<le> d \<and> 1 / 10 ^ 9 < t \<and> (t = x \<or> t = y) \<and>
      (\<forall>s. 1 / 10 ^ 9 < s \<and> (s = x \<or> s = y) \<longrightarrow> t \<le> s)"
    using min_list_positive [of t "\<lambda>t. t > 1 / 10 ^ 9" x y] by (cases "d < 0") auto
  also have "\<dots> \<longleftrightarrow> 1 / 10 ^ 9 < t \<and> gap r_n r_e v_n v_e v_o t = 0 \<and>
      (\<forall>s. 1 / 10 ^ 9 < s \<and> gap r_n r_e v_n v_e v_o s = 0 \<longrightarrow> t \<le> s)"
    unfolding roots by blast
  finally show ?thesis .
qed

theorem collision_course_is_the_first_intercept_witness:
  "collision_course_eta_sec 0 1000 0 0 15 = Some (200 / 3)"
proof -
  have "1 / 10 ^ 9 < (200 / 3 :: real) \<and> gap 0 1000 0 0 15 (200 / 3) = 0" by (simp add: gap_def power2_eq_square)
  moreover have "200 / 3 \<le> s" if "1 / 10 ^ 9 < s" "gap 0 1000 0 0 15 s = 0" for s :: real
  proof -
    have "(15 * s)\<^sup>2 = 1000\<^sup>2" using that(2) by (simp add: gap_def)
    then have "15 * s = 1000 \<or> 15 * s = - 1000" by (simp only: power2_eq_iff)
    then show ?thesis using that(1) by auto
  qed
  ultimately show ?thesis using collision_course_is_the_first_intercept [of 0 1000 15 0 0 "200 / 3"] by simp
qed


section \<open>What the graph does with the geometry\<close>

lemma digest_keeps_geometry [simp]:
  "place (ensure_digest sha num b) = place b" "heading_of (ensure_digest sha num b) = heading_of b"
  "speed_mps_of (ensure_digest sha num b) = speed_mps_of b" "modality (ensure_digest sha num b) = modality b"
  "observed_at (ensure_digest sha num b) = observed_at b"
  by (auto simp: ensure_digest_def place_def heading_of_def speed_mps_of_def split: option.splits)

lemma digest_keeps_association:
  "associate_kinematically_real secs (ensure_digest sha num a) (ensure_digest sha num b) =
     associate_kinematically_real secs a b"
  "projected_separation_real secs (ensure_digest sha num a) (ensure_digest sha num b) =
     projected_separation_real secs a b"
  by (simp_all add: associate_kinematically_real_def projected_separation_real_def sar_and_radar_def project_observation_def)

lemma ingest_into:
  "find_nearby ge (g\<lparr>seen := seen g @ [ensure_digest sha num b]\<rparr>) (ensure_digest sha num b) = Some u \<Longrightarrow>
     tracks (fst (ingest sha num ge b g)) = AList.update (track_id u) (fuse (ensure_digest sha num b) u) (tracks g)"
  by (simp add: ingest_def Let_def)


definition contact_at :: "string \<Rightarrow> string \<Rightarrow> rat \<Rightarrow> observation" where
  "contact_at i m x =
     \<lparr>observation_id = i, source_id = i, entity_hint = [], position = (x, 0), ob_altitude_m = None, speed_mps = 0,
      heading_deg = None, ob_confidence = 1 / 2, observed_at = i, modality = m, ob_attributes = [], raw_digest = ''D''\<rparr>"

text \<open>An hour after the detection the vessel is about eleven kilometres further north.\<close>

lemma moved_contact: "associate_kinematically_real (\<lambda>s. if s = ''R'' then 3600 else 0)
    (contact_at ''S'' ''space_sar'' 0) (contact_at ''R'' ''radar'' (1 / 10))"
  by (simp add: associate_kinematically_real_def sar_and_radar_def contact_at_def project_observation_def heading_of_def
      place_def project_dead_reckoning_def in_reachability_envelope_def enu_offset_m_def MAX_DT_SEC_def M_PER_DEG_LAT_def
      DEFAULT_V_MAX_MPS_def DEFAULT_SIGMA_NAV_M_def kt_to_mps_def of_rat_divide Let_def)


theorem kinematic_association_is_symmetric_witness:
  "associate_kinematically_real (\<lambda>s. if s = ''R'' then 3600 else 0)
     (contact_at ''R'' ''radar'' (1 / 10)) (contact_at ''S'' ''space_sar'' 0) \<and>
   \<bar>(if ''S'' = ''R'' then 3600 else 0 :: real) - 3600\<bar> \<le> 4 * 3600"
  using kinematic_association_is_symmetric [of "\<lambda>s. if s = ''R'' then 3600 else 0"
      "contact_at ''S'' ''space_sar'' 0" "contact_at ''R'' ''radar'' (1 / 10)"] moved_contact
  by (simp add: contact_at_def)

end
