(* ===== verification/Tasking.thy ===== *)
theory Tasking
  imports Scenario_Base Kinematics
begin

text \<open>
  How a scenario turns its finding into a course of action: the helpers of \<open>app/agent.py\<close> and
  \<open>apply_lead_pursuit\<close> of \<open>core/coa.py\<close>. \<open>float_ops\<close> is the rounding of floating point: \<open>rounded\<close> gives
  the float a computation over the reals ends in, \<open>round_to\<close> is \<open>round\<close> with a number of digits.
\<close>

section \<open>The observations of a finding\<close>

record float_ops =
  rounded :: "real \<Rightarrow> rat"
  round_to :: "nat \<Rightarrow> real \<Rightarrow> rat"

text \<open>A scenario's graph holds its own events only, whose \<open>speed_kt\<close> is a number when it is given.\<close>

definition knots :: "observation \<Rightarrow> rat" where
  "knots b = (case map_of (ob_attributes b) ''speed_kt'' of Some (JNum q) \<Rightarrow> q | _ \<Rightarrow> speed_mps b / (514444 / 10 ^ 6))"

definition observations_for_track :: "graph \<Rightarrow> string \<Rightarrow> observation list" where
  "observations_for_track gr k =
     (case get_track gr k of
        None \<Rightarrow> []
      | Some t \<Rightarrow> filter (\<lambda>b. observation_id b \<in> set (observation_ids t)) (seen gr))"

definition apart_m :: "float_ops \<Rightarrow> observation \<Rightarrow> observation \<Rightarrow> rat" where
  "apart_m fl a b = rounded fl (great_circle (place a) (place b))"

definition max_pairwise_mismatch_m :: "float_ops \<Rightarrow> observation list \<Rightarrow> observation list \<Rightarrow> rat" where
  "max_pairwise_mismatch_m fl xs ys = foldl (\<lambda>m a. foldl (\<lambda>m b. max m (apart_m fl a b)) m ys) 0 xs"

text \<open>\<open>max(..., key=...)\<close>: the first of the largest.\<close>

fun first_max :: "('a \<Rightarrow> rat) \<Rightarrow> 'a list \<Rightarrow> 'a option" where
  "first_max key [] = None"
| "first_max key (x # xs) =
     (case first_max key xs of None \<Rightarrow> Some x | Some y \<Rightarrow> if key y > key x then Some y else Some x)"

definition chosen_contact :: "bool \<Rightarrow> observation list \<Rightarrow> observation option" where
  "chosen_contact prefer_fast obs =
     (case (if prefer_fast then first_max ob_confidence (filter (\<lambda>b. knots b \<ge> 5) obs) else None) of
        Some b \<Rightarrow> Some b
      | None \<Rightarrow> first_max ob_confidence obs)"

definition contact_heading_of :: "observation \<Rightarrow> rat option" where
  "contact_heading_of b =
     (case heading_deg b of
        Some h \<Rightarrow> Some h
      | None \<Rightarrow>
          (case (case map_of (ob_attributes b) ''heading_deg'' of
                   Some j \<Rightarrow> Some j | None \<Rightarrow> map_of (ob_attributes b) ''angle'') of
             Some (JNum q) \<Rightarrow> Some q | _ \<Rightarrow> None))"

text \<open>Position, speed in knots and heading for tasking. \<open>None\<close>: the assertion that the track exists fails.\<close>

definition preferred_tasking_kinematics ::
    "graph \<Rightarrow> finding_record \<Rightarrow> bool \<Rightarrow> ((rat \<times> rat) \<times> rat \<times> rat option) option" where
  "preferred_tasking_kinematics gr f prefer_fast =
     (case get_track gr (fi_track f) of
        None \<Rightarrow> None
      | Some t \<Rightarrow>
          (case chosen_contact prefer_fast (observations_for_track gr (fi_track f)) of
             Some b \<Rightarrow> Some (position b, knots b, contact_heading_of b)
           | None \<Rightarrow> Some (tr_position t, tr_speed_mps t / (514444 / 10 ^ 6), None)))"

section \<open>Lead pursuit\<close>

definition LEAD_PURSUIT_INTENTS :: "string set" where
  "LEAD_PURSUIT_INTENTS = {''APPROACH_PATROL'', ''CUE_AND_IDENTIFY'', ''GNSS_DENIAL_AND_GBAD_CUE''}"

definition DEFAULT_OWN_POSITION :: "real \<times> real" where
  "DEFAULT_OWN_POSITION = (123 / 100, 10385 / 100)"

definition DEFAULT_OWN_SPEED_MPS :: real where
  "DEFAULT_OWN_SPEED_MPS = 15"

definition pair_json :: "float_ops \<Rightarrow> real \<times> real \<Rightarrow> dict" where
  "pair_json fl p = [(''latitude'', JNum (rounded fl (fst p))), (''longitude'', JNum (rounded fl (snd p)))]"

definition poi_metadata :: "float_ops \<Rightarrow> lead_pursuit_poi \<Rightarrow> json" where
  "poi_metadata fl p = JObj
     (pair_json fl (waypoint p) @
      [(''eta_sec'', JNum (round_to fl 3 (eta_sec p))), (''method'', JStr (pursuit_method p)),
       (''range_at_intercept_m'', JNum (round_to fl 1 (range_at_intercept_m p))),
       (''contact_snapshot'', JObj (pair_json fl (contact_position p) @
          [(''heading_deg'', json_or_null (JNum \<circ> rounded fl) (contact_heading p)),
           (''speed_mps'', JNum (round_to fl 3 (contact_speed p)))])),
       (''own_platform'', JObj (pair_json fl (own_position p) @
          [(''speed_mps'', JNum (rounded fl (own_speed p)))]))])"

definition apply_lead_pursuit :: "float_ops \<Rightarrow> lead_pursuit_poi \<Rightarrow> course_of_action \<Rightarrow> course_of_action" where
  "apply_lead_pursuit fl p c =
     c\<lparr>target_coordinates := (rounded fl (fst (waypoint p)), rounded fl (snd (waypoint p))),
       metadata := dict_update
         [(''poi'', poi_metadata fl p),
          (''contact_coordinates'', JArr [JNum (rounded fl (fst (contact_position p))),
             JNum (rounded fl (snd (contact_position p)))]),
          (''eta_sec'', JNum (round_to fl 3 (eta_sec p)))] (metadata c)\<rparr>"

section \<open>The course of action\<close>

definition tier1_metadata :: "finding_record \<Rightarrow> rat \<times> rat \<Rightarrow> rat \<Rightarrow> dict" where
  "tier1_metadata f p speed =
     [(''scenario_id'', JStr (fi_scenario f)), (''picture_summary'', JStr (picture_summary f)),
      (''adversarial_hypothesis'', JStr (fi_hypothesis f)),
      (''finding'', JStr (if message f \<noteq> [] then message f else picture_summary f)),
      (''contact_speed_kt'', JNum speed), (''amber_alert'', json_or_null JStr (amber_alert f)),
      (''source_breakdown'', JObj (source_breakdown f)),
      (''contact_coordinates'', JArr [JNum (fst p), JNum (snd p)])]"

text \<open>\<open>override\<close> and \<open>contact\<close> are \<open>speed_kt_override\<close> and \<open>apply_contact_speed\<close>; \<open>i\<close> is the fresh id.\<close>

definition make_tier1_coa ::
    "float_ops \<Rightarrow> (string \<Rightarrow> string) \<Rightarrow> graph \<Rightarrow> finding_record \<Rightarrow> string \<Rightarrow> rat \<Rightarrow> rat option \<Rightarrow> bool \<Rightarrow> string \<Rightarrow>
       course_of_action option" where
  "make_tier1_coa fl sha gr f what timeout override contact i =
     (case (get_track gr (fi_track f), preferred_tasking_kinematics gr f True) of
        (Some t, Some (p, speed, heading)) \<Rightarrow>
          (let c = \<lparr>coa_id = i, tier = TIER_1_HITL, target_entity_id = fi_track f, target_coordinates = p,
                 intent = what, timeout_seconds = timeout,
                 pre_conditions = [(''contradiction'', JBool True), (''mismatch_m'', JNum (mismatch_m f)),
                   (''threat_class'', JStr (threat_class f)), (''warning_minutes_est'', JNum (warning_minutes_est f))],
                 post_conditions = [(''identify_or_clarify'', JBool True)],
                 invariants = [(''fail_safe'', JStr ''STATION_KEEP''), (''comm_loss'', JStr ''STATION_KEEP'')],
                 confidence = fi_confidence f, corroborating_sources = all_sources f,
                 raw_input_digest = fused_digest sha t,
                 speed_kt = (case override of Some v \<Rightarrow> Some v | None \<Rightarrow> if contact then Some speed else None),
                 metadata = tier1_metadata f p speed\<rparr>
           in Some (if what \<in> LEAD_PURSUIT_INTENTS
                    then apply_lead_pursuit fl
                      (compute_lead_pursuit_poi (of_rat (fst p), of_rat (snd p)) (map_option of_rat heading)
                        (of_rat (speed * (514444 / 10 ^ 6))) DEFAULT_OWN_POSITION DEFAULT_OWN_SPEED_MPS MAX_LEAD_FALLBACK_SEC) c
                    else c))
      | _ \<Rightarrow> None)"

section \<open>What is tasked\<close>

lemma map_of_dict_update:
  "map_of (dict_update kvs d) k = (case map_of (rev kvs) k of None \<Rightarrow> map_of d k | Some v \<Rightarrow> Some v)"
  by (induction kvs arbitrary: d) (auto simp: update_conv' map_add_def split: option.splits)

lemma first_max_None [simp]: "first_max key xs = None \<longleftrightarrow> xs = []"
  by (cases xs) (auto split: option.splits)

lemma first_max_spec:
  "first_max key xs = Some y \<Longrightarrow> y \<in> set xs \<and> (\<forall>x \<in> set xs. key x \<le> key y)"
  by (induction xs arbitrary: y) (force split: option.splits if_splits)+

lemma foldl_max: "foldl (\<lambda>m b. max m (h b)) (m :: rat) ys = Max (insert m (h ` set ys))"
proof (induction ys arbitrary: m)
  case (Cons y ys)
  have "Max (insert (max m (h y)) (h ` set ys)) = Max (insert m (insert (h y) (h ` set ys)))"
    by (cases "h ` set ys = {}") (simp_all add: max.assoc)
  then show ?case by (simp add: Cons)
qed simp

lemma Max_insert_Max:
  fixes A :: "rat set"
  shows "finite A \<Longrightarrow> A \<noteq> {} \<Longrightarrow> finite S \<Longrightarrow> Max (insert (Max A) S) = Max (A \<union> S)"
  by (cases "S = {}") (simp_all add: Max_Un)

lemma max_pairwise_spec:
  "max_pairwise_mismatch_m fl xs ys = Max (insert 0 {apart_m fl a b | a b. a \<in> set xs \<and> b \<in> set ys})"
proof -
  have "foldl (\<lambda>m a. Max (insert m (apart_m fl a ` set ys))) m xs =
      Max (insert m (\<Union>a \<in> set xs. apart_m fl a ` set ys))" for m
  proof (induction xs arbitrary: m)
    case (Cons x xs)
    let ?X = "apart_m fl x ` set ys" and ?S = "\<Union>a \<in> set xs. apart_m fl a ` set ys"
    have "Max (insert (Max (insert m ?X)) ?S) = Max (insert m (?X \<union> ?S))"
      using Max_insert_Max [of "insert m ?X" ?S] by simp
    then show ?case by (simp add: Cons)
  qed simp
  moreover have "(\<Union>a \<in> set xs. apart_m fl a ` set ys) = {apart_m fl a b | a b. a \<in> set xs \<and> b \<in> set ys}"
    by auto
  ultimately show ?thesis by (simp add: max_pairwise_mismatch_m_def foldl_max)
qed

lemma tier1_coa_fields:
  assumes "make_tier1_coa fl sha gr f what q ov b i = Some c"
  shows "coa_id c = i" "tier c = TIER_1_HITL" "intent c = what" "confidence c = fi_confidence f"
    "corroborating_sources c = all_sources f" "target_entity_id c = fi_track f"
  using assms by (auto simp: make_tier1_coa_def apply_lead_pursuit_def Let_def split: option.splits prod.splits if_splits)

lemma tier1_coa_made:
  "make_tier1_coa fl sha gr f what q ov b i \<noteq> None \<longleftrightarrow> get_track gr (fi_track f) \<noteq> None"
  by (auto simp: make_tier1_coa_def preferred_tasking_kinematics_def Let_def split: option.splits)

text \<open>The speed and place come from an observation of the track, a fast one where there is one.\<close>

lemma chosen_contact_in: "chosen_contact pf obs = Some b \<Longrightarrow> b \<in> set obs"
  by (auto simp: chosen_contact_def split: option.splits if_splits dest!: first_max_spec)

lemma tier1_coa_static:
  assumes "make_tier1_coa fl sha gr f what q ov True i = Some c" "what \<notin> LEAD_PURSUIT_INTENTS"
    "b \<in> set (observations_for_track gr (fi_track f))" "knots b \<ge> 5"
  shows "\<exists>b' \<in> set (observations_for_track gr (fi_track f)). knots b' \<ge> 5 \<and>
    target_coordinates c = position b' \<and> (ov = None \<longrightarrow> speed_kt c = Some (knots b')) \<and>
    (\<forall>b'' \<in> set (observations_for_track gr (fi_track f)). knots b'' \<ge> 5 \<longrightarrow> ob_confidence b'' \<le> ob_confidence b')"
proof -
  let ?obs = "observations_for_track gr (fi_track f)" and ?fast = "filter (\<lambda>b. knots b \<ge> 5) (observations_for_track gr (fi_track f))"
  have "?fast \<noteq> []" using assms(3,4) by (auto simp: filter_empty_conv)
  then obtain b' where m: "first_max ob_confidence ?fast = Some b'" by (cases "first_max ob_confidence ?fast") auto
  then have "chosen_contact True ?obs = Some b'" by (simp add: chosen_contact_def)
  then show ?thesis using assms(1,2) first_max_spec [OF m]
    by (auto simp: make_tier1_coa_def preferred_tasking_kinematics_def Let_def split: option.splits intro!: bexI [of _ b'])
qed

end
