(* ===== verification/Interpreter.thy ===== *)
theory Interpreter
  imports Tasking
begin

text \<open>
  \<open>app/llm_interpreter.py\<close>: from a finding to hypotheses and a candidate course of action, by a language
  model when one is configured and otherwise, or when anything about its answer goes wrong, by rules.
  The endpoint is the parameter \<open>ask\<close>, a function of what the prompt says, whose answer may be any JSON.
  An exception is \<open>None\<close>.
\<close>

section \<open>What the interpreter calls\<close>

text \<open>\<open>ask = None\<close>: no endpoint is configured. \<open>amber_claim\<close> is the text of the first hypothesis.\<close>

record interpreter_deps =
  floats :: float_ops
  sha_of :: "string \<Rightarrow> string"
  py :: py_builtins
  scenarios :: "(string \<times> scenario) list"
  amber_claim :: "string \<Rightarrow> rat \<Rightarrow> string"
  json_loads :: "string \<Rightarrow> json option"
  llm_model :: string
  ask :: "(json \<Rightarrow> json option) option"

section \<open>Hypotheses\<close>

text \<open>\<open>Hypothesis(...)\<close> raises when the confidence is not in the unit interval.\<close>

definition hypothesis :: "string \<Rightarrow> string \<Rightarrow> rat \<Rightarrow> bool \<Rightarrow> string list \<Rightarrow> json option" where
  "hypothesis label claim conf threat hints =
     (if 0 \<le> conf \<and> conf \<le> 1
      then Some (JObj [(''label'', JStr label), (''claim'', JStr claim), (''confidence'', JNum conf),
        (''supports_threat'', JBool threat), (''modality_hints'', JArr (map JStr hints))])
      else None)"

definition given :: "string \<Rightarrow> string \<Rightarrow> string" where
  "given s dflt = (if s \<noteq> [] then s else dflt)"

definition heuristic_hypotheses :: "interpreter_deps \<Rightarrow> finding_record \<Rightarrow> json option list" where
  "heuristic_hypotheses d f =
     (let amber = (case amber_alert f of
            Some (ch # cs) \<Rightarrow>
              [hypothesis ''sensor_contradiction'' (amber_claim d (ch # cs) (mismatch_m f))
                (min (95 / 100) (max (4 / 10) (fi_confidence f))) True (map fst (source_breakdown f))]
          | _ \<Rightarrow> []);
          spoof = map (\<lambda>s. hypothesis ''spoof_or_manipulated'' (''Source '' @ s @ '' may be spoofed / delayed / exaggerated.'')
            (55 / 100) True [''ais'', ''social'']) (spoof_sources f);
          approach = map (\<lambda>s. hypothesis ''corroborated_approach'' (''Source '' @ s @ '' supports an inbound / approach picture.'')
            (7 / 10) True [''radar'', ''optical'', ''rf'']) (approach_sources f);
          collapse = (if fi_hypothesis f = [] then []
            else [hypothesis ''collapse_condition'' (fi_hypothesis f) (1 / 2) False []]);
          hyps = amber @ spoof @ approach @ collapse
      in if hyps \<noteq> [] then hyps
         else [hypothesis ''insufficient_picture'' (given (picture_summary f) (given (message f) ''No clear discrepancy.''))
           (fi_confidence f) (fi_confidence f \<ge> 1 / 2) []])"

section \<open>The candidate\<close>

definition DEFAULT_INTENTS :: "(string \<times> string) list" where
  "DEFAULT_INTENTS = [(''S1_trojan'', ''OFFSHORE_INTERCEPT_RF_SOFTKILL''), (''S3_sar_ais'', ''APPROACH_PATROL''),
     (''S1_ais_spoof'', ''ISR_IDENTIFY_CONTACT''), (''S2_osint_swarm'', ''GNSS_DENIAL_AND_GBAD_CUE'')]"

definition intent_for :: "finding_record \<Rightarrow> string" where
  "intent_for f = (case map_of DEFAULT_INTENTS (toUpperCase (fi_scenario f)) of
     Some what \<Rightarrow> what | None \<Rightarrow> ''INSPECT_TARGET'')"

text \<open>A scenario that is not registered is the \<open>KeyError\<close> that leads to the shared helper.\<close>

definition candidate :: "interpreter_deps \<Rightarrow> graph \<Rightarrow> finding_record \<Rightarrow> rat \<Rightarrow> string option \<Rightarrow> string \<Rightarrow> course_of_action option" where
  "candidate d gr f timeout override i =
     map_option (\<lambda>c. case override of Some (ch # cs) \<Rightarrow> c\<lparr>intent := ch # cs\<rparr> | _ \<Rightarrow> c)
       (case get_scenario (scenarios d) (fi_scenario f) of
          Some sc \<Rightarrow> build_coa sc gr f timeout i
        | None \<Rightarrow> make_tier1_coa (floats d) (sha_of d) gr f
            (case override of Some (ch # cs) \<Rightarrow> ch # cs | _ \<Rightarrow> intent_for f) timeout None False i)"

definition noted :: "dict \<Rightarrow> course_of_action \<Rightarrow> course_of_action" where
  "noted kvs c = c\<lparr>metadata := dict_update kvs (metadata c)\<rparr>"

definition heuristic_interpret ::
    "interpreter_deps \<Rightarrow> graph \<Rightarrow> finding_record \<Rightarrow> rat \<Rightarrow> string \<Rightarrow> interpreter_result option" where
  "heuristic_interpret d gr f timeout i =
     Option.bind (those (heuristic_hypotheses d f)) (\<lambda>hyps.
     Option.bind (candidate d gr f timeout None i) (\<lambda>c.
     if 0 \<le> fi_confidence f \<and> fi_confidence f \<le> 1
     then Some \<lparr>candidate_coa = noted [(''interpreter'', JStr ''heuristic''), (''hypotheses'', JArr hyps)] c,
       hypotheses = hyps, interpreter_confidence = fi_confidence f, interpreted_picture = picture_summary f,
       adversarial_hypothesis = fi_hypothesis f, interpreter_source = ''heuristic'', interpreter_model = JNull,
       interpreter_error = JNull\<rparr>
     else None))"

section \<open>The prompt\<close>

definition BRIEF_KEYS :: "string list" where
  "BRIEF_KEYS = [''intel_text'', ''claimed_count'', ''contact_count'', ''blur'', ''note'', ''rf_silent'', ''empty_sector'']"

definition observation_brief :: "observation \<Rightarrow> json" where
  "observation_brief b = JObj
     [(''source_id'', JStr (source_id b)), (''modality'', JStr (modality b)), (''lat'', JNum (fst (position b))),
      (''lon'', JNum (snd (position b))), (''speed_mps'', JNum (speed_mps b)), (''confidence'', JNum (ob_confidence b)),
      (''attributes'', JObj (List.map_filter (\<lambda>k. map_option (\<lambda>j. (k, j)) (map_of (ob_attributes b) k)) BRIEF_KEYS))]"

text \<open>What differs from one prompt to another; the fixed instructions around it are left out.\<close>

definition prompt_payload :: "graph \<Rightarrow> finding_record \<Rightarrow> json" where
  "prompt_payload gr f = JObj
     [(''finding'', JObj
        [(''scenario_id'', JStr (fi_scenario f)), (''threat_class'', JStr (threat_class f)),
         (''warning_minutes_est'', JNum (warning_minutes_est f)), (''mismatch_m'', JNum (mismatch_m f)),
         (''confidence'', JNum (fi_confidence f)), (''picture_summary'', JStr (picture_summary f)),
         (''adversarial_hypothesis'', JStr (fi_hypothesis f)), (''amber_alert'', json_or_null JStr (amber_alert f)),
         (''source_breakdown'', JObj (source_breakdown f))]),
      (''observations'', JArr (map observation_brief (seen gr)))]"

section \<open>Reading the answer\<close>

definition line_break :: "char \<Rightarrow> bool" where
  "line_break c = (let n = of_char c :: nat in (10 \<le> n \<and> n \<le> 13) \<or> (28 \<le> n \<and> n \<le> 30) \<or> n = 133)"

fun splitlines :: "string \<Rightarrow> string list" where
  "splitlines [] = []"
| "splitlines (c # cs) =
     (if c = char_of (13 :: nat) \<and> (case cs of [] \<Rightarrow> False | c' # _ \<Rightarrow> c' = char_of (10 :: nat)) then [] # splitlines (tl cs)
      else if line_break c then [] # splitlines cs
      else (case splitlines cs of [] \<Rightarrow> [[c]] | l # ls \<Rightarrow> (c # l) # ls))"

fun join_lines :: "string list \<Rightarrow> string" where
  "join_lines [] = []"
| "join_lines [l] = l"
| "join_lines (l # ls) = l @ char_of (10 :: nat) # join_lines ls"

definition fence :: "string \<Rightarrow> bool" where
  "fence s = startsWith s ''```''"

definition unfenced :: "string \<Rightarrow> string" where
  "unfenced content =
     (let body = strip content in
      if fence body then
        (let ls = splitlines body; ls1 = (if ls \<noteq> [] \<and> fence (hd ls) then tl ls else ls);
             ls2 = (if ls1 \<noteq> [] \<and> fence (strip (last ls1)) then butlast ls1 else ls1)
         in strip (join_lines ls2))
      else body)"

definition parse_llm_json :: "interpreter_deps \<Rightarrow> string \<Rightarrow> dict option" where
  "parse_llm_json d content = (case json_loads d (unfenced content) of Some (JObj payload) \<Rightarrow> Some payload | _ \<Rightarrow> None)"

text \<open>\<open>data["choices"][0]["message"]["content"]\<close>, which must be a text.\<close>

definition answer_content :: "json \<Rightarrow> string option" where
  "answer_content data =
     (case data of
        JObj kvs \<Rightarrow>
          (case map_of kvs ''choices'' of
             Some (JArr (JObj choice # _)) \<Rightarrow>
               (case map_of choice ''message'' of
                  Some (JObj msg) \<Rightarrow> (case map_of msg ''content'' of Some (JStr s) \<Rightarrow> Some s | _ \<Rightarrow> None)
                | _ \<Rightarrow> None)
           | _ \<Rightarrow> None)
      | _ \<Rightarrow> None)"

text \<open>What a \<open>for\<close> loop over a value goes through.\<close>

fun iterated :: "json \<Rightarrow> json list option" where
  "iterated (JArr js) = Some js"
| "iterated (JObj kvs) = Some (map (JStr \<circ> fst) kvs)"
| "iterated (JStr s) = Some (map (\<lambda>c. JStr [c]) s)"
| "iterated _ = None"

definition read_float :: "interpreter_deps \<Rightarrow> json \<Rightarrow> rat option" where
  "read_float d j = (case py_float (py d) j of Inl e \<Rightarrow> None | Inr q \<Rightarrow> Some q)"

definition in_unit :: "rat \<Rightarrow> rat" where
  "in_unit q = max 0 (min 1 q)"

definition llm_hypothesis :: "interpreter_deps \<Rightarrow> dict \<Rightarrow> json option" where
  "llm_hypothesis d item =
     Option.bind (read_float d (get_or item ''confidence'' (JNum (1 / 2)))) (\<lambda>conf.
     Option.bind (iterated (or_else [map_of item ''modality_hints''] (JArr []))) (\<lambda>hints.
     hypothesis (py_str (py d) (get_or item ''label'' (JStr ''hypothesis''))) (py_str (py d) (get_or item ''claim'' (JStr [])))
       (in_unit conf) (json_truthy (get_or item ''supports_threat'' (JBool True))) (map (py_str (py d)) hints)))"

text \<open>What is no object is passed over; with nothing left, one thin hypothesis, whose confidence is not clamped.\<close>

definition llm_hypotheses :: "interpreter_deps \<Rightarrow> finding_record \<Rightarrow> dict \<Rightarrow> json list option" where
  "llm_hypotheses d f payload =
     Option.bind (iterated (or_else [map_of payload ''hypotheses''] (JArr []))) (\<lambda>raw.
     Option.bind (those (List.map_filter (\<lambda>j. case j of JObj item \<Rightarrow> Some (llm_hypothesis d item) | _ \<Rightarrow> None) raw)) (\<lambda>hyps.
     if hyps \<noteq> [] then Some hyps
     else Option.bind (read_float d (get_or payload ''confidence'' (JNum (fi_confidence f)))) (\<lambda>conf.
       map_option (\<lambda>h. [h]) (hypothesis ''llm_empty_hypotheses''
         (py_str (py d) (or_else [map_of payload ''picture_summary''] (JStr (picture_summary f)))) conf True []))))"

definition LLM_INTENTS :: "string set" where
  "LLM_INTENTS = {''CUE_AND_IDENTIFY'', ''GNSS_DENIAL_AND_GBAD_CUE'', ''ISR_IDENTIFY_CONTACT'', ''APPROACH_PATROL'',
     ''INSPECT_TARGET''}"

definition llm_intent :: "interpreter_deps \<Rightarrow> finding_record \<Rightarrow> dict \<Rightarrow> string" where
  "llm_intent d f payload =
     (let what = toUpperCase (strip (py_str (py d) (or_else [map_of payload ''intent''] (JStr (intent_for f)))))
      in if what \<in> LLM_INTENTS then what else intent_for f)"

definition llm_text :: "interpreter_deps \<Rightarrow> dict \<Rightarrow> string \<Rightarrow> string \<Rightarrow> string" where
  "llm_text d payload k dflt = py_str (py d) (or_else [map_of payload k] (JStr dflt))"

definition coa_from_llm_payload ::
    "interpreter_deps \<Rightarrow> graph \<Rightarrow> finding_record \<Rightarrow> dict \<Rightarrow> rat \<Rightarrow> json list \<Rightarrow> rat \<Rightarrow> string \<Rightarrow> course_of_action option" where
  "coa_from_llm_payload d gr f payload timeout hyps conf i =
     map_option (\<lambda>c. noted
         [(''interpreter'', JStr ''llm''), (''llm_model'', JStr (llm_model d)),
          (''picture_summary'', JStr (llm_text d payload ''picture_summary'' (picture_summary f))),
          (''adversarial_hypothesis'', JStr (llm_text d payload ''adversarial_hypothesis'' (fi_hypothesis f))),
          (''hypotheses'', JArr hyps)]
         (c\<lparr>confidence := in_unit conf, tier := TIER_1_HITL\<rparr>))
       (candidate d gr f timeout (Some (llm_intent d f payload)) i)"

definition llm_interpret ::
    "interpreter_deps \<Rightarrow> (json \<Rightarrow> json option) \<Rightarrow> graph \<Rightarrow> finding_record \<Rightarrow> rat \<Rightarrow> string \<Rightarrow> interpreter_result option" where
  "llm_interpret d endpoint gr f timeout i =
     Option.bind (endpoint (prompt_payload gr f)) (\<lambda>data.
     Option.bind (answer_content data) (\<lambda>content.
     Option.bind (parse_llm_json d content) (\<lambda>payload.
     Option.bind (llm_hypotheses d f payload) (\<lambda>hyps.
     Option.bind (read_float d (get_or payload ''confidence'' (JNum (fi_confidence f)))) (\<lambda>conf.
     Option.bind (coa_from_llm_payload d gr f payload timeout hyps conf i) (\<lambda>c.
     Some \<lparr>candidate_coa = c, hypotheses = hyps, interpreter_confidence = in_unit conf,
       interpreted_picture = llm_text d payload ''picture_summary'' (picture_summary f),
       adversarial_hypothesis = llm_text d payload ''adversarial_hypothesis'' (fi_hypothesis f),
       interpreter_source = ''llm'', interpreter_model = JStr (llm_model d), interpreter_error = JNull\<rparr>))))))"

definition interpret_finding ::
    "interpreter_deps \<Rightarrow> graph \<Rightarrow> finding_record \<Rightarrow> rat \<Rightarrow> bool \<Rightarrow> string \<Rightarrow> interpreter_result option" where
  "interpret_finding d gr f timeout force_heuristic i =
     (case (if force_heuristic then None else ask d) of
        None \<Rightarrow> heuristic_interpret d gr f timeout i
      | Some endpoint \<Rightarrow>
          (case llm_interpret d endpoint gr f timeout i of
             Some r \<Rightarrow> Some r
           | None \<Rightarrow> map_option (\<lambda>r. r\<lparr>interpreter_error := JStr ''llm_failed'',
               candidate_coa := noted [(''llm_error'', JStr ''llm_failed'')] (candidate_coa r)\<rparr>)
               (heuristic_interpret d gr f timeout i)))"


section \<open>What the model may decide\<close>

lemma bind_Some_iff: "Option.bind r f = Some v \<longleftrightarrow> (\<exists>u. r = Some u \<and> f u = Some v)"
  by (cases r) auto

lemma those_Some: "those rs = Some vs \<Longrightarrow> rs = map Some vs"
  by (induction rs arbitrary: vs) (auto split: option.splits)

lemma those_total: "None \<notin> set rs \<longleftrightarrow> those rs \<noteq> None"
  by (induction rs) (auto split: option.splits)

lemma upper_not_small:
  assumes "c \<in> set (toUpperCase s)"
  shows "\<not> (97 \<le> (of_char c :: nat) \<and> (of_char c :: nat) \<le> 122)"
proof -
  obtain c0 where c: "c = ascii_upper_char c0" using assms by (auto simp: toUpperCase_def)
  show ?thesis
  proof (cases "97 \<le> (of_char c0 :: nat) \<and> (of_char c0 :: nat) \<le> 122")
    case True
    then have "(of_char c :: nat) = (of_char c0 - 32) mod 256" by (simp add: c ascii_upper_char_def)
    also have "\<dots> = of_char c0 - 32" using True by (intro mod_less) linarith
    finally have "(of_char c :: nat) = of_char c0 - 32" .
    with True show ?thesis by linarith
  qed (auto simp: c ascii_upper_char_def Let_def)
qed

lemma no_default_intent [simp]: "intent_for f = ''INSPECT_TARGET''"
proof -
  have "toUpperCase (fi_scenario f) \<notin> fst ` set DEFAULT_INTENTS"
  proof
    assume "toUpperCase (fi_scenario f) \<in> fst ` set DEFAULT_INTENTS"
    moreover have "\<exists>c \<in> set k. 97 \<le> (of_char c :: nat) \<and> (of_char c :: nat) \<le> 122" if "k \<in> fst ` set DEFAULT_INTENTS" for k
      using that by (auto simp: DEFAULT_INTENTS_def)
    ultimately show False using upper_not_small by blast
  qed
  then show ?thesis by (simp add: intent_for_def map_of_eq_None_iff [THEN iffD2])
qed

lemma candidate_shape:
  assumes "candidate d gr f q ov i = Some c" "ov \<noteq> Some []"
  shows "\<exists>c0. (case get_scenario (scenarios d) (fi_scenario f) of
            Some sc \<Rightarrow> build_coa sc gr f q i = Some c0
          | None \<Rightarrow> tier c0 = TIER_1_HITL \<and> intent c0 = (case ov of Some w \<Rightarrow> w | None \<Rightarrow> ''INSPECT_TARGET'')) \<and>
         c = (case ov of Some w \<Rightarrow> c0\<lparr>intent := w\<rparr> | None \<Rightarrow> c0)"
proof -
  have "\<exists>ch cs. ov = Some (ch # cs)" if "ov \<noteq> None" using that assms(2) by (cases "the ov") auto
  then show ?thesis using assms(1)
    by (cases ov) (auto simp: candidate_def split: option.splits dest: tier1_coa_fields)
qed

lemma noted_fields [simp]:
  "coa_id (noted kvs c) = coa_id c" "tier (noted kvs c) = tier c" "intent (noted kvs c) = intent c"
  "confidence (noted kvs c) = confidence c" "(noted kvs c)\<lparr>metadata := m\<rparr> = c\<lparr>metadata := m\<rparr>"
  by (simp_all add: noted_def)

lemma llm_intent_in: "llm_intent d f payload \<in> LLM_INTENTS"
  by (simp add: llm_intent_def Let_def LLM_INTENTS_def)

lemma in_unit_bounds [simp]: "0 \<le> in_unit q" "in_unit q \<le> 1"
  by (simp_all add: in_unit_def)

text \<open>What the interpreter writes into the metadata of a candidate.\<close>

definition NOTED_KEYS :: "string set" where
  "NOTED_KEYS = {''interpreter'', ''llm_model'', ''picture_summary'', ''adversarial_hypothesis'', ''hypotheses'', ''llm_error''}"

definition reworded :: "course_of_action \<Rightarrow> course_of_action \<Rightarrow> bool" where
  "reworded c k \<longleftrightarrow> k = c\<lparr>intent := intent k, tier := tier k, confidence := confidence k, metadata := metadata k\<rparr> \<and>
     (\<forall>x. x \<notin> NOTED_KEYS \<longrightarrow> map_of (metadata k) x = map_of (metadata c) x)"

lemma noted_outside:
  assumes "fst ` set kvs \<subseteq> NOTED_KEYS" "x \<notin> NOTED_KEYS"
  shows "map_of (metadata (noted kvs k)) x = map_of (metadata k) x"
proof -
  have "map_of (rev kvs) x = None" using assms by (auto simp: map_of_eq_None_iff)
  then show ?thesis by (simp add: noted_def map_of_dict_update del: dict_update_Cons)
qed

lemma reworded_simps [simp]:
  "reworded c c" "reworded c (c\<lparr>intent := w, confidence := q, tier := t\<rparr>)"
  by (simp_all add: reworded_def)

lemma reworded_noted:
  assumes "fst ` set kvs \<subseteq> NOTED_KEYS"
  shows "reworded c (noted kvs k) \<longleftrightarrow> reworded c k"
proof -
  have "noted kvs k = c\<lparr>intent := w, tier := t, confidence := q, metadata := metadata (noted kvs k)\<rparr> \<longleftrightarrow>
      k = c\<lparr>intent := w, tier := t, confidence := q, metadata := metadata k\<rparr>" for w t q
    by (cases c; cases k) (auto simp: noted_def)
  then show ?thesis by (simp add: reworded_def noted_outside [OF assms])
qed

lemma reworded_keeps:
  assumes "reworded c k"
  shows "coa_id k = coa_id c" "target_coordinates k = target_coordinates c" "speed_kt k = speed_kt c"
    "target_entity_id k = target_entity_id c" "corroborating_sources k = corroborating_sources c"
proof -
  note k = assms [unfolded reworded_def, THEN conjunct1]
  show "coa_id k = coa_id c" "target_coordinates k = target_coordinates c" "speed_kt k = speed_kt c"
    "target_entity_id k = target_entity_id c" "corroborating_sources k = corroborating_sources c"
    using arg_cong [OF k, of coa_id] arg_cong [OF k, of target_coordinates] arg_cong [OF k, of speed_kt]
      arg_cong [OF k, of target_entity_id] arg_cong [OF k, of corroborating_sources] by simp_all
qed

lemma llm_candidate:
  assumes "llm_interpret d endpoint gr f q i = Some r"
  shows "interpreter_source r = ''llm'' \<and> tier (candidate_coa r) = TIER_1_HITL \<and> intent (candidate_coa r) \<in> LLM_INTENTS \<and>
    0 \<le> confidence (candidate_coa r) \<and> confidence (candidate_coa r) \<le> 1 \<and>
    (\<forall>sc. get_scenario (scenarios d) (fi_scenario f) = Some sc \<longrightarrow>
       (\<exists>c. build_coa sc gr f q i = Some c \<and> reworded c (candidate_coa r)))"
proof -
  obtain payload hyps conf c where c: "coa_from_llm_payload d gr f payload q hyps conf i = Some c"
    and r: "candidate_coa r = c" "interpreter_source r = ''llm''"
    using assms by (auto simp: llm_interpret_def bind_Some_iff)
  let ?w = "llm_intent d f payload"
  have w: "Some ?w \<noteq> Some []" using llm_intent_in [of d f payload] by (auto simp: LLM_INTENTS_def)
  obtain c1 kvs where c1: "candidate d gr f q (Some ?w) i = Some c1"
    and k: "c = noted kvs (c1\<lparr>confidence := in_unit conf, tier := TIER_1_HITL\<rparr>)" and kvs: "fst ` set kvs \<subseteq> NOTED_KEYS"
    using c by (force simp: coa_from_llm_payload_def NOTED_KEYS_def)
  from candidate_shape [OF c1 w] obtain c0 where "c1 = c0\<lparr>intent := ?w\<rparr>"
    and "case get_scenario (scenarios d) (fi_scenario f) of Some sc \<Rightarrow> build_coa sc gr f q i = Some c0
      | None \<Rightarrow> tier c0 = TIER_1_HITL \<and> intent c0 = ?w"
    by (auto split: option.splits)
  then show ?thesis using r k llm_intent_in [of d f payload] reworded_noted [OF kvs] by auto
qed

lemma heuristic_candidate:
  assumes "heuristic_interpret d gr f q i = Some r"
  shows "interpreter_source r = ''heuristic'' \<and>
    (case get_scenario (scenarios d) (fi_scenario f) of
       Some sc \<Rightarrow> \<exists>c. build_coa sc gr f q i = Some c \<and> reworded c (candidate_coa r) \<and> intent (candidate_coa r) = intent c \<and>
         tier (candidate_coa r) = tier c \<and> confidence (candidate_coa r) = confidence c
     | None \<Rightarrow> tier (candidate_coa r) = TIER_1_HITL \<and> intent (candidate_coa r) = ''INSPECT_TARGET'')"
proof -
  obtain c kvs where c: "candidate d gr f q None i = Some c"
    and r: "candidate_coa r = noted kvs c" "interpreter_source r = ''heuristic''" and kvs: "fst ` set kvs \<subseteq> NOTED_KEYS"
    using assms by (force simp: heuristic_interpret_def bind_Some_iff NOTED_KEYS_def split: if_splits)
  from candidate_shape [OF c] show ?thesis
    by (auto simp: r reworded_noted [OF kvs] split: option.splits)
qed

lemma interpret_cases:
  assumes "interpret_finding d gr f q b i = Some r"
  obtains (llm) endpoint where "llm_interpret d endpoint gr f q i = Some r"
  | (rules) r0 kvs where "heuristic_interpret d gr f q i = Some r0" "candidate_coa r = noted kvs (candidate_coa r0)"
      "interpreter_source r = interpreter_source r0" "hypotheses r = hypotheses r0"
      "fst ` set kvs \<subseteq> NOTED_KEYS"
proof -
  have n: "noted [] c = c" for c :: course_of_action by (simp add: noted_def)
  show ?thesis
  proof (cases "\<exists>endpoint. llm_interpret d endpoint gr f q i = Some r")
    case False
    then obtain r0 where r0: "heuristic_interpret d gr f q i = Some r0"
      and r: "r = r0 \<or> r = r0\<lparr>interpreter_error := JStr ''llm_failed'',
        candidate_coa := noted [(''llm_error'', JStr ''llm_failed'')] (candidate_coa r0)\<rparr>"
      using assms by (auto simp: interpret_finding_def split: option.splits if_splits)
    from r show ?thesis
    proof
      assume "r = r0"
      then show ?thesis using rules [OF r0, of "[]"] by (simp add: n)
    next
      assume "r = r0\<lparr>interpreter_error := JStr ''llm_failed'',
        candidate_coa := noted [(''llm_error'', JStr ''llm_failed'')] (candidate_coa r0)\<rparr>"
      then show ?thesis using rules [OF r0, of "[(''llm_error'', JStr ''llm_failed'')]"] by (simp add: NOTED_KEYS_def)
    qed
  qed (use llm in blast)
qed

text \<open>
  Claim C11: Whatever the language model answers, the candidate is the scenario's own course of action with
  at most the intent, the tier, the confidence and six keys of the metadata changed: then the tier is Tier 1,
  the intent is one of the five that investigate, and the confidence is clamped to the unit interval. By
  rules, only those keys change. In particular a lead-pursuit intent from the model keeps the static coordinates.
\<close>

theorem language_model_only_rewords:
  assumes "get_scenario (scenarios d) (fi_scenario f) = Some sc" "interpret_finding d gr f q b i = Some r"
  shows "\<exists>c. build_coa sc gr f q i = Some c \<and> reworded c (candidate_coa r) \<and>
    (if interpreter_source r = ''llm''
     then tier (candidate_coa r) = TIER_1_HITL \<and> intent (candidate_coa r) \<in> LLM_INTENTS \<and>
       0 \<le> confidence (candidate_coa r) \<and> confidence (candidate_coa r) \<le> 1
     else intent (candidate_coa r) = intent c \<and> tier (candidate_coa r) = tier c \<and>
       confidence (candidate_coa r) = confidence c)"
  using assms(2)
proof (cases rule: interpret_cases)
  case (llm endpoint)
  from llm_candidate [OF llm] assms(1) show ?thesis by auto
next
  case (rules r0 kvs)
  from heuristic_candidate [OF rules(1)] assms(1) show ?thesis by (auto simp: rules(2,3) reworded_noted [OF rules(5)])
qed

section \<open>The interpreter always answers\<close>

definition scored :: "json option \<Rightarrow> bool" where
  "scored h \<longleftrightarrow> (\<exists>label claim conf threat hints. 0 \<le> conf \<and> conf \<le> 1 \<and> h = hypothesis label claim conf threat hints)"

lemma hypothesis_scored [simp]: "0 \<le> conf \<Longrightarrow> conf \<le> 1 \<Longrightarrow> scored (hypothesis label claim conf threat hints)"
  unfolding scored_def by blast

lemma scored_Some: "scored h \<Longrightarrow> h \<noteq> None"
  by (auto simp: scored_def hypothesis_def)

lemma hypothesis_Some: "hypothesis label claim conf threat hints = Some h \<Longrightarrow> scored (Some h)"
  by (metis hypothesis_def hypothesis_scored option.distinct(1))

lemma heuristic_hypotheses_scored:
  assumes "0 \<le> fi_confidence f" "fi_confidence f \<le> 1"
  shows "\<forall>h \<in> set (heuristic_hypotheses d f). scored h"
  unfolding heuristic_hypotheses_def Let_def
  using assms by (auto split: option.splits list.splits)

lemma heuristic_hypotheses_valid:
  assumes "0 \<le> fi_confidence f" "fi_confidence f \<le> 1"
  shows "\<exists>hyps. those (heuristic_hypotheses d f) = Some hyps \<and> hyps \<noteq> [] \<and> (\<forall>h \<in> set hyps. scored (Some h))"
proof -
  note ok = heuristic_hypotheses_scored [OF assms, of d]
  then obtain hyps where h: "those (heuristic_hypotheses d f) = Some hyps"
    using those_total [of "heuristic_hypotheses d f"] scored_Some by fastforce
  then have "heuristic_hypotheses d f = map Some hyps" by (rule those_Some)
  moreover have "heuristic_hypotheses d f \<noteq> []" by (simp add: heuristic_hypotheses_def Let_def)
  ultimately show ?thesis using ok h by auto
qed

lemma llm_hypotheses_valid:
  assumes "llm_hypotheses d f payload = Some hyps"
  shows "hyps \<noteq> [] \<and> (\<forall>h \<in> set hyps. scored (Some h))"
proof -
  let ?item = "\<lambda>j. case j of JObj item \<Rightarrow> Some (llm_hypothesis d item) | _ \<Rightarrow> None"
  obtain raw hs where hs: "those (List.map_filter ?item raw) = Some hs"
    and h: "if hs \<noteq> [] then hyps = hs else \<exists>l c q t ms h. hypothesis l c q t ms = Some h \<and> hyps = [h]"
    using assms unfolding llm_hypotheses_def bind_Some_iff by (fastforce simp: bind_Some_iff split: if_splits)
  have "scored (Some h)" if "h \<in> set hs" for h
  proof -
    have "Some h \<in> set (List.map_filter ?item raw)" using those_Some [OF hs] that by simp
    then obtain item where "llm_hypothesis d item = Some h"
      by (auto simp: List.map_filter_def split: json.splits)
    then show ?thesis by (auto simp: llm_hypothesis_def bind_Some_iff dest: hypothesis_Some)
  qed
  then show ?thesis using h by (auto split: if_splits dest: hypothesis_Some)
qed

text \<open>
  Claim C28: The interpreter always answers: when the scenario builds a course of action from a finding
  whose confidence is in the unit interval, then for every answer of the language model, or none, there
  is a result with at least one hypothesis, each scored in the unit interval, and a candidate.
\<close>

theorem interpreter_always_answers:
  assumes "get_scenario (scenarios d) (fi_scenario f) = Some sc" "build_coa sc gr f q i = Some c"
    "0 \<le> fi_confidence f" "fi_confidence f \<le> 1"
  shows "\<exists>r. interpret_finding d gr f q b i = Some r \<and> hypotheses r \<noteq> [] \<and> (\<forall>h \<in> set (hypotheses r). scored (Some h))"
proof -
  obtain hyps where hyps: "those (heuristic_hypotheses d f) = Some hyps" "hyps \<noteq> []" "\<forall>h \<in> set hyps. scored (Some h)"
    using heuristic_hypotheses_valid [OF assms(3,4)] by blast
  then obtain r0 where r0: "heuristic_interpret d gr f q i = Some r0" "hypotheses r0 = hyps"
    using assms by (simp add: heuristic_interpret_def candidate_def)
  then have "interpret_finding d gr f q b i \<noteq> None"
    by (simp add: interpret_finding_def split: option.split)
  then obtain r where r: "interpret_finding d gr f q b i = Some r" by blast
  then show ?thesis
  proof (cases rule: interpret_cases)
    case (llm endpoint)
    then have "\<exists>payload. llm_hypotheses d f payload = Some (hypotheses r)"
      by (auto simp: llm_interpret_def bind_Some_iff)
    then show ?thesis using r llm_hypotheses_valid by blast
  next
    case (rules r1 kvs)
    then show ?thesis using r r0 hyps by auto
  qed
qed

end
