(* ===== verification/Interpreter_Properties.thy ===== *)
theory Interpreter_Properties
  imports Interpreter Picture_Properties
begin

text \<open>
  The interpreter inside the gate: a proposal it drafts is never approved without the operator, whatever
  the language model answers. The properties of \<open>Interpreter\<close> at a model that asks for more than it may.
\<close>

definition interpreted :: "gate_deps \<Rightarrow> interpreter_deps \<Rightarrow> gate_deps" where
  "interpreted d it = d\<lparr>interpreter := interpret_finding (it\<lparr>scenarios := registry d\<rparr>)\<rparr>"

lemma interpreted_simps [simp]:
  "registry (interpreted d it) = registry d" "interlocks (interpreted d it) = interlocks d"
  "interpreter (interpreted d it) = interpret_finding (it\<lparr>scenarios := registry d\<rparr>)"
  by (simp_all add: interpreted_def)

text \<open>A scenario that tasks an operator: never Tier 0, never one of the intents that may be approved by policy.\<close>

definition asks_operator :: "course_of_action \<Rightarrow> bool" where
  "asks_operator c \<longleftrightarrow> tier c \<noteq> TIER_0_AUTONOMOUS \<and> intent c \<notin> {''OBSERVE_ONLY'', ''STATION_KEEP''}"

lemma asks_operator_tier: "asks_operator c \<Longrightarrow> tier (apply_defaults pol c) \<noteq> TIER_0_AUTONOMOUS"
  by (simp add: asks_operator_def apply_defaults_def resolve_tier_def Let_def)

lemma interpreted_asks_operator:
  assumes "\<forall>sc \<in> snd ` set (scenarios d). \<forall>gr f q i c. build_coa sc gr f q i = Some c \<longrightarrow> asks_operator c"
    "interpret_finding d gr f q b i = Some r"
  shows "asks_operator (candidate_coa r)"
  using assms(2)
proof (cases rule: interpret_cases)
  case (llm endpoint)
  then show ?thesis using llm_candidate [OF llm] by (auto simp: asks_operator_def LLM_INTENTS_def)
next
  case (rules r0 kvs)
  have "asks_operator (candidate_coa r0)"
  proof (cases "get_scenario (scenarios d) (fi_scenario f)")
    case (Some sc)
    from heuristic_candidate [OF rules(1)] obtain c where "build_coa sc gr f q i = Some c"
      "intent (candidate_coa r0) = intent c" "tier (candidate_coa r0) = tier c"
      by (auto simp: Some)
    then show ?thesis using assms(1) get_scenario_in [OF Some] by (auto simp: asks_operator_def)
  qed (use heuristic_candidate [OF rules(1)] in \<open>simp add: asks_operator_def\<close>)
  then show ?thesis by (simp add: rules asks_operator_def)
qed

lemma queued_keeps_inbox: "inbox (fst (reject_fast d c why g)) = inbox g" "inbox (fst (queue_proposal d c u r g)) = inbox g"
  by (simp_all add: reject_fast_def queue_proposal_def Let_def)

text \<open>
  A proposal drawn up from a scenario, by its rules or by the interpreter, is never approved without the
  operator: as long as the scenarios themselves ask for one, then for every answer of the language model,
  every policy and every request, the inbox is as before.
\<close>

lemma loaded_asks_operator:
  assumes "\<forall>sc \<in> snd ` set (registry d). \<forall>gr f q i c. build_coa sc gr f q i = Some c \<longrightarrow> asks_operator c"
    "load_scenario d sid q g = (g1, Inr c)"
  shows "tier c \<noteq> TIER_0_AUTONOMOUS"
proof -
  have "\<exists>k sc gr f i c0 pol. (k, sc) \<in> set (registry d) \<and> build_coa sc gr f q i = Some c0 \<and> c = apply_defaults pol c0"
    using assms(2) by (auto simp: load_scenario_def ingest_scenario_def Let_def split: option.splits prod.splits sum.splits
        dest!: get_scenario_in) blast+
  then show ?thesis using assms(1) asks_operator_tier by force
qed

lemma loading_keeps_inbox:
  "load_scenario d sid q g = (g1, res) \<Longrightarrow> inbox g1 = inbox g"
  "interpret_scenario d sid q h g = (g1, res') \<Longrightarrow> inbox g1 = inbox g"
  by (auto simp: load_scenario_def interpret_scenario_def ingest_scenario_def Let_def persist_picture_def write_store_def
      split: option.splits prod.splits sum.splits)

lemma submitted_keeps_inbox:
  "tier c \<noteq> TIER_0_AUTONOMOUS \<Longrightarrow> inbox (fst (submit d c u r g)) = inbox g"
  by (simp add: submit_def queued_keeps_inbox split: option.split)

theorem scenario_proposals_wait_for_the_operator:
  assumes "\<forall>sc \<in> snd ` set (registry d). \<forall>gr f q i c. build_coa sc gr f q i = Some c \<longrightarrow> asks_operator c"
    "req_scenario req = Some sid" "sid \<noteq> []"
  shows "inbox (fst (gate_proposals (interpreted d it) req g)) = inbox g"
proof -
  let ?d = "interpreted d it" and ?q = "or_default (req_timeout req) (default_timeout_seconds (policy g))"
  obtain ch cs where sid: "sid = ch # cs" using assms(3) by (cases sid) auto
  obtain g1 res where i: "interpret_scenario ?d sid ?q (req_heuristic req) g = (g1, res)" by fastforce
  obtain g2 res2 where l: "load_scenario ?d sid ?q g = (g2, res2)" by fastforce
  note same = loading_keeps_inbox(2) [OF i] loading_keeps_inbox(1) [OF l]
  have "tier (candidate_coa r) \<noteq> TIER_0_AUTONOMOUS" if "res = Inr r" for r
    using i that asks_operator_tier interpreted_asks_operator [of "it\<lparr>scenarios := registry d\<rparr>"] assms(1)
    by (auto simp: interpret_scenario_def split: option.splits prod.splits sum.splits)
  moreover have "tier c \<noteq> TIER_0_AUTONOMOUS" if "res2 = Inr c" for c
    using loaded_asks_operator [of ?d] l that assms(1) by simp
  ultimately show ?thesis
    using i l same by (simp add: gate_proposals_def assms(2) sid submitted_keeps_inbox refuse_def Let_def split: sum.split)
qed

section \<open>A model that overreaches\<close>

text \<open>Its answer asks for an intent the policy may approve by itself, and for more confidence than there is.\<close>

definition overreach :: dict where
  "overreach = [(''intent'', JStr ''station_keep''), (''confidence'', JNum 7),
     (''hypotheses'', JArr [JStr ''noise'', JObj [(''label'', JStr ''calm'')]])]"

definition reply :: json where
  "reply = JObj [(''choices'', JArr [JObj [(''message'', JObj [(''content'', JStr ''ok'')])]])]"

definition overreaching :: interpreter_deps where
  "overreaching = \<lparr>floats = \<lparr>rounded = (\<lambda>x. 0), round_to = (\<lambda>n x. 0)\<rparr>, sha_of = id, py = plain_builtins,
     scenarios = registry demo_gate_deps, amber_claim = (\<lambda>a m. a), json_loads = (\<lambda>s. Some (JObj overreach)),
     llm_model = ''m'', ask = Some (\<lambda>p. Some reply)\<rparr>"

lemma overreaching_scenario: "get_scenario (scenarios overreaching) (fi_scenario demo_finding) = Some no_go_scenario"
  by (simp add: overreaching_def demo_scenario demo_finding_def)

lemma ok_body: "unfenced ''ok'' = ''ok''"
  by (simp add: unfenced_def fence_def strip_def trim_by_def py_space_def startsWith_def)

lemma station_keep_upper: "toUpperCase (strip ''station_keep'') = ''STATION_KEEP''"
  by code_simp

lemma overreach_hypotheses:
  "llm_hypotheses overreaching f overreach =
     Some [JObj [(''label'', JStr ''calm''), (''claim'', JStr []), (''confidence'', JNum (1 / 2)),
       (''supports_threat'', JBool True), (''modality_hints'', JArr [])]]"
  by (simp add: llm_hypotheses_def overreach_def or_else_def List.map_filter_def llm_hypothesis_def read_float_def get_or_def
      hypothesis_def in_unit_def)

lemma overreach_accepted:
  "\<exists>r. interpret_finding overreaching gr demo_finding q False i = Some r \<and> interpreter_source r = ''llm''"
proof -
  have "llm_intent overreaching demo_finding overreach = ''INSPECT_TARGET''"
    by (simp add: llm_intent_def overreach_def or_else_def station_keep_upper LLM_INTENTS_def Let_def)
  moreover have "candidate overreaching gr demo_finding q (Some ''INSPECT_TARGET'') i =
      Some ((coa_at i (1231 / 1000, 103851 / 1000))\<lparr>intent := ''INSPECT_TARGET''\<rparr>)"
    by (simp add: candidate_def overreaching_scenario) (simp add: no_go_scenario_def)
  moreover have "read_float overreaching (get_or overreach ''confidence'' (JNum (fi_confidence demo_finding))) = Some 7"
    by (simp add: read_float_def get_or_def overreach_def)
  moreover have "parse_llm_json overreaching ''ok'' = Some overreach"
    by (simp add: parse_llm_json_def overreaching_def)
  moreover have "answer_content reply = Some ''ok''" by (simp add: answer_content_def reply_def)
  ultimately have "\<exists>r. llm_interpret overreaching (\<lambda>p. Some reply) gr demo_finding q i = Some r \<and> interpreter_source r = ''llm''"
    by (simp add: llm_interpret_def coa_from_llm_payload_def overreach_hypotheses)
  moreover have "ask overreaching = Some (\<lambda>p. Some reply)" by (simp add: overreaching_def)
  ultimately show ?thesis by (auto simp: interpret_finding_def)
qed

theorem language_model_only_rewords_witness:
  "\<exists>r. interpret_finding overreaching empty_graph demo_finding 5 False ''u'' = Some r \<and> interpreter_source r = ''llm'' \<and>
     target_coordinates (candidate_coa r) = (1231 / 1000, 103851 / 1000) \<and> confidence (candidate_coa r) \<le> 1"
proof -
  obtain r where r: "interpret_finding overreaching empty_graph demo_finding 5 False ''u'' = Some r" "interpreter_source r = ''llm''"
    using overreach_accepted by blast
  obtain c where c: "build_coa no_go_scenario empty_graph demo_finding 5 ''u'' = Some c" "reworded c (candidate_coa r)"
      "confidence (candidate_coa r) \<le> 1"
    using language_model_only_rewords [OF overreaching_scenario r(1)] r(2) by auto
  have "target_coordinates c = (1231 / 1000, 103851 / 1000)" using c(1) by (auto simp: no_go_scenario_def coa_at_def)
  then show ?thesis using r c(3) reworded_keeps(2) [OF c(2)] by simp
qed

theorem interpreter_always_answers_witness:
  "\<exists>r. interpret_finding (overreaching\<lparr>ask := Some (\<lambda>p. None)\<rparr>) empty_graph demo_finding 5 False ''u'' = Some r \<and>
     hypotheses r \<noteq> []"
proof -
  have "get_scenario (scenarios (overreaching\<lparr>ask := Some (\<lambda>p. None)\<rparr>)) (fi_scenario demo_finding) = Some no_go_scenario"
    using overreaching_scenario by simp
  moreover have "build_coa no_go_scenario empty_graph demo_finding 5 ''u'' = Some (coa_at ''u'' (1231 / 1000, 103851 / 1000))"
    by (simp add: no_go_scenario_def)
  moreover have "0 \<le> fi_confidence demo_finding" "fi_confidence demo_finding \<le> 1" by (simp_all add: demo_finding_def)
  ultimately have "\<exists>r. interpret_finding (overreaching\<lparr>ask := Some (\<lambda>p. None)\<rparr>) empty_graph demo_finding 5 False ''u'' = Some r \<and>
      hypotheses r \<noteq> [] \<and> (\<forall>h \<in> set (hypotheses r). scored (Some h))"
    by (rule interpreter_always_answers)
  then show ?thesis by blast
qed

definition interpret_proposal :: proposal_request where
  "interpret_proposal = \<lparr>req_scenario = Some ''S'', req_coa = None, req_unit = ''U'', req_timeout = None,
     req_interpret = True, req_heuristic = False\<rparr>"

end
