(* ===== verification/Great_Circle.thy ===== *)
theory Great_Circle
  imports Kinematics
begin

text \<open>
  How far the great-circle distance of \<open>Kinematics\<close> can be from the flat one: bounds by the half angles,
  good enough to compare the distance of two given points with a threshold.
\<close>

lemma sin_above:
  assumes "0 \<le> (x :: real)"
  shows "x - x ^ 3 / 6 \<le> sin x"
proof -
  have "\<bar>sin x - x\<bar> \<le> x ^ 3 / 6"
    using Maclaurin_sin_bound [of x 3] assms by (simp add: numeral_3_eq_3 sin_coeff_def)
  then show ?thesis by linarith
qed

definition half_angles :: "real \<times> real \<Rightarrow> real \<times> real \<Rightarrow> real \<times> real" where
  "half_angles p q = (\<bar>radians (fst q - fst p)\<bar> / 2, \<bar>radians (snd q - snd p)\<bar> / 2)"

definition haversine_a :: "real \<times> real \<Rightarrow> real \<times> real \<Rightarrow> real" where
  "haversine_a p q = (sin (radians (fst q - fst p) / 2))\<^sup>2 +
     cos (radians (fst p)) * cos (radians (fst q)) * (sin (radians (snd q - snd p) / 2))\<^sup>2"

lemma great_circle_a: "great_circle p q = 2 * 6371000 * arcsin (sqrt (haversine_a p q))"
  by (simp add: great_circle_def haversine_a_def Let_def)

lemma sin_square_le: "(sin x)\<^sup>2 \<le> (\<bar>x\<bar> :: real)\<^sup>2"
proof -
  have "\<bar>sin x\<bar> \<le> \<bar>x\<bar>" by (rule abs_sin_x_le_abs_x)
  then show ?thesis using power_mono [of "\<bar>sin x\<bar>" "\<bar>x\<bar>" 2] by simp
qed

lemma haversine_bounds:
  assumes "\<bar>fst p\<bar> \<le> 90" "\<bar>fst q\<bar> \<le> 90" "half_angles p q = (x, y)"
  shows "(sin x)\<^sup>2 \<le> haversine_a p q" "haversine_a p q \<le> (x + y)\<^sup>2"
proof -
  have c: "0 \<le> cos (radians l) \<and> cos (radians l) \<le> 1" if "\<bar>l\<bar> \<le> 90" for l
  proof -
    have "\<bar>radians l\<bar> \<le> pi / 2" using that mult_right_mono [of "\<bar>l\<bar>" 90 pi] by (simp add: radians_def abs_mult)
    then have "- (pi / 2) \<le> radians l" "radians l \<le> pi / 2" by linarith+
    then show ?thesis using cos_ge_zero by simp
  qed
  let ?c = "cos (radians (fst p)) * cos (radians (fst q))"
  have cc: "0 \<le> ?c" "?c \<le> 1" using c [OF assms(1)] c [OF assms(2)] by (simp_all add: mult_le_one)
  have x: "x = \<bar>radians (fst q - fst p) / 2\<bar>" and y: "y = \<bar>radians (snd q - snd p) / 2\<bar>"
    using assms(3) by (auto simp: half_angles_def)
  have sx: "(sin (radians (fst q - fst p) / 2))\<^sup>2 = (sin x)\<^sup>2" by (cases "0 \<le> radians (fst q - fst p)") (simp_all add: x)
  then show "(sin x)\<^sup>2 \<le> haversine_a p q" using cc by (simp add: haversine_a_def)
  have "?c * (sin (radians (snd q - snd p) / 2))\<^sup>2 \<le> 1 * y\<^sup>2"
    unfolding y using cc by (intro mult_mono sin_square_le) simp_all
  moreover have "(sin (radians (fst q - fst p) / 2))\<^sup>2 \<le> x\<^sup>2" unfolding x by (rule sin_square_le)
  ultimately have "haversine_a p q \<le> x\<^sup>2 + y\<^sup>2" by (simp add: haversine_a_def)
  also have "\<dots> \<le> (x + y)\<^sup>2" by (simp add: power2_sum x y)
  finally show "haversine_a p q \<le> (x + y)\<^sup>2" .
qed

lemma great_circle_bounds:
  assumes "\<bar>fst p\<bar> \<le> 90" "\<bar>fst q\<bar> \<le> 90" "half_angles p q = (x, y)" "x + y \<le> t - t ^ 3 / 6" "0 \<le> t" "t \<le> 1"
    "0 \<le> u" "u \<le> x - x ^ 3 / 6"
  shows "12742000 * u \<le> great_circle p q" "great_circle p q \<le> 12742000 * t"
proof -
  have nn: "0 \<le> x" "0 \<le> y" using assms(3) by (auto simp: half_angles_def)
  note b = haversine_bounds [OF assms(1-3)]
  have "0 \<le> (sin x)\<^sup>2" by simp
  then have a0: "0 \<le> haversine_a p q" using b(1) by linarith
  have up: "sqrt (haversine_a p q) \<le> x + y" using b(2) nn by (intro real_le_lsqrt) simp_all
  have "x + y \<le> sin t" using sin_above [OF assms(5)] assms(4) by linarith
  then have s: "sqrt (haversine_a p q) \<le> sin t" using up by linarith
  have s0: "- 1 \<le> sqrt (haversine_a p q)" by (rule order_trans [OF _ real_sqrt_ge_zero [OF a0]]) simp
  from s have one: "sqrt (haversine_a p q) \<le> 1" using sin_le_one [of t] by linarith
  have half: "- (pi / 2) \<le> t" "t \<le> pi / 2" using assms(5,6) pi_ge_two by linarith+
  have "arcsin (sqrt (haversine_a p q)) \<le> t" using s s0 one half by (subst arcsin_le_iff) auto
  then show "great_circle p q \<le> 12742000 * t" by (simp add: great_circle_a)
  have xt: "x - x ^ 3 / 6 \<le> sin x" using sin_above nn by simp
  have ux: "u \<le> 1" using xt assms(8) sin_le_one [of x] by linarith
  have "sin u \<le> u" using assms(7) by (rule sin_x_le_x)
  also have "u \<le> sin x" using xt assms(8) by linarith
  also have "sin x \<le> sqrt (haversine_a p q)" using b(1) by (rule real_le_rsqrt)
  finally have "u \<le> arcsin (sqrt (haversine_a p q))"
    using one s0 ux assms(7) pi_ge_two by (subst le_arcsin_iff) auto
  then show "12742000 * u \<le> great_circle p q" by (simp add: great_circle_a)
qed

lemma pi_ge_three: "3 \<le> pi"
  using sin_x_le_x [of "pi / 6"] by (simp add: sin_30)

end
