(* ===== verification/Southbound.thy ===== *)
theory Southbound
  imports Tasking
begin

text \<open>
  \<open>app/adapters/southbound_sensor.py\<close>: a row of a sensor export becomes an event, and an event becomes
  an observation. A JSON object is its list of entries; \<open>read_time\<close> is the library's reading of a time
  that is no text, \<open>seconds_in\<close> and \<open>clock_in\<close> give a moment of the demo day as its text.
\<close>

section \<open>Rows\<close>

record south_deps =
  sb_py :: py_builtins
  sb_floats :: float_ops
  seconds_in :: "rat \<Rightarrow> string option"
  clock_in :: "int \<Rightarrow> int \<Rightarrow> int \<Rightarrow> string option"
  read_time :: "json \<Rightarrow> string option"

definition non_null :: "json option \<Rightarrow> json option" where
  "non_null v = (if v = Some JNull then None else v)"

text \<open>\<open>d.get(k, d.get(k', ...))\<close>: the value of the first key there is.\<close>

definition first_key :: "dict \<Rightarrow> string list \<Rightarrow> json option" where
  "first_key d ks = (case List.map_filter (map_of d) ks of [] \<Rightarrow> None | j # _ \<Rightarrow> Some j)"

fun split_at :: "char \<Rightarrow> string \<Rightarrow> string list" where
  "split_at c [] = [[]]"
| "split_at c (x # xs) =
     (if x = c then [] # split_at c xs
      else case split_at c xs of [] \<Rightarrow> [[x]] | w # ws \<Rightarrow> (x # w) # ws)"

definition offset_for_Z :: "string \<Rightarrow> string" where
  "offset_for_Z s = concat (map (\<lambda>c. if c = CHR ''Z'' then ''+00:00'' else [c]) s)"

fun moment :: "timestamp \<Rightarrow> string" where
  "moment (Naive s) = s"
| "moment (Aware s) = s"

definition parse_iso :: "south_deps \<Rightarrow> string \<Rightarrow> feed_error + string" where
  "parse_iso sb s = (case fromisoformat (sb_py sb) (offset_for_Z s) of None \<Rightarrow> Inl Bad_Value | Some t \<Rightarrow> Inr (moment t))"

definition or_bad :: "'a option \<Rightarrow> feed_error + 'a" where
  "or_bad v = (case v of None \<Rightarrow> Inl Bad_Value | Some x \<Rightarrow> Inr x)"

definition observed_at_from_row :: "south_deps \<Rightarrow> string \<Rightarrow> dict \<Rightarrow> feed_error + string" where
  "observed_at_from_row sb now row =
     (case first_truthy [map_of row ''observed_at''] of
        Some raw \<Rightarrow> parse_iso sb (py_str (sb_py sb) raw)
      | None \<Rightarrow>
          (case map_of row ''time_s'' of
             Some t \<Rightarrow> attempt (py_float (sb_py sb) t) (\<lambda>q. or_bad (seconds_in sb q))
           | None \<Rightarrow>
               (case first_truthy [map_of row ''timestamp''] of
                  None \<Rightarrow> Inr now
                | Some raw \<Rightarrow>
                    (case split_at (CHR '':'') (py_str (sb_py sb) raw) of
                       [h, m, s] \<Rightarrow>
                         attempt (py_int (sb_py sb) (JStr h)) (\<lambda>h. attempt (py_int (sb_py sb) (JStr m)) (\<lambda>m.
                         attempt (py_int (sb_py sb) (JStr s)) (\<lambda>s. or_bad (clock_in sb h m s))))
                     | _ \<Rightarrow> Inl Bad_Value))))"

section \<open>Where a row is\<close>

definition polar_to_latlon :: "float_ops \<Rightarrow> rat \<times> rat \<Rightarrow> rat \<Rightarrow> rat \<Rightarrow> rat \<times> rat" where
  "polar_to_latlon fl site azimuth range_km =
     (let distance = of_rat range_km * 1000; heading = radians (of_rat azimuth);
          per_lon = M_PER_DEG_LAT * cos (radians (of_rat (fst site)))
      in (rounded fl (of_rat (fst site) + distance * cos heading / M_PER_DEG_LAT),
          rounded fl (of_rat (snd site) + distance * sin heading / max per_lon (1 / 10 ^ 6))))"

definition at_bearing :: "south_deps \<Rightarrow> json \<Rightarrow> json \<Rightarrow> json \<Rightarrow> feed_error + rat \<Rightarrow> feed_error + (json \<times> json) option" where
  "at_bearing sb lat lon azimuth km =
     (let num = py_float (sb_py sb) in
      attempt (num lat) (\<lambda>la. attempt (num lon) (\<lambda>lo. attempt (num azimuth) (\<lambda>az. attempt km (\<lambda>r.
        case polar_to_latlon (sb_floats sb) (la, lo) az r of (x, y) \<Rightarrow> Inr (Some (JNum x, JNum y)))))))"

definition at_site :: "dict \<Rightarrow> string \<Rightarrow> bool" where
  "at_site row source \<longleftrightarrow> source = ''ARMY_CCTV'' \<or> source \<in> {''AIR_EW'', ''ARMY_EW''} \<or>
     map_of row ''detected'' = Some (JBool False) \<or> first_truthy [map_of row ''rf_negative''] \<noteq> None"

text \<open>\<open>Inr None\<close>: the row cannot be located.\<close>

definition row_position :: "south_deps \<Rightarrow> dict \<Rightarrow> string \<Rightarrow> feed_error + (json \<times> json) option" where
  "row_position sb row source =
     (case (non_null (first_key row [''lat'', ''latitude'', ''center_lat'']),
            non_null (first_key row [''lon'', ''longitude'', ''center_lon''])) of
        (Some lat, Some lon) \<Rightarrow> Inr (Some (lat, lon))
      | _ \<Rightarrow>
          (case (non_null (map_of row ''site_lat''), non_null (map_of row ''site_lon'')) of
             (Some lat, Some lon) \<Rightarrow>
               (case (non_null (map_of row ''azimuth_deg''), non_null (map_of row ''range_km'')) of
                  (Some az, Some km) \<Rightarrow> at_bearing sb lat lon az (py_float (sb_py sb) km)
                | _ \<Rightarrow>
                    (case non_null (map_of row ''bearing_deg'') of
                       Some bearing \<Rightarrow> at_bearing sb lat lon bearing (Inr 15)
                     | None \<Rightarrow>
                         if at_site row source
                         then attempt (py_float (sb_py sb) lat) (\<lambda>la. attempt (py_float (sb_py sb) lon) (\<lambda>lo.
                           Inr (Some (JNum la, JNum lo))))
                         else Inr None))
           | _ \<Rightarrow> Inr None))"

section \<open>From a row to an event\<close>

definition MODALITIES :: "(string \<times> string) list" where
  "MODALITIES = [(''NAVY_AIS'', ''ais''), (''NAVY_COASTAL_RADAR'', ''radar''), (''SPACE_SAR'', ''space_sar''),
     (''AIR_RADAR'', ''radar''), (''AIR_EOIR'', ''optical''), (''AIR_EW'', ''rf''), (''ARMY_EOIR'', ''optical''),
     (''ARMY_EW'', ''rf''), (''ARMY_CCTV'', ''optical'')]"

definition sensor_modality :: "string \<Rightarrow> string" where
  "sensor_modality source = (case map_of MODALITIES source of None \<Rightarrow> ''generic'' | Some k \<Rightarrow> k)"

definition LOCATION_KEYS :: "string set" where
  "LOCATION_KEYS = {''lat'', ''lon'', ''latitude'', ''longitude'', ''center_lat'', ''center_lon'', ''sog_knots'',
     ''velocity_knots'', ''speed_kt'', ''cog_deg'', ''heading_deg'', ''observed_at'', ''time_s'', ''timestamp''}"

definition row_attributes :: "dict \<Rightarrow> string \<Rightarrow> string \<Rightarrow> dict" where
  "row_attributes row source service =
     (let attrs = filter (\<lambda>kv. fst kv \<notin> LOCATION_KEYS) row in
      dict_update
        [(''service'', if service \<noteq> [] then JStr service else get_or attrs ''service'' JNull), (''source'', JStr source),
         (''time_s'', get_or row ''time_s'' JNull)] attrs)"

definition row_source :: "south_deps \<Rightarrow> dict \<Rightarrow> string" where
  "row_source sb row = py_str (sb_py sb) (get_or row ''source'' (JStr []))"

definition row_sensor :: "south_deps \<Rightarrow> dict \<Rightarrow> string" where
  "row_sensor sb row = py_str (sb_py sb)
     (get_or row ''sensor_id'' (JStr (if row_source sb row \<noteq> [] then row_source sb row else ''UNKNOWN'')))"

definition row_entity :: "south_deps \<Rightarrow> dict \<Rightarrow> string" where
  "row_entity sb row = py_str (sb_py sb)
     (or_else (map (map_of row) [''mmsi'', ''track_id'', ''emitter_id'', ''candidate_id'', ''camera_id''])
       (JStr (row_sensor sb row)))"

text \<open>The attributes of the row come last and so override the fields before them.\<close>

definition canonical_row_to_event :: "south_deps \<Rightarrow> string \<Rightarrow> dict \<Rightarrow> feed_error + dict option" where
  "canonical_row_to_event sb now row =
     (let num = py_float (sb_py sb); source = row_source sb row;
          service = lower (py_str (sb_py sb) (get_or row ''service'' (JStr [])))
      in attempt (observed_at_from_row sb now row) (\<lambda>time.
         attempt (row_position sb row source) (\<lambda>p.
           case p of
             None \<Rightarrow> Inr None
           | Some (lat, lon) \<Rightarrow>
               attempt (num (or_else [first_key row [''sog_knots'', ''velocity_knots'', ''speed_kt'']] (JNum 0))) (\<lambda>speed.
               attempt (num lat) (\<lambda>la. attempt (num lon) (\<lambda>lo.
               attempt (case non_null (first_key row [''cog_deg'', ''heading_deg'', ''azimuth_deg'']) of
                   None \<Rightarrow> Inr JNull | Some h \<Rightarrow> attempt (num h) (\<lambda>q. Inr (JNum q))) (\<lambda>heading.
               attempt (num (get_or row ''confidence'' (JNum (75 / 100)))) (\<lambda>conf.
                 Inr (Some (dict_update (row_attributes row source service)
                   [(''source_id'', JStr (row_sensor sb row)), (''entity_id'', JStr (row_entity sb row)),
                    (''latitude'', JNum la), (''longitude'', JNum lo), (''speed_kt'', JNum speed), (''heading_deg'', heading),
                    (''confidence'', JNum conf), (''observed_at'', JStr time), (''modality'', JStr (sensor_modality source))]))))))))))"

section \<open>From an event to an observation\<close>

definition EVENT_KEYS :: "string set" where
  "EVENT_KEYS = {''source_id'', ''entity_id'', ''observation_id'', ''latitude'', ''longitude'', ''speed_kt'', ''heading_deg'',
     ''confidence'', ''observed_at'', ''modality''}"

definition required :: "dict \<Rightarrow> string \<Rightarrow> feed_error + json" where
  "required d k = (case map_of d k of None \<Rightarrow> Inl Missing_Key | Some j \<Rightarrow> Inr j)"

definition event_time :: "south_deps \<Rightarrow> string \<Rightarrow> dict \<Rightarrow> feed_error + string" where
  "event_time sb now event =
     (case map_of event ''observed_at'' of
        Some (JStr s) \<Rightarrow> parse_iso sb s
      | None \<Rightarrow> Inr now
      | Some JNull \<Rightarrow> Inr now
      | Some j \<Rightarrow> or_bad (read_time sb j))"

text \<open>
  \<open>i\<close> is the fresh id. The field \<open>heading_deg: float | None\<close> is read by the library \<open>pydantic\<close>, which
  accepts what \<open>float\<close> does and whose error is a \<open>ValueError\<close>.
\<close>

definition observation_of_event :: "south_deps \<Rightarrow> (string \<Rightarrow> string) \<Rightarrow> (rat \<Rightarrow> string) \<Rightarrow> string \<Rightarrow> string \<Rightarrow> dict \<Rightarrow> feed_error + observation" where
  "observation_of_event sb sha rep now i event =
     (let num = py_float (sb_py sb); str = py_str (sb_py sb) in
      attempt (event_time sb now event) (\<lambda>time.
      attempt (num (get_or event ''speed_kt'' (JNum 0))) (\<lambda>kt.
      attempt (required event ''source_id'') (\<lambda>source.
      attempt (attempt (required event ''latitude'') num) (\<lambda>lat.
      attempt (attempt (required event ''longitude'') num) (\<lambda>lon.
      attempt (num (get_or event ''confidence'' (JNum (1 / 2)))) (\<lambda>conf.
      attempt (case non_null (map_of event ''heading_deg'') of
          None \<Rightarrow> Inr None | Some h \<Rightarrow> (case num h of Inl e \<Rightarrow> Inl Bad_Value | Inr q \<Rightarrow> Inr (Some q))) (\<lambda>heading.
        Inr (ensure_digest sha rep
          \<lparr>observation_id = (case first_truthy [map_of event ''observation_id''] of None \<Rightarrow> i | Some j \<Rightarrow> str j),
           source_id = str source, entity_hint = str (get_or event ''entity_id'' source), position = (lat, lon),
           ob_altitude_m = None, speed_mps = kt * (514444 / 10 ^ 6), heading_deg = heading, ob_confidence = conf,
           observed_at = time, modality = str (get_or event ''modality'' (JStr ''generic'')),
           ob_attributes = dict_update (filter (\<lambda>kv. fst kv \<notin> EVENT_KEYS) event) [(''speed_kt'', JNum kt)],
           raw_digest = []\<rparr>)))))))))"

definition has_key :: "dict \<Rightarrow> string \<Rightarrow> bool" where
  "has_key d k \<longleftrightarrow> map_of d k \<noteq> None"

definition normalize_sensor_event ::
    "south_deps \<Rightarrow> (string \<Rightarrow> string) \<Rightarrow> (rat \<Rightarrow> string) \<Rightarrow> string \<Rightarrow> string \<Rightarrow> dict \<Rightarrow> feed_error + observation" where
  "normalize_sensor_event sb sha rep now i event =
     (let observe = observation_of_event sb sha rep now i; row = has_key event ''service'' \<and> has_key event ''source'' in
      if row \<and> \<not> has_key event ''latitude'' \<and> has_key event ''lat''
      then attempt (canonical_row_to_event sb now event) (\<lambda>c. case c of None \<Rightarrow> Inl Bad_Value | Some e \<Rightarrow> observe e)
      else if row \<and> non_null (map_of event ''latitude'') = None
      then attempt (canonical_row_to_event sb now event) (\<lambda>c. observe (case c of None \<Rightarrow> event | Some e \<Rightarrow> e))
      else observe event)"

section \<open>An export\<close>

text \<open>\<open>_build_events\<close> of the scenarios that read an export: the rows that can be located, as events. What \<open>normalize_sensor_event\<close> makes of them is
  \<open>row_observations\<close>, each with a fresh id.\<close>

definition canonical_events :: "south_deps \<Rightarrow> string \<Rightarrow> dict list \<Rightarrow> feed_error + dict list" where
  "canonical_events sb now rows = attempt (attempt_all (canonical_row_to_event sb now) rows) (\<lambda>es. Inr (List.map_filter id es))"

definition row_observations ::
    "south_deps \<Rightarrow> (string \<Rightarrow> string) \<Rightarrow> (rat \<Rightarrow> string) \<Rightarrow> string \<Rightarrow> (nat \<Rightarrow> string) \<Rightarrow> dict list \<Rightarrow> feed_error + observation list" where
  "row_observations sb sha rep now fresh rows =
     attempt (canonical_events sb now rows) (\<lambda>es.
       attempt_all (\<lambda>(n, e). normalize_sensor_event sb sha rep now (fresh n) e) (enumerate 0 es))"

section \<open>A row is converted once\<close>

lemma map_of_filter_fst: "map_of (filter (\<lambda>kv. P (fst kv)) d) k = (if P k then map_of d k else None)"
  by (induction d) auto

lemma dict_update_fresh:
  "distinct (map fst kvs) \<Longrightarrow> fst ` set kvs \<inter> fst ` set d = {} \<Longrightarrow> dict_update kvs d = d @ kvs"
proof (induction kvs arbitrary: d)
  case (Cons kv kvs)
  then show ?case by (cases kv) (auto simp: update_fresh)
qed simp

lemma distinct_dict_update: "distinct (map fst d) \<Longrightarrow> distinct (map fst (dict_update kvs d))"
  by (induction kvs arbitrary: d) (auto simp: distinct_update)

lemma map_of_rev_distinct: "distinct (map fst kvs) \<Longrightarrow> map_of (rev kvs) = map_of kvs"
  by (rule map_of_eqI) (auto simp: rev_map [symmetric])

lemma LOCATION_KEYS_not [simp]: "''service'' \<notin> LOCATION_KEYS" "''source'' \<notin> LOCATION_KEYS" "''time_s'' \<in> LOCATION_KEYS"
  "''latitude'' \<in> LOCATION_KEYS" "''longitude'' \<in> LOCATION_KEYS" "''speed_kt'' \<in> LOCATION_KEYS" "''heading_deg'' \<in> LOCATION_KEYS"
  "''observed_at'' \<in> LOCATION_KEYS"
  by (simp_all add: LOCATION_KEYS_def)

lemma row_attributes_keys:
  assumes "distinct (map fst row)"
  shows "map_of (rev (row_attributes row source service)) k =
     (if k = ''time_s'' then Some (get_or row ''time_s'' JNull)
      else if k = ''source'' then Some (JStr source)
      else if k = ''service'' then Some (if service \<noteq> [] then JStr service else get_or row ''service'' JNull)
      else if k \<in> LOCATION_KEYS then None else map_of row k)"
proof -
  let ?attrs = "filter (\<lambda>kv. fst kv \<notin> LOCATION_KEYS) row"
  have "distinct (map fst ?attrs)" using assms by (simp add: distinct_map_filter)
  moreover have "map_of ?attrs k' = (if k' \<in> LOCATION_KEYS then None else map_of row k')" for k'
    using map_of_filter_fst [of "\<lambda>k. k \<notin> LOCATION_KEYS" row k'] by simp
  ultimately show ?thesis
    by (simp add: row_attributes_def Let_def map_of_rev_distinct distinct_dict_update map_of_dict_update get_or_def
        del: dict_update_Cons)
qed

text \<open>What is said of the place, speed, heading and time of an event is what was read from the row.\<close>

lemma row_event:
  assumes "canonical_row_to_event sb now row = Inr (Some e)" "distinct (map fst row)"
  obtains la lo speed time lat lon heading conf where
    "observed_at_from_row sb now row = Inr time" "row_position sb row (row_source sb row) = Inr (Some (lat, lon))"
    "py_float (sb_py sb) lat = Inr la" "py_float (sb_py sb) lon = Inr lo"
    "case non_null (first_key row [''cog_deg'', ''heading_deg'', ''azimuth_deg'']) of
       None \<Rightarrow> heading = JNull | Some h \<Rightarrow> (\<exists>q. py_float (sb_py sb) h = Inr q \<and> heading = JNum q)"
    "e = dict_update (row_attributes row (row_source sb row) (lower (py_str (sb_py sb) (get_or row ''service'' (JStr [])))))
       [(''source_id'', JStr (row_sensor sb row)), (''entity_id'', JStr (row_entity sb row)),
        (''latitude'', JNum la), (''longitude'', JNum lo), (''speed_kt'', JNum speed), (''heading_deg'', heading),
        (''confidence'', JNum conf), (''observed_at'', JStr time), (''modality'', JStr (sensor_modality (row_source sb row)))]"
  using assms unfolding canonical_row_to_event_def Let_def
  by (fastforce simp: attempt_Inr split: option.splits prod.splits)

lemma row_event_keys:
  assumes "canonical_row_to_event sb now row = Inr (Some e)" "distinct (map fst row)"
  obtains la lo speed time lat lon heading where
    "observed_at_from_row sb now row = Inr time" "row_position sb row (row_source sb row) = Inr (Some (lat, lon))"
    "py_float (sb_py sb) lat = Inr la" "py_float (sb_py sb) lon = Inr lo"
    "case non_null (first_key row [''cog_deg'', ''heading_deg'', ''azimuth_deg'']) of
       None \<Rightarrow> heading = JNull | Some h \<Rightarrow> (\<exists>q. py_float (sb_py sb) h = Inr q \<and> heading = JNum q)"
    "map_of e ''latitude'' = Some (JNum la)" "map_of e ''longitude'' = Some (JNum lo)"
    "map_of e ''speed_kt'' = Some (JNum speed)" "map_of e ''heading_deg'' = Some heading"
    "map_of e ''observed_at'' = Some (JStr time)" "map_of e ''source'' = Some (JStr (row_source sb row))"
  using assms by (rule row_event) (rule that; simp add: map_of_dict_update row_attributes_keys assms(2))

text \<open>
  A sensor row without a latitude of its own becomes the observation of the event it is
  converted to, and that event is not converted again: normalising it gives the same observation.
\<close>

theorem rows_are_converted_once:
  assumes "canonical_row_to_event sb now row = Inr (Some e)" "has_key row ''service''" "has_key row ''source''"
    "non_null (map_of row ''latitude'') = None" "distinct (map fst row)"
  shows "normalize_sensor_event sb sha rep now i row = observation_of_event sb sha rep now i e \<and>
    normalize_sensor_event sb sha rep now' i e = observation_of_event sb sha rep now' i e"
proof -
  from assms(1,5) obtain la where "map_of e ''latitude'' = Some (JNum la)" by (rule row_event_keys)
  then have "normalize_sensor_event sb sha rep now' i e = observation_of_event sb sha rep now' i e"
    by (simp add: normalize_sensor_event_def has_key_def non_null_def Let_def)
  then show ?thesis using assms(1-4) by (auto simp: normalize_sensor_event_def Let_def)
qed

section \<open>A plain event\<close>

text \<open>What an event with a place, a speed and a time of its own, and no \<open>service\<close>, becomes.\<close>

definition observed ::
    "(string \<Rightarrow> string) \<Rightarrow> (rat \<Rightarrow> string) \<Rightarrow> string \<Rightarrow> string \<Rightarrow> string \<Rightarrow> rat \<times> rat \<Rightarrow> rat \<Rightarrow> rat option \<Rightarrow> rat \<Rightarrow> string \<Rightarrow>
       string \<Rightarrow> dict \<Rightarrow> observation" where
  "observed sha rep i source entity p kt heading conf time sensor extra =
     ensure_digest sha rep
       \<lparr>observation_id = i, source_id = source, entity_hint = entity, position = p, ob_altitude_m = None,
        speed_mps = kt * (514444 / 10 ^ 6), heading_deg = heading, ob_confidence = conf, observed_at = time,
        modality = sensor, ob_attributes = (''speed_kt'', JNum kt) # extra, raw_digest = []\<rparr>"

lemma normalize_plain_event:
  assumes "map_of event ''source_id'' = Some (JStr source)" "map_of event ''entity_id'' = Some (JStr entity)"
    "map_of event ''latitude'' = Some (JNum (fst p))" "map_of event ''longitude'' = Some (JNum (snd p))"
    "map_of event ''speed_kt'' = Some (JNum kt)" "map_of event ''heading_deg'' = map_option JNum heading"
    "map_of event ''confidence'' = Some (JNum conf)" "map_of event ''observed_at'' = Some (JStr time)"
    "map_of event ''modality'' = Some (JStr sensor)" "map_of event ''observation_id'' = None"
    "map_of event ''service'' = None" "fromisoformat (sb_py sb) (offset_for_Z time) = Some (Aware time)"
    "filter (\<lambda>kv. fst kv \<notin> EVENT_KEYS) event = extra" "distinct (map fst extra)"
  shows "normalize_sensor_event sb sha rep now i event = Inr (observed sha rep i source entity p kt heading conf time sensor extra)"
proof -
  have s: "''speed_kt'' \<notin> fst ` set extra" using assms(13) by (auto simp: EVENT_KEYS_def)
  have u: "dict_update extra [(''speed_kt'', JNum kt)] = (''speed_kt'', JNum kt) # extra"
    by (rule dict_update_fresh [of extra "[(''speed_kt'', JNum kt)]", simplified]) (use s assms(14) in auto)
  have "observation_of_event sb sha rep now i event = Inr (observed sha rep i source entity p kt heading conf time sensor extra)"
    unfolding observation_of_event_def assms(13) u observed_def
    using assms by (cases heading) (simp_all add: u event_time_def parse_iso_def get_or_def required_def non_null_def
        first_truthy_def List.map_filter_def Let_def)
  then show ?thesis using assms by (simp add: normalize_sensor_event_def has_key_def non_null_def Let_def)
qed

section \<open>Where the observation is\<close>

lemma observation_of_event_fields:
  assumes "observation_of_event sb sha rep now i event = Inr b"
  shows "\<exists>j. map_of event ''latitude'' = Some j \<and> py_float (sb_py sb) j = Inr (fst (position b))"
    "\<exists>j. map_of event ''longitude'' = Some j \<and> py_float (sb_py sb) j = Inr (snd (position b))"
    "event_time sb now event = Inr (observed_at b)"
    "case non_null (map_of event ''heading_deg'') of
       None \<Rightarrow> heading_deg b = None
     | Some j \<Rightarrow> (\<exists>q. py_float (sb_py sb) j = Inr q \<and> heading_deg b = Some q)"
  using assms unfolding observation_of_event_def Let_def required_def ensure_digest_def
  by (auto simp: attempt_Inr split: option.splits sum.splits)

lemma row_observation:
  assumes "has_key row ''service''" "has_key row ''source''" "non_null (map_of row ''latitude'') = None"
    "normalize_sensor_event sb sha rep now i row = Inr b"
  shows "\<exists>e. canonical_row_to_event sb now row = Inr (Some e) \<and> observation_of_event sb sha rep now i e = Inr b"
proof -
  have "observation_of_event sb sha rep now i row \<noteq> Inr b"
    using assms(3) observation_of_event_fields(1) [of sb sha rep now i row b] by (auto simp: non_null_def split: if_splits)
  then show ?thesis
    using assms by (auto simp: normalize_sensor_event_def Let_def attempt_Inr split: if_splits option.splits)
qed

text \<open>
  An observation made of a sensor row without a latitude of its own is where the row says, by its
  position, by azimuth and range, by bearing or at its site; a row that cannot be located is refused.
\<close>

theorem rows_are_located_or_refused:
  assumes "has_key row ''service''" "has_key row ''source''" "non_null (map_of row ''latitude'') = None"
    "distinct (map fst row)" "normalize_sensor_event sb sha rep now i row = Inr b"
  shows "\<exists>lat lon. row_position sb row (row_source sb row) = Inr (Some (lat, lon)) \<and>
    py_float (sb_py sb) lat = Inr (fst (position b)) \<and> py_float (sb_py sb) lon = Inr (snd (position b))"
proof -
  obtain e where e: "canonical_row_to_event sb now row = Inr (Some e)" "observation_of_event sb sha rep now i e = Inr b"
    using row_observation [OF assms(1-3,5)] by blast
  obtain la lo speed time lat lon heading where "row_position sb row (row_source sb row) = Inr (Some (lat, lon))"
    "py_float (sb_py sb) lat = Inr la" "py_float (sb_py sb) lon = Inr lo"
    "map_of e ''latitude'' = Some (JNum la)" "map_of e ''longitude'' = Some (JNum lo)"
    using e(1) assms(4) by (rule row_event_keys)
  then show ?thesis using observation_of_event_fields(1,2) [OF e(2)] by auto
qed

text \<open>Azimuth and range are a displacement from the site, up to rounding.\<close>

lemma polar_is_displacement:
  "polar_to_latlon fl site az km =
     (let p = displace_m (of_rat (fst site), of_rat (snd site)) (of_rat az) (of_rat km * 1000)
      in (rounded fl (fst p), rounded fl (snd p)))"
  by (simp add: polar_to_latlon_def displace_m_def Let_def)

text \<open>
  A row located by the azimuth and range of its radar, with neither course nor heading of its
  own, gives an observation whose heading is that azimuth: the direction in which the site looks is taken
  for the direction in which the contact moves, whatever that is.
\<close>

theorem azimuth_is_taken_for_heading:
  assumes "has_key row ''service''" "has_key row ''source''" "non_null (map_of row ''latitude'') = None"
    "distinct (map fst row)" "normalize_sensor_event sb sha rep now i row = Inr b"
    "map_of row ''cog_deg'' = None" "map_of row ''heading_deg'' = None" "map_of row ''azimuth_deg'' = Some (JNum az)"
  shows "heading_deg b = Some az"
proof -
  obtain e where e: "canonical_row_to_event sb now row = Inr (Some e)" "observation_of_event sb sha rep now i e = Inr b"
    using row_observation [OF assms(1-3,5)] by blast
  obtain heading where "case non_null (first_key row [''cog_deg'', ''heading_deg'', ''azimuth_deg'']) of
       None \<Rightarrow> heading = JNull | Some h \<Rightarrow> (\<exists>q. py_float (sb_py sb) h = Inr q \<and> heading = JNum q)"
    "map_of e ''heading_deg'' = Some heading"
    using e(1) assms(4) by (rule row_event_keys)
  then show ?thesis using observation_of_event_fields(4) [OF e(2)] assms(6-8)
    by (simp add: first_key_def List.map_filter_def non_null_def)
qed

section \<open>A radar row\<close>

definition radar_row :: dict where
  "radar_row = [(''time_s'', JNum 0), (''service'', JStr ''AIR_FORCE''), (''source'', JStr ''AIR_RADAR''),
     (''sensor_id'', JStr ''MPSTAR_AIRBASE_01''), (''site_lat'', JNum (135 / 100)), (''site_lon'', JNum 104),
     (''azimuth_deg'', JNum 96), (''range_km'', JNum (1937 / 100)), (''track_id'', JStr ''RDR-001'')]"

definition plain_south :: south_deps where
  "plain_south = \<lparr>sb_py = plain_builtins\<lparr>fromisoformat := \<lambda>s. Some (Aware s)\<rparr>,
     sb_floats = \<lparr>rounded = \<lambda>x. 1, round_to = \<lambda>n x. 1\<rparr>, seconds_in = \<lambda>q. Some ''T'', clock_in = \<lambda>h m s. None,
     read_time = \<lambda>j. None\<rparr>"

definition radar_event :: dict where
  "radar_event = dict_update (row_attributes radar_row ''AIR_RADAR'' ''air_force'')
     [(''source_id'', JStr ''MPSTAR_AIRBASE_01''), (''entity_id'', JStr ''RDR-001''), (''latitude'', JNum 1), (''longitude'', JNum 1),
      (''speed_kt'', JNum 0), (''heading_deg'', JNum 96), (''confidence'', JNum (3 / 4)), (''observed_at'', JStr ''T''),
      (''modality'', JStr ''radar'')]"

lemma radar_row_keys:
  "has_key radar_row ''service''" "has_key radar_row ''source''" "non_null (map_of radar_row ''latitude'') = None"
  "distinct (map fst radar_row)" "map_of radar_row ''cog_deg'' = None" "map_of radar_row ''heading_deg'' = None"
  "map_of radar_row ''azimuth_deg'' = Some (JNum 96)"
  by (simp_all add: radar_row_def has_key_def non_null_def)

lemma air_force_lower: "lower ''AIR_FORCE'' = ''air_force''"
  by code_simp

lemma radar_row_event: "canonical_row_to_event plain_south ''N'' radar_row = Inr (Some radar_event)"
  by (simp add: canonical_row_to_event_def row_source_def get_or_def radar_row_def air_force_lower observed_at_from_row_def
      first_truthy_def List.map_filter_def or_bad_def plain_south_def row_position_def first_key_def non_null_def at_bearing_def
      polar_to_latlon_def or_else_def row_sensor_def row_entity_def sensor_modality_def MODALITIES_def
      radar_event_def Let_def del: dict_update_Cons)

lemma radar_event_keys:
  "map_of radar_event ''latitude'' = Some (JNum 1)" "map_of radar_event ''longitude'' = Some (JNum 1)"
  "map_of radar_event ''speed_kt'' = Some (JNum 0)" "map_of radar_event ''heading_deg'' = Some (JNum 96)"
  "map_of radar_event ''confidence'' = Some (JNum (3 / 4))" "map_of radar_event ''observed_at'' = Some (JStr ''T'')"
  "map_of radar_event ''source_id'' = Some (JStr ''MPSTAR_AIRBASE_01'')"
  by (simp_all add: radar_event_def map_of_dict_update row_attributes_keys [OF radar_row_keys(4)] del: dict_update_Cons)
    (simp_all add: radar_row_def LOCATION_KEYS_def)

lemma radar_observation:
  "\<exists>b. observation_of_event plain_south sha rep ''N'' i radar_event = Inr b \<and> position b = (1, 1)"
  by (simp add: observation_of_event_def event_time_def radar_event_keys parse_iso_def offset_for_Z_def get_or_def
      required_def non_null_def plain_south_def ensure_digest_def Let_def)

theorem rows_are_converted_once_witness:
  "\<exists>b. normalize_sensor_event plain_south id (\<lambda>q. []) ''N'' ''i'' radar_row = Inr b \<and> position b = (1, 1)"
  using rows_are_converted_once [OF radar_row_event radar_row_keys(1-4), of id "\<lambda>q. []" "''i''"] radar_observation by metis

lemma radar_row_normalized:
  obtains b where "normalize_sensor_event plain_south id (\<lambda>q. []) ''N'' ''i'' radar_row = Inr b" "position b = (1, 1)"
proof -
  obtain b where "observation_of_event plain_south id (\<lambda>q. []) ''N'' ''i'' radar_event = Inr b" "position b = (1, 1)"
    using radar_observation by metis
  moreover have "normalize_sensor_event plain_south id (\<lambda>q. []) ''N'' ''i'' radar_row =
      observation_of_event plain_south id (\<lambda>q. []) ''N'' ''i'' radar_event"
    using radar_row_event radar_row_keys(1-3) by (auto simp: normalize_sensor_event_def Let_def)
  ultimately show thesis using that by simp
qed

theorem rows_are_located_or_refused_witness:
  "\<exists>lat lon. row_position plain_south radar_row (row_source plain_south radar_row) = Inr (Some (lat, lon)) \<and>
     py_float (sb_py plain_south) lat = Inr 1"
proof -
  obtain b where "normalize_sensor_event plain_south id (\<lambda>q. []) ''N'' ''i'' radar_row = Inr b" "position b = (1, 1)"
    by (rule radar_row_normalized)
  then show ?thesis using rows_are_located_or_refused [OF radar_row_keys(1-4)] by fastforce
qed

theorem azimuth_is_taken_for_heading_witness:
  "\<exists>b. normalize_sensor_event plain_south id (\<lambda>q. []) ''N'' ''i'' radar_row = Inr b \<and> heading_deg b = Some 96"
proof -
  obtain b where "normalize_sensor_event plain_south id (\<lambda>q. []) ''N'' ''i'' radar_row = Inr b"
    by (rule radar_row_normalized)
  then show ?thesis using azimuth_is_taken_for_heading [OF radar_row_keys(1-4) _ radar_row_keys(5-7)] by blast
qed

end
