(* ===== verification/Sea_Approach.thy ===== *)
theory Sea_Approach
  imports Interpreter_Properties Great_Circle Southbound
begin

text \<open>
  The scenario \<open>S1_ais_spoof\<close>, \<open>app/scenarios/s1_sea_approach_spoof.py\<close>: its four sensor events as
  \<open>normalize_sensor_event\<close> makes observations of them, the detector, and the course of action. The texts
  of the warning are parameters.
\<close>

section \<open>The events\<close>

record sea_deps =
  sea_floats :: float_ops
  sea_sha :: "string \<Rightarrow> string"
  sea_num :: "rat \<Rightarrow> string"
  seconds_ago :: "nat \<Rightarrow> nat \<Rightarrow> string"
  fresh_id :: "nat \<Rightarrow> nat \<Rightarrow> string"
  sea_picture :: "rat \<Rightarrow> nat \<Rightarrow> rat \<Rightarrow> string"
  sea_str :: "json \<Rightarrow> string"

text \<open>\<open>normalize_sensor_event\<close> of one of its events.\<close>

definition normalized ::
    "sea_deps \<Rightarrow> string \<Rightarrow> string \<Rightarrow> string \<Rightarrow> rat \<times> rat \<Rightarrow> rat \<Rightarrow> rat option \<Rightarrow> rat \<Rightarrow> string \<Rightarrow> string \<Rightarrow> dict \<Rightarrow> observation" where
  "normalized d = observed (sea_sha d) (sea_num d)"

definition AIS_AT :: "rat \<times> rat" where
  "AIS_AT = (12345 / 10000, 1038567 / 10000)"

definition RADAR_AT :: "rat \<times> rat" where
  "RADAR_AT = (12395 / 10000, 1038620 / 10000)"

definition EO_AT :: "rat \<times> rat" where
  "EO_AT = (12395 / 10000 + 25 / 100000, 1038620 / 10000 + 15 / 100000)"

definition sea_events :: "sea_deps \<Rightarrow> nat \<Rightarrow> observation list" where
  "sea_events d n =
     [normalized d (fresh_id d n 0) ''AIS_BROADCAST'' ''AIS-MMSI-563000111'' AIS_AT (1 / 10) (Some 0) (92 / 100)
        (seconds_ago d n 12) ''ais''
        [(''note'', JStr ''adversarial_or_manipulable''), (''vendor_track'', JStr ''AIS-MMSI-563000111'')],
      normalized d (fresh_id d n 1) ''COASTAL_RADAR_NORTH'' ''RADAR-TRK-7742'' RADAR_AT (195 / 10) (Some 214) (86 / 100)
        (seconds_ago d n 4) ''radar''
        [(''note'', JStr ''inbound_sea_approach''), (''vendor_track'', JStr ''RADAR-TRK-7742'')],
      normalized d (fresh_id d n 2) ''PORT_EO_04'' ''EO-CAM-04-OBJ-19'' EO_AT (202 / 10) (Some 215) (80 / 100)
        (seconds_ago d n 0) ''optical''
        [(''note'', JStr ''visual_inbound''), (''vendor_track'', JStr ''EO-CAM-04-OBJ-19'')],
      normalized d (fresh_id d n 3) ''RF_CUAS_NODE'' ''RF-BEARING-09'' RADAR_AT 0 None (65 / 100)
        (seconds_ago d n 2) ''rf''
        [(''note'', JStr ''drone_control_band_near_contact''), (''band_mhz'', JNum 2400),
         (''vendor_track'', JStr ''RF-BEARING-09'')]]"

text \<open>The dicts of \<open>_build_events\<close>, which \<open>normalize_sensor_event\<close> is applied to when the scenario is ingested.\<close>

definition sea_row :: "string \<Rightarrow> string \<Rightarrow> rat \<times> rat \<Rightarrow> rat \<Rightarrow> rat option \<Rightarrow> rat \<Rightarrow> string \<Rightarrow> string \<Rightarrow> dict \<Rightarrow> dict" where
  "sea_row source entity p kt heading conf time sensor extra =
     [(''source_id'', JStr source), (''entity_id'', JStr entity), (''latitude'', JNum (fst p)), (''longitude'', JNum (snd p)),
      (''speed_kt'', JNum kt)] @ (case heading of None \<Rightarrow> [] | Some h \<Rightarrow> [(''heading_deg'', JNum h)]) @
     [(''confidence'', JNum conf), (''observed_at'', JStr time), (''modality'', JStr sensor)] @ extra"

definition sea_rows :: "sea_deps \<Rightarrow> nat \<Rightarrow> dict list" where
  "sea_rows d n =
     [sea_row ''AIS_BROADCAST'' ''AIS-MMSI-563000111'' AIS_AT (1 / 10) (Some 0) (92 / 100) (seconds_ago d n 12) ''ais''
        [(''note'', JStr ''adversarial_or_manipulable''), (''vendor_track'', JStr ''AIS-MMSI-563000111'')],
      sea_row ''COASTAL_RADAR_NORTH'' ''RADAR-TRK-7742'' RADAR_AT (195 / 10) (Some 214) (86 / 100) (seconds_ago d n 4) ''radar''
        [(''note'', JStr ''inbound_sea_approach''), (''vendor_track'', JStr ''RADAR-TRK-7742'')],
      sea_row ''PORT_EO_04'' ''EO-CAM-04-OBJ-19'' EO_AT (202 / 10) (Some 215) (80 / 100) (seconds_ago d n 0) ''optical''
        [(''note'', JStr ''visual_inbound''), (''vendor_track'', JStr ''EO-CAM-04-OBJ-19'')],
      sea_row ''RF_CUAS_NODE'' ''RF-BEARING-09'' RADAR_AT 0 None (65 / 100) (seconds_ago d n 2) ''rf''
        [(''note'', JStr ''drone_control_band_near_contact''), (''band_mhz'', JNum 2400),
         (''vendor_track'', JStr ''RF-BEARING-09'')]]"

lemma normalize_sea_row:
  assumes "fromisoformat (sb_py sb) (offset_for_Z time) = Some (Aware time)"
    "\<forall>kv \<in> set extra. fst kv \<notin> insert ''service'' EVENT_KEYS" "distinct (map fst extra)"
  shows "normalize_sensor_event sb (sea_sha d) (sea_num d) now i (sea_row source entity p kt h conf time sensor extra) =
     Inr (normalized d i source entity p kt h conf time sensor extra)"
proof -
  have "filter (\<lambda>kv. fst kv \<notin> EVENT_KEYS) (sea_row source entity p kt h conf time sensor extra) = extra"
    using assms(2) by (auto simp: sea_row_def EVENT_KEYS_def split: option.split intro!: filter_True)
  moreover have "map_of extra ''service'' = None" "map_of extra ''heading_deg'' = None" "map_of extra ''observation_id'' = None"
    using assms(2) by (auto simp: map_of_eq_None_iff EVENT_KEYS_def)
  ultimately show ?thesis unfolding normalized_def
    by (intro normalize_plain_event assms) (cases h; simp add: sea_row_def)+
qed

lemma sea_events_normalize:
  assumes "\<And>k. fromisoformat (sb_py sb) (offset_for_Z (seconds_ago d n k)) = Some (Aware (seconds_ago d n k))"
  shows "map (\<lambda>(j, row). normalize_sensor_event sb (sea_sha d) (sea_num d) now (fresh_id d n j) row) (enumerate 0 (sea_rows d n)) =
     map Inr (sea_events d n)"
  by (simp add: sea_rows_def sea_events_def normalize_sea_row assms EVENT_KEYS_def numeral_2_eq_2 numeral_3_eq_3)

section \<open>The detector\<close>

definition vendor_id :: "sea_deps \<Rightarrow> observation \<Rightarrow> string" where
  "vendor_id d b = (case map_of (ob_attributes b) ''vendor_track'' of
     None \<Rightarrow> entity_hint b | Some (JStr s) \<Rightarrow> s | Some j \<Rightarrow> sea_str d j)"

definition SEA_HYPOTHESIS :: string where
  "SEA_HYPOTHESIS =
     ''If AIS_BROADCAST is false/spoofed, the fused picture remains an inbound surface '' @
     ''contact on the sea approach (radar+EO). If radar/EO are false, the threat collapses '' @
     ''to a benign AIS track - do not task on AIS alone.''"

text \<open>One round of the loop over the tracks; \<open>None\<close> goes on to the next.\<close>

definition sea_warning :: "sea_deps \<Rightarrow> graph \<Rightarrow> track \<Rightarrow> finding_record option" where
  "sea_warning d gr t =
     (let obs = observations_for_track gr (track_id t);
          spoof = filter (\<lambda>b. knots b \<le> 1 \<and> modality b = ''ais'') obs;
          approach = filter (\<lambda>b. knots b \<ge> 10) obs;
          rf = filter (\<lambda>b. modality b = ''rf'') obs
      in if length obs < 2 \<or> spoof = [] \<or> approach = [] then None
         else
           (let mismatch = max_pairwise_mismatch_m (sea_floats d) spoof approach in
            if mismatch < 500 then None
            else
              (let minutes = max 3 (18 - mismatch / 100);
                   picture = sea_picture d minutes (card (vendor_id d ` set obs)) mismatch
               in Some \<lparr>fi_scenario = ''S1_ais_spoof'', fi_track = track_id t, threat_class = ''sea_approach_deception'',
                    warning_minutes_est = minutes, mismatch_m = mismatch,
                    fi_confidence = min (95 / 100) (55 / 100 + of_nat (length approach) / 10 + (if rf \<noteq> [] then 8 / 100 else 0)),
                    picture_summary = picture, fi_hypothesis = SEA_HYPOTHESIS, spoof_sources = map source_id spoof,
                    approach_sources = map source_id approach, other_sources = map source_id rf, message = picture,
                    amber_alert = None, source_breakdown = []\<rparr>)))"

fun first_warning :: "('a \<Rightarrow> 'b option) \<Rightarrow> 'a list \<Rightarrow> 'b option" where
  "first_warning f [] = None"
| "first_warning f (x # xs) = (case f x of Some w \<Rightarrow> Some w | None \<Rightarrow> first_warning f xs)"

definition sea_detect :: "sea_deps \<Rightarrow> graph \<Rightarrow> finding_record option" where
  "sea_detect d gr = first_warning (sea_warning d gr) (all_tracks gr)"

definition sea_scenario :: "sea_deps \<Rightarrow> scenario" where
  "sea_scenario d = \<lparr>scenario_key = ''S1_ais_spoof'', build_events = sea_events d, detect = sea_detect d,
     build_coa = (\<lambda>gr f q i. make_tier1_coa (sea_floats d) (sea_sha d) gr f ''ISR_IDENTIFY_CONTACT'' q None True i)\<rparr>"

section \<open>When it warns\<close>

lemma first_warning_Some: "first_warning f xs = Some w \<Longrightarrow> \<exists>x \<in> set xs. f x = Some w"
  by (induction xs) (auto split: option.splits)

lemma first_warning_None: "first_warning f xs = None \<longleftrightarrow> (\<forall>x \<in> set xs. f x = None)"
  by (induction xs) (auto split: option.splits)

text \<open>A nearly stationary AIS report and something fast on one track, at least 500 metres apart.\<close>

definition contradicted :: "sea_deps \<Rightarrow> graph \<Rightarrow> track \<Rightarrow> bool" where
  "contradicted d gr t \<longleftrightarrow>
     (\<exists>a \<in> set (observations_for_track gr (track_id t)). \<exists>b \<in> set (observations_for_track gr (track_id t)).
        modality a = ''ais'' \<and> knots a \<le> 1 \<and> knots b \<ge> 10 \<and> apart_m (sea_floats d) a b \<ge> 500)"

lemma two_members: "a \<in> set xs \<Longrightarrow> b \<in> set xs \<Longrightarrow> a \<noteq> b \<Longrightarrow> \<not> length xs < 2"
  by (cases xs; cases "tl xs") auto

lemma finite_pairs: "finite {h a b | a b. a \<in> set xs \<and> b \<in> set ys}"
proof -
  have "{h a b | a b. a \<in> set xs \<and> b \<in> set ys} = (\<lambda>(a, b). h a b) ` (set xs \<times> set ys)" by auto
  then show ?thesis by simp
qed

lemma mismatch_at_least:
  assumes "q > (0 :: rat)"
  shows "q \<le> max_pairwise_mismatch_m fl xs ys \<longleftrightarrow> (\<exists>a \<in> set xs. \<exists>b \<in> set ys. q \<le> apart_m fl a b)"
  unfolding max_pairwise_spec using assms finite_pairs by (subst Max_ge_iff) auto

lemma sea_warning_iff: "sea_warning d gr t \<noteq> None \<longleftrightarrow> contradicted d gr t"
proof -
  let ?obs = "observations_for_track gr (track_id t)"
  let ?spoof = "filter (\<lambda>b. knots b \<le> 1 \<and> modality b = ''ais'') ?obs" and ?fast = "filter (\<lambda>b. knots b \<ge> 10) ?obs"
  let ?m = "max_pairwise_mismatch_m (sea_floats d) ?spoof ?fast"
  have m: "500 \<le> ?m \<longleftrightarrow> contradicted d gr t"
    by (subst mismatch_at_least) (auto simp: contradicted_def)
  have "\<not> length ?obs < 2 \<and> ?spoof \<noteq> [] \<and> ?fast \<noteq> []" if c: "contradicted d gr t"
  proof -
    from c obtain a b where "a \<in> set ?obs" "b \<in> set ?obs" "modality a = ''ais''" "knots a \<le> 1" "knots b \<ge> 10"
      by (auto simp: contradicted_def)
    moreover from this have "a \<noteq> b" by auto
    ultimately show ?thesis using two_members [of a ?obs b] by (auto simp: filter_empty_conv)
  qed
  then show ?thesis using m by (auto simp: sea_warning_def Let_def)
qed

lemma sea_warning_fields:
  assumes "sea_warning d gr t = Some f" "observations_for_track gr (track_id t) = obs"
  shows "fi_track f = track_id t" "spoof_sources f = map source_id (filter (\<lambda>b. knots b \<le> 1 \<and> modality b = ''ais'') obs)"
    "approach_sources f = map source_id (filter (\<lambda>b. knots b \<ge> 10) obs)" "500 \<le> mismatch_m f" "amber_alert f = None"
  using assms(1) unfolding sea_warning_def assms(2) Let_def
  by (auto simp del: of_nat_eq_0_iff split: if_split_asm)

lemma sea_detect_iff: "sea_detect d gr \<noteq> None \<longleftrightarrow> (\<exists>t \<in> set (all_tracks gr). contradicted d gr t)"
  unfolding sea_detect_def first_warning_None using sea_warning_iff by blast

lemma sea_detect_Some:
  assumes "sea_detect d gr = Some f"
  shows "\<exists>t \<in> set (all_tracks gr). sea_warning d gr t = Some f"
  using first_warning_Some [of "sea_warning d gr"] assms by (simp add: sea_detect_def)

section \<open>The demo\<close>

lemma ingest_many_radius [simp]: "associate_radius_m (ingest_many sha num ge bs g) = associate_radius_m g"
  by (induction bs rule: rev_induct) (simp_all add: ingest_def Let_def)

text \<open>Observations near the first, none as confident, all join its track and leave it where it is.\<close>

lemma one_cluster:
  assumes "\<forall>b \<in> set bs. great_circle_m ge (position b) (position b0) \<le> 2000 \<and> ob_confidence b < ob_confidence b0"
  shows "\<exists>t. tracks (ingest_many sha num ge (b0 # bs) empty_graph) = [(preferred_id b0, t)] \<and>
    track_id t = preferred_id b0 \<and> tr_position t = position b0 \<and> tr_confidence t = ob_confidence b0 \<and>
    observation_ids t = map observation_id (b0 # bs)"
  using assms
proof (induction bs rule: rev_induct)
  case Nil
  then show ?case by (simp add: ingest_many_def ingest_first)
next
  case (snoc b bs)
  let ?g = "ingest_many sha num ge (b0 # bs) empty_graph" and ?b = "ensure_digest sha num b"
  obtain t where t: "tracks ?g = [(preferred_id b0, t)]" "track_id t = preferred_id b0" "tr_position t = position b0"
      "tr_confidence t = ob_confidence b0" "observation_ids t = map observation_id (b0 # bs)"
    using snoc by auto
  have "associate_radius_m ?g = 2000" by (simp add: empty_graph_def)
  then obtain m where "association_distance ge (?g\<lparr>seen := seen ?g @ [?b]\<rparr>) ?b t = Some m"
    using snoc.prems t(3) by (simp add: association_distance_def Let_def)
  then have "find_nearby ge (?g\<lparr>seen := seen ?g @ [?b]\<rparr>) ?b = Some t"
    using t(1) by (auto simp: find_nearby_def split: if_splits)
  then have "tracks (fst (ingest sha num ge b ?g)) = [(preferred_id b0, fuse ?b t)]"
    using t(1,2) by (simp add: ingest_into)
  moreover have "ingest_many sha num ge (b0 # bs @ [b]) empty_graph = fst (ingest sha num ge b ?g)"
    using ingest_many_snoc(2) [of sha num ge "b0 # bs" b] by simp
  moreover have "tr_position (fuse ?b t) = position b0"
    using fuse_state [of ?b t] snoc.prems t(3,4) by simp
  ultimately show ?case using t snoc.prems by simp
qed

lemma sea_positions [simp]:
  "position (normalized d i source entity p kt h conf time m extra) = p"
  "preferred_id (normalized d i source entity p kt h conf time m extra) = (if entity \<noteq> [] then entity else source)"
  "knots (normalized d i source entity p kt h conf time m extra) = kt"
  "modality (normalized d i source entity p kt h conf time m extra) = m"
  "source_id (normalized d i source entity p kt h conf time m extra) = source"
  "ob_confidence (normalized d i source entity p kt h conf time m extra) = conf"
  "ensure_digest (sea_sha d) (sea_num d) (normalized d i source entity p kt h conf time m extra) =
     normalized d i source entity p kt h conf time m extra"
  by (simp_all add: normalized_def observed_def knots_def preferred_id_def) (simp_all add: ensure_digest_def)

lemma near_by:
  fixes v w :: real
  assumes "half_angles p q = (v * pi / 360, w * pi / 360)" "0 \<le> v" "0 \<le> w" "v + w \<le> 14 / 1000"
    "\<bar>fst p\<bar> \<le> 90" "\<bar>fst q\<bar> \<le> 90"
  shows "great_circle p q \<le> 2000" "v \<ge> 5 / 1000 \<Longrightarrow> 501 \<le> great_circle p q"
proof -
  let ?x = "v * pi / 360" and ?t = "2000 / 12742000 :: real"
  have m: "v * 3 \<le> v * pi" "v * pi \<le> v * 4" "w * pi \<le> w * 4"
    by (rule mult_left_mono; use pi_ge_three pi_less_4 assms(2,3) in simp)+
  have "v * pi / 360 + w * pi / 360 \<le> (14 / 1000) * 4 / 360" using m assms(4) by linarith
  also have "\<dots> \<le> ?t - ?t ^ 3 / 6" by (simp add: power3_eq_cube)
  finally have t: "v * pi / 360 + w * pi / 360 \<le> ?t - ?t ^ 3 / 6" .
  have x: "0 \<le> ?x" "?x \<le> 1 / 10" using m assms(2-4) by (simp, linarith)
  then have "?x\<^sup>2 \<le> (1 / 10)\<^sup>2" by (intro power_mono)
  then have "?x * ?x\<^sup>2 \<le> ?x * (1 / 100)" using x(1) by (intro mult_left_mono) (simp_all add: power2_eq_square)
  then have "?x ^ 3 \<le> ?x / 100" by (simp add: power3_eq_cube power2_eq_square)
  then have low: "v * (599 / 72000) \<le> ?x - ?x ^ 3 / 6" using m(1) by linarith
  have "0 \<le> v * (599 / 72000)" using assms(2) by simp
  then show "great_circle p q \<le> 2000"
    using great_circle_bounds(2) [OF assms(5,6,1) t, of 0] low by simp
  show "501 \<le> great_circle p q" if "v \<ge> 5 / 1000"
    using great_circle_bounds(1) [OF assms(5,6,1) t, of "501 / 12742000"] low that by simp
qed

lemma half_angles_eq:
  "half_angles p q = (\<bar>fst q - fst p\<bar> * pi / 360, \<bar>snd q - snd p\<bar> * pi / 360)"
  by (simp add: half_angles_def radians_def abs_mult)

lemma sea_distances:
  "great_circle_m (earth_geometry secs) RADAR_AT AIS_AT \<le> 2000" "great_circle_m (earth_geometry secs) EO_AT AIS_AT \<le> 2000"
  "501 \<le> great_circle (of_rat (fst AIS_AT), of_rat (snd AIS_AT)) (of_rat (fst RADAR_AT), of_rat (snd RADAR_AT))"
  by (simp_all add: earth_geometry_def)
    (rule near_by [OF half_angles_eq]; simp add: AIS_AT_def RADAR_AT_def EO_AT_def of_rat_divide of_rat_add)+

lemma sea_cluster:
  fixes d n secs
  defines "gr \<equiv> ingest_many (sea_sha d) (sea_num d) (earth_geometry secs) (sea_events d n) empty_graph"
  shows "\<exists>t. all_tracks gr = [t] \<and> track_id t = ''AIS-MMSI-563000111'' \<and> get_track gr (track_id t) = Some t \<and>
    observations_for_track gr (track_id t) = sea_events d n"
proof -
  obtain b0 bs where e: "sea_events d n = b0 # bs" and b0: "preferred_id b0 = ''AIS-MMSI-563000111''"
    and near: "\<forall>b \<in> set bs. great_circle_m (earth_geometry secs) (position b) (position b0) \<le> 2000 \<and> ob_confidence b < ob_confidence b0"
    by (simp add: sea_events_def sea_distances)
  obtain t where t: "tracks gr = [(preferred_id b0, t)]" "track_id t = preferred_id b0"
      "observation_ids t = map observation_id (sea_events d n)"
    using one_cluster [OF near, of "sea_sha d" "sea_num d"] by (auto simp: gr_def e)
  have seen: "seen gr = sea_events d n"
    by (simp add: gr_def ingest_many_seen empty_graph_def) (simp add: sea_events_def)
  have "get_track gr (track_id t) = Some t" using t(1,2) by (simp add: get_track_def)
  moreover from this have "observations_for_track gr (track_id t) = sea_events d n"
    using t(3) by (simp add: observations_for_track_def seen)
  ultimately show ?thesis using t(1,2) b0 by (simp add: all_tracks_def)
qed


text \<open>The scenario is one of those that \<open>Interpreter_Properties\<close> asks for.\<close>

lemma sea_asks_operator: "build_coa (sea_scenario d) gr f q i = Some c \<Longrightarrow> asks_operator c"
  by (auto simp: sea_scenario_def asks_operator_def dest: tier1_coa_fields)

definition whole_metres :: sea_deps where
  "whole_metres = \<lparr>sea_floats = \<lparr>rounded = (\<lambda>x. of_int (round x)), round_to = (\<lambda>n x. of_int (round x))\<rparr>,
     sea_sha = id, sea_num = (\<lambda>q. []), seconds_ago = (\<lambda>n s. replicate s CHR ''t''),
     fresh_id = (\<lambda>n k. replicate k CHR ''u''), sea_picture = (\<lambda>m k q. ''SEA APPROACH WARNING''), sea_str = (\<lambda>j. [])\<rparr>"


end
