(* ===== verification/Detectors.thy ===== *)
theory Detectors
  imports Southbound
begin

text \<open>
  What the detectors of the scenarios (\<open>app/scenarios\<close>) share: reading attributes of observations, selecting
  by modality, and the track that holds an observation.
\<close>

section \<open>Attributes\<close>

text \<open>\<open>str(o.attributes.get(k))\<close>\<close>

definition attr_str :: "py_builtins \<Rightarrow> observation \<Rightarrow> string \<Rightarrow> string" where
  "attr_str bi b k = py_str bi (get_or (ob_attributes b) k JNull)"

definition attr_truthy :: "observation \<Rightarrow> string \<Rightarrow> bool" where
  "attr_truthy b k \<longleftrightarrow> json_truthy (get_or (ob_attributes b) k JNull)"

definition by_modality :: "graph \<Rightarrow> string \<Rightarrow> observation list" where
  "by_modality gr k = filter (\<lambda>b. modality b = k) (seen gr)"

lemma ensure_digest_attributes [simp]:
  "modality (ensure_digest sha num b) = modality b" "ob_attributes (ensure_digest sha num b) = ob_attributes b"
  "source_id (ensure_digest sha num b) = source_id b" "entity_hint (ensure_digest sha num b) = entity_hint b"
  by (simp_all add: ensure_digest_def)

lemma ensure_digest_knots [simp]: "knots (ensure_digest sha num b) = knots b"
  by (simp add: knots_def split: option.split json.split)

section \<open>The track of an observation\<close>

definition track_holding :: "graph \<Rightarrow> observation \<Rightarrow> string option" where
  "track_holding gr b = map_option fst (find (\<lambda>kt. observation_id b \<in> set (observation_ids (snd kt))) (tracks gr))"

lemma seen_in_a_track:
  assumes "b \<in> set (seen (ingest_many sha num ge bs empty_graph))"
  shows "\<exists>k t. (k, t) \<in> set (tracks (ingest_many sha num ge bs empty_graph)) \<and> observation_id b \<in> set (observation_ids t)"
proof -
  let ?g = "ingest_many sha num ge bs empty_graph"
  obtain names where r: "refines names ?g" using ingest_many_refines by blast
  then have len: "length names = length (seen ?g)" by (simp add: refines_def)
  obtain n where n: "n < length (seen ?g)" "seen ?g ! n = b" using assms by (auto simp: in_set_conv_nth)
  let ?k = "names ! n"
  have "(b, ?k) \<in> set (zip (seen ?g) names)" using n len by (auto simp: set_zip)
  then have m: "b \<in> set (assigned_to names (seen ?g) ?k)" by (force simp: assigned_to_def)
  then have "assigned_to names (seen ?g) ?k \<noteq> []" by auto
  moreover have "?k \<in> set names" using n len by simp
  ultimately have "(?k, track_of (assigned_to names (seen ?g) ?k)) \<in> set (tracks ?g)"
    using r by (auto simp: refines_def picture_from_def)
  moreover have "observation_id b \<in> set (observation_ids (track_of (assigned_to names (seen ?g) ?k)))"
    using m track_of_fields(1) [of "assigned_to names (seen ?g) ?k"] by fastforce
  ultimately show ?thesis by blast
qed

lemma track_holding_Some:
  "track_holding gr b = Some k \<Longrightarrow> \<exists>t. (k, t) \<in> set (tracks gr) \<and> observation_id b \<in> set (observation_ids t)"
proof -
  let ?P = "\<lambda>kt. observation_id b \<in> set (observation_ids (snd kt))"
  assume "track_holding gr b = Some k"
  then obtain kt where kt: "find ?P (tracks gr) = Some kt" "k = fst kt" by (auto simp: track_holding_def)
  then obtain n where "n < length (tracks gr)" "tracks gr ! n = kt" "?P kt" by (auto simp: find_Some_iff)
  then show ?thesis using kt(2) nth_mem by (metis prod.collapse)
qed


lemma track_holding_seen:
  assumes "b \<in> set (seen (ingest_many sha num ge bs empty_graph))"
  shows "track_holding (ingest_many sha num ge bs empty_graph) b \<noteq> None"
  using seen_in_a_track [OF assms] by (auto simp: track_holding_def find_None_iff)

lemma seen_ingested [simp]:
  "seen (ingest_many sha num ge bs empty_graph) = map (ensure_digest sha num) bs"
  by (simp add: ingest_many_seen empty_graph_def)

lemma tier1_coa_metadata:
  assumes "make_tier1_coa fl sha gr f what q ov b i = Some c" "what \<notin> LEAD_PURSUIT_INTENTS"
  shows "\<exists>p speed. metadata c = tier1_metadata f p speed"
  using assms by (auto simp: make_tier1_coa_def Let_def split: option.splits prod.splits) blast+

end
