(* ===== verification/Trojan_Mothership.thy ===== *)
theory Trojan_Mothership
  imports Interpreter_Properties Great_Circle Detectors
begin

text \<open>
  The scenario \<open>S1_trojan\<close>, \<open>app/scenarios/s1_trojan_mothership.py\<close>: a ship whose AIS report is slow
  while radar holds something fast, and the terminal interception that it proposes over the first point of
  interest. The exported rows and the points of interest are parameters, as is the formatting of numbers. In texts, what is not ASCII is written in ASCII.
\<close>

section \<open>What it looks at\<close>

record trojan_deps =
  tj_floats :: float_ops
  tj_sha :: "string \<Rightarrow> string"
  tj_py :: py_builtins
  tj_fixed :: "nat \<Rightarrow> rat \<Rightarrow> string"   \<comment> \<open>\<open>f"{x:.1f}"\<close>, by the number of digits\<close>
  tj_pois :: "poi list"

definition HAPPY_TUG_MMSI :: string where "HAPPY_TUG_MMSI = ''563098710''"
definition AIS_SLOW_MAX_KT :: rat where "AIS_SLOW_MAX_KT = 15"
definition RADAR_FAST_MIN_KT :: rat where "RADAR_FAST_MIN_KT = 80"

definition ais_observations :: "trojan_deps \<Rightarrow> graph \<Rightarrow> observation list" where
  "ais_observations d gr =
     filter (\<lambda>b. modality b = ''ais'' \<or> attr_str (tj_py d) b ''source'' = ''NAVY_AIS'' \<or>
       attr_str (tj_py d) b ''mmsi'' = HAPPY_TUG_MMSI) (seen gr)"

definition fast_radar :: "trojan_deps \<Rightarrow> graph \<Rightarrow> observation list" where
  "fast_radar d gr =
     filter (\<lambda>b. (modality b = ''radar'' \<or> attr_str (tj_py d) b ''source'' \<in> {''NAVY_COASTAL_RADAR'', ''AIR_RADAR''}) \<and>
       knots b \<ge> RADAR_FAST_MIN_KT) (seen gr)"

definition story_ew :: "graph \<Rightarrow> observation list" where
  "story_ew gr = filter (\<lambda>b. attr_truthy b ''story_lob'') (seen gr)"

text \<open>The two nested loops: the first pair that is strictly closer than those before it.\<close>

definition nearer :: "float_ops \<Rightarrow> (observation \<times> observation \<times> rat) option \<Rightarrow> observation \<times> observation \<Rightarrow>
    (observation \<times> observation \<times> rat) option" where
  "nearer fl best p =
     (let m = apart_m fl (fst p) (snd p) in
      case best of
        None \<Rightarrow> Some (fst p, snd p, m)
      | Some (a, b, m') \<Rightarrow> if m < m' then Some (fst p, snd p, m) else best)"

definition nearest_pair :: "float_ops \<Rightarrow> observation list \<Rightarrow> observation list \<Rightarrow> (observation \<times> observation \<times> rat) option" where
  "nearest_pair fl slow fast = foldl (nearer fl) None (List.product slow fast)"

definition poi_01 :: "poi list \<Rightarrow> poi option" where
  "poi_01 pois = find (\<lambda>p. poi_id p = Some ''POI-01'') pois"

section \<open>The finding\<close>

definition metres_to :: "poi \<Rightarrow> observation \<Rightarrow> real" where
  "metres_to p b = great_circle (place b) (of_rat (fst (center p)), of_rat (snd (center p)))"

definition closing_mps :: "observation \<Rightarrow> real" where
  "closing_mps b = max (kt_to_mps (of_rat (knots b))) 1"

text \<open>The points of interest of the file have an id.\<close>

definition eta_by_poi :: "trojan_deps \<Rightarrow> observation \<Rightarrow> dict" where
  "eta_by_poi d b =
     (case poi_01 (tj_pois d) of
        None \<Rightarrow> []
      | Some _ \<Rightarrow> dict_update (List.map_filter (\<lambda>p. map_option (\<lambda>k.
          (k, JNum (round_to (tj_floats d) 1 (metres_to p b / closing_mps b)))) (poi_id p)) (tj_pois d)) [])"

definition trojan_minutes :: "trojan_deps \<Rightarrow> observation \<Rightarrow> rat" where
  "trojan_minutes d b = round_to (tj_floats d) 2
     (case poi_01 (tj_pois d) of None \<Rightarrow> 3 | Some p \<Rightarrow> metres_to p b / closing_mps b / 60)"

definition bearing_of :: "observation list \<Rightarrow> json" where
  "bearing_of bs = (case bs of [] \<Rightarrow> JNull | b # _ \<Rightarrow> get_or (ob_attributes b) ''bearing_deg'' JNull)"

definition trojan_finding :: "trojan_deps \<Rightarrow> graph \<Rightarrow> observation \<Rightarrow> observation \<Rightarrow> rat \<Rightarrow> string \<Rightarrow> finding_record" where
  "trojan_finding d gr a b apart k =
     (let str = py_str (tj_py d); fixed = tj_fixed d;
          vessel = get_or (ob_attributes a) ''vessel_name'' (JStr ''HAPPY TUG 8'');
          mmsi = get_or (ob_attributes a) ''mmsi'' (JStr HAPPY_TUG_MMSI);
          ew = story_ew gr;
          air = filter (\<lambda>o'. attr_str (tj_py d) o' ''service'' = ''air_force'') ew;
          army = filter (\<lambda>o'. attr_str (tj_py d) o' ''service'' = ''army'') ew;
          both = (air \<noteq> [] \<and> army \<noteq> [])
      in \<lparr>fi_scenario = ''S1_trojan'', fi_track = k, threat_class = ''trojan_mothership_uas'',
          warning_minutes_est = trojan_minutes d b, mismatch_m = round_to (tj_floats d) 1 (of_rat apart),
          fi_confidence = 91 / 100,
          picture_summary = ''Navy AIS reports '' @ str vessel @ '' (MMSI '' @ str mmsi @ '') at '' @ fixed 1 (knots a) @
            '' kt while coastal radar holds '' @ fixed 1 (knots b) @ '' kt UAS inbound - kinematic disagreement.'',
          fi_hypothesis = ''Decoy AIS on mothership; launched UAS toward Jurong CNI. '' @
            (if both then ''Air ESM & Army EW story LOBs corroborate launch sector.'' else ''Awaiting dual-LOB corroboration.''),
          spoof_sources = [source_id a], approach_sources = [source_id b], other_sources = map source_id ew,
          message = ''VELOCITY_MISMATCH: AIS '' @ fixed 1 (knots a) @ '' kt vs radar '' @ fixed 1 (knots b) @ '' kt (D '' @
            fixed 0 apart @ '' m)'',
          amber_alert = Some (if both then ''VELOCITY_MISMATCH_AIS_VS_RADAR+TRIANGULATION_MOTHERSHIP''
            else ''VELOCITY_MISMATCH_AIS_VS_RADAR''),
          source_breakdown =
            [(''ais'', JObj [(''claim'', JStr (str vessel @ '' @ '' @ fixed 1 (knots a) @ '' kt (routine traffic)'')),
                (''mmsi'', mmsi), (''source_id'', JStr (source_id a))]),
             (''radar'', JObj [(''claim'', JStr (''UAS @ '' @ fixed 1 (knots b) @ '' kt alt '' @
                  str (get_or (ob_attributes b) ''altitude_m'' (JStr ''?'')) @ '' m'')),
                (''track_id'', get_or (ob_attributes b) ''track_id'' JNull), (''source_id'', JStr (source_id b))]),
             (''ew'', JObj [(''air_bearing_deg'', bearing_of air), (''army_bearing_deg'', bearing_of army),
                (''triangulated'', JBool both)]),
             (''poi_eta_sec'', JObj (eta_by_poi d b))]\<rparr>)"

text \<open>The test of the distance against four times \<open>MOTHERSHIP_MATCH_M\<close> has an empty body.\<close>

definition trojan_detect :: "trojan_deps \<Rightarrow> graph \<Rightarrow> finding_record option" where
  "trojan_detect d gr =
     (let slow = filter (\<lambda>b. knots b \<le> AIS_SLOW_MAX_KT) (ais_observations d gr); fast = fast_radar d gr in
      if slow = [] \<or> fast = [] then None
      else
        (case nearest_pair (tj_floats d) slow fast of
           None \<Rightarrow> None
         | Some (a, b, apart) \<Rightarrow>
             if knots b < RADAR_FAST_MIN_KT \<or> knots a > AIS_SLOW_MAX_KT then None
             else
               (case track_holding gr b of
                  Some k \<Rightarrow> Some (trojan_finding d gr a b apart k)
                | None \<Rightarrow> map_option (trojan_finding d gr a b apart) (track_holding gr a))))"

section \<open>The proposal\<close>

definition OPTION_A :: "finding_record \<Rightarrow> dict" where
  "OPTION_A f =
     [(''option_id'', JStr ''A''), (''dangerous_proposal_draft'', JBool True), (''prob_hit'', JNum (98 / 100)),
      (''cost_usd'', JNum 120000),
      (''rationale'', JStr ''AI raw: Terminal SPYDER intercept 30 s before POI impact (98% Pk).''),
      (''poi_eta_sec'', get_or (source_breakdown f) ''poi_eta_sec'' (JObj []))]"

definition trojan_coa :: "trojan_deps \<Rightarrow> graph \<Rightarrow> finding_record \<Rightarrow> rat \<Rightarrow> string \<Rightarrow> course_of_action option" where
  "trojan_coa d gr f q i =
     map_option (\<lambda>c.
       case poi_01 (tj_pois d) of
         None \<Rightarrow> c
       | Some p \<Rightarrow> c\<lparr>target_coordinates := center p, metadata := dict_update (OPTION_A f) (metadata c),
           intent := ''TERMINAL_SAM_INTERCEPT'', tier := TIER_1_HITL\<rparr>)
       (make_tier1_coa (tj_floats d) (tj_sha d) gr f ''TERMINAL_SAM_INTERCEPT'' q None False i)"

text \<open>\<open>events\<close> is what the rows of the export give whenever the scenario is loaded.\<close>

definition trojan_scenario :: "trojan_deps \<Rightarrow> (nat \<Rightarrow> observation list) \<Rightarrow> scenario" where
  "trojan_scenario d events =
     \<lparr>scenario_key = ''S1_trojan'', build_events = events, detect = trojan_detect d, build_coa = trojan_coa d\<rparr>"

section \<open>When it warns\<close>

definition is_nearest :: "float_ops \<Rightarrow> (observation \<times> observation) list \<Rightarrow> (observation \<times> observation \<times> rat) option \<Rightarrow> bool" where
  "is_nearest fl ps best \<longleftrightarrow>
     (case best of
        None \<Rightarrow> ps = []
      | Some (a, b, m) \<Rightarrow> (a, b) \<in> set ps \<and> m = apart_m fl a b \<and> (\<forall>p \<in> set ps. m \<le> apart_m fl (fst p) (snd p)))"

lemma nearer_step: "is_nearest fl ps best \<Longrightarrow> is_nearest fl (ps @ [p]) (nearer fl best p)"
  by (cases p; cases best) (fastforce simp: is_nearest_def nearer_def Let_def)+

lemma nearer_spec: "is_nearest fl ps (foldl (nearer fl) None ps)"
  by (induction ps rule: rev_induct) (simp add: is_nearest_def, simp add: nearer_step)

lemma nearest_pair_cases:
  assumes "slow \<noteq> []" "fast \<noteq> []"
  obtains a b where "nearest_pair fl slow fast = Some (a, b, apart_m fl a b)" "a \<in> set slow" "b \<in> set fast"
    "\<forall>a' \<in> set slow. \<forall>b' \<in> set fast. apart_m fl a b \<le> apart_m fl a' b'"
proof -
  have "List.product slow fast \<noteq> []"
    using assms by (cases slow; cases fast) auto
  then obtain a b m where p: "nearest_pair fl slow fast = Some (a, b, m)"
    using nearer_spec [of fl "List.product slow fast"]
    by (cases "nearest_pair fl slow fast") (auto simp: nearest_pair_def is_nearest_def)
  then show thesis
    using nearer_spec [of fl "List.product slow fast"] that [of a b] by (auto simp: nearest_pair_def is_nearest_def)
qed

definition slow_ais :: "trojan_deps \<Rightarrow> graph \<Rightarrow> observation list" where
  "slow_ais d gr = filter (\<lambda>b. knots b \<le> AIS_SLOW_MAX_KT) (ais_observations d gr)"

lemma trojan_detect_Some:
  assumes "trojan_detect d gr = Some f"
  obtains a b k where "a \<in> set (slow_ais d gr)" "b \<in> set (fast_radar d gr)"
    "\<forall>a' \<in> set (slow_ais d gr). \<forall>b' \<in> set (fast_radar d gr). apart_m (tj_floats d) a b \<le> apart_m (tj_floats d) a' b'"
    "track_holding gr b = Some k \<or> track_holding gr b = None \<and> track_holding gr a = Some k"
    "f = trojan_finding d gr a b (apart_m (tj_floats d) a b) k"
proof -
  have ne: "slow_ais d gr \<noteq> []" "fast_radar d gr \<noteq> []"
    using assms by (auto simp: trojan_detect_def Let_def slow_ais_def split: if_splits)
  then obtain a b where p: "nearest_pair (tj_floats d) (slow_ais d gr) (fast_radar d gr) = Some (a, b, apart_m (tj_floats d) a b)"
    and m: "a \<in> set (slow_ais d gr)" "b \<in> set (fast_radar d gr)"
      "\<forall>a' \<in> set (slow_ais d gr). \<forall>b' \<in> set (fast_radar d gr). apart_m (tj_floats d) a b \<le> apart_m (tj_floats d) a' b'"
    by (rule nearest_pair_cases)
  show thesis
  proof (cases "track_holding gr b")
    case None
    then show ?thesis using assms p m ne that
      by (auto simp: trojan_detect_def Let_def slow_ais_def [symmetric] split: if_splits)
  next
    case (Some k)
    then show ?thesis using assms p m ne that
      by (auto simp: trojan_detect_def Let_def slow_ais_def [symmetric] split: if_splits)
  qed
qed

lemma fast_radar_is_held:
  assumes "b \<in> set (fast_radar d (ingest_many sha num ge bs empty_graph))"
  shows "track_holding (ingest_many sha num ge bs empty_graph) b \<noteq> None"
  using assms by (intro track_holding_seen) (simp add: fast_radar_def)

lemma trojan_detect_iff:
  fixes d sha num ge bs
  defines "gr \<equiv> ingest_many sha num ge bs empty_graph"
  shows "trojan_detect d gr \<noteq> None \<longleftrightarrow> slow_ais d gr \<noteq> [] \<and> fast_radar d gr \<noteq> []"
proof -
  have "trojan_detect d gr \<noteq> None" if ne: "slow_ais d gr \<noteq> []" "fast_radar d gr \<noteq> []"
  proof -
    obtain a b where p: "nearest_pair (tj_floats d) (slow_ais d gr) (fast_radar d gr) = Some (a, b, apart_m (tj_floats d) a b)"
      and m: "a \<in> set (slow_ais d gr)" "b \<in> set (fast_radar d gr)"
      using ne by (rule nearest_pair_cases)
    moreover have "\<not> knots b < RADAR_FAST_MIN_KT" "\<not> knots a > AIS_SLOW_MAX_KT"
      using m by (auto simp: slow_ais_def fast_radar_def)
    moreover obtain k where "track_holding gr b = Some k" using fast_radar_is_held m(2) unfolding gr_def by blast
    ultimately show ?thesis using ne by (simp add: trojan_detect_def Let_def slow_ais_def [symmetric])
  qed
  then show ?thesis by (auto simp: trojan_detect_def Let_def slow_ais_def [symmetric])
qed

lemma trojan_detect_track:
  fixes d sha num ge bs
  defines "gr \<equiv> ingest_many sha num ge bs empty_graph"
  assumes "trojan_detect d gr = Some f"
  shows "\<exists>a \<in> set (slow_ais d gr). \<exists>b \<in> set (fast_radar d gr).
    (\<forall>a' \<in> set (slow_ais d gr). \<forall>b' \<in> set (fast_radar d gr). apart_m (tj_floats d) a b \<le> apart_m (tj_floats d) a' b') \<and>
    spoof_sources f = [source_id a] \<and> approach_sources f = [source_id b] \<and>
    (\<exists>t. (fi_track f, t) \<in> set (tracks gr) \<and> observation_id b \<in> set (observation_ids t))"
  using assms(2)
proof (rule trojan_detect_Some)
  fix a b k
  assume m: "a \<in> set (slow_ais d gr)" "b \<in> set (fast_radar d gr)"
    "\<forall>a' \<in> set (slow_ais d gr). \<forall>b' \<in> set (fast_radar d gr). apart_m (tj_floats d) a b \<le> apart_m (tj_floats d) a' b'"
    and k: "track_holding gr b = Some k \<or> track_holding gr b = None \<and> track_holding gr a = Some k"
    and f: "f = trojan_finding d gr a b (apart_m (tj_floats d) a b) k"
  have "\<exists>t. (k, t) \<in> set (tracks gr) \<and> observation_id b \<in> set (observation_ids t)"
    using k fast_radar_is_held m(2) track_holding_Some unfolding gr_def by blast
  moreover have "fi_track f = k" "spoof_sources f = [source_id a]" "approach_sources f = [source_id b]"
    using f by (simp_all add: trojan_finding_def Let_def)
  ultimately show ?thesis using m by blast
qed


section \<open>What it proposes\<close>

lemma great_circle_self [simp]: "great_circle p p = 0"
  by (simp add: great_circle_def radians_def Let_def)

lemma trojan_coa_fields:
  assumes "trojan_coa d gr f q i = Some c"
  shows "intent c = ''TERMINAL_SAM_INTERCEPT''" "tier c = TIER_1_HITL" "coa_id c = i"
    "poi_01 (tj_pois d) = Some p \<Longrightarrow> target_coordinates c = center p"
    "map_of (metadata c) ''altitude_m'' = None"
proof -
  obtain c0 where c0: "make_tier1_coa (tj_floats d) (tj_sha d) gr f ''TERMINAL_SAM_INTERCEPT'' q None False i = Some c0"
    and c: "c = (case poi_01 (tj_pois d) of None \<Rightarrow> c0
       | Some p \<Rightarrow> c0\<lparr>target_coordinates := center p, metadata := dict_update (OPTION_A f) (metadata c0),
           intent := ''TERMINAL_SAM_INTERCEPT'', tier := TIER_1_HITL\<rparr>)"
    using assms by (auto simp: trojan_coa_def)
  have "''TERMINAL_SAM_INTERCEPT'' \<notin> LEAD_PURSUIT_INTENTS" by (simp add: LEAD_PURSUIT_INTENTS_def)
  then obtain pos speed where "metadata c0 = tier1_metadata f pos speed" using tier1_coa_metadata [OF c0] by blast
  then have "map_of (metadata c0) ''altitude_m'' = None" by (simp add: tier1_metadata_def)
  then show "map_of (metadata c) ''altitude_m'' = None"
    by (simp add: c OPTION_A_def map_of_dict_update del: dict_update_Cons split: option.split)
  show "intent c = ''TERMINAL_SAM_INTERCEPT''" "tier c = TIER_1_HITL" "coa_id c = i"
    "poi_01 (tj_pois d) = Some p \<Longrightarrow> target_coordinates c = center p"
    using tier1_coa_fields [OF c0] by (auto simp: c split: option.splits)
qed

lemma apply_defaults_keeps [simp]:
  "intent (apply_defaults pol c) = intent c" "target_coordinates (apply_defaults pol c) = target_coordinates c"
  "metadata (apply_defaults pol c) = metadata c" "coa_id (apply_defaults pol c) = coa_id c"
  "speed_kt (apply_defaults pol c) = speed_kt c"
  by (simp_all add: apply_defaults_def Let_def)

text \<open>The point of interest that decides: it is among those of the interlock, civilian, with a buffer of its own.\<close>

definition guarded_poi :: "interlock_deps \<Rightarrow> interlock \<Rightarrow> poi list \<Rightarrow> poi \<Rightarrow> bool" where
  "guarded_poi ld lk pois p \<longleftrightarrow> poi_01 pois = Some p \<and> p \<in> set (cni_pois lk) \<and> kind p \<in> {Some ''civilian_cni'', None} \<and>
     (case buffer_m p of None \<Rightarrow> True | Some b \<Rightarrow> 0 \<le> b) \<and> haversine_m ld (center p) (center p) = 0"

text \<open>What keeps the target, the draft flag and the altitude of Option A is vetoed.\<close>

definition still_option_a :: "poi \<Rightarrow> course_of_action \<Rightarrow> bool" where
  "still_option_a p c \<longleftrightarrow> target_coordinates c = center p \<and> map_of (metadata c) ''altitude_m'' = None \<and>
     map_of (metadata c) ''dangerous_proposal_draft'' = Some (JBool True)"

lemma still_option_a_vetoed:
  assumes "still_option_a p c" "guarded_poi ld lk pois p"
  shows "interlock_verify ld lk c \<noteq> None"
proof -
  have "altitude_m c = 71" using assms(1) by (simp add: still_option_a_def altitude_m_def)
  moreover have "debris_footprint_radius_m 71 \<ge> 0" by (simp add: debris_footprint_radius_m_def)
  ultimately have "hits_poi ld c p"
    using assms by (auto simp: guarded_poi_def still_option_a_def hits_poi_def split: option.splits)
  then have "find (hits_poi ld c) (cni_pois lk) \<noteq> None"
    using assms(2) by (auto simp: guarded_poi_def find_None_iff)
  moreover have "cni_pois lk \<noteq> []" using assms(2) by (auto simp: guarded_poi_def)
  moreover have "dangerous c" using assms(1) by (simp add: dangerous_def still_option_a_def)
  ultimately have "verify_cni_debris ld lk c \<noteq> None" by (simp add: verify_cni_debris_def)
  then show ?thesis by (auto simp: interlock_verify_def split: option.split)
qed

lemma trojan_coa_option_a:
  assumes "trojan_coa d gr f q i = Some c" "poi_01 (tj_pois d) = Some p"
  shows "still_option_a p c"
proof -
  obtain c0 where "c = c0\<lparr>target_coordinates := center p, metadata := dict_update (OPTION_A f) (metadata c0),
      intent := ''TERMINAL_SAM_INTERCEPT'', tier := TIER_1_HITL\<rparr>"
    using assms by (auto simp: trojan_coa_def)
  then show ?thesis using trojan_coa_fields(4,5) [OF assms(1)] assms(2)
    by (simp add: still_option_a_def OPTION_A_def map_of_dict_update del: dict_update_Cons)
qed

lemma reworded_option_a:
  assumes "still_option_a p c" "reworded c k"
  shows "still_option_a p k"
  using assms reworded_keeps(2) [OF assms(2)] by (simp add: still_option_a_def reworded_def NOTED_KEYS_def)

lemma apply_defaults_option_a: "still_option_a p (apply_defaults pol c) = still_option_a p c"
  by (simp add: still_option_a_def)

lemma load_trojan:
  assumes "get_scenario (registry d) sid = Some (trojan_scenario t events)" "poi_01 (tj_pois t) = Some p"
    "load_scenario d sid q g = (g1, Inr c)"
  shows "still_option_a p c" "il g1 = il g" "proposals g1 = proposals g" "inbox g1 = inbox g"
  using assms by (auto simp: load_scenario_def ingest_scenario_def Let_def trojan_scenario_def apply_defaults_option_a
      persist_picture_def write_store_def dest: trojan_coa_option_a split: option.splits prod.splits sum.splits)

lemma interpret_trojan:
  assumes "get_scenario (registry d) DEFAULT_SCENARIO = Some (trojan_scenario t events)" "poi_01 (tj_pois t) = Some p"
    "interpret_scenario (interpreted d it) DEFAULT_SCENARIO q h g = (g1, res)"
  shows "il g1 = il g \<and> proposals g1 = proposals g \<and> inbox g1 = inbox g \<and>
    (\<forall>r. res = Inr r \<longrightarrow> still_option_a p (candidate_coa r))"
proof -
  have keeps: "il g1 = il g \<and> proposals g1 = proposals g \<and> inbox g1 = inbox g"
    using assms(3) by (auto simp: interpret_scenario_def ingest_scenario_def Let_def persist_picture_def write_store_def
        split: option.splits prod.splits sum.splits)
  have "still_option_a p (candidate_coa r)" if inr: "res = Inr r" for r
  proof -
    let ?it = "it\<lparr>scenarios := registry d\<rparr>"
    obtain gr f i r0 where f: "trojan_detect t gr = Some f" and r: "interpret_finding ?it gr f q h i = Some r0"
      and r0: "candidate_coa r = apply_defaults (policy g) (candidate_coa r0)"
      using assms(1,3) inr by (fastforce simp: interpret_scenario_def ingest_scenario_def Let_def trojan_scenario_def
          persist_picture_def write_store_def split: option.splits prod.splits sum.splits)
    have "fi_scenario f = DEFAULT_SCENARIO"
      using f by (auto elim!: trojan_detect_Some simp: trojan_finding_def Let_def DEFAULT_SCENARIO_def)
    then have sc: "get_scenario (scenarios ?it) (fi_scenario f) = Some (trojan_scenario t events)" using assms(1) by simp
    obtain c where c: "build_coa (trojan_scenario t events) gr f q i = Some c" "reworded c (candidate_coa r0)"
      using r
    proof (cases rule: interpret_cases)
      case (llm endpoint)
      then show ?thesis using llm_candidate [OF llm] sc that by blast
    next
      case (rules r1 kvs)
      then show ?thesis using heuristic_candidate [OF rules(1)] sc that by (auto simp: reworded_noted)
    qed
    then have "still_option_a p c" using trojan_coa_option_a [OF _ assms(2)] by (simp add: trojan_scenario_def)
    then show ?thesis using reworded_option_a c(2) r0 apply_defaults_option_a by metis
  qed
  with keeps show ?thesis by blast
qed

text \<open>
  Claim C13: Behind the API the trojan scenario never gets anywhere: with its first point of interest
  guarded by the interlock, every proposal of the scenario, interpreted by any language model or not, is
  refused or rejected fast, so that nothing is queued and nothing issued.
\<close>

theorem option_a_never_passes_the_api:
  assumes "get_scenario (registry d) DEFAULT_SCENARIO = Some (trojan_scenario t events)"
    "guarded_poi (interlocks d) (il g) (tj_pois t) p" "req_scenario req = Some DEFAULT_SCENARIO"
  shows "proposals (fst (gate_proposals (interpreted d it) req g)) = proposals g \<and>
    inbox (fst (gate_proposals (interpreted d it) req g)) = inbox g"
proof -
  let ?d = "interpreted d it" and ?q = "or_default (req_timeout req) (default_timeout_seconds (policy g))"
  have poi: "poi_01 (tj_pois t) = Some p" using assms(2) by (simp add: guarded_poi_def)
  have vetoed: "proposals (fst (submit ?d c u r g1)) = proposals g \<and> inbox (fst (submit ?d c u r g1)) = inbox g"
    if "still_option_a p c" "il g1 = il g \<and> proposals g1 = proposals g \<and> inbox g1 = inbox g" for c u r g1
    using still_option_a_vetoed [OF that(1) assms(2)] that(2) by (auto simp: submit_def reject_fast_def Let_def)
  show ?thesis
  proof (cases "req_interpret req")
    case True
    obtain g1 res where i: "interpret_scenario ?d DEFAULT_SCENARIO ?q (req_heuristic req) g = (g1, res)" by fastforce
    note t = interpret_trojan [OF assms(1) poi i]
    show ?thesis
    proof (cases res)
      case (Inr r)
      then show ?thesis using True assms(3) i t vetoed [of "candidate_coa r" g1]
        by (simp add: gate_proposals_def DEFAULT_SCENARIO_def Let_def)
    qed (use True assms(3) i t in \<open>simp add: gate_proposals_def DEFAULT_SCENARIO_def refuse_def Let_def\<close>)
  next
    case False
    obtain g1 res where l: "load_scenario ?d DEFAULT_SCENARIO ?q g = (g1, res)" by fastforce
    have keeps: "il g1 = il g \<and> proposals g1 = proposals g \<and> inbox g1 = inbox g"
      using l by (auto simp: load_scenario_def ingest_scenario_def Let_def persist_picture_def write_store_def
          split: option.splits prod.splits sum.splits)
    show ?thesis
    proof (cases res)
      case (Inr c)
      moreover have "get_scenario (registry ?d) DEFAULT_SCENARIO = Some (trojan_scenario t events)" using assms(1) by simp
      ultimately have "still_option_a p c" using load_trojan(1) [OF _ poi] l by blast
      then show ?thesis using Inr False assms(3) l vetoed [of c g1] keeps
        by (simp add: gate_proposals_def DEFAULT_SCENARIO_def Let_def)
    qed (use False assms(3) l keeps in \<open>simp add: gate_proposals_def DEFAULT_SCENARIO_def refuse_def Let_def\<close>)
  qed
qed

text \<open>
  Claim C14: The operator page does what the API refuses: with its default scenario, its propose route
  queues Option A, and the approval that follows issues that course of action, which the interlock vetoes.
\<close>

theorem default_page_issues_option_a:
  assumes "get_scenario (registry d) DEFAULT_SCENARIO = Some (trojan_scenario t events)"
    "guarded_poi (interlocks d) (il g) (tj_pois t) p"
    "load_scenario d DEFAULT_SCENARIO DEFAULT_TIMEOUT g = (g1, Inr c)"
    "gate_run d [Verify_Propose DEFAULT_SCENARIO u, Verify_Approve (coa_id c) ''y''] g = (g2, es)"
  shows "target_coordinates c = center p \<and> interlock_verify (interlocks d) (il g) c \<noteq> None \<and>
    (\<exists>tk. map_of (inbox g2) (coa_id c) = Some tk \<and> tasked_coa tk = c)"
proof -
  have "still_option_a p c" using load_trojan(1) [OF assms(1) _ assms(3)] assms(2) by (simp add: guarded_poi_def)
  then show ?thesis
    using still_option_a_vetoed assms(2) page_issues_what_it_queues [OF assms(3,4)] by (auto simp: still_option_a_def)
qed

section \<open>A ship and a drone an ocean apart\<close>

definition contact :: "string \<Rightarrow> string \<Rightarrow> rat \<times> rat \<Rightarrow> rat \<Rightarrow> observation" where
  "contact i sensor p kt =
     \<lparr>observation_id = i, source_id = i, entity_hint = i, position = p, ob_altitude_m = None, speed_mps = 0,
      heading_deg = None, ob_confidence = 1 / 2, observed_at = ''T'', modality = sensor,
      ob_attributes = [(''speed_kt'', JNum kt)], raw_digest = ''D''\<rparr>"

definition far_apart :: "observation list" where
  "far_apart = [contact ''TUG'' ''ais'' (0, 0) 6, contact ''UAS'' ''radar'' (0, 90) 120]"

definition jurong :: poi where
  "jurong = \<lparr>poi_id = Some ''POI-01'', kind = Some ''civilian_cni'', center = (1266 / 1000, 1037 / 10), buffer_m = Some 2500,
     offshore_nofire_m = Some 1200\<rparr>"

definition demo_trojan :: trojan_deps where
  "demo_trojan = \<lparr>tj_floats = \<lparr>rounded = \<lambda>x. 0, round_to = \<lambda>n x. 0\<rparr>, tj_sha = id, tj_py = plain_builtins,
     tj_fixed = (\<lambda>n q. []), tj_pois = [jurong]\<rparr>"

lemma far_apart_picture:
  "contact ''TUG'' ''ais'' (0, 0) 6 \<in> set (slow_ais demo_trojan (ingest_many sha num ge far_apart empty_graph))"
  "contact ''UAS'' ''radar'' (0, 90) 120 \<in> set (fast_radar demo_trojan (ingest_many sha num ge far_apart empty_graph))"
  by (simp_all add: slow_ais_def ais_observations_def fast_radar_def ingest_many_seen empty_graph_def far_apart_def contact_def
      ensure_digest_def knots_def AIS_SLOW_MAX_KT_def RADAR_FAST_MIN_KT_def)


definition trojan_gate_deps :: gate_deps where
  "trojan_gate_deps = demo_gate_deps\<lparr>registry := [(DEFAULT_SCENARIO, trojan_scenario demo_trojan (\<lambda>n. far_apart))],
     load_pois := Some [jurong]\<rparr>"

definition trojan_gate :: gate_state where
  "trojan_gate = new_gate trojan_gate_deps maritime_policy maritime_interlock"

lemma trojan_gate_guarded:
  "get_scenario (registry trojan_gate_deps) DEFAULT_SCENARIO = Some (trojan_scenario demo_trojan (\<lambda>n. far_apart))"
  "guarded_poi (interlocks trojan_gate_deps) (il trojan_gate) (tj_pois demo_trojan) jurong"
  by (simp_all add: trojan_gate_deps_def get_scenario_def DEFAULT_SCENARIO_def strip_def trim_by_def py_space_def
      guarded_poi_def demo_trojan_def poi_01_def jurong_def trojan_gate_def demo_gate_defs demo_gate_deps_def)

lemma trojan_loads:
  assumes "get_scenario (registry d) sid = Some (trojan_scenario t events)"
    "slow_ais t (ingest_all d (events (drawn g)) empty_graph) \<noteq> []"
    "fast_radar t (ingest_all d (events (drawn g)) empty_graph) \<noteq> []"
  shows "\<exists>g1 c. load_scenario d sid q g = (g1, Inr c)"
proof -
  let ?gr = "ingest_all d (events (drawn g)) empty_graph"
  obtain f where f: "trojan_detect t ?gr = Some f"
    using trojan_detect_iff [of t "sha256_hex d" "num_repr d" "earth d" "events (drawn g)"] assms(2,3)
    by (auto simp: ingest_all_def)
  then obtain tr where "(fi_track f, tr) \<in> set (tracks ?gr)"
    using trojan_detect_track [of t "sha256_hex d" "num_repr d" "earth d" "events (drawn g)" f] by (auto simp: ingest_all_def)
  then have "get_track ?gr (fi_track f) \<noteq> None" by (metis get_track_def map_of_eq_None_iff fst_conv image_eqI)
  then have "trojan_coa t ?gr f q i \<noteq> None" for i
    using tier1_coa_made [of "tj_floats t" "tj_sha t" ?gr f] by (simp add: trojan_coa_def)
  then show ?thesis using assms(1) f
    by (auto simp: load_scenario_def ingest_scenario_def trojan_scenario_def persist_picture_def write_store_def Let_def
        split: option.splits)
qed

theorem option_a_never_passes_the_api_witness:
  "proposals (fst (gate_proposals (interpreted trojan_gate_deps overreaching) (interpret_proposal\<lparr>req_scenario := Some DEFAULT_SCENARIO\<rparr>)
     trojan_gate)) = []"
  using option_a_never_passes_the_api [OF trojan_gate_guarded, of "interpret_proposal\<lparr>req_scenario := Some DEFAULT_SCENARIO\<rparr>"]
  by (simp add: trojan_gate_def demo_gate_defs)

theorem default_page_issues_option_a_witness:
  "\<exists>c g2. interlock_verify (interlocks trojan_gate_deps) (il trojan_gate) c \<noteq> None \<and>
     (\<exists>es. gate_run trojan_gate_deps [Verify_Propose DEFAULT_SCENARIO ''W'', Verify_Approve (coa_id c) ''y''] trojan_gate = (g2, es)) \<and>
     (\<exists>tk. map_of (inbox g2) (coa_id c) = Some tk \<and> tasked_coa tk = c)"
proof -
  obtain g1 c where "load_scenario trojan_gate_deps DEFAULT_SCENARIO DEFAULT_TIMEOUT trojan_gate = (g1, Inr c)"
    using trojan_loads [OF trojan_gate_guarded(1)] far_apart_picture unfolding ingest_all_def by (metis empty_iff list.set(1))
  from default_page_issues_option_a [OF trojan_gate_guarded this surjective_pairing, of "''W''"]
  show ?thesis using surjective_pairing by blast
qed

end
