(* ===== verification/Osint_Swarm.thy ===== *)
theory Osint_Swarm
  imports Detectors Great_Circle
begin

text \<open>
  The scenario \<open>S2_osint_swarm\<close>, \<open>app/scenarios/s2_air_corridor_attritable.py\<close>: a passenger who claims
  many aircraft while the radar holds four. The regular expressions of \<open>app/adapters/osint_text.py\<close> are the
  parameter \<open>parse_claim\<close>, the count they find in a text. In texts, what is not ASCII is written in ASCII.
\<close>

section \<open>What it counts\<close>

record swarm_deps =
  sw_floats :: float_ops
  sw_sha :: "string \<Rightarrow> string"
  sw_py :: py_builtins
  sw_fixed :: "nat \<Rightarrow> rat \<Rightarrow> string"
  parse_claim :: "json option \<Rightarrow> int option"

definition FALLBACK_CLAIMED_COUNT :: int where "FALLBACK_CLAIMED_COUNT = 50"
definition MIN_CLAIMED_COUNT :: int where "MIN_CLAIMED_COUNT = 40"
definition EXPECTED_RADAR_CONTACTS :: int where "EXPECTED_RADAR_CONTACTS = 4"

text \<open>\<open>parse_osint_text(..., fallback_count=50).claimed_count or 0\<close>: a text that gives no count between 1 and 500
  counts as the fallback.\<close>

definition parsed_count :: "swarm_deps \<Rightarrow> json option \<Rightarrow> int" where
  "parsed_count d v =
     (case parse_claim d (non_null v) of
        Some n \<Rightarrow> if 1 \<le> n \<and> n \<le> 500 then n else FALLBACK_CLAIMED_COUNT
      | None \<Rightarrow> FALLBACK_CLAIMED_COUNT)"

definition claimed_count :: "swarm_deps \<Rightarrow> observation \<Rightarrow> int" where
  "claimed_count d b =
     (case non_null (map_of (ob_attributes b) ''claimed_count'') of
        None \<Rightarrow> parsed_count d (map_of (ob_attributes b) ''intel_text'')
      | Some raw \<Rightarrow>
          (case py_int (sw_py d) raw of
             Inr n \<Rightarrow> n
           | Inl _ \<Rightarrow> parsed_count d (map_of (ob_attributes b) ''intel_text'')))"

text \<open>The contact counts of an export are numbers.\<close>

definition contact_count :: "swarm_deps \<Rightarrow> observation \<Rightarrow> int" where
  "contact_count d b =
     (case py_int (sw_py d) (or_else [map_of (ob_attributes b) ''contact_count''] (JNum 0)) of Inr n \<Rightarrow> n | Inl _ \<Rightarrow> 0)"

definition social_count :: "swarm_deps \<Rightarrow> graph \<Rightarrow> int" where
  "social_count d gr = (case map (claimed_count d) (by_modality gr ''social'') of [] \<Rightarrow> 0 | n # ns \<Rightarrow> Max (set (n # ns)))"

definition radar_count :: "swarm_deps \<Rightarrow> graph \<Rightarrow> int" where
  "radar_count d gr = sum_list (map (contact_count d) (by_modality gr ''radar''))"

definition blur_optical :: "graph \<Rightarrow> observation list" where
  "blur_optical gr = filter (\<lambda>b. ob_confidence b \<le> 45 / 100 \<or> attr_truthy b ''blur'') (by_modality gr ''optical'')"

definition rf_silent :: "graph \<Rightarrow> bool" where
  "rf_silent gr \<longleftrightarrow> list_ex (\<lambda>b. attr_truthy b ''rf_silent'') (by_modality gr ''rf'') \<or> by_modality gr ''rf'' = []"

definition empty_adsb :: "graph \<Rightarrow> bool" where
  "empty_adsb gr \<longleftrightarrow> list_ex (\<lambda>b. attr_truthy b ''empty_sector'') (by_modality gr ''adsb'') \<or> by_modality gr ''adsb'' = []"

definition radar_track :: "graph \<Rightarrow> observation \<Rightarrow> track option" where
  "radar_track gr b =
     (case get_track gr (preferred_id b) of
        Some t \<Rightarrow> Some t
      | None \<Rightarrow> find (\<lambda>t. source_id b \<in> set (source_ids t) \<or> observation_id b \<in> set (observation_ids t)) (all_tracks gr))"

section \<open>The finding\<close>

definition SWARM_AMBER :: string where
  "SWARM_AMBER = ''COUNT_AND_BEARING_MISMATCH''"

definition sources_json :: "observation list \<Rightarrow> json" where
  "sources_json bs = JArr (map (JStr \<circ> source_id) bs)"

definition lowest_confidence :: "observation list \<Rightarrow> rat" where
  "lowest_confidence bs = Min (ob_confidence ` set bs)"

definition swarm_picture :: "swarm_deps \<Rightarrow> int \<Rightarrow> int \<Rightarrow> rat \<Rightarrow> rat \<Rightarrow> string" where
  "swarm_picture d claimed held mismatch eo =
     (let digits = (\<lambda>n. py_str (sw_py d) (JNum (of_int n))) in
      ''AMBER '' @ SWARM_AMBER @ '' (~'' @ sw_fixed d 0 4 @ '' min): airborne passenger OSINT claims ~'' @ digits claimed @
      '' Shahed-class airframes; gap-filler radar holds '' @ digits held @ '' intermittent contacts ~'' @ sw_fixed d 0 mismatch @
      '' m north (sea clutter / terrain masking); EO/IR delta-wing conf='' @ sw_fixed d 2 eo @
      ''; acoustic 2-stroke harmonic corroborates. '' @
      ''RF_SILENT_AUTONOMOUS (GPS/INS waypoints) - RF C2 jam useless; cue GNSS denial + GBAD.'')"

definition swarm_finding :: "swarm_deps \<Rightarrow> graph \<Rightarrow> rat \<Rightarrow> track \<Rightarrow> finding_record" where
  "swarm_finding d gr mismatch t =
     (let digits = (\<lambda>n. py_str (sw_py d) (JNum (of_int n))); claimed = social_count d gr; held = radar_count d gr;
          social = by_modality gr ''social''; radar = by_modality gr ''radar''; adsb = by_modality gr ''adsb'';
          rf = by_modality gr ''rf''; acoustic = by_modality gr ''acoustic''; blur = blur_optical gr;
          eo = lowest_confidence blur; picture = swarm_picture d claimed held mismatch eo;
          intel = py_str (sw_py d) (or_else [map_of (ob_attributes (hd social)) ''intel_text''] (JStr []))
      in \<lparr>fi_scenario = ''S2_osint_swarm'', fi_track = track_id t, threat_class = ''attritable_air_incursion'',
          warning_minutes_est = 4, mismatch_m = mismatch,
          fi_confidence = min (88 / 100) (45 / 100 + of_int claimed * 5 / 1000 + of_int held * 8 / 100),
          picture_summary = picture,
          fi_hypothesis = ''If CIVILIAN_SOCIAL_RECON exaggerates count, radar+acoustic+EO still warrant non-kinetic '' @
            ''cueing (not 50x SAM shots). If GAP_FILLER_RADAR under-counts due to clutter, the '' @
            ''passenger claim of ~'' @ digits claimed @ '' remains the saturation planning figure. '' @
            ''Autonomous GPS/INS flight invalidates conventional RF soft-kill as primary defeat.'',
          spoof_sources = map source_id (social @ adsb), approach_sources = map source_id (radar @ blur @ acoustic),
          other_sources = map source_id rf, message = picture, amber_alert = Some SWARM_AMBER,
          source_breakdown =
            [(''social'', JObj [(''sources'', sources_json social), (''claimed_count'', JNum (of_int claimed)),
                (''intel_text'', JStr intel),
                (''claim'', JStr (''~'' @ digits claimed @ '' Shahed-class (airborne passenger OSINT)''))]),
             (''radar'', JObj [(''sources'', sources_json radar), (''contact_count'', JNum (of_int held)),
                (''claim'', JStr (digits held @ '' intermittent contacts (clutter blindspots)''))]),
             (''optical'', JObj [(''sources'', sources_json blur), (''confidence'', JNum eo),
                (''claim'', JStr ''delta-wing thermal / low-confidence EO'')]),
             (''acoustic'', JObj [(''sources'', sources_json acoustic),
                (''claim'', JStr ''2-stroke moped harmonic (Shahed-class)'')]),
             (''adsb'', JObj [(''sources'', sources_json adsb), (''claim'', JStr ''empty sector'')]),
             (''rf'', JObj [(''sources'', sources_json rf), (''claim'', JStr ''RF_SILENT_AUTONOMOUS - GPS/INS waypoint''),
                (''finding'', JStr ''RF_SILENT_AUTONOMOUS'')]),
             (''amber_alert'', JStr SWARM_AMBER),
             (''resolution_path'', JArr [JStr ''CUE_AND_IDENTIFY'', JStr ''GNSS_DENIAL_AND_GBAD_CUE''])]\<rparr>)"

definition swarm_detect :: "swarm_deps \<Rightarrow> graph \<Rightarrow> finding_record option" where
  "swarm_detect d gr =
     (let social = by_modality gr ''social''; radar = by_modality gr ''radar''; blur = blur_optical gr in
      if social = [] \<or> by_modality gr ''optical'' = [] \<or> radar = [] \<or> by_modality gr ''acoustic'' = [] then None
      else if social_count d gr < MIN_CLAIMED_COUNT \<or> radar_count d gr \<noteq> EXPECTED_RADAR_CONTACTS \<or> blur = [] then None
      else
        (case (first_max ob_confidence (social @ blur), first_max ob_confidence radar) of
           (Some cue, Some rad) \<Rightarrow>
             (let mismatch = apart_m (sw_floats d) cue rad in
              if mismatch < 1000 \<or> \<not> (rf_silent gr \<and> empty_adsb gr) then None
              else map_option (swarm_finding d gr mismatch) (radar_track gr rad))
         | _ \<Rightarrow> None))"

definition swarm_scenario :: "swarm_deps \<Rightarrow> (nat \<Rightarrow> observation list) \<Rightarrow> scenario" where
  "swarm_scenario d events =
     \<lparr>scenario_key = ''S2_osint_swarm'', build_events = events, detect = swarm_detect d,
      build_coa = (\<lambda>gr f q i. make_tier1_coa (sw_floats d) (sw_sha d) gr f ''GNSS_DENIAL_AND_GBAD_CUE'' q None False i)\<rparr>"

section \<open>When it warns\<close>

lemma radar_track_held:
  assumes "b \<in> set (seen (ingest_many sha num ge bs empty_graph))"
  shows "radar_track (ingest_many sha num ge bs empty_graph) b \<noteq> None"
proof (cases "get_track (ingest_many sha num ge bs empty_graph) (preferred_id b)")
  case None
  have "find (\<lambda>t. source_id b \<in> set (source_ids t) \<or> observation_id b \<in> set (observation_ids t))
      (all_tracks (ingest_many sha num ge bs empty_graph)) \<noteq> None"
    using seen_in_a_track [OF assms] unfolding find_None_iff all_tracks_def by force
  then show ?thesis using None by (simp add: radar_track_def)
qed (simp add: radar_track_def)

text \<open>
  The swarm scenario warns exactly when social, optical, radar and acoustic evidence are all
  there, at least 40 aircraft are claimed while the radar counts four, an optical sighting is blurred or
  doubtful, the most confident cue is at least 1000 metres from the most confident radar contact, and
  neither radio emissions nor transponders contradict it. Where the picture put the radar contact is no
  condition: there always is a track to task.
\<close>

theorem swarm_warns_iff:
  "swarm_detect d (ingest_many sha num ge bs empty_graph) \<noteq> None \<longleftrightarrow>
     (let gr = ingest_many sha num ge bs empty_graph in
      by_modality gr ''social'' \<noteq> [] \<and> by_modality gr ''optical'' \<noteq> [] \<and> by_modality gr ''radar'' \<noteq> [] \<and>
      by_modality gr ''acoustic'' \<noteq> [] \<and> social_count d gr \<ge> MIN_CLAIMED_COUNT \<and>
      radar_count d gr = EXPECTED_RADAR_CONTACTS \<and> blur_optical gr \<noteq> [] \<and>
      apart_m (sw_floats d) (the (first_max ob_confidence (by_modality gr ''social'' @ blur_optical gr)))
        (the (first_max ob_confidence (by_modality gr ''radar''))) \<ge> 1000 \<and> rf_silent gr \<and> empty_adsb gr)"
proof -
  let ?gr = "ingest_many sha num ge bs empty_graph"
  have "radar_track ?gr rad \<noteq> None" if "first_max ob_confidence (by_modality ?gr ''radar'') = Some rad" for rad
  proof (rule radar_track_held)
    have "rad \<in> set (by_modality ?gr ''radar'')" using first_max_spec [OF that] by blast
    then show "rad \<in> set (seen ?gr)" unfolding by_modality_def by (rule subsetD [OF filter_is_subset])
  qed
  moreover have "\<exists>x. first_max ob_confidence xs = Some x" if "xs \<noteq> []" for xs
    using that by (cases "first_max ob_confidence xs") auto
  ultimately show ?thesis
    unfolding swarm_detect_def Let_def
    by (auto split: option.splits simp: not_less simp del: seen_ingested)
qed

end
