(* ===== verification/Lane_Break.thy ===== *)
theory Lane_Break
  imports Sea_Approach Detectors
begin

text \<open>
  The scenario \<open>S3_sar_ais\<close>, \<open>app/scenarios/s3_lane_spof_break.py\<close>: a SAR detection half an hour old where AIS
  is thin, projected to the time of the coastal radar. The observation of the fixture file is a parameter,
  as is the formatting of numbers. In texts, what is not ASCII is written in ASCII.
\<close>

section \<open>The events\<close>

record lane_deps =
  ln_floats :: float_ops
  ln_sha :: "string \<Rightarrow> string"
  ln_py :: py_builtins
  ln_fixed :: "nat \<Rightarrow> rat \<Rightarrow> string"   \<comment> \<open>by the number of digits\<close>
  ln_secs :: "string \<Rightarrow> real"            \<comment> \<open>the time a text denotes\<close>

definition LANE_AIS_AT :: "rat \<times> rat" where "LANE_AIS_AT = (121 / 100, 10382 / 100)"
definition SAR_AGE_S :: nat where "SAR_AGE_S = 1800"
definition SAR_HEADING_DEG :: rat where "SAR_HEADING_DEG = 200"
definition SAR_SPEED_KT :: rat where "SAR_SPEED_KT = 12"
definition STATIC_RADAR_CUE_M :: rat where "STATIC_RADAR_CUE_M = 1500"

text \<open>\<open>ago s\<close> is the text of the time \<open>s\<close> seconds ago; \<open>fixture\<close> is \<open>observation_from_assumed_fixture()\<close>.\<close>

definition sar_row :: "(nat \<Rightarrow> string) \<Rightarrow> observation \<Rightarrow> dict" where
  "sar_row ago fixture =
     dict_update
       [(''latitude'', JNum (fst (position fixture))), (''longitude'', JNum (snd (position fixture))),
        (''speed_kt'', JNum SAR_SPEED_KT), (''heading_deg'', JNum SAR_HEADING_DEG),
        (''confidence'', JNum (ob_confidence fixture)), (''observed_at'', JStr (ago SAR_AGE_S)),
        (''modality'', JStr SPACE_SAR_MODALITY)]
       (dict_update (ob_attributes fixture)
         [(''source_id'', JStr (source_id fixture)), (''entity_id'', JStr (entity_hint fixture)),
          (''observation_id'', JStr (observation_id fixture))])"

definition stale_ais_row :: "(nat \<Rightarrow> string) \<Rightarrow> nat \<Rightarrow> string \<Rightarrow> rat \<times> rat \<Rightarrow> rat \<Rightarrow> rat \<Rightarrow> rat \<Rightarrow> dict \<Rightarrow> dict" where
  "stale_ais_row ago s entity p kt heading conf extra =
     [(''source_id'', JStr ''OPEN_AIS_SNAPSHOT''), (''entity_id'', JStr entity), (''latitude'', JNum (fst p)),
      (''longitude'', JNum (snd p)), (''speed_kt'', JNum kt), (''heading_deg'', JNum heading), (''confidence'', JNum conf),
      (''observed_at'', JStr (ago s)), (''modality'', JStr ''ais''), (''note'', JStr ''stale_open_ais_residue''),
      (''lane_density_index'', JNum (15 / 100))] @ extra @ [(''vendor_track'', JStr entity)]"

definition projected_fixture :: "observation \<Rightarrow> projected_contact" where
  "projected_fixture fixture =
     project_dead_reckoning (place fixture) (Some (of_rat SAR_HEADING_DEG)) (kt_to_mps (of_rat SAR_SPEED_KT))
       (of_nat SAR_AGE_S - 5) DEFAULT_V_MIN_MPS DEFAULT_V_MAX_MPS DEFAULT_SIGMA_NAV_M DEFAULT_HEADING_SIGMA_DEG"

definition cue_row :: "float_ops \<Rightarrow> (nat \<Rightarrow> string) \<Rightarrow> observation \<Rightarrow> dict" where
  "cue_row fl ago fixture =
     (let p = at_position (projected_fixture fixture) in
      [(''source_id'', JStr ''COASTAL_RADAR_WEST''), (''entity_id'', JStr ''RADAR-SAR-CUE-901''),
       (''latitude'', JNum (rounded fl (fst p))), (''longitude'', JNum (rounded fl (snd p))),
       (''speed_kt'', JNum SAR_SPEED_KT), (''heading_deg'', JNum SAR_HEADING_DEG), (''confidence'', JNum (86 / 100)),
       (''observed_at'', JStr (ago 5)), (''modality'', JStr ''radar''),
       (''note'', JStr ''coastal_cue_in_sar_reachability_envelope''), (''vendor_track'', JStr ''RADAR-SAR-CUE-901'')])"

definition lane_rows :: "float_ops \<Rightarrow> (nat \<Rightarrow> string) \<Rightarrow> observation \<Rightarrow> dict list" where
  "lane_rows fl ago fixture =
     [sar_row ago fixture,
      stale_ais_row ago 1500 ''AIS-HIST-LANE-A'' LANE_AIS_AT 8 90 (5 / 10) [(''ais_correlation'', JStr ''NONE'')],
      stale_ais_row ago 1320 ''AIS-HIST-LANE-B'' (fst LANE_AIS_AT - 5 / 1000, snd LANE_AIS_AT + 2 / 100) (75 / 10) 85 (45 / 100) [],
      cue_row fl ago fixture]"

section \<open>The detector\<close>

text \<open>The densities and vessel counts of the events are numbers.\<close>

definition lane_density :: "lane_deps \<Rightarrow> observation \<Rightarrow> rat" where
  "lane_density d b =
     (case py_float (ln_py d) (get_or (ob_attributes b) ''lane_density_index'' (JNum 1)) of Inr q \<Rightarrow> q | Inl _ \<Rightarrow> 1)"

definition thinnest :: "lane_deps \<Rightarrow> observation list \<Rightarrow> rat" where
  "thinnest d ais = Min (lane_density d ` set ais)"

definition nearest_m :: "float_ops \<Rightarrow> observation \<Rightarrow> observation list \<Rightarrow> rat" where
  "nearest_m fl b ais = Min (apart_m fl b ` set ais)"

text \<open>\<open>max\<close> of the times, the first of those that are equal.\<close>

definition latest :: "(string \<Rightarrow> real) \<Rightarrow> string \<Rightarrow> observation list \<Rightarrow> string" where
  "latest secs otherwise bs =
     (case bs of [] \<Rightarrow> otherwise
      | b # bs' \<Rightarrow> foldl (\<lambda>t b. if secs t < secs (observed_at b) then observed_at b else t) (observed_at b) bs')"

definition near_static :: "lane_deps \<Rightarrow> observation \<Rightarrow> observation \<Rightarrow> bool" where
  "near_static d primary b \<longleftrightarrow> apart_m (ln_floats d) primary b \<le> STATIC_RADAR_CUE_M"

definition inside :: "projected_contact \<Rightarrow> observation \<Rightarrow> bool" where
  "inside c b \<longleftrightarrow> in_reachability_envelope c (place b)"

text \<open>The loop keeps the distance of the last radar contact that is inside.\<close>

definition radar_distance :: "lane_deps \<Rightarrow> projected_contact \<Rightarrow> observation list \<Rightarrow> rat" where
  "radar_distance d c nearby =
     foldl (\<lambda>m b. if inside c b then rounded (ln_floats d) (great_circle (at_position c) (place b)) else m) 0 nearby"

definition vessel_estimate :: "lane_deps \<Rightarrow> observation \<Rightarrow> int" where
  "vessel_estimate d b =
     (case py_int (ln_py d) (or_else [map_of (ob_attributes b) ''vessel_count_est''] (JNum 0)) of Inr n \<Rightarrow> n | Inl _ \<Rightarrow> 0)"

definition LANE_AMBER :: string where
  "LANE_AMBER = ''SAR_DARK_CLUSTER_VS_AIS_SILENCE''"

definition LANE_HYPOTHESIS :: string where
  "LANE_HYPOTHESIS =
     ''If SPACE_SAR_SCENE_DIFF is a false diff product, do not escalate on AIS silence alone. '' @
     ''If open AIS is merely delayed, density may recover - but the SAR cell still warrants approach patrol ID.''"

definition envelope_clause :: "lane_deps \<Rightarrow> projected_contact \<Rightarrow> bool \<Rightarrow> string" where
  "envelope_clause d c found =
     (let fixed = (\<lambda>x. ln_fixed d 0 (rounded (ln_floats d) x)) in
      if found
      then ''Dead-reckoned SAR (Dt='' @ fixed (\<bar>dt_sec c\<bar> / 60) @ '' min, envelope '' @ fixed (radius_m c) @
        '' m) contains coastal radar (no shared MMSI). ''
      else ''Macro SAR is a retrospective baseline - coastal radar cues tactical '' @
        ''confirmation, not a live satellite stream. '')"

definition as_breakdown :: "float_ops \<Rightarrow> projected_contact \<Rightarrow> dict" where
  "as_breakdown fl c =
     (let num = (\<lambda>x. JNum (rounded fl x)) in
      [(''dt_sec'', num (dt_sec c)), (''projected_latitude'', num (fst (at_position c))),
       (''projected_longitude'', num (snd (at_position c))), (''uncertainty_radius_m'', num (radius_m c)),
       (''along_m'', num (along_m c)), (''cross_m'', num (cross_m c)), (''heading_deg'', json_or_null num (pc_heading c)),
       (''speed_mps'', num (pc_speed c))])"

definition lane_finding ::
    "lane_deps \<Rightarrow> observation list \<Rightarrow> observation list \<Rightarrow> observation list \<Rightarrow> projected_contact \<Rightarrow>
       observation list \<Rightarrow> track \<Rightarrow> finding_record" where
  "lane_finding d ais primaries own_radar c nearby t =
     (let primary = hd primaries; density = thinnest d ais; apart = nearest_m (ln_floats d) primary ais;
          vessels = vessel_estimate d primary; found = list_ex (inside c) nearby;
          str = py_str (ln_py d); cued = (if nearby = [] then own_radar else nearby);
          picture = ''AMBER '' @ LANE_AMBER @ '' (~'' @ ln_fixed d 0 12 @
            '' min): space-based SAR scene difference flags unannounced dark vessel cluster (est. '' @
            (if vessels = 0 then ''n/a'' else str (JNum (of_int vessels))) @ '') in '' @
            str (get_or (ob_attributes primary) ''area_id'' (JStr ''sector'')) @
            '' while open AIS is thin (lane_density_index='' @ ln_fixed d 2 density @ '') and ~'' @ ln_fixed d 0 apart @
            '' m away. '' @ envelope_clause d c found
      in \<lparr>fi_scenario = ''S3_sar_ais'', fi_track = track_id t, threat_class = ''lane_sar_ais_dark_cluster'',
          warning_minutes_est = 12, mismatch_m = apart,
          fi_confidence = min (92 / 100) (55 / 100 + 15 / 100 * of_nat (length primaries) + 1 / 10 * of_nat (length nearby)),
          picture_summary = picture, fi_hypothesis = LANE_HYPOTHESIS, spoof_sources = map source_id ais,
          approach_sources =
            foldl (\<lambda>acc s. add_missing s acc) [] (map source_id (primaries @ own_radar @ nearby)),
          other_sources = [], message = picture, amber_alert = Some LANE_AMBER,
          source_breakdown =
            [(''space_sar'', JObj [(''event_type'', JStr (entity_hint primary)), (''vessel_count_est'', JNum (of_int vessels)),
                (''ais_correlation'', get_or (ob_attributes primary) ''ais_correlation'' JNull),
                (''sources'', JArr (map (JStr \<circ> source_id) primaries))]),
             (''ais'', JObj [(''lane_density_index'', JNum density), (''sources'', JArr (map (JStr \<circ> source_id) ais))]),
             (''radar'', JObj [(''contact_count'', JNum (of_nat (length cued))), (''sources'', JArr (map (JStr \<circ> source_id) cued))]),
             (''kinematics'', JObj (as_breakdown (ln_floats d) c @
                [(''radar_in_envelope'', JBool found), (''radar_distance_to_projected_m'', JNum (radar_distance d c nearby))]))]\<rparr>)"

text \<open>One round of the loop over the tracks; \<open>None\<close> goes on to the next.\<close>

definition lane_warning :: "lane_deps \<Rightarrow> graph \<Rightarrow> track \<Rightarrow> finding_record option" where
  "lane_warning d gr t =
     (let ais = by_modality gr ''ais''; radar = by_modality gr ''radar''; obs = observations_for_track gr (track_id t);
          primaries = filter (\<lambda>b. modality b = SPACE_SAR_MODALITY) obs
      in if primaries = [] then None
         else
           (let primary = hd primaries in
            if nearest_m (ln_floats d) primary ais < 2000 then None
            else
              (let c = project_observation (ln_secs d) primary (latest (ln_secs d) (observed_at primary) radar);
                   nearby = filter (\<lambda>b. near_static d primary b \<or> inside c b) radar
               in Some (lane_finding d ais primaries
                    (filter (\<lambda>b. modality b = ''radar'') obs) c nearby t))))"

definition lane_detect :: "lane_deps \<Rightarrow> graph \<Rightarrow> finding_record option" where
  "lane_detect d gr =
     (let ais = by_modality gr ''ais'' in
      if by_modality gr SPACE_SAR_MODALITY = [] \<or> ais = [] then None
      else if thinnest d ais > 4 / 10 then None
      else first_warning (lane_warning d gr) (all_tracks gr))"

definition lane_scenario :: "lane_deps \<Rightarrow> (nat \<Rightarrow> observation list) \<Rightarrow> scenario" where
  "lane_scenario d events =
     \<lparr>scenario_key = ''S3_sar_ais'', build_events = events, detect = lane_detect d,
      build_coa = (\<lambda>gr f q i. make_tier1_coa (ln_floats d) (ln_sha d) gr f ''APPROACH_PATROL'' q None True i)\<rparr>"

section \<open>When it warns\<close>

text \<open>What a warning rests on.\<close>

lemma lane_warning_Some:
  "lane_warning d gr t = Some f \<longleftrightarrow>
     (\<exists>primary rest. filter (\<lambda>b. modality b = SPACE_SAR_MODALITY) (observations_for_track gr (track_id t)) = primary # rest \<and>
       2000 \<le> nearest_m (ln_floats d) primary (by_modality gr ''ais'') \<and>
       f = (let c = project_observation (ln_secs d) primary (latest (ln_secs d) (observed_at primary) (by_modality gr ''radar''))
            in lane_finding d (by_modality gr ''ais'') (primary # rest)
              (filter (\<lambda>b. modality b = ''radar'') (observations_for_track gr (track_id t))) c
              (filter (\<lambda>b. near_static d primary b \<or> inside c b) (by_modality gr ''radar'')) t))"
  by (cases "filter (\<lambda>b. modality b = SPACE_SAR_MODALITY) (observations_for_track gr (track_id t))")
    (auto simp: lane_warning_def Let_def)

text \<open>
  The lane scenario warns exactly when AIS is thin and some track has a SAR detection whose
  first is at least two kilometres from every AIS report; whether radar sees anything is no condition.
\<close>

theorem lane_warns_iff:
  "lane_detect d gr \<noteq> None \<longleftrightarrow>
     by_modality gr SPACE_SAR_MODALITY \<noteq> [] \<and> by_modality gr ''ais'' \<noteq> [] \<and> thinnest d (by_modality gr ''ais'') \<le> 4 / 10 \<and>
     (\<exists>t \<in> set (all_tracks gr). \<exists>primary rest.
        filter (\<lambda>b. modality b = SPACE_SAR_MODALITY) (observations_for_track gr (track_id t)) = primary # rest \<and>
        (\<forall>a \<in> set (by_modality gr ''ais''). 2000 \<le> apart_m (ln_floats d) primary a))"
proof -
  have n: "2000 \<le> nearest_m (ln_floats d) primary (by_modality gr ''ais'') \<longleftrightarrow>
      (\<forall>a \<in> set (by_modality gr ''ais''). 2000 \<le> apart_m (ln_floats d) primary a)"
    if "by_modality gr ''ais'' \<noteq> []" for primary
    using that by (simp add: nearest_m_def Min_ge_iff)
  have w: "first_warning (lane_warning d gr) (all_tracks gr) \<noteq> None \<longleftrightarrow>
      (\<exists>t \<in> set (all_tracks gr). \<exists>f. lane_warning d gr t = Some f)"
    by (auto simp: first_warning_None)
  show ?thesis
    by (cases "by_modality gr ''ais'' = []") (use w n in \<open>auto simp: lane_detect_def lane_warning_Some Let_def not_less\<close>)
qed

section \<open>The cue of the demo\<close>

lemma numeric_event:
  assumes "normalize_sensor_event sb sha rep now i e = Inr b"
    "map_of e ''latitude'' = Some (JNum la)" "map_of e ''longitude'' = Some (JNum lo)" "map_of e ''speed_kt'' = Some (JNum kt)"
    "map_of e ''heading_deg'' = Some (JNum h)" "map_of e ''modality'' = Some (JStr sensor)"
    "map_of e ''observed_at'' = Some (JStr time)" "fromisoformat (sb_py sb) (offset_for_Z time) = Some (Aware time)"
  shows "position b = (la, lo)" "speed_mps b = kt * (514444 / 10 ^ 6)" "heading_deg b = Some h" "modality b = sensor"
    "observed_at b = time"
  using assms(1)
  by (auto simp: normalize_sensor_event_def has_key_def non_null_def observation_of_event_def event_time_def parse_iso_def assms(2-)
      get_or_def required_def attempt_Inr ensure_digest_def Let_def)

lemma near_projection:
  assumes "\<bar>fst q - fst (at_position c)\<bar> \<le> 1 / 10 ^ 6" "\<bar>snd q - snd (at_position c)\<bar> \<le> 1 / 10 ^ 6"
    "pc_heading c = Some h" "1 \<le> along_m c" "1 \<le> cross_m c"
  shows "in_reachability_envelope c q"
proof -
  let ?n = "(fst q - fst (at_position c)) * M_PER_DEG_LAT" and
    ?e = "(snd q - snd (at_position c)) * (M_PER_DEG_LAT * cos (radians (fst (at_position c))))"
  let ?s = "sin (radians h)" and ?k = "cos (radians h)"
  have metres: "\<bar>x * M_PER_DEG_LAT\<bar> \<le> 1 / 5" if "\<bar>x\<bar> \<le> 1 / 10 ^ 6" for x :: real
    using that by (auto simp: abs_le_iff M_PER_DEG_LAT_def)
  note n = metres [OF assms(1)]
  have "\<bar>?e\<bar> = \<bar>(snd q - snd (at_position c)) * M_PER_DEG_LAT\<bar> * \<bar>cos (radians (fst (at_position c)))\<bar>"
    by (simp add: abs_mult)
  also have "\<dots> \<le> 1 / 5 * 1" using metres [OF assms(2)] by (intro mult_mono) simp_all
  finally have e: "\<bar>?e\<bar> \<le> 1 / 5" by simp
  have half: "\<bar>x * u + y * v\<bar> \<le> 1 / 2" if "\<bar>x\<bar> \<le> 1 / 5" "\<bar>y\<bar> \<le> 1 / 5" "\<bar>u\<bar> \<le> 1" "\<bar>v\<bar> \<le> 1" for x y u v :: real
  proof -
    have "\<bar>x * u\<bar> \<le> 1 / 5 * 1" "\<bar>y * v\<bar> \<le> 1 / 5 * 1" unfolding abs_mult using that by (intro mult_mono; simp)+
    then show ?thesis by linarith
  qed
  have small: "(x / m)\<^sup>2 \<le> 1 / 2" if "\<bar>x\<bar> \<le> 1 / 2" "1 \<le> m" for x m :: real
  proof -
    have "\<bar>x / m\<bar> \<le> 1 / 2" using that by (simp add: abs_divide divide_le_eq)
    then have "\<bar>x / m\<bar>\<^sup>2 \<le> (1 / 2)\<^sup>2" by (rule power_mono) simp
    also have "(1 / 2 :: real)\<^sup>2 \<le> 1 / 2" by (simp add: power2_eq_square)
    finally show ?thesis by (simp only: power2_abs)
  qed
  have "(((?n * ?k + ?e * ?s) / along_m c)\<^sup>2) \<le> 1 / 2" by (intro small half n e assms(4)) simp_all
  moreover have "(((?e * ?k + ?n * (- ?s)) / cross_m c)\<^sup>2) \<le> 1 / 2" by (intro small half n e assms(5)) simp_all
  ultimately show ?thesis by (simp add: in_reachability_envelope_def enu_offset_m_def assms(3) algebra_simps)
qed

text \<open>
  Claim C26: In the demo of the lane scenario the coastal radar contact is associated with the SAR
  detection of half an hour before, with no identifier in common: what the two rows become lies in one
  reachability envelope, wherever the SAR detection was, up to the rounding of its projection.
\<close>

theorem cue_lies_in_the_sar_envelope:
  assumes "\<forall>x. \<bar>of_rat (rounded fl x) - x\<bar> \<le> 1 / 10 ^ 6" "\<forall>s. secs (ago s) = start - of_nat s"
    "\<forall>s. fromisoformat (sb_py sb) (offset_for_Z (ago s)) = Some (Aware (ago s))"
    "normalize_sensor_event sb sha rep now i (lane_rows fl ago fixture ! 0) = Inr sar"
    "normalize_sensor_event sb sha rep now j (lane_rows fl ago fixture ! 3) = Inr radar"
  shows "associate_kinematically_real secs sar radar"
proof -
  have row: "lane_rows fl ago fixture ! 0 = sar_row ago fixture" "lane_rows fl ago fixture ! 3 = cue_row fl ago fixture"
    by (simp_all add: lane_rows_def)
  have t: "fromisoformat (sb_py sb) (offset_for_Z (ago s)) = Some (Aware (ago s))" for s using assms(3) by blast
  have s: "position sar = position fixture" "speed_mps sar = SAR_SPEED_KT * (514444 / 10 ^ 6)" "heading_deg sar = Some SAR_HEADING_DEG"
    "modality sar = SPACE_SAR_MODALITY" "observed_at sar = ago SAR_AGE_S"
    using numeric_event [OF assms(4) [unfolded row] _ _ _ _ _ _ t]
    by (simp_all add: sar_row_def map_of_dict_update del: dict_update_Cons)
  let ?c = "projected_fixture fixture"
  have r: "position radar = (rounded fl (fst (at_position ?c)), rounded fl (snd (at_position ?c)))" "modality radar = ''radar''"
    "observed_at radar = ago 5"
    using numeric_event [OF assms(5) [unfolded row] _ _ _ _ _ _ t] by (simp_all add: cue_row_def Let_def)
  have c: "project_observation secs sar (observed_at radar) = ?c"
    using assms(2) by (simp add: project_observation_def projected_fixture_def s r place_def heading_of_def speed_mps_of_def
        SAR_SPEED_KT_def kt_to_mps_def SAR_AGE_S_def of_rat_mult of_rat_divide)
  have "in_reachability_envelope ?c (place radar)"
    by (rule near_projection [where h = "of_rat SAR_HEADING_DEG"])
      (use assms(1) in \<open>simp_all add: place_def r projected_fixture_def project_dead_reckoning_def Let_def\<close>)
  moreover have "\<bar>secs (observed_at radar) - secs (observed_at sar)\<bar> \<le> MAX_DT_SEC"
    using assms(2) by (simp add: s r SAR_AGE_S_def MAX_DT_SEC_def)
  ultimately show ?thesis
    by (simp add: associate_kinematically_real_def sar_and_radar_def s r c [unfolded r] SPACE_SAR_MODALITY_def)
qed

section \<open>The demo on a concrete clock\<close>

lemma numeric_event_made:
  assumes "map_of e ''latitude'' = Some (JNum la)" "map_of e ''longitude'' = Some (JNum lo)" "map_of e ''speed_kt'' = Some (JNum kt)"
    "map_of e ''heading_deg'' = Some (JNum h)" "map_of e ''confidence'' = Some (JNum conf)" "map_of e ''source_id'' = Some j"
    "map_of e ''observed_at'' = Some (JStr time)" "fromisoformat (sb_py sb) (offset_for_Z time) = Some (Aware time)"
  shows "\<exists>b. normalize_sensor_event sb sha rep now i e = Inr b"
  by (simp add: normalize_sensor_event_def has_key_def non_null_def observation_of_event_def event_time_def parse_iso_def assms
      get_or_def required_def Let_def)

definition micro_degrees :: float_ops where
  "micro_degrees = \<lparr>rounded = \<lambda>x. of_int (round (x * 10 ^ 6)) / 10 ^ 6, round_to = \<lambda>n x. of_int (round x)\<rparr>"

definition assumed_fixture :: observation where
  "assumed_fixture =
     \<lparr>observation_id = ''evt_sar_20260918_001'', source_id = ''SPACE_SAR_SCENE_DIFF'',
      entity_hint = ''UNANNOUNCED_DARK_VESSEL_CLUSTER'', position = (1254 / 1000, 103812 / 1000), ob_altitude_m = None,
      speed_mps = 0, heading_deg = None, ob_confidence = 88 / 100, observed_at = ''2026-09-18T14:30:00+00:00'',
      modality = SPACE_SAR_MODALITY,
      ob_attributes = [(''area_id'', JStr ''malacca_strait_sector_b''), (''vessel_count_est'', JNum 2)], raw_digest = []\<rparr>"

lemma micro_degrees_close: "\<bar>of_rat (rounded micro_degrees x) - x\<bar> \<le> 1 / 10 ^ 6"
proof -
  have "\<bar>of_int (round (x * 10 ^ 6)) - x * 10 ^ 6\<bar> \<le> 1 / 2" by (rule of_int_round_abs_le)
  then have "- (1 / 2) \<le> of_int (round (x * 10 ^ 6)) - x * 10 ^ 6" "of_int (round (x * 10 ^ 6)) - x * 10 ^ 6 \<le> 1 / 2"
    by (simp_all only: abs_le_iff) linarith+
  then show ?thesis by (simp add: micro_degrees_def of_rat_divide abs_le_iff field_simps)
qed

lemma unary_clock: "offset_for_Z (replicate s CHR ''t'') = replicate s CHR ''t''"
  by (induction s) (simp_all add: offset_for_Z_def)

theorem cue_lies_in_the_sar_envelope_witness:
  "\<exists>sar radar. associate_kinematically_real (\<lambda>s. - real (length s)) sar radar \<and>
     normalize_sensor_event plain_south id (\<lambda>q. []) ''N'' ''i'' (lane_rows micro_degrees (\<lambda>s. replicate s CHR ''t'') assumed_fixture ! 0) =
       Inr sar \<and>
     normalize_sensor_event plain_south id (\<lambda>q. []) ''N'' ''j'' (lane_rows micro_degrees (\<lambda>s. replicate s CHR ''t'') assumed_fixture ! 3) =
       Inr radar"
proof -
  let ?ago = "\<lambda>s. replicate s CHR ''t''"
  let ?rows = "lane_rows micro_degrees ?ago assumed_fixture"
  have t: "fromisoformat (sb_py plain_south) (offset_for_Z (?ago s)) = Some (Aware (?ago s))" for s
    by (simp add: plain_south_def unary_clock)
  have row: "?rows ! 0 = sar_row ?ago assumed_fixture" "?rows ! 3 = cue_row micro_degrees ?ago assumed_fixture"
    by (simp_all add: lane_rows_def)
  have source: "map_of (rev (ob_attributes assumed_fixture)) ''source_id'' = None" by (simp add: assumed_fixture_def)
  have "\<exists>b. normalize_sensor_event plain_south id (\<lambda>q. []) ''N'' ''i'' (?rows ! 0) = Inr b" unfolding row
    by (rule numeric_event_made [OF _ _ _ _ _ _ _ t [of SAR_AGE_S]])
      (simp add: sar_row_def map_of_dict_update source del: dict_update_Cons)+
  then obtain sar where sar: "normalize_sensor_event plain_south id (\<lambda>q. []) ''N'' ''i'' (?rows ! 0) = Inr sar" by blast
  have "\<exists>b. normalize_sensor_event plain_south id (\<lambda>q. []) ''N'' ''j'' (?rows ! 3) = Inr b" unfolding row
    by (rule numeric_event_made [where conf = "86 / 100", OF _ _ _ _ _ _ _ t [of 5]]) (simp add: cue_row_def Let_def)+
  then obtain radar where radar: "normalize_sensor_event plain_south id (\<lambda>q. []) ''N'' ''j'' (?rows ! 3) = Inr radar" by blast
  have "associate_kinematically_real (\<lambda>s. - real (length s)) sar radar"
    by (rule cue_lies_in_the_sar_envelope [where start = 0, OF _ _ _ sar radar]) (use micro_degrees_close t in simp_all)
  then show ?thesis using sar radar by blast
qed

end
