(* ===== verification/Fusion_Disagreement.thy ===== *)
theory Fusion_Disagreement
  imports Detectors
begin

text \<open>
  The scenario \<open>S4_fusion_disagreement\<close>, \<open>app/scenarios/s4_fusion_disagreement.py\<close>: an air-defence radar
  and two cameras that do not count the same number of aircraft, whether or not electronic warfare or the
  navy's radar see any. In texts, what is not ASCII is written in ASCII.
\<close>

section \<open>What it counts\<close>

record bench_deps =
  fu_floats :: float_ops
  fu_sha :: "string \<Rightarrow> string"
  fu_py :: py_builtins

definition by_source :: "py_builtins \<Rightarrow> graph \<Rightarrow> string \<Rightarrow> observation list" where
  "by_source bi gr source = filter (\<lambda>b. attr_str bi b ''source'' = source) (seen gr)"

definition track_name :: "py_builtins \<Rightarrow> observation \<Rightarrow> string option" where
  "track_name bi b =
     map_option (py_str bi) (first_truthy [map_of (ob_attributes b) ''track_id'', Some (JStr (entity_hint b))])"

definition unique_tracks :: "py_builtins \<Rightarrow> observation list \<Rightarrow> string set" where
  "unique_tracks bi bs = set (List.map_filter (track_name bi) bs)"

text \<open>The times of an export are numbers.\<close>

definition early_stamp :: "py_builtins \<Rightarrow> observation \<Rightarrow> bool" where
  "early_stamp bi b =
     (case non_null (map_of (ob_attributes b) ''time_s'') of
        None \<Rightarrow> True
      | Some t \<Rightarrow> (case py_float bi t of Inr q \<Rightarrow> q \<le> 2 | Inl _ \<Rightarrow> False))"

definition early_tracks :: "py_builtins \<Rightarrow> observation list \<Rightarrow> string set" where
  "early_tracks bi bs =
     (let early = unique_tracks bi (filter (early_stamp bi) bs) in if early = {} then unique_tracks bi bs else early)"

definition silent_ew :: "py_builtins \<Rightarrow> observation \<Rightarrow> bool" where
  "silent_ew bi b \<longleftrightarrow> map_of (ob_attributes b) ''detected'' = Some (JBool False) \<or> attr_truthy b ''rf_negative'' \<or>
     startsWith (py_str bi (get_or (ob_attributes b) ''classification'' (JStr []))) ''no_relevant''"

definition ew_negative :: "py_builtins \<Rightarrow> graph \<Rightarrow> bool" where
  "ew_negative bi gr =
     (let ew = by_source bi gr ''AIR_EW'' @ by_source bi gr ''ARMY_EW'' in ew \<noteq> [] \<and> list_all (silent_ew bi) ew)"

definition navy_airborne :: "py_builtins \<Rightarrow> graph \<Rightarrow> observation list" where
  "navy_airborne bi gr =
     filter (\<lambda>b. toUpperCase (py_str bi (get_or (ob_attributes b) ''classification'' (JStr []))) = ''UNKNOWN'' \<or>
         startsWith (py_str bi (get_or (ob_attributes b) ''track_id'' (JStr []))) ''NAVY-UNK'')
       (by_source bi gr ''NAVY_COASTAL_RADAR'')"

record counts =
  radar_n :: nat
  air_eo_n :: nat
  army_eo_n :: nat

definition site_counts :: "py_builtins \<Rightarrow> graph \<Rightarrow> counts" where
  "site_counts bi gr =
     \<lparr>radar_n = card (unique_tracks bi (by_source bi gr ''AIR_RADAR'')),
      air_eo_n = card (early_tracks bi (by_source bi gr ''AIR_EOIR'')),
      army_eo_n = card (early_tracks bi (by_source bi gr ''ARMY_EOIR''))\<rparr>"

definition count_disagree :: "counts \<Rightarrow> bool" where
  "count_disagree n \<longleftrightarrow> air_eo_n n < radar_n n \<or> army_eo_n n < radar_n n \<or> air_eo_n n \<noteq> army_eo_n n"

text \<open>The first track with a name that holds a radar contact; the empty name is no reason to stop.\<close>

definition cue_track :: "graph \<Rightarrow> observation list \<Rightarrow> string option" where
  "cue_track gr radar =
     (let holds = (\<lambda>kt. \<exists>b \<in> set radar. observation_id b \<in> set (observation_ids (snd kt))) in
      case find (\<lambda>kt. fst kt \<noteq> [] \<and> holds kt) (tracks gr) of
        Some (k, _) \<Rightarrow> Some k
      | None \<Rightarrow> map_option fst (find holds (tracks gr)))"

section \<open>The finding\<close>

definition BENCH_ID :: string where
  "BENCH_ID = ''S4_fusion_disagreement''"

text \<open>\<open>dict(Counter(...))\<close>: each value in the order of first mention, with its count.\<close>

definition counter :: "string list \<Rightarrow> dict" where
  "counter ss = map (\<lambda>s. (s, JNum (of_nat (count_list ss s)))) (in_order ss)"

definition sorted_names :: "string set \<Rightarrow> json" where
  "sorted_names names = JArr (map JStr (sorted_list_of_set names))"

definition bench_summary :: "py_builtins \<Rightarrow> counts \<Rightarrow> bool \<Rightarrow> nat \<Rightarrow> string" where
  "bench_summary bi n silent navy =
     (let digits = (\<lambda>k. py_str bi (JNum (of_nat k))) in
      ''Air MPSTAR resolves '' @ digits (radar_n n) @ '' UAS while Air EO/IR sees '' @ digits (air_eo_n n) @
      '' and Army EO/IR sees '' @ digits (army_eo_n n) @ '' in the early window - multi-site disagreement.'' @
      (if silent then '' EW reports no relevant RF; absence of RF must not invalidate radar/EO.'' else []) @
      (if navy > 0 then '' Navy coastal later acquires '' @ digits navy @ '' UNKNOWN airborne contacts '' @
         ''(missing early tracks = not yet detected, not nonexistent).'' else []))"

definition bench_finding :: "bench_deps \<Rightarrow> graph \<Rightarrow> string \<Rightarrow> finding_record" where
  "bench_finding d gr k =
     (let bi = fu_py d; n = site_counts bi gr; radar = by_source bi gr ''AIR_RADAR''; eoir = by_source bi gr ''AIR_EOIR'';
          silent = ew_negative bi gr; unknown = navy_airborne bi gr; navy = card (unique_tracks bi unknown);
          picture = bench_summary bi n silent navy
      in \<lparr>fi_scenario = BENCH_ID, fi_track = k, threat_class = ''multi_site_uas_disagreement'', warning_minutes_est = 12,
          mismatch_m = of_int (\<bar>int (radar_n n) - int (air_eo_n n)\<bar> + \<bar>int (radar_n n) - int (army_eo_n n)\<bar>) * 500,
          fi_confidence = 82 / 100, picture_summary = picture,
          fi_hypothesis = ''Five physical UAS share one southeast approach; site geometry and modality '' @
            ''limits produce different resolved counts/subtypes. Do not fuse into one '' @
            ''hallucinated super-track - correlate and cue identify.'',
          spoof_sources = [], approach_sources = map source_id (take 5 radar),
          other_sources = map source_id (by_source bi gr ''AIR_EW'' @ by_source bi gr ''ARMY_EW'' @ take 5 unknown),
          message = picture,
          amber_alert = Some (''MULTI_SITE_COUNT_DISAGREEMENT'' @ (if silent then ''+EW_NON_CORROBORATION'' else []) @
            (if navy > 0 then ''+NAVY_DELAYED_UNKNOWN'' else [])),
          source_breakdown =
            [(''mpstar_tracks'', sorted_names (unique_tracks bi radar)), (''air_eoir_early'', sorted_names (early_tracks bi eoir)),
             (''army_eoir_early'', sorted_names (early_tracks bi (by_source bi gr ''ARMY_EOIR''))),
             (''ew_negative'', JBool silent), (''navy_unknown_airborne'', JNum (of_nat navy)),
             (''classification_counts'', JObj (counter (map (\<lambda>b. attr_str bi b ''classification'') (radar @ eoir))))]\<rparr>)"

definition bench_detect :: "bench_deps \<Rightarrow> graph \<Rightarrow> finding_record option" where
  "bench_detect d gr =
     (let bi = fu_py d; n = site_counts bi gr; radar = by_source bi gr ''AIR_RADAR'' in
      if radar = [] \<or> radar_n n < 2 then None
      else if \<not> count_disagree n \<and> \<not> (ew_negative bi gr \<and> radar_n n \<ge> 5) then None
      else map_option (bench_finding d gr) (cue_track gr radar))"

definition bench_scenario :: "bench_deps \<Rightarrow> (nat \<Rightarrow> observation list) \<Rightarrow> scenario" where
  "bench_scenario d events =
     \<lparr>scenario_key = BENCH_ID, build_events = events, detect = bench_detect d,
      build_coa = (\<lambda>gr f q i. make_tier1_coa (fu_floats d) (fu_sha d) gr f ''CUE_AND_IDENTIFY'' q None False i)\<rparr>"

section \<open>When it warns\<close>

lemma cue_track_held:
  assumes "b \<in> set radar" "\<exists>k t. (k, t) \<in> set (tracks gr) \<and> observation_id b \<in> set (observation_ids t)"
  shows "cue_track gr radar \<noteq> None"
proof -
  let ?holds = "\<lambda>kt. \<exists>b \<in> set radar. observation_id b \<in> set (observation_ids (snd kt))"
  have "find ?holds (tracks gr) \<noteq> None"
    using assms unfolding find_None_iff by fastforce
  then show ?thesis by (auto simp: cue_track_def Let_def split: option.split)
qed

text \<open>
  The bench warns exactly when the radar names at least two aircraft and either a camera counts
  fewer, or the cameras disagree, or the radar names five and electronic warfare is silent. Whatever
  electronic warfare reports, a disagreement of the counts is never suppressed.
\<close>

theorem bench_warns_iff:
  "bench_detect d (ingest_many sha num ge bs empty_graph) \<noteq> None \<longleftrightarrow>
     (let n = site_counts (fu_py d) (ingest_many sha num ge bs empty_graph) in
      radar_n n \<ge> 2 \<and>
      (count_disagree n \<or> ew_negative (fu_py d) (ingest_many sha num ge bs empty_graph) \<and> radar_n n \<ge> 5))"
proof -
  let ?gr = "ingest_many sha num ge bs empty_graph"
  show ?thesis
  proof (cases "by_source (fu_py d) ?gr ''AIR_RADAR''")
    case Nil
    then show ?thesis by (simp add: bench_detect_def site_counts_def unique_tracks_def List.map_filter_def Let_def)
  next
    case (Cons b rest)
    then have "b \<in> set (by_source (fu_py d) ?gr ''AIR_RADAR'')" by simp
    then have "b \<in> set (seen ?gr)" unfolding by_source_def set_filter by blast
    then have "cue_track ?gr (b # rest) \<noteq> None"
      using cue_track_held [of b "b # rest"] seen_in_a_track [of b sha num ge bs] by simp
    then show ?thesis using Cons by (auto simp: bench_detect_def Let_def)
  qed
qed

end
