(* ===== verification/Registry.thy ===== *)
theory Registry
  imports Sea_Approach Trojan_Mothership Osint_Swarm Lane_Break Fusion_Disagreement
begin

text \<open>
  The registry \<open>app/scenarios/registry.py\<close>: the five scenarios of the program, and what holds of the gate
  with just these.
\<close>

record registry_deps =
  rg_trojan :: trojan_deps
  rg_lane :: lane_deps
  rg_sea :: sea_deps
  rg_swarm :: swarm_deps
  rg_bench :: bench_deps
  rg_events :: "string \<Rightarrow> nat \<Rightarrow> observation list"   \<comment> \<open>the observations of the rows a scenario reads from files\<close>

definition SCENARIOS :: "registry_deps \<Rightarrow> (string \<times> scenario) list" where
  "SCENARIOS r =
     [(''S1_trojan'', trojan_scenario (rg_trojan r) (rg_events r ''S1_trojan'')),
      (''S3_sar_ais'', lane_scenario (rg_lane r) (rg_events r ''S3_sar_ais'')),
      (''S1_ais_spoof'', sea_scenario (rg_sea r)),
      (''S2_osint_swarm'', swarm_scenario (rg_swarm r) (rg_events r ''S2_osint_swarm'')),
      (''S4_fusion_disagreement'', bench_scenario (rg_bench r) (rg_events r ''S4_fusion_disagreement''))]"

text \<open>Each scenario is registered under its own id, and asks for the operator.\<close>

lemma scenario_keys: "(k, sc) \<in> set (SCENARIOS r) \<Longrightarrow> scenario_key sc = k"
  by (auto simp: SCENARIOS_def trojan_scenario_def lane_scenario_def sea_scenario_def swarm_scenario_def bench_scenario_def BENCH_ID_def)

lemma tier1_asks_operator:
  "make_tier1_coa fl sha gr f what q ov b i = Some c \<Longrightarrow> what \<notin> {''OBSERVE_ONLY'', ''STATION_KEEP''} \<Longrightarrow> asks_operator c"
  by (simp add: asks_operator_def tier1_coa_fields)

lemma registered_ask_operator:
  "\<forall>sc \<in> snd ` set (SCENARIOS r). \<forall>gr f q i c. build_coa sc gr f q i = Some c \<longrightarrow> asks_operator c"
  by (auto simp: SCENARIOS_def trojan_scenario_def lane_scenario_def sea_scenario_def swarm_scenario_def bench_scenario_def
      trojan_coa_def asks_operator_def Let_def dest: tier1_coa_fields split: option.splits)

section \<open>The gate with the registered scenarios\<close>

text \<open>
  Claim C12: With the scenarios of the program, no proposal drawn up from a scenario is approved without
  the operator: whether its own rules or the language model drafts it, whatever the model answers, whatever
  the policy, the picture and the feeds, nothing new is in the inbox of a vehicle.
\<close>

theorem registered_proposals_wait_for_the_operator:
  assumes "registry d = SCENARIOS r" "req_scenario req = Some sid" "sid \<noteq> []"
  shows "inbox (fst (gate_proposals (interpreted d it) req g)) = inbox g"
  using registered_ask_operator [of r] assms(2,3) unfolding assms(1) [symmetric]
  by (rule scenario_proposals_wait_for_the_operator)

definition demo_registry :: registry_deps where
  "demo_registry =
     \<lparr>rg_trojan = demo_trojan,
      rg_lane = \<lparr>ln_floats = micro_degrees, ln_sha = id, ln_py = plain_builtins, ln_fixed = \<lambda>n q. [], ln_secs = \<lambda>s. 0\<rparr>,
      rg_sea = whole_metres,
      rg_swarm = \<lparr>sw_floats = micro_degrees, sw_sha = id, sw_py = plain_builtins, sw_fixed = \<lambda>n q. [], parse_claim = \<lambda>j. None\<rparr>,
      rg_bench = \<lparr>fu_floats = micro_degrees, fu_sha = id, fu_py = plain_builtins\<rparr>, rg_events = \<lambda>k n. []\<rparr>"

theorem registered_proposals_wait_for_the_operator_witness:
  "inbox (fst (gate_proposals (interpreted (demo_gate_deps\<lparr>registry := SCENARIOS demo_registry\<rparr>) overreaching)
     (interpret_proposal\<lparr>req_scenario := Some ''S1_ais_spoof''\<rparr>) demo_gate)) = []"
  by (subst registered_proposals_wait_for_the_operator [of _ demo_registry _ "''S1_ais_spoof''"])
    (simp_all add: demo_gate_def new_gate_def start_gate_def Let_def empty_store_def)

end
