(* ===== verification/Timeline.thy ===== *)
theory Timeline
  imports Osint_Swarm
begin

text \<open>
  The demo playback \<open>app/scenarios/temporal.py\<close>: nineteen steps from a minute before an event to the event,
  written out for \<open>S2_osint_swarm\<close> and spread over the same clock for the other scenarios; and the loop of
  \<open>scripts/stream_events.py\<close> that ingests the steps and asks the detector after each. \<open>before s\<close> is the
  ISO text of the time \<open>s\<close> seconds before the event. In texts, what is not ASCII is written in ASCII.
\<close>

section \<open>The clock\<close>

definition T_MINUS :: "nat list" where
  "T_MINUS = [60, 56, 52, 48, 45, 40, 36, 32, 28, 25, 20, 17, 15, 12, 10, 5, 3, 1, 0]"

record stream_step =
  step_no :: nat
  t_minus_s :: nat
  band :: string
  label :: string
  step_events :: "dict list"

definition band_for :: "nat \<Rightarrow> string" where
  "band_for n =
     (if n \<le> 5 then ''early_recon'' else if n \<le> 10 then ''radar_optical_lock''
      else if n \<le> 15 then ''amber_contradiction'' else ''warning_tasking'')"

section \<open>The steps of S2\<close>

definition CUE_AT :: "rat \<times> rat" where "CUE_AT = (13510 / 10000, 1039900 / 10000)"
definition RADAR_LOCK_AT :: "rat \<times> rat" where "RADAR_LOCK_AT = (13618 / 10000, 1039900 / 10000)"
definition MIDWAY_AT :: "rat \<times> rat" where "MIDWAY_AT = ((fst CUE_AT + fst RADAR_LOCK_AT) / 2, snd CUE_AT)"

definition shifted :: "rat \<times> rat \<Rightarrow> rat \<Rightarrow> rat \<Rightarrow> rat \<times> rat" where
  "shifted p north east = (fst p + north, snd p + east)"

definition INTEL_RUMOR :: string where
  "INTEL_RUMOR = ''Passenger chatter: weird lights below the wing - unverified.''"

definition INTEL_AMPLIFIED :: string where
  "INTEL_AMPLIFIED = ''Instagram: '20 drones' - still unfiltered.''"

definition INTEL_FILTERED :: string where
  "INTEL_FILTERED =
     ''In-flight passenger OSINT (commercial flight bound for Japan): smartphone video/photos '' @
     ''of ~50 unknown delta-wing drones / Shahed-class airframes flying low below the aircraft. '' @
     ''No coordinates or destination stated. Estimated vector bearing 248 deg at ~105 kt.''"

text \<open>The further attributes are none of those before them.\<close>

definition evt ::
    "(nat \<Rightarrow> string) \<Rightarrow> nat \<Rightarrow> string \<Rightarrow> string \<Rightarrow> string \<Rightarrow> rat \<times> rat \<Rightarrow> rat \<Rightarrow> rat \<Rightarrow> rat option \<Rightarrow> dict \<Rightarrow> dict" where
  "evt before t source entity sensor p conf kt heading attrs =
     [(''source_id'', JStr source), (''entity_id'', JStr entity), (''latitude'', JNum (fst p)), (''longitude'', JNum (snd p)),
      (''speed_kt'', JNum kt), (''confidence'', JNum conf), (''observed_at'', JStr (before t)), (''modality'', JStr sensor)] @
     attrs @ (case heading of None \<Rightarrow> [] | Some h \<Rightarrow> [(''heading_deg'', JNum h)])"

definition early_band :: "(nat \<Rightarrow> string) \<Rightarrow> (string \<times> dict list) list" where
  "early_band before =
     [(''social_rumor_seed'', [
         evt before (T_MINUS ! 0) ''CIVILIAN_SOCIAL_RECON'' ''OSINT-SWARM-CLAIM'' ''social'' CUE_AT (28 / 100) 0 None
           [(''note'', JStr ''unfiltered_coastal_rumor''), (''intel_text'', JStr INTEL_RUMOR),
            (''claimed_count'', JNum 0), (''objective'', JStr ''Objective Bravo''),
            (''vendor_track'', JStr ''OSINT-SWARM-CLAIM'')]]),
      (''social_rumor_amplify'', [
         evt before (T_MINUS ! 1) ''CIVILIAN_SOCIAL_RECON'' ''OSINT-SWARM-CLAIM'' ''social'' CUE_AT (35 / 100) 0 None
           [(''note'', JStr ''exaggerated_swarm_chatter''), (''intel_text'', JStr INTEL_AMPLIFIED),
            (''claimed_count'', JNum 0), (''objective'', JStr ''Objective Bravo''),
            (''vendor_track'', JStr ''OSINT-SWARM-CLAIM'')]]),
      (''sparse_radar_noise'', [
         evt before (T_MINUS ! 2) ''GAP_FILLER_RADAR'' ''RADAR-NOISE-EARLY'' ''radar'' (shifted CUE_AT (2 / 1000) (1 / 1000)) (22 / 100) 40 (Some 240)
           [(''note'', JStr ''sparse_unassociated_blip''), (''contact_count'', JNum 0),
            (''vendor_track'', JStr ''RADAR-NOISE-EARLY'')]]),
      (''recon_chatter_persist'', [
         evt before (T_MINUS ! 3) ''CIVILIAN_SOCIAL_RECON'' ''OSINT-SWARM-CLAIM'' ''social'' CUE_AT (40 / 100) 0 None
           [(''note'', JStr ''recon_net_still_noisy''), (''intel_text'', JStr INTEL_RUMOR),
            (''claimed_count'', JNum 0), (''vendor_track'', JStr ''OSINT-SWARM-CLAIM'')]]),
      (''sparse_radar_fade'', [
         evt before (T_MINUS ! 4) ''GAP_FILLER_RADAR'' ''RADAR-NOISE-EARLY'' ''radar'' (shifted CUE_AT (15 / 10000) (8 / 10000)) (18 / 100) 35 None
           [(''note'', JStr ''blip_fading''), (''contact_count'', JNum 0),
            (''vendor_track'', JStr ''RADAR-NOISE-EARLY'')]])]"

definition lock_band :: "(nat \<Rightarrow> string) \<Rightarrow> (string \<times> dict list) list" where
  "lock_band before =
     [(''radar_lock_inbound'', [
         evt before (T_MINUS ! 5) ''GAP_FILLER_RADAR'' ''RADAR-AIR-551'' ''radar'' RADAR_LOCK_AT (70 / 100) 85 (Some 248)
           [(''note'', JStr ''high_speed_inbound_lock''), (''altitude_m_est'', JNum 220),
            (''contact_count'', JNum 0), (''vendor_track'', JStr ''RADAR-AIR-551'')]]),
      (''radar_lock_strengthen'', [
         evt before (T_MINUS ! 6) ''GAP_FILLER_RADAR'' ''RADAR-AIR-551'' ''radar'' RADAR_LOCK_AT (78 / 100) 88 (Some 248)
           [(''note'', JStr ''track_quality_up''), (''altitude_m_est'', JNum 210), (''contact_count'', JNum 0),
            (''vendor_track'', JStr ''RADAR-AIR-551'')]]),
      (''optical_slew_start'', [
         evt before (T_MINUS ! 7) ''EO_SKY_WATCH'' ''EO-BLUR-OBJ-BRAVO'' ''optical'' CUE_AT (68 / 100) 65 (Some 250)
           [(''note'', JStr ''camera_slewing_to_cue''), (''altitude_m_est'', JNum 180), (''blur'', JBool False),
            (''vendor_track'', JStr ''EO-BLUR-OBJ-BRAVO'')]]),
      (''optical_slew_hold'', [
         evt before (T_MINUS ! 8) ''EO_SKY_WATCH'' ''EO-BLUR-OBJ-BRAVO'' ''optical'' CUE_AT (62 / 100) 68 (Some 250)
           [(''note'', JStr ''slew_hold_no_id''), (''blur'', JBool False),
            (''vendor_track'', JStr ''EO-BLUR-OBJ-BRAVO'')]]),
      (''radar_firm_clutter_contacts'', [
         evt before (T_MINUS ! 9) ''GAP_FILLER_RADAR'' ''RADAR-AIR-551'' ''radar'' RADAR_LOCK_AT (84 / 100) 105 (Some 248)
           [(''note'', JStr ''intermittent_low_rcs_clutter_contacts''), (''altitude_m_est'', JNum 200),
            (''contact_count'', JNum 4), (''vendor_track'', JStr ''RADAR-AIR-551'')]])]"

definition amber_band :: "(nat \<Rightarrow> string) \<Rightarrow> (string \<times> dict list) list" where
  "amber_band before =
     [(''social_passenger_count_50'', [
         evt before (T_MINUS ! 10) ''CIVILIAN_SOCIAL_RECON'' ''OSINT-SWARM-CLAIM'' ''social'' CUE_AT (55 / 100) 0 None
           [(''note'', JStr ''airborne_passenger_swarm_sighting''), (''intel_text'', JStr INTEL_FILTERED),
            (''claimed_count'', JNum 50), (''objective'', JStr ''unknown_ingress''),
            (''vendor_track'', JStr ''OSINT-SWARM-CLAIM'')]]),
      (''adsb_empty_sector'', [
         evt before (T_MINUS ! 11) ''ADS_B_SECTOR_EMPTY'' ''ADSB-NULL-SECTOR'' ''adsb'' CUE_AT (40 / 100) 0 None
           [(''note'', JStr ''no_cooperative_squawk''), (''vendor_track'', JStr ''ADSB-NULL''),
            (''empty_sector'', JBool True)]]),
      (''eo_blur_amber_threshold'', [
         evt before (T_MINUS ! 12) ''EO_SKY_WATCH'' ''EO-DELTA-WING-BRAVO'' ''optical'' CUE_AT (42 / 100) 100 (Some 248)
           [(''note'', JStr ''delta_wing_thermal_silhouette''), (''altitude_m_est'', JNum 160),
            (''blur'', JBool True), (''vendor_track'', JStr ''EO-DELTA-WING-BRAVO'')]]),
      (''acoustic_and_rf_silent'', [
         evt before (T_MINUS ! 13) ''COASTAL_ACOUSTIC_ARRAY'' ''ACOUSTIC-SHADED-HARMONIC'' ''acoustic'' MIDWAY_AT (72 / 100) 0 None
           [(''note'', JStr ''two_stroke_moped_harmonic_shahed''),
            (''engine_signature'', JStr ''2stroke_moped''), (''vendor_track'', JStr ''ACOUSTIC-SHADED-HARMONIC'')],
         evt before (T_MINUS ! 13) ''RF_PASSIVE_ARRAY'' ''RF-SILENT-SCAN'' ''rf'' MIDWAY_AT (70 / 100) 0 None
           [(''note'', JStr ''no_emitter_detected_autonomous_gps_ins''), (''rf_silent'', JBool True),
            (''control_mode'', JStr ''GPS_INS_WAYPOINT''), (''vendor_track'', JStr ''RF-SILENT-SCAN'')]]),
      (''amber_reinforced'', [
         evt before (T_MINUS ! 14) ''CIVILIAN_SOCIAL_RECON'' ''OSINT-SWARM-CLAIM'' ''social'' CUE_AT (58 / 100) 0 None
           [(''note'', JStr ''count_claim_holds''), (''intel_text'', JStr INTEL_FILTERED),
            (''claimed_count'', JNum 50), (''objective'', JStr ''unknown_ingress''),
            (''vendor_track'', JStr ''OSINT-SWARM-CLAIM'')]])]"

definition warning_band :: "(string \<times> dict list) list" where
  "warning_band =
     [(''warning_picture_ready'', []),
      (''hitl_gate_countdown'', []),
      (''tasking_proposal_cue'', []),
      (''recipient_ack_cue'', [])]"

definition build_s2_timeline :: "(nat \<Rightarrow> string) \<Rightarrow> stream_step list" where
  "build_s2_timeline before =
     map (\<lambda>(n, what, evs). \<lparr>step_no = n + 1, t_minus_s = T_MINUS ! n, band = band_for (n + 1), label = what, step_events = evs\<rparr>)
       (enumerate 0 (early_band before @ lock_band before @ amber_band before @ warning_band))"

section \<open>The other scenarios\<close>

text \<open>The step of the \<open>j\<close>-th of \<open>n\<close> events. The quotient is exact here.\<close>

definition target_step :: "nat \<Rightarrow> nat \<Rightarrow> nat" where
  "target_step n j = min 19 (max 1 (if n > 1 then 1 + j * 18 div max (n - 1) 1 else 10))"

definition restamped :: "string \<Rightarrow> dict \<Rightarrow> dict" where
  "restamped time ev = AList.update ''observed_at'' (JStr time) ev"

definition events_at :: "dict list \<Rightarrow> nat \<Rightarrow> dict list" where
  "events_at raw i = map snd (filter (\<lambda>(j, ev). target_step (max (length raw) 1) j = i + 1) (enumerate 0 raw))"

text \<open>\<open>two_digits\<close> is the step number as \<open>{i + 1:02d}\<close>.\<close>

definition spread_scenario_events :: "(nat \<Rightarrow> string) \<Rightarrow> (nat \<Rightarrow> string) \<Rightarrow> string \<Rightarrow> dict list \<Rightarrow> stream_step list" where
  "spread_scenario_events before two_digits sid raw =
     map (\<lambda>i. \<lparr>step_no = i + 1, t_minus_s = T_MINUS ! i, band = band_for (i + 1), label = lower sid @ ''_step_'' @ two_digits (i + 1),
       step_events = map (restamped (before (T_MINUS ! i))) (events_at raw i)\<rparr>) [0..<19]"

text \<open>\<open>None\<close>: the scenario is not registered. \<open>rows\<close> gives the events of a registered one.\<close>

definition build_stream_timeline ::
    "(nat \<Rightarrow> string) \<Rightarrow> (nat \<Rightarrow> string) \<Rightarrow> (string \<Rightarrow> dict list option) \<Rightarrow> string \<Rightarrow> stream_step list option" where
  "build_stream_timeline before two_digits rows sid =
     (let key = toUpperCase (strip sid) in
      if key \<in> {''S2'', ''S2_OSINT_SWARM''} then Some (build_s2_timeline before)
      else map_option (spread_scenario_events before two_digits key) (rows key))"

section \<open>Playing the steps\<close>

definition step_observations ::
    "south_deps \<Rightarrow> (string \<Rightarrow> string) \<Rightarrow> (rat \<Rightarrow> string) \<Rightarrow> string \<Rightarrow> (nat \<Rightarrow> nat \<Rightarrow> string) \<Rightarrow> stream_step \<Rightarrow> feed_error + observation list" where
  "step_observations sb sha rep now fresh st =
     attempt_all (\<lambda>(j, e). normalize_sensor_event sb sha rep now (fresh (step_no st) j) e) (enumerate 0 (step_events st))"

text \<open>The loop over the steps; \<open>amber\<close> is the number of the first step after which there was a finding.\<close>

fun play_local ::
    "(graph \<Rightarrow> bool) \<Rightarrow> (stream_step \<Rightarrow> feed_error + observation list) \<Rightarrow> (observation list \<Rightarrow> graph \<Rightarrow> graph) \<Rightarrow>
       nat option \<Rightarrow> graph \<Rightarrow> stream_step list \<Rightarrow> feed_error + nat option" where
  "play_local warns observe into amber g [] = Inr amber"
| "play_local warns observe into amber g (st # sts) =
     attempt (observe st) (\<lambda>bs.
       let g' = into bs g
       in play_local warns observe into (if warns g' \<and> amber = None then Some (step_no st) else amber) g' sts)"

section \<open>The alert comes in its band\<close>

lemma EVENT_KEYS_in [simp]:
  "''source_id'' \<in> EVENT_KEYS" "''entity_id'' \<in> EVENT_KEYS" "''latitude'' \<in> EVENT_KEYS" "''longitude'' \<in> EVENT_KEYS"
  "''speed_kt'' \<in> EVENT_KEYS" "''confidence'' \<in> EVENT_KEYS" "''observed_at'' \<in> EVENT_KEYS" "''modality'' \<in> EVENT_KEYS"
  "''heading_deg'' \<in> EVENT_KEYS" "''observation_id'' \<in> EVENT_KEYS"
  by (simp_all add: EVENT_KEYS_def)

lemma normalize_evt:
  assumes "fromisoformat (sb_py sb) (offset_for_Z (before t)) = Some (Aware (before t))"
    "\<forall>kv \<in> set attrs. fst kv \<notin> insert ''service'' EVENT_KEYS" "distinct (map fst attrs)"
  shows "normalize_sensor_event sb sha rep now i (evt before t source entity sensor p conf kt heading attrs) =
    Inr (observed sha rep i source entity p kt heading conf (before t) sensor attrs)"
proof -
  have "filter (\<lambda>kv. fst kv \<notin> EVENT_KEYS) attrs = attrs" using assms(2) by (intro filter_True) blast
  then have f: "filter (\<lambda>kv. fst kv \<notin> EVENT_KEYS) (evt before t source entity sensor p conf kt heading attrs) = attrs"
    by (cases heading) (simp_all add: evt_def)
  have "''service'' \<notin> fst ` set attrs" "''heading_deg'' \<notin> fst ` set attrs" "''observation_id'' \<notin> fst ` set attrs"
    using assms(2) by force+
  then have n: "map_of attrs ''service'' = None" "map_of attrs ''heading_deg'' = None" "map_of attrs ''observation_id'' = None"
    by (simp_all add: map_of_eq_None_iff)
  show ?thesis
    by (rule normalize_plain_event [OF _ _ _ _ _ _ _ _ _ _ _ assms(1) f assms(3)])
      (cases heading; simp add: evt_def n map_add_def)+
qed

text \<open>What an observation shares with the event it was made of.\<close>

definition evidence :: "dict \<Rightarrow> observation \<Rightarrow> bool" where
  "evidence e b \<longleftrightarrow> map_of e ''modality'' = Some (JStr (modality b)) \<and> map_of e ''confidence'' = Some (JNum (ob_confidence b)) \<and>
     map_of e ''latitude'' = Some (JNum (fst (position b))) \<and> map_of e ''longitude'' = Some (JNum (snd (position b))) \<and>
     (\<forall>k. k \<notin> EVENT_KEYS \<longrightarrow> map_of (ob_attributes b) k = map_of e k)"

definition plain_evt :: "(nat \<Rightarrow> string) \<Rightarrow> dict \<Rightarrow> bool" where
  "plain_evt before e \<longleftrightarrow> (\<exists>t source entity sensor p conf kt heading attrs.
     e = evt before t source entity sensor p conf kt heading attrs \<and>
     (\<forall>kv \<in> set attrs. fst kv \<notin> insert ''service'' EVENT_KEYS) \<and> distinct (map fst attrs))"

lemma plain_evtI:
  "\<forall>kv \<in> set attrs. fst kv \<notin> insert ''service'' EVENT_KEYS \<Longrightarrow> distinct (map fst attrs) \<Longrightarrow>
     plain_evt before (evt before t source entity sensor p conf kt heading attrs)"
  unfolding plain_evt_def by blast

lemma map_of_evt:
  "map_of (evt before t source entity sensor p conf kt heading attrs) ''modality'' = Some (JStr sensor)"
  "map_of (evt before t source entity sensor p conf kt heading attrs) ''confidence'' = Some (JNum conf)"
  "map_of (evt before t source entity sensor p conf kt heading attrs) ''latitude'' = Some (JNum (fst p))"
  "map_of (evt before t source entity sensor p conf kt heading attrs) ''longitude'' = Some (JNum (snd p))"
  by (simp_all add: evt_def)

lemma map_of_evt_other:
  "k \<notin> EVENT_KEYS \<Longrightarrow> map_of (evt before t source entity sensor p conf kt heading attrs) k = map_of attrs k"
  by (cases heading) (auto simp: evt_def EVENT_KEYS_def map_add_def split: option.split)

lemma plain_evt_evidence:
  assumes "\<And>t. fromisoformat (sb_py sb) (offset_for_Z (before t)) = Some (Aware (before t))" "plain_evt before e"
  shows "\<exists>b. normalize_sensor_event sb sha rep now i e = Inr b \<and> evidence e b"
proof -
  obtain t source entity sensor p conf kt heading attrs where e: "e = evt before t source entity sensor p conf kt heading attrs"
    and a: "\<forall>kv \<in> set attrs. fst kv \<notin> insert ''service'' EVENT_KEYS" "distinct (map fst attrs)"
    using assms(2) by (auto simp: plain_evt_def)
  have "evidence e (observed sha rep i source entity p kt heading conf (before t) sensor attrs)"
    by (simp add: evidence_def e map_of_evt map_of_evt_other observed_def)
  then show ?thesis using normalize_evt [where before = before, OF assms(1) a] e by blast
qed

lemma step_evidence:
  assumes "\<And>t. fromisoformat (sb_py sb) (offset_for_Z (before t)) = Some (Aware (before t))"
    "\<forall>e \<in> set (step_events st). plain_evt before e"
  shows "\<exists>bs. step_observations sb sha rep now fresh st = Inr bs \<and> list_all2 evidence (step_events st) bs"
proof -
  have "\<exists>bs. attempt_all (\<lambda>(j, e). normalize_sensor_event sb sha rep now (fresh (step_no st) j) e) (enumerate n es) = Inr bs \<and>
      list_all2 evidence es bs" if "\<forall>e \<in> set es. plain_evt before e" for n es
    using that
  proof (induction es arbitrary: n)
    case (Cons e es)
    obtain b where "normalize_sensor_event sb sha rep now (fresh (step_no st) n) e = Inr b" "evidence e b"
      using plain_evt_evidence [OF assms(1)] Cons.prems by fastforce
    moreover obtain bs where "attempt_all (\<lambda>(j, e). normalize_sensor_event sb sha rep now (fresh (step_no st) j) e)
        (enumerate (Suc n) es) = Inr bs" "list_all2 evidence es bs"
      using Cons by fastforce
    ultimately show ?case by simp
  qed simp
  then show ?thesis using assms(2) by (simp add: step_observations_def)
qed

lemma s2_plain: "\<forall>st \<in> set (build_s2_timeline before). \<forall>e \<in> set (step_events st). plain_evt before e"
  by (simp add: build_s2_timeline_def early_band_def lock_band_def amber_band_def warning_band_def plain_evtI EVENT_KEYS_def)

lemma cue_to_radar:
  "1002 \<le> great_circle (of_rat (fst CUE_AT), of_rat (snd CUE_AT)) (of_rat (fst RADAR_LOCK_AT), of_rat (snd RADAR_LOCK_AT))"
proof -
  let ?p = "(of_rat (fst CUE_AT), of_rat (snd CUE_AT)) :: real \<times> real"
  let ?q = "(of_rat (fst RADAR_LOCK_AT), of_rat (snd RADAR_LOCK_AT)) :: real \<times> real"
  let ?x = "27 / 2500 * pi / 360"
  have h: "half_angles ?p ?q = (?x, 0)"
    by (simp add: half_angles_def radians_def CUE_AT_def RADAR_LOCK_AT_def of_rat_divide)
  have x: "9 / 100000 \<le> ?x" "?x \<le> 2 / 10000" using pi_ge_three pi_less_4 by simp_all
  then have "?x ^ 3 \<le> (2 / 10000) ^ 3" by (intro power_mono) simp_all
  then have "?x ^ 3 \<le> 1 / 10 ^ 9" by (rule order_trans) (simp add: power3_eq_cube)
  then have u: "8 / 100000 \<le> ?x - ?x ^ 3 / 6" using x(1) by simp
  have t: "?x + 0 \<le> 1 / 1000 - (1 / 1000) ^ 3 / 6" using x(2) by (simp add: power3_eq_cube)
  have "12742000 * (8 / 100000) \<le> great_circle ?p ?q"
    by (rule great_circle_bounds(1) [OF _ _ h t _ _ _ u])
      (simp_all add: CUE_AT_def RADAR_LOCK_AT_def of_rat_divide)
  then show ?thesis by simp
qed

text \<open>Sums and bounds over the events carry over to their observations.\<close>

lemma evidence_in:
  assumes "list_all2 evidence es bs" "b \<in> set bs"
  shows "\<exists>e \<in> set es. evidence e b"
  using assms by (induction rule: list_all2_induct) auto

lemma evidence_of:
  assumes "list_all2 evidence es bs" "e \<in> set es"
  shows "\<exists>b \<in> set bs. evidence e b"
  using assms by (induction rule: list_all2_induct) auto

definition of_sensor :: "string \<Rightarrow> dict \<Rightarrow> bool" where
  "of_sensor k e \<longleftrightarrow> map_of e ''modality'' = Some (JStr k)"

definition contacts_in :: "swarm_deps \<Rightarrow> dict \<Rightarrow> int" where
  "contacts_in d e = (case py_int (sw_py d) (or_else [map_of e ''contact_count''] (JNum 0)) of Inr n \<Rightarrow> n | Inl _ \<Rightarrow> 0)"

lemma evidence_sensor: "evidence e b \<Longrightarrow> of_sensor k e \<longleftrightarrow> modality b = k"
  by (auto simp: evidence_def of_sensor_def)

lemma evidence_attribute:
  assumes "evidence e b" "k \<notin> EVENT_KEYS"
  shows "map_of (ob_attributes b) k = map_of e k"
  using assms by (simp add: evidence_def)

lemma evidence_contacts:
  assumes "list_all2 evidence es bs"
  shows "sum_list (map (contact_count d) (filter (\<lambda>b. modality b = ''radar'') bs)) =
    sum_list (map (contacts_in d) (filter (of_sensor ''radar'') es))"
  using assms
proof (induction rule: list_all2_induct)
  case (Cons e es b bs)
  have "contact_count d b = contacts_in d e"
    using evidence_attribute [OF Cons(1), of "''contact_count''"]
    by (simp add: contact_count_def contacts_in_def EVENT_KEYS_def)
  then show ?case using Cons evidence_sensor [OF Cons(1), of "''radar''"] by simp
qed simp

text \<open>The events of the first steps.\<close>

definition s2_events :: "(nat \<Rightarrow> string) \<Rightarrow> nat \<Rightarrow> dict list" where
  "s2_events before n = concat (map step_events (take n (build_s2_timeline before)))"

lemmas s2_bands = s2_events_def build_s2_timeline_def early_band_def lock_band_def amber_band_def warning_band_def

lemma nothing_heard_before_14: "\<forall>e \<in> set (s2_events before 13). \<not> of_sensor ''acoustic'' e"
  by (simp add: s2_bands of_sensor_def map_of_evt)

lemma step_14_evidence:
  "\<exists>e \<in> set (s2_events before 14). of_sensor ''acoustic'' e"
  "\<exists>e \<in> set (s2_events before 14). of_sensor ''social'' e \<and> map_of e ''claimed_count'' = Some (JNum 50)"
  "\<exists>e \<in> set (s2_events before 14). of_sensor ''optical'' e \<and> map_of e ''blur'' = Some (JBool True)"
  "\<exists>e \<in> set (s2_events before 14). of_sensor ''rf'' e \<and> map_of e ''rf_silent'' = Some (JBool True)"
  "\<exists>e \<in> set (s2_events before 14). of_sensor ''adsb'' e \<and> map_of e ''empty_sector'' = Some (JBool True)"
  "\<exists>e \<in> set (s2_events before 14). of_sensor ''radar'' e \<and> map_of e ''confidence'' = Some (JNum (84 / 100))"
  by (simp_all add: s2_bands of_sensor_def map_of_evt map_of_evt_other EVENT_KEYS_def)

lemma step_14_cues:
  "\<forall>e \<in> set (s2_events before 14). of_sensor ''social'' e \<or> of_sensor ''optical'' e \<longrightarrow>
     map_of e ''latitude'' = Some (JNum (fst CUE_AT)) \<and> map_of e ''longitude'' = Some (JNum (snd CUE_AT))"
  by (simp add: s2_bands of_sensor_def map_of_evt)

lemma step_14_radar:
  "\<forall>e \<in> set (s2_events before 14). of_sensor ''radar'' e \<longrightarrow>
     map_of e ''latitude'' = Some (JNum (fst RADAR_LOCK_AT)) \<and> map_of e ''longitude'' = Some (JNum (snd RADAR_LOCK_AT)) \<or>
     (\<forall>q. map_of e ''confidence'' = Some (JNum q) \<longrightarrow> q < 84 / 100)"
  by (simp add: s2_bands of_sensor_def map_of_evt)

lemma step_14_contacts: "sum_list (map (contacts_in d) (filter (of_sensor ''radar'') (s2_events before 14))) = 4"
  by (simp add: s2_bands of_sensor_def map_of_evt map_of_evt_other contacts_in_def EVENT_KEYS_def or_else_def first_truthy_def
      List.map_filter_def)

lemma in_modality: "b \<in> set (by_modality (ingest_many sha rep ge bs empty_graph) k) \<longleftrightarrow>
    (\<exists>b' \<in> set bs. b = ensure_digest sha rep b' \<and> modality b' = k)"
  by (auto simp: by_modality_def)

lemma modality_evidence:
  assumes "list_all2 evidence es bs" "b \<in> set (by_modality (ingest_many sha rep ge bs empty_graph) k)"
  shows "\<exists>e \<in> set es. evidence e b \<and> of_sensor k e"
proof -
  obtain b' where b: "b' \<in> set bs" "b = ensure_digest sha rep b'" "modality b' = k" using assms(2) by (auto simp: in_modality)
  obtain e where e: "e \<in> set es" "evidence e b'" using evidence_in [OF assms(1) b(1)] by blast
  then have "evidence e b" by (simp add: b evidence_def)
  then show ?thesis using e(1) b evidence_sensor [OF e(2)] by blast
qed

lemma evidence_modality:
  assumes "list_all2 evidence es bs" "\<exists>e \<in> set es. of_sensor k e \<and> Q e"
  shows "\<exists>b \<in> set (by_modality (ingest_many sha rep ge bs empty_graph) k). \<exists>e. evidence e b \<and> Q e"
proof -
  obtain e where e: "e \<in> set es" "of_sensor k e" "Q e" using assms(2) by blast
  obtain b' where b: "b' \<in> set bs" "evidence e b'" using evidence_of [OF assms(1) e(1)] by blast
  have "ensure_digest sha rep b' \<in> set (by_modality (ingest_many sha rep ge bs empty_graph) k)"
    using b e(2) evidence_sensor [OF b(2)] by (auto simp: in_modality)
  moreover have "evidence e (ensure_digest sha rep b')" using b(2) by (simp add: evidence_def)
  ultimately show ?thesis using e(3) by blast
qed

lemma attribute_modality:
  assumes "list_all2 evidence es bs" "\<exists>e \<in> set es. of_sensor k e \<and> map_of e x = Some j" "x \<notin> EVENT_KEYS"
  shows "\<exists>b \<in> set (by_modality (ingest_many sha rep ge bs empty_graph) k). map_of (ob_attributes b) x = Some j"
  using evidence_modality [OF assms(1,2), of sha rep ge] evidence_attribute [OF _ assms(3)] by metis

lemma flags_not_keys: "''claimed_count'' \<notin> EVENT_KEYS" "''blur'' \<notin> EVENT_KEYS" "''rf_silent'' \<notin> EVENT_KEYS"
  "''empty_sector'' \<notin> EVENT_KEYS"
  by (simp_all add: EVENT_KEYS_def)

lemma silent_before_14:
  assumes "list_all2 evidence (s2_events before 13) bs" "n \<le> length bs"
  shows "swarm_detect d (ingest_many sha rep ge (take n bs) empty_graph) = None"
proof -
  have "by_modality (ingest_many sha rep ge (take n bs) empty_graph) ''acoustic'' = []"
  proof (rule ccontr)
    assume "by_modality (ingest_many sha rep ge (take n bs) empty_graph) ''acoustic'' \<noteq> []"
    then obtain b' where "b' \<in> set (take n bs)" "modality b' = ''acoustic''"
      using in_modality [of _ sha rep ge "take n bs" "''acoustic''"] by (metis all_not_in_conv set_empty)
    then show False
      using evidence_in [OF assms(1)] evidence_sensor nothing_heard_before_14 by (metis in_set_takeD)
  qed
  then show ?thesis by (simp add: swarm_detect_def Let_def)
qed

lemma warns_at_14:
  assumes ev: "list_all2 evidence (s2_events before 14) bs" and fl: "\<forall>x. \<bar>of_rat (rounded (sw_floats d) x) - x\<bar> \<le> 1"
  shows "swarm_detect d (ingest_many sha rep ge bs empty_graph) \<noteq> None"
proof -
  let ?gr = "ingest_many sha rep ge bs empty_graph"
  let ?cues = "by_modality ?gr ''social'' @ blur_optical ?gr"
  note has = evidence_modality [OF ev, of _ _ sha rep ge] and flag = attribute_modality [OF ev, of _ _ _ sha rep ge]
  obtain rf where rf: "rf \<in> set (by_modality ?gr ''rf'')" "map_of (ob_attributes rf) ''rf_silent'' = Some (JBool True)"
    using flag [OF step_14_evidence(4) flags_not_keys(3)] by blast
  obtain tr where tr: "tr \<in> set (by_modality ?gr ''adsb'')" "map_of (ob_attributes tr) ''empty_sector'' = Some (JBool True)"
    using flag [OF step_14_evidence(5) flags_not_keys(4)] by blast
  have "by_modality ?gr ''acoustic'' \<noteq> []" using has [of "''acoustic''" "\<lambda>e. True"] step_14_evidence(1) by fastforce
  moreover obtain s where s: "s \<in> set (by_modality ?gr ''social'')" "map_of (ob_attributes s) ''claimed_count'' = Some (JNum 50)"
    using flag [OF step_14_evidence(2) flags_not_keys(1)] by blast
  moreover obtain o' where o: "o' \<in> set (by_modality ?gr ''optical'')" "map_of (ob_attributes o') ''blur'' = Some (JBool True)"
    using flag [OF step_14_evidence(3) flags_not_keys(2)] by blast
  moreover obtain r where r: "r \<in> set (by_modality ?gr ''radar'')" "ob_confidence r = 84 / 100"
    using has [OF step_14_evidence(6)] by (auto simp: evidence_def)
  moreover have "rf_silent ?gr" using rf unfolding rf_silent_def list_ex_iff attr_truthy_def get_or_def
    by (intro disjI1 bexI [of _ rf]) simp_all
  moreover have "empty_adsb ?gr" using tr unfolding empty_adsb_def list_ex_iff attr_truthy_def get_or_def
    by (intro disjI1 bexI [of _ tr]) simp_all
  moreover have "o' \<in> set (blur_optical ?gr)" using o by (simp add: blur_optical_def attr_truthy_def get_or_def)
  moreover have "MIN_CLAIMED_COUNT \<le> social_count d ?gr"
  proof -
    have "claimed_count d s = 50" using s(2) by (simp add: claimed_count_def non_null_def)
    moreover have "claimed_count d s \<le> social_count d ?gr"
      using s(1) by (cases "by_modality ?gr ''social''") (auto simp: social_count_def intro!: Max_ge)
    ultimately show ?thesis by (simp add: MIN_CLAIMED_COUNT_def)
  qed
  moreover have "radar_count d ?gr = EXPECTED_RADAR_CONTACTS"
  proof -
    have "map (contact_count d) (by_modality ?gr ''radar'') = map (contact_count d) (filter (\<lambda>b. modality b = ''radar'') bs)"
      by (simp add: by_modality_def filter_map comp_def contact_count_def)
    then show ?thesis
      using evidence_contacts [OF ev] step_14_contacts by (simp add: radar_count_def EXPECTED_RADAR_CONTACTS_def)
  qed
  moreover have "1000 \<le> apart_m (sw_floats d) (the (first_max ob_confidence ?cues))
      (the (first_max ob_confidence (by_modality ?gr ''radar'')))"
  proof -
    obtain cue rad where c: "first_max ob_confidence ?cues = Some cue" and m: "first_max ob_confidence (by_modality ?gr ''radar'') = Some rad"
      using s(1) r(1) by (metis append_is_Nil_conv empty_iff first_max_None list.set(1) not_None_eq)
    have "cue \<in> set (by_modality ?gr ''social'') \<or> cue \<in> set (by_modality ?gr ''optical'')"
      using first_max_spec [OF c] by (auto simp: blur_optical_def)
    then have p: "position cue = CUE_AT"
      using modality_evidence [OF ev] step_14_cues by (fastforce simp: evidence_def prod_eq_iff)
    have "rad \<in> set (by_modality ?gr ''radar'')" "84 / 100 \<le> ob_confidence rad" using first_max_spec [OF m] r by auto
    then have q: "position rad = RADAR_LOCK_AT"
      using modality_evidence [OF ev, of rad] step_14_radar by (fastforce simp: evidence_def prod_eq_iff)
    have "1001 \<le> real_of_rat (apart_m (sw_floats d) cue rad)"
      using cue_to_radar fl [rule_format, of "great_circle (place cue) (place rad)"]
      by (simp add: apart_m_def place_def p q)
    then have "real_of_rat 1000 \<le> real_of_rat (apart_m (sw_floats d) cue rad)" by simp
    then show ?thesis unfolding c m option.sel of_rat_less_eq .
  qed
  ultimately show ?thesis unfolding swarm_warns_iff Let_def by (metis empty_iff list.set(1))
qed

lemma play_local_amber:
  assumes "\<forall>st \<in> set sts. \<exists>bs. observe st = Inr bs"
  shows "play_local warns observe into (Some n) g sts = Inr (Some n)"
  using assms by (induction sts arbitrary: g) (auto simp: Let_def)

lemma play_local_silent:
  assumes "\<forall>st \<in> set sts. observe st = Inr (obs st)"
    "\<And>k. k < length sts \<Longrightarrow> \<not> warns (foldl (\<lambda>g st. into (obs st) g) g (take (Suc k) sts))"
  shows "play_local warns observe into None g (sts @ sts') =
    play_local warns observe into None (foldl (\<lambda>g st. into (obs st) g) g sts) sts'"
  using assms
proof (induction sts arbitrary: g)
  case (Cons st sts)
  have "\<not> warns (into (obs st) g)" using Cons.prems(2) [of 0] by simp
  moreover have "\<not> warns (foldl (\<lambda>g st. into (obs st) g) (into (obs st) g) (take (Suc k) sts))" if "k < length sts" for k
    using Cons.prems(2) [of "Suc k"] that by simp
  ultimately show ?case using Cons by (simp add: Let_def)
qed simp

lemma evidence_concat:
  assumes "\<forall>st \<in> set sts. list_all2 evidence (step_events st) (obs st)"
  shows "list_all2 evidence (concat (map step_events sts)) (concat (map obs sts))"
  using assms by (induction sts) (auto intro: list_all2_appendI)

lemma ingest_steps:
  "foldl (\<lambda>g st. ingest_many sha rep ge (obs st) g) g sts = ingest_many sha rep ge (concat (map obs sts)) g"
  by (induction sts arbitrary: g) (simp_all add: ingest_many_append)

lemma s2_step_14: "length (build_s2_timeline before) = 19" "step_no (build_s2_timeline before ! 13) = 14"
  by (simp_all add: build_s2_timeline_def early_band_def lock_band_def amber_band_def warning_band_def nth_enumerate_eq)

text \<open>
  Claim C25: Played into an empty picture, the swarm timeline raises its alert first after step 14 of 19,
  in the band the timeline names for it, whatever the geometry and the ids: thirteen steps of rumours,
  radar and blurred sightings say nothing, and the acoustic harmonic completes the contradiction.
\<close>

theorem amber_comes_in_its_band:
  assumes "\<And>t. fromisoformat (sb_py sb) (offset_for_Z (before t)) = Some (Aware (before t))"
    "\<forall>x. \<bar>of_rat (rounded (sw_floats d) x) - x\<bar> \<le> 1"
  shows "play_local (\<lambda>g. swarm_detect d g \<noteq> None) (step_observations sb sha rep now fresh) (ingest_many sha rep ge) None
    empty_graph (build_s2_timeline before) = Inr (Some 14) \<and> band_for 14 = ''amber_contradiction''"
proof -
  let ?tl = "build_s2_timeline before" and ?observe = "step_observations sb sha rep now fresh"
  have "\<forall>st \<in> set ?tl. \<exists>bs. ?observe st = Inr bs \<and> list_all2 evidence (step_events st) bs"
    using step_evidence [where before = before, OF assms(1)] s2_plain by blast
  then obtain obs where obs: "\<forall>st \<in> set ?tl. ?observe st = Inr (obs st) \<and> list_all2 evidence (step_events st) (obs st)"
    by metis
  then have ev: "list_all2 evidence (s2_events before n) (concat (map obs (take n ?tl)))" for n
    unfolding s2_events_def by (intro evidence_concat) (meson in_set_takeD)
  have split: "?tl = take 13 ?tl @ ?tl ! 13 # drop 14 ?tl"
    using id_take_nth_drop [of 13 ?tl] by (simp add: s2_step_14)
  have quiet: "swarm_detect d (foldl (\<lambda>g st. ingest_many sha rep ge (obs st) g) empty_graph (take (Suc k) (take 13 ?tl))) = None"
    if "k < length (take 13 ?tl)" for k
  proof -
    have "take 13 ?tl = take (Suc k) (take 13 ?tl) @ drop (Suc k) (take 13 ?tl)"
      by (rule append_take_drop_id [symmetric])
    then have "concat (map obs (take (Suc k) (take 13 ?tl))) =
        take (length (concat (map obs (take (Suc k) (take 13 ?tl))))) (concat (map obs (take 13 ?tl)))"
      by (metis append_eq_conv_conj concat_append map_append)
    then show ?thesis
      using silent_before_14 [OF ev [of 13], of "length (concat (map obs (take (Suc k) (take 13 ?tl))))" d sha rep ge]
      unfolding ingest_steps by (metis nat_le_linear take_all)
  qed
  have now: "swarm_detect d (ingest_many sha rep ge (obs (?tl ! 13))
      (foldl (\<lambda>g st. ingest_many sha rep ge (obs st) g) empty_graph (take 13 ?tl))) \<noteq> None"
    using warns_at_14 [OF ev [of 14] assms(2)] take_Suc_conv_app_nth [of 13 ?tl]
    by (simp add: ingest_steps ingest_many_append s2_step_14)
  have "play_local (\<lambda>g. swarm_detect d g \<noteq> None) ?observe (ingest_many sha rep ge) None empty_graph
      (take 13 ?tl @ ?tl ! 13 # drop 14 ?tl) =
    play_local (\<lambda>g. swarm_detect d g \<noteq> None) ?observe (ingest_many sha rep ge) None
      (foldl (\<lambda>g st. ingest_many sha rep ge (obs st) g) empty_graph (take 13 ?tl)) (?tl ! 13 # drop 14 ?tl)"
    by (rule play_local_silent) (use obs quiet in \<open>auto dest: in_set_takeD\<close>)
  also have "\<dots> = Inr (Some 14)"
    using obs now s2_step_14 play_local_amber [of "drop 14 ?tl" ?observe] in_set_dropD [of _ 14 ?tl]
    by (auto simp: Let_def)
  finally show ?thesis unfolding split [symmetric] by (simp add: band_for_def)
qed

section \<open>Spreading loses nothing\<close>

lemma filter_less_Suc:
  assumes "sorted (map key xs)"
  shows "filter (\<lambda>x. key x < Suc m) xs = filter (\<lambda>x. key x < m) xs @ filter (\<lambda>x. key x = m) xs"
  using assms
proof (induction xs)
  case (Cons x xs)
  show ?case
  proof (cases "key x < m")
    case False
    then have "filter (\<lambda>x. key x < m) xs = []" using Cons.prems by (auto simp: filter_empty_conv)
    then show ?thesis using Cons False by auto
  qed (use Cons in auto)
qed simp

lemma collect_by_key:
  assumes "sorted (map key xs)" "\<forall>x \<in> set xs. key x < m"
  shows "concat (map (\<lambda>i. map (f i) (filter (\<lambda>x. key x = i) xs)) [0..<m]) = map (\<lambda>x. f (key x) x) xs"
proof -
  have "concat (map (\<lambda>i. map (f i) (filter (\<lambda>x. key x = i) xs)) [0..<n]) = map (\<lambda>x. f (key x) x) (filter (\<lambda>x. key x < n) xs)" for n
    by (induction n) (auto simp: filter_less_Suc [OF assms(1)])
  moreover have "filter (\<lambda>x. key x < m) xs = xs" using assms(2) by (rule filter_True)
  ultimately show ?thesis by simp
qed

lemma target_step_bounds: "1 \<le> target_step n j" "target_step n j \<le> 19"
  by (simp_all add: target_step_def)

lemma target_step_mono: "j \<le> j' \<Longrightarrow> target_step n j \<le> target_step n j'"
  unfolding target_step_def by (intro min.mono max.mono) (auto intro!: div_le_mono)

lemma sorted_steps: "sorted (map (\<lambda>je. target_step n (fst je) - 1) (enumerate k xs))"
proof (induction xs arbitrary: k)
  case (Cons x xs)
  have "target_step n k - 1 \<le> target_step n (fst je) - 1" if "je \<in> set (enumerate (Suc k) xs)" for je
  proof -
    have "Suc k \<le> fst je" using that by (simp only: in_set_enumerate_eq)
    then have "k \<le> fst je" by simp
    then show ?thesis by (intro diff_le_mono target_step_mono)
  qed
  then show ?case using Cons.IH [of "Suc k"] by simp
qed simp

text \<open>
  Spreading a scenario over the nineteen steps keeps each of its events exactly once and in
  order, changed only in its time, which is that of its step.
\<close>

theorem spread_keeps_every_event:
  "concat (map step_events (spread_scenario_events before two_digits sid raw)) =
     map (\<lambda>(j, ev). restamped (before (T_MINUS ! (target_step (max (length raw) 1) j - 1))) ev) (enumerate 0 raw) \<and>
   length (spread_scenario_events before two_digits sid raw) = 19"
proof -
  let ?n = "max (length raw) 1"
  let ?key = "\<lambda>je. target_step ?n (fst je) - 1"
  let ?f = "\<lambda>i je. restamped (before (T_MINUS ! i)) (snd je)"
  have "sorted (map ?key (enumerate 0 raw))" by (rule sorted_steps)
  moreover have "\<forall>je \<in> set (enumerate 0 raw). ?key je < 19"
    proof
    fix je assume "je \<in> set (enumerate 0 raw)"
    show "?key je < 19" using target_step_bounds [of ?n "fst je"] by linarith
  qed
  ultimately have c: "concat (map (\<lambda>i. map (?f i) (filter (\<lambda>je. ?key je = i) (enumerate 0 raw))) [0..<19]) =
      map (\<lambda>je. ?f (?key je) je) (enumerate 0 raw)"
    by (rule collect_by_key)
  have "(target_step ?n j = i + 1) = (target_step ?n j - 1 = i)" for i j
    using target_step_bounds(1) [of ?n j] by auto
  then have e: "events_at raw i = map snd (filter (\<lambda>je. ?key je = i) (enumerate 0 raw))" for i
    by (simp add: events_at_def case_prod_unfold)
  have s: "map step_events (spread_scenario_events before two_digits sid raw) =
      map (\<lambda>i. map (?f i) (filter (\<lambda>je. ?key je = i) (enumerate 0 raw))) [0..<19]"
    by (simp add: spread_scenario_events_def e comp_def del: upt_rec_numeral)
  show ?thesis unfolding s c by (simp add: case_prod_unfold spread_scenario_events_def del: upt_rec_numeral)
qed

section \<open>The playback on a concrete clock\<close>

definition whole_swarm :: swarm_deps where
  "whole_swarm = \<lparr>sw_floats = \<lparr>rounded = \<lambda>x. of_int (round x), round_to = \<lambda>n x. of_int (round x)\<rparr>,
     sw_sha = id, sw_py = plain_builtins, sw_fixed = (\<lambda>n q. []), parse_claim = (\<lambda>j. None)\<rparr>"

theorem amber_comes_in_its_band_witness:
  "play_local (\<lambda>g. swarm_detect whole_swarm g \<noteq> None) (step_observations plain_south id (\<lambda>q. []) ''N'' (\<lambda>n j. ''i''))
     (ingest_many id (\<lambda>q. []) (earth_geometry (\<lambda>s. 0))) None empty_graph (build_s2_timeline (\<lambda>t. ''T'')) = Inr (Some 14)"
proof -
  have "\<bar>of_rat (rounded (sw_floats whole_swarm) x) - x\<bar> \<le> 1" for x
    using of_int_round_abs_le [of x] by (simp add: whole_swarm_def)
  then have r: "\<forall>x. \<bar>of_rat (rounded (sw_floats whole_swarm) x) - x\<bar> \<le> 1" by blast
  have c: "fromisoformat (sb_py plain_south) (offset_for_Z ((\<lambda>t. ''T'') t)) = Some (Aware ((\<lambda>t. ''T'') t))" for t :: nat
    by (simp add: plain_south_def offset_for_Z_def)
  show ?thesis using amber_comes_in_its_band [where before = "\<lambda>t. ''T''", OF c r] by blast
qed

end
